(* ===== verification/Prelude.thy ===== *)
theory Prelude
  imports Complex_Main "HOL-Library.Word" "HOL-Library.Sublist"
    "HOL-Library.Code_Target_Numeral"
begin

text \<open>
  Shared vocabulary of the development. A Python \<open>bytes\<close> value is a list of 8-bit words; a
  Python \<open>str\<close> is a HOL \<open>string\<close> holding the UTF-8 encoding of its characters, so that a
  literal such as \<open>''tests''\<close> reads as in the source and a character beyond ASCII is the run of
  its UTF-8 bytes (\<open>em_dash\<close>, \<open>rarrow\<close>, \<open>sect\<close>). A call that may raise returns a sum:
  \<open>Inl\<close> the exception, \<open>Inr\<close> the value. The theory holds the string routines of the Python
  library that the program uses (split, partition, join, decimal and hexadecimal rendering,
  strip, splitlines) and the lemmas on them that the components share.
\<close>

named_theorems result_simps \<open>unfolding the sequencing of calls that may raise\<close>
named_theorems wire_simps \<open>lengths and prefixes of wire formats\<close>

section \<open>Bytes and characters\<close>

type_synonym byte = "8 word"
type_synonym bytes = "8 word list"

definition byte_of :: "char \<Rightarrow> byte" where
  "byte_of c = of_char c"

definition char_at :: "byte \<Rightarrow> char" where
  "char_at b = char_of (unat b)"

definition ord :: "char \<Rightarrow> nat" where
  "ord c = of_char c"

definition chr :: "nat \<Rightarrow> char" where
  "chr n = char_of n"

lemma ord_less [simp]: "ord c < 256"
  by (simp add: ord_def)

lemma ord_chr [simp]: "n < 256 \<Longrightarrow> ord (chr n) = n"
  by (simp add: ord_def chr_def)

lemma chr_ord [simp]: "chr (ord c) = c"
  by (simp add: ord_def chr_def)

lemma ord_eq_iff: "ord c = ord d \<longleftrightarrow> c = d"
  by (metis chr_ord)

lemma unat_byte_of: "unat (byte_of c) = ord c"
proof -
  have "byte_of c = word_of_nat (ord c)"
    by (simp only: byte_of_def ord_def of_nat_of_char)
  moreover have "ord c mod 256 = ord c" by simp
  ultimately show ?thesis by (simp only: unat_of_nat) simp
qed

lemma char_at_byte_of [simp]: "char_at (byte_of c) = c"
  by (simp add: char_at_def unat_byte_of flip: chr_def)

lemma byte_of_char_at [simp]: "byte_of (char_at b) = b"
proof -
  have "unat b < 256" using unsigned_less [of b] by simp
  then have "unat (byte_of (char_at b)) = unat b"
    by (simp add: unat_byte_of char_at_def flip: chr_def)
  then show ?thesis by (simp only: unsigned_word_eqI)
qed

text \<open>\<open>str.encode("utf-8")\<close> and the decoding of bytes known to be UTF-8.\<close>

definition utf8_encode :: "string \<Rightarrow> bytes" where
  "utf8_encode s = map byte_of s"

definition utf8_text :: "bytes \<Rightarrow> string" where
  "utf8_text bs = map char_at bs"

lemma utf8_text_encode [simp]: "utf8_text (utf8_encode s) = s"
  by (simp add: utf8_text_def utf8_encode_def comp_def)

lemma utf8_encode_text [simp]: "utf8_encode (utf8_text bs) = bs"
  by (simp add: utf8_text_def utf8_encode_def comp_def)

lemma length_utf8_encode [simp]: "length (utf8_encode s) = length s"
  by (simp add: utf8_encode_def)

lemma utf8_encode_append [simp]: "utf8_encode (s @ t) = utf8_encode s @ utf8_encode t"
  by (simp add: utf8_encode_def)

lemma utf8_encode_inj [simp]: "utf8_encode s = utf8_encode t \<longleftrightarrow> s = t"
  by (metis utf8_text_encode)

definition is_ascii :: "string \<Rightarrow> bool" where
  "is_ascii s = list_all (\<lambda>c. ord c < 128) s"

text \<open>Characters beyond ASCII that the program's messages contain.\<close>

definition em_dash :: string where
  "em_dash = [chr 226, chr 128, chr 148]"

definition sect :: string where
  "sect = [chr 194, chr 167]"

definition rarrow :: string where
  "rarrow = [chr 226, chr 134, chr 146]"

definition ellipsis :: string where
  "ellipsis = [chr 226, chr 128, chr 166]"

definition bullet :: string where
  "bullet = [chr 226, chr 128, chr 162]"

definition dq :: string where
  "dq = [chr 34]"

definition nl :: string where
  "nl = [chr 10]"

section \<open>Calls that may raise\<close>

definition rbind :: "'e + 'a \<Rightarrow> ('a \<Rightarrow> 'e + 'b) \<Rightarrow> 'e + 'b" where
  "rbind r f = (case r of Inl e \<Rightarrow> Inl e | Inr x \<Rightarrow> f x)"

lemma rbind_simps [simp, result_simps]:
  "rbind (Inl e) f = Inl e"
  "rbind (Inr x) f = f x"
  by (simp_all add: rbind_def)

lemma rbind_Inr_iff [result_simps]:
  "rbind r f = Inr y \<longleftrightarrow> (\<exists>x. r = Inr x \<and> f x = Inr y)"
  by (cases r) auto

lemma rbind_Inl_iff [result_simps]:
  "rbind r f = Inl e \<longleftrightarrow> r = Inl e \<or> (\<exists>x. r = Inr x \<and> f x = Inl e)"
  by (cases r) auto

text \<open>Reading off which way a call with state went.\<close>

lemma returned: "\<not> isl r \<Longrightarrow> \<exists>x. r = Inr x"
  by (cases r) auto

lemma raised_pair: "isl (fst r) \<Longrightarrow> \<exists>e s. r = (Inl e, s)"
  by (cases r) (auto simp: isl_def)

lemma returned_pair: "\<not> isl (fst r) \<Longrightarrow> \<exists>x s. r = (Inr x, s)"
  by (cases r; cases "fst r") auto

section \<open>Sequences\<close>

text \<open>\<open>s.split(c)\<close> for a one-character separator, \<open>s.split(c, n)\<close> and \<open>s.partition(c)\<close>.\<close>

fun split_on :: "'a \<Rightarrow> 'a list \<Rightarrow> 'a list list" where
  "split_on c [] = [[]]"
| "split_on c (x # xs) =
     (if x = c then [] # split_on c xs
      else (case split_on c xs of [] \<Rightarrow> [[x]] | p # ps \<Rightarrow> (x # p) # ps))"

fun split_max :: "nat \<Rightarrow> 'a \<Rightarrow> 'a list \<Rightarrow> 'a list list" where
  "split_max n c [] = [[]]"
| "split_max n c (x # xs) =
     (case n of 0 \<Rightarrow> [x # xs]
      | Suc m \<Rightarrow>
          (if x = c then [] # split_max m c xs
           else (case split_max n c xs of [] \<Rightarrow> [[x]] | p # ps \<Rightarrow> (x # p) # ps)))"

fun partition_at :: "'a \<Rightarrow> 'a list \<Rightarrow> 'a list \<times> bool \<times> 'a list" where
  "partition_at c [] = ([], False, [])"
| "partition_at c (x # xs) =
     (if x = c then ([], True, xs)
      else (case partition_at c xs of (a, found, b) \<Rightarrow> (x # a, found, b)))"

text \<open>\<open>sep.join(parts)\<close>.\<close>

fun join :: "'a list \<Rightarrow> 'a list list \<Rightarrow> 'a list" where
  "join sep [] = []"
| "join sep [p] = p"
| "join sep (p # q # ps) = p @ sep @ join sep (q # ps)"

lemma split_on_nonempty [simp]: "split_on c xs \<noteq> []"
  by (cases xs) (auto split: list.splits)

lemma join_Cons: "ps \<noteq> [] \<Longrightarrow> join sep (p # ps) = p @ sep @ join sep ps"
  by (cases ps) auto

lemma join_Cons_head: "join sep ((x # p) # ps) = x # join sep (p # ps)"
  by (cases ps) auto

lemma join_split_on [simp]: "join [c] (split_on c xs) = xs"
proof (induction xs)
  case (Cons x xs)
  then show ?case
    by (cases "split_on c xs") (auto simp: join_Cons join_Cons_head)
qed simp

lemma split_on_pieces: "p \<in> set (split_on c xs) \<Longrightarrow> c \<notin> set p"
proof (induction xs arbitrary: p)
  case (Cons x xs)
  then show ?case
    by (cases "split_on c xs") (auto split: if_splits)
qed simp

lemma split_on_no_sep [simp]: "c \<notin> set p \<Longrightarrow> split_on c p = [p]"
  by (induction p) auto

lemma split_on_append_sep:
  "c \<notin> set p \<Longrightarrow> split_on c (p @ c # q) = p # split_on c q"
  by (induction p) auto

lemma split_on_join:
  "ps \<noteq> [] \<Longrightarrow> \<forall>p \<in> set ps. c \<notin> set p \<Longrightarrow> split_on c (join [c] ps) = ps"
  by (induction ps rule: induct_list012) (auto simp: split_on_append_sep)

lemma partition_at_found:
  "c \<notin> set p \<Longrightarrow> partition_at c (p @ c # q) = (p, True, q)"
  by (induction p) auto

text \<open>Substring tests: \<open>s.startswith(p)\<close> and \<open>p in s\<close>.\<close>

definition starts_with :: "'a list \<Rightarrow> 'a list \<Rightarrow> bool" where
  "starts_with p s \<longleftrightarrow> take (length p) s = p"

fun contains :: "'a list \<Rightarrow> 'a list \<Rightarrow> bool" where
  "contains p [] = (p = [])"
| "contains p (x # xs) = (starts_with p (x # xs) \<or> contains p xs)"

lemma starts_with_append [simp]: "starts_with p (p @ s)"
  by (simp add: starts_with_def)

lemma starts_with_iff: "starts_with p s \<longleftrightarrow> (\<exists>t. s = p @ t)"
  by (auto simp: starts_with_def) (metis append_take_drop_id)

lemma contains_iff: "contains p s \<longleftrightarrow> (\<exists>a b. s = a @ p @ b)"
proof (induction s)
  case Nil
  show ?case by auto
next
  case (Cons x xs)
  have "(\<exists>a b. x # xs = a @ p @ b) \<longleftrightarrow>
    (\<exists>b. x # xs = p @ b) \<or> (\<exists>a b. xs = a @ p @ b)"
    by (metis append_Cons append_Nil neq_Nil_conv list.inject)
  with Cons show ?case by (simp add: starts_with_iff)
qed

text \<open>\<open>s.split(sep, 1)[0]\<close> for a separator of several items: what precedes its first occurrence.\<close>

fun before :: "'a list \<Rightarrow> 'a list \<Rightarrow> 'a list" where
  "before p [] = []"
| "before p (x # xs) = (if starts_with p (x # xs) then [] else x # before p xs)"

text \<open>\<open>s.split(sep)\<close> for a non-empty separator of several items.\<close>

function split_seq :: "'a list \<Rightarrow> 'a list \<Rightarrow> 'a list list" where
  "split_seq p s =
     (if p = [] \<or> \<not> contains p s then [s]
      else before p s # split_seq p (drop (length (before p s) + length p) s))"
  by pat_completeness auto
termination
proof (relation "measure (\<lambda>(p, s). length s)", simp, goal_cases)
  case (1 p s)
  then have "s \<noteq> []" by (cases s) auto
  with 1 show ?case by auto
qed

declare split_seq.simps [simp del]

lemma before_append_take: "contains p s \<Longrightarrow>
  s = before p s @ p @ drop (length (before p s) + length p) s"
  by (induction s) (auto simp: starts_with_iff)

end
