(* ===== verification/PyText.thy ===== *)
theory PyText
  imports Prelude "HOL-Library.Char_ord" "HOL-Library.List_Lexorder"
begin

text \<open>
  The text routines of the Python library that the program relies on: decimal and hexadecimal
  rendering of integers, \<open>int(text)\<close>, fixed-point rendering (\<open>:.3f\<close>), padding, \<open>strip\<close>,
  \<open>splitlines\<close> and \<open>decode("utf-8", errors="replace")\<close>. Decimal rendering is proved to round
  trip, and decoding and line splitting to distribute over a newline: that is what makes tailing a
  growing file line by line equal to reading it in one piece.
\<close>

section \<open>Decimal and hexadecimal integers\<close>

definition digit_char :: "nat \<Rightarrow> char" where
  "digit_char n = chr (48 + n)"

definition is_digit :: "char \<Rightarrow> bool" where
  "is_digit c \<longleftrightarrow> 48 \<le> ord c \<and> ord c \<le> 57"

definition digit_val :: "char \<Rightarrow> nat" where
  "digit_val c = ord c - 48"

lemma is_digit_digit_char [simp]: "n < 10 \<Longrightarrow> is_digit (digit_char n)"
  by (simp add: is_digit_def digit_char_def)

lemma digit_val_digit_char [simp]: "n < 10 \<Longrightarrow> digit_val (digit_char n) = n"
  by (simp add: digit_val_def digit_char_def)

lemma digit_val_less: "is_digit c \<Longrightarrow> digit_val c < 10"
  by (auto simp: is_digit_def digit_val_def)

lemma digit_char_digit_val: "is_digit c \<Longrightarrow> digit_char (digit_val c) = c"
  by (simp add: is_digit_def digit_val_def digit_char_def)

fun dec :: "nat \<Rightarrow> string" where
  "dec n = (if n < 10 then [digit_char n] else dec (n div 10) @ [digit_char (n mod 10)])"

declare dec.simps [simp del]

definition idec :: "int \<Rightarrow> string" where
  "idec i = (if i < 0 then ''-'' @ dec (nat (- i)) else dec (nat i))"

definition undec :: "string \<Rightarrow> nat" where
  "undec s = foldl (\<lambda>a c. 10 * a + digit_val c) 0 s"

lemma undec_snoc [simp]: "undec (s @ [c]) = 10 * undec s + digit_val c"
  by (simp add: undec_def)

lemma undec_Nil [simp]: "undec [] = 0"
  by (simp add: undec_def)

lemma undec_dec [simp]: "undec (dec n) = n"
proof (induction n rule: dec.induct)
  case (1 n)
  show ?case
  proof (cases "n < 10")
    case True
    then show ?thesis by (subst dec.simps) (simp add: undec_def)
  next
    case False
    with "1.IH" show ?thesis by (subst dec.simps) simp
  qed
qed

lemma dec_digits: "list_all is_digit (dec n)"
proof (induction n rule: dec.induct)
  case (1 n)
  then show ?case
    by (cases "n < 10") (subst dec.simps, simp)+
qed

lemma dec_nonempty [simp]: "dec n \<noteq> []"
  by (subst dec.simps) simp

lemma dec_inj [simp]: "dec m = dec n \<longleftrightarrow> m = n"
  by (metis undec_dec)

lemma dec_no_char: "\<not> is_digit c \<Longrightarrow> c \<notin> set (dec n)"
  using dec_digits [of n] by (auto simp: list_all_iff)

text \<open>Rendering a number below \<open>10 ^ k\<close> takes at most \<open>k\<close> digits, and only \<open>0\<close> starts with a zero.\<close>

lemma length_dec: "0 < k \<Longrightarrow> n < 10 ^ k \<Longrightarrow> length (dec n) \<le> k"
proof (induction n arbitrary: k rule: dec.induct)
  case (1 n)
  show ?case
  proof (cases "n < 10")
    case True
    with "1.prems" show ?thesis by (subst dec.simps) simp
  next
    case False
    with "1.prems" obtain j where k: "k = Suc j" "0 < j"
      by (cases k; cases "k - 1") auto
    with "1.prems" False have "n div 10 < 10 ^ j" by auto
    with "1.IH" False k show ?thesis by (subst dec.simps) auto
  qed
qed

lemma hd_dec: "0 < n \<Longrightarrow> hd (dec n) \<noteq> CHR ''0''"
proof (induction n rule: dec.induct)
  case (1 n)
  show ?case
  proof (cases "n < 10")
    case True
    have "digit_val (CHR ''0'') = 0" by (simp add: digit_val_def ord_def)
    with True "1.prems" show ?thesis
      by (subst dec.simps) (auto dest: arg_cong [where f = digit_val])
  next
    case False
    with 1 show ?thesis by (subst dec.simps) simp
  qed
qed

lemma digit_char_0: "digit_char 0 = CHR ''0''"
  by code_simp

lemma dec_0 [simp]: "dec 0 = ''0''"
  by (subst dec.simps) (simp add: digit_char_0)

text \<open>A digit string without a leading zero is the rendering of its value.\<close>

lemma dec_undec:
  "list_all is_digit s \<Longrightarrow> s \<noteq> [] \<Longrightarrow> (hd s = CHR ''0'' \<longrightarrow> length s = 1) \<Longrightarrow> dec (undec s) = s"
proof (induction s rule: rev_induct)
  case (snoc c s)
  have c: "digit_val c < 10" "is_digit c" using snoc.prems by (auto simp: digit_val_less)
  show ?case
  proof (cases "s = []")
    case True
    with c show ?thesis by (subst dec.simps) (simp add: undec_def digit_char_digit_val)
  next
    case False
    with snoc.prems have hd: "hd s \<noteq> CHR ''0''" by (auto simp: hd_append)
    with snoc False have IH: "dec (undec s) = s" by (auto simp: hd_append)
    have "undec s \<noteq> 0"
    proof
      assume "undec s = 0"
      with IH have "s = ''0''" by simp
      with hd show False by simp
    qed
    with c have "\<not> 10 * undec s + digit_val c < 10" by simp
    with c IH show ?thesis
      by (simp add: dec.simps [of "10 * undec s + digit_val c"] digit_char_digit_val)
  qed
qed simp

definition hex_digit :: "nat \<Rightarrow> char" where
  "hex_digit n = (if n < 10 then chr (48 + n) else chr (87 + n))"

text \<open>\<open>{x:02x}\<close> of a byte value.\<close>

definition hex2 :: "nat \<Rightarrow> string" where
  "hex2 n = [hex_digit (n div 16 mod 16), hex_digit (n mod 16)]"

definition hex_val :: "char \<Rightarrow> nat option" where
  "hex_val c =
     (if is_digit c then Some (ord c - 48)
      else if 97 \<le> ord c \<and> ord c \<le> 102 then Some (ord c - 87)
      else if 65 \<le> ord c \<and> ord c \<le> 70 then Some (ord c - 55)
      else None)"

lemma hex_val_hex_digit [simp]: "n < 16 \<Longrightarrow> hex_val (hex_digit n) = Some n"
  by (auto simp: hex_val_def hex_digit_def is_digit_def)

text \<open>\<open>'%x' % n\<close>.\<close>

fun hex :: "nat \<Rightarrow> string" where
  "hex n = (if n < 16 then [hex_digit n] else hex (n div 16) @ [hex_digit (n mod 16)])"

declare hex.simps [simp del]

section \<open>Padding, case and fixed-point numbers\<close>

definition pad_left :: "nat \<Rightarrow> char \<Rightarrow> string \<Rightarrow> string" where
  "pad_left w c s = replicate (w - length s) c @ s"

definition pad_right :: "nat \<Rightarrow> char \<Rightarrow> string \<Rightarrow> string" where
  "pad_right w c s = s @ replicate (w - length s) c"

definition lower_char :: "char \<Rightarrow> char" where
  "lower_char c = (if 65 \<le> ord c \<and> ord c \<le> 90 then chr (ord c + 32) else c)"

definition upper_char :: "char \<Rightarrow> char" where
  "upper_char c = (if 97 \<le> ord c \<and> ord c \<le> 122 then chr (ord c - 32) else c)"

text \<open>Rounding to an integer, ties to even, as the \<open>f\<close> presentation type does.\<close>

definition round_even :: "rat \<Rightarrow> int" where
  "round_even q =
     (let f = \<lfloor>q\<rfloor>; r = q - of_int f
      in if r < 1 / 2 then f else if 1 / 2 < r then f + 1 else if even f then f else f + 1)"

definition fixed :: "nat \<Rightarrow> rat \<Rightarrow> string" where
  "fixed k q =
     (let n = nat (round_even (\<bar>q\<bar> * 10 ^ k))
      in (if q < 0 then ''-'' else '''') @ dec (n div 10 ^ k) @ ''.'' @
         pad_left k (CHR ''0'') (dec (n mod 10 ^ k)))"

lemma pad_left_length: "length s \<le> w \<Longrightarrow> length (pad_left w c s) = w"
  by (simp add: pad_left_def)

section \<open>Whitespace, lines and integers from text\<close>

text \<open>
  A text is read character by character: \<open>uchars\<close> groups each leading byte with the UTF-8
  continuation bytes after it.
\<close>

definition is_cont :: "char \<Rightarrow> bool" where
  "is_cont c \<longleftrightarrow> 128 \<le> ord c \<and> ord c < 192"

function uchars :: "string \<Rightarrow> string list" where
  "uchars [] = []"
| "uchars (c # cs) = (c # takeWhile is_cont cs) # uchars (dropWhile is_cont cs)"
  by pat_completeness auto
termination
  by (relation "measure length") (auto simp: le_imp_less_Suc length_dropWhile_le)

text \<open>The characters \<open>str.strip()\<close> removes (\<open>str.isspace\<close>).\<close>

definition ws_points :: "nat list list" where
  "ws_points =
     [[9], [10], [11], [12], [13], [28], [29], [30], [31], [32], [194, 133], [194, 160],
      [225, 154, 128], [226, 128, 128], [226, 128, 129], [226, 128, 130], [226, 128, 131],
      [226, 128, 132], [226, 128, 133], [226, 128, 134], [226, 128, 135], [226, 128, 136],
      [226, 128, 137], [226, 128, 138], [226, 128, 168], [226, 128, 169], [226, 128, 175],
      [226, 129, 159], [227, 128, 128]]"

definition is_space :: "string \<Rightarrow> bool" where
  "is_space u \<longleftrightarrow> map ord u \<in> set ws_points"

definition strip :: "string \<Rightarrow> string" where
  "strip s = concat (rev (dropWhile is_space (rev (dropWhile is_space (uchars s)))))"

text \<open>The characters at which \<open>str.splitlines()\<close> breaks; a carriage return and the newline
  after it are one break.\<close>

definition line_points :: "nat list list" where
  "line_points =
     [[10], [11], [12], [13], [13, 10], [28], [29], [30], [194, 133], [226, 128, 168],
      [226, 128, 169]]"

definition is_break :: "string \<Rightarrow> bool" where
  "is_break u \<longleftrightarrow> map ord u \<in> set line_points"

fun merge_crlf :: "string list \<Rightarrow> string list" where
  "merge_crlf (u # v # us) =
     (if u = [chr 13] \<and> v = [chr 10] then (u @ v) # merge_crlf us else u # merge_crlf (v # us))"
| "merge_crlf us = us"

fun lines_acc :: "string \<Rightarrow> string list \<Rightarrow> string list" where
  "lines_acc cur [] = (if cur = [] then [] else [cur])"
| "lines_acc cur (u # us) =
     (if is_break u then cur # lines_acc [] us else lines_acc (cur @ u) us)"

definition splitlines :: "string \<Rightarrow> string list" where
  "splitlines s = lines_acc [] (merge_crlf (uchars s))"

text \<open>\<open>int(text)\<close> of a text of single-byte characters (Latin-1): surrounding whitespace, a sign,
  digits with single underscores between them, at most 4300 digits (the interpreter's limit).\<close>

definition latin_space :: "char \<Rightarrow> bool" where
  "latin_space c \<longleftrightarrow> ord c \<in> {9, 10, 11, 12, 13, 28, 29, 30, 31, 32, 133, 160}"

definition latin_strip :: "string \<Rightarrow> string" where
  "latin_strip s = rev (dropWhile latin_space (rev (dropWhile latin_space s)))"

definition digits_value :: "string \<Rightarrow> nat option" where
  "digits_value s =
     (let ps = split_on (CHR ''_'') s
      in if list_all (\<lambda>p. p \<noteq> [] \<and> list_all is_digit p) ps \<and> length (concat ps) \<le> 4300
         then Some (undec (concat ps)) else None)"

definition py_int :: "string \<Rightarrow> int option" where
  "py_int s =
     (case latin_strip s of
        [] \<Rightarrow> None
      | c # cs \<Rightarrow>
          (if c = CHR ''-'' then map_option (\<lambda>n. - int n) (digits_value cs)
           else if c = CHR ''+'' then map_option int (digits_value cs)
           else map_option int (digits_value (c # cs))))"

section \<open>Order\<close>

text \<open>\<open>sorted(items)\<close> of pairs with distinct texts: by code points, which is the order of the
  UTF-8 bytes.\<close>

definition sorted_items :: "(string \<times> 'a) list \<Rightarrow> (string \<times> 'a) list" where
  "sorted_items kvs = sort_key fst kvs"

definition sorted_texts :: "string list \<Rightarrow> string list" where
  "sorted_texts ss = sort ss"

section \<open>Representations\<close>

text \<open>
  \<open>{s!r}\<close> of a text: quoted with apostrophes, or with double quotes when it holds an apostrophe
  and no double quote; control characters are escaped. (Unprintable characters beyond ASCII, which
  \<open>repr\<close> also escapes, are rendered as they are.)
\<close>

definition repr_char :: "char \<Rightarrow> char \<Rightarrow> string" where
  "repr_char q c =
     (if c = q \<or> c = chr 92 then [chr 92, c]
      else if c = chr 10 then [chr 92, CHR ''n'']
      else if c = chr 13 then [chr 92, CHR ''r'']
      else if c = chr 9 then [chr 92, CHR ''t'']
      else if ord c < 32 \<or> ord c = 127 then [chr 92, CHR ''x''] @ hex2 (ord c)
      else [c])"

definition py_repr :: "string \<Rightarrow> string" where
  "py_repr s =
     (let q = (if chr 39 \<in> set s \<and> chr 34 \<notin> set s then chr 34 else chr 39)
      in [q] @ concat (map (repr_char q) s) @ [q])"

text \<open>\<open>{t!r}\<close> of a tuple and of a list of texts.\<close>

definition repr_tuple :: "string list \<Rightarrow> string" where
  "repr_tuple ss =
     (case ss of
        [s] \<Rightarrow> ''('' @ py_repr s @ '',)''
      | _ \<Rightarrow> ''('' @ join '', '' (map py_repr ss) @ '')'')"

definition repr_list :: "string list \<Rightarrow> string" where
  "repr_list ss = ''['' @ join '', '' (map py_repr ss) @ '']''"

text \<open>\<open>f"{x}"\<close> of a text that may be \<open>None\<close>, and whether such a value is true.\<close>

definition show_opt :: "string option \<Rightarrow> string" where
  "show_opt s = (case s of None \<Rightarrow> ''None'' | Some t \<Rightarrow> t)"

definition truthy :: "string option \<Rightarrow> bool" where
  "truthy s \<longleftrightarrow> s \<noteq> None \<and> s \<noteq> Some []"

lemma truthy_simps [simp]:
  "\<not> truthy None"
  "truthy (Some t) \<longleftrightarrow> t \<noteq> []"
  by (auto simp: truthy_def)

section \<open>Decoding with replacement\<close>

text \<open>
  \<open>bytes.decode("utf-8", errors="replace")\<close>: a well-formed sequence is kept; otherwise the longest
  prefix that could have begun one (at least one byte) becomes U+FFFD. \<open>utf8_step\<close> returns what the
  first character or error of the input contributes and how many bytes it takes.
\<close>

definition replacement :: string where
  "replacement = [chr 239, chr 191, chr 189]"

definition cont_byte :: "nat \<Rightarrow> nat \<Rightarrow> byte \<Rightarrow> bool" where
  "cont_byte lo hi b \<longleftrightarrow> lo \<le> unat b \<and> unat b \<le> hi"

text \<open>For a leading byte: the range of the second byte and the number of further ones after it.\<close>

definition lead_info :: "byte \<Rightarrow> (nat \<times> nat \<times> nat) option" where
  "lead_info b =
     (let n = unat b
      in if 194 \<le> n \<and> n \<le> 223 then Some (128, 191, 0)
         else if n = 224 then Some (160, 191, 1)
         else if n = 237 then Some (128, 159, 1)
         else if 225 \<le> n \<and> n \<le> 239 then Some (128, 191, 1)
         else if n = 240 then Some (144, 191, 2)
         else if 241 \<le> n \<and> n \<le> 243 then Some (128, 191, 2)
         else if n = 244 then Some (128, 143, 2)
         else None)"

text \<open>How many of the wanted continuation bytes follow.\<close>

fun conts :: "nat \<Rightarrow> bytes \<Rightarrow> nat" where
  "conts k [] = 0"
| "conts k (b # bs) = (if k = 0 \<or> \<not> cont_byte 128 191 b then 0 else 1 + conts (k - 1) bs)"

definition utf8_step :: "byte \<Rightarrow> bytes \<Rightarrow> string \<times> nat" where
  "utf8_step b bs =
     (if unat b < 128 then ([char_at b], 1)
      else case lead_info b of
        None \<Rightarrow> (replacement, 1)
      | Some (lo, hi, more) \<Rightarrow>
          (case bs of
             [] \<Rightarrow> (replacement, 1)
           | c # cs \<Rightarrow>
               (if \<not> cont_byte lo hi c then (replacement, 1)
                else if conts more cs = more
                then (map char_at (b # c # take more cs), 2 + more)
                else (replacement, 2 + conts more cs))))"

lemma utf8_step_pos: "0 < snd (utf8_step b bs)"
  by (auto simp: utf8_step_def split: option.splits prod.splits list.splits)

function decode_replace :: "bytes \<Rightarrow> string" where
  "decode_replace [] = []"
| "decode_replace (b # bs) =
     fst (utf8_step b bs) @ decode_replace (drop (snd (utf8_step b bs)) (b # bs))"
  by pat_completeness auto
termination
proof (relation "measure length", simp, goal_cases)
  case (1 b bs)
  then show ?case using utf8_step_pos [of b bs] by simp
qed

declare decode_replace.simps(2) [simp del]

lemma conts_newline: "conts k (bs @ 10 # cs) = conts k (bs @ [10])"
  by (induction bs arbitrary: k) (simp_all add: cont_byte_def)

lemma newline_no_cont [simp]: "128 \<le> lo \<Longrightarrow> \<not> cont_byte lo hi 10"
  by (simp add: cont_byte_def)

lemma conts_le_newline: "conts k (bs @ [10]) \<le> length bs"
  by (induction bs arbitrary: k) (simp_all add: cont_byte_def)

lemma lead_info_lo: "lead_info b = Some (lo, hi, more) \<Longrightarrow> 128 \<le> lo"
  by (auto simp: lead_info_def Let_def split: if_splits)

lemma step_newline:
  "utf8_step b (bs @ 10 # cs) = utf8_step b (bs @ [10]) \<and>
   snd (utf8_step b (bs @ [10])) \<le> Suc (length bs)"
proof (cases "unat b < 128 \<or> lead_info b = None")
  case True
  then show ?thesis by (auto simp: utf8_step_def)
next
  case False
  then obtain lo hi more where l: "lead_info b = Some (lo, hi, more)" by auto
  show ?thesis
  proof (cases bs)
    case Nil
    with False l lead_info_lo [OF l] show ?thesis by (simp add: utf8_step_def)
  next
    case (Cons c ds)
    have "conts more (ds @ [10]) \<le> length ds" by (rule conts_le_newline)
    with False l Cons show ?thesis
      by (auto simp: utf8_step_def conts_newline [of more ds cs])
  qed
qed

text \<open>A newline separates: what is before it decodes the same whatever follows.\<close>

lemma decode_newline:
  "decode_replace (xs @ 10 # ys) = decode_replace (xs @ [10]) @ decode_replace ys"
proof (induction "length xs" arbitrary: xs rule: less_induct)
  case less
  show ?case
  proof (cases xs)
    case Nil
    have "utf8_step 10 bs = ([chr 10], 1)" for bs
      by (simp add: utf8_step_def char_at_def chr_def)
    with Nil show ?thesis by (simp add: decode_replace.simps(2))
  next
    case (Cons b bs)
    let ?k = "snd (utf8_step b (bs @ [10]))"
    have k: "0 < ?k" "?k \<le> Suc (length bs)"
      using utf8_step_pos step_newline [of b bs "[]"] by auto
    have shorter: "length (drop ?k xs) < length xs" using k(1) Cons by simp
    have d: "drop ?k (b # bs @ t) = drop ?k (b # bs) @ t" for t
      using k(2) drop_append [of ?k "b # bs" t] by simp
    from less [OF shorter] k Cons d show ?thesis
      by (simp add: decode_replace.simps(2) step_newline [of b bs ys, THEN conjunct1])
  qed
qed

lemma ord_char_at: "ord (char_at b) = unat b"
proof -
  have "unat b < 256" using unsigned_less [of b] by simp
  then show ?thesis by (simp add: ord_def char_at_def)
qed

lemma decode_hd: "decode_replace bs \<noteq> [] \<Longrightarrow> \<not> is_cont (hd (decode_replace bs))"
proof (cases bs)
  case (Cons b cs)
  have "fst (utf8_step b cs) \<noteq> [] \<and> \<not> is_cont (hd (fst (utf8_step b cs)))"
    by (auto simp: utf8_step_def is_cont_def ord_char_at replacement_def lead_info_def Let_def
        split: option.splits prod.splits list.splits if_splits)
  with Cons show ?thesis by (simp add: decode_replace.simps(2))
qed simp

lemma uchars_append:
  "(ys \<noteq> [] \<Longrightarrow> \<not> is_cont (hd ys)) \<Longrightarrow> uchars (xs @ ys) = uchars xs @ uchars ys"
proof (induction xs rule: uchars.induct)
  case (2 c cs)
  have "takeWhile is_cont ys = []" "dropWhile is_cont ys = ys"
    using "2.prems" by (cases ys; auto)+
  then have "takeWhile is_cont (cs @ ys) = takeWhile is_cont cs \<and>
      dropWhile is_cont (cs @ ys) = dropWhile is_cont cs @ ys"
  proof (cases "\<forall>x \<in> set cs. is_cont x")
    case True
    then have all: "takeWhile is_cont cs = cs" "dropWhile is_cont cs = []"
      by (simp_all add: takeWhile_eq_all_conv dropWhile_eq_Nil_conv)
    with True \<open>takeWhile is_cont ys = []\<close> \<open>dropWhile is_cont ys = ys\<close> show ?thesis
      by (simp add: takeWhile_append dropWhile_append all)
  next
    case False
    then show ?thesis by (simp only: takeWhile_append dropWhile_append if_False simp_thms)
  qed
  with 2 show ?case by simp
qed simp

lemma merge_crlf_newline:
  "merge_crlf (us @ [chr 10] # vs) = merge_crlf (us @ [[chr 10]]) @ merge_crlf vs"
proof (induction us rule: merge_crlf.induct [case_names pair nil one])
  case (pair u v us)
  then show ?case by (cases us) auto
next
  case nil
  have "[chr 10] \<noteq> [chr 13]" by code_simp
  then show ?case by (cases vs) auto
next
  case (one u)
  have "[chr 10] \<noteq> [chr 13]" by code_simp
  then show ?case by (cases vs) auto
qed

lemma merge_crlf_last: "\<exists>ps b. merge_crlf (us @ [[chr 10]]) = ps @ [b] \<and> is_break b"
proof (induction us rule: merge_crlf.induct [case_names pair nil one])
  case (pair u v us)
  have "is_break [chr 13, chr 10]" by code_simp
  show ?case
  proof (cases "u = [chr 13] \<and> v = [chr 10]")
    case True
    with pair(1) obtain ps b where "merge_crlf (us @ [[chr 10]]) = ps @ [b]" "is_break b" by blast
    with True show ?thesis by (intro exI [of _ "(u @ v) # ps"] exI [of _ b]) simp
  next
    case False
    with pair(2) obtain ps b where "merge_crlf ((v # us) @ [[chr 10]]) = ps @ [b]" "is_break b" by blast
    with False show ?thesis by (intro exI [of _ "u # ps"] exI [of _ b]) simp
  qed
next
  case nil
  have "is_break [chr 10]" by code_simp
  then show ?case by (intro exI [of _ "[]"] exI [of _ "[chr 10]"]) simp
next
  case (one u)
  have "is_break [chr 10]" "is_break [chr 13, chr 10]" by code_simp+
  then show ?case by (cases "u = [chr 13]") (auto intro: exI [of _ "[]"] exI [of _ "[u]"])
qed

lemma lines_acc_break:
  "is_break b \<Longrightarrow> lines_acc cur (ps @ b # qs) = lines_acc cur (ps @ [b]) @ lines_acc [] qs"
  by (induction ps arbitrary: cur) auto

text \<open>Splitting into lines distributes over a newline.\<close>

lemma splitlines_newline:
  assumes "t \<noteq> [] \<Longrightarrow> \<not> is_cont (hd t)"
  shows "splitlines (s @ chr 10 # t) = splitlines (s @ [chr 10]) @ splitlines t"
proof -
  have nc: "\<not> is_cont (chr 10)" by code_simp
  have "uchars [chr 10] = [[chr 10]]" by simp
  then have one: "uchars (s @ [chr 10]) = uchars s @ [[chr 10]]"
    using nc by (subst uchars_append) simp_all
  have "uchars (s @ chr 10 # t) = uchars ((s @ [chr 10]) @ t)" by simp
  also have "\<dots> = (uchars s @ [[chr 10]]) @ uchars t"
    using assms one by (subst uchars_append) auto
  finally have all: "uchars (s @ chr 10 # t) = uchars s @ [chr 10] # uchars t" by simp
  obtain ps b where b: "merge_crlf (uchars s @ [[chr 10]]) = ps @ [b]" "is_break b"
    using merge_crlf_last by blast
  have "splitlines (s @ chr 10 # t) = lines_acc [] (ps @ b # merge_crlf (uchars t))"
    using b(1) merge_crlf_newline [of "uchars s" "uchars t"] by (simp add: splitlines_def all)
  also have "\<dots> = lines_acc [] (ps @ [b]) @ lines_acc [] (merge_crlf (uchars t))"
    using b(2) by (rule lines_acc_break)
  finally show ?thesis using b(1) by (simp add: splitlines_def one)
qed

lemma char_at_10: "char_at 10 = chr 10"
  by (simp add: char_at_def chr_def)

lemma decode_ends_newline: "\<exists>s. decode_replace (xs @ [10]) = s @ [chr 10]"
proof (induction "length xs" arbitrary: xs rule: less_induct)
  case less
  show ?case
  proof (cases xs)
    case Nil
    then show ?thesis by (simp add: decode_replace.simps(2) utf8_step_def char_at_10)
  next
    case (Cons b bs)
    let ?k = "snd (utf8_step b (bs @ [10]))"
    have k: "0 < ?k" "?k \<le> Suc (length bs)"
      using utf8_step_pos step_newline [of b bs "[]"] by auto
    have shorter: "length (drop ?k xs) < length xs" using k(1) Cons by simp
    have "drop ?k (b # bs @ [10]) = drop ?k (b # bs) @ [10]"
      using k(2) drop_append [of ?k "b # bs" "[10]"] by simp
    moreover obtain s where "decode_replace (drop ?k xs @ [10]) = s @ [chr 10]"
      using less [OF shorter] by blast
    moreover have "decode_replace (b # bs @ [10]) =
        fst (utf8_step b (bs @ [10])) @ decode_replace (drop ?k (b # bs @ [10]))"
      by (rule decode_replace.simps(2))
    ultimately show ?thesis using Cons by simp
  qed
qed

text \<open>Both together: the lines of a file that ends a line somewhere are those before and after.\<close>

lemma decoded_lines_newline:
  "splitlines (decode_replace (xs @ 10 # ys)) =
   splitlines (decode_replace (xs @ [10])) @ splitlines (decode_replace ys)"
proof -
  obtain s where "decode_replace (xs @ [10]) = s @ [chr 10]" using decode_ends_newline by blast
  then show ?thesis
    using splitlines_newline [of "decode_replace ys" s] decode_hd [of ys]
    by (simp add: decode_newline [of xs ys])
qed

end
