(* ===== verification/Errors.thy ===== *)
theory Errors
  imports PyText
begin

text \<open>
  The exception hierarchy of \<open>src/errors.py\<close>, with the classes of the Python library and of
  click that the program raises or catches. An exception is a record of its class, its message
  and, for \<open>ProxyTunnelError\<close>, the \<open>details\<close> it carries. \<open>is_a\<close> is \<open>isinstance\<close>: what an
  \<open>except\<close> clause catches.
\<close>

datatype exc_class =
    BaseException | PyException | KeyboardInterrupt | GeneratorExit
  | NetstackError | ConfigurationError | InsufficientPrivilegesError | UnsupportedHostError
  | UnauthorizedTargetError | CaptureError | RunArtifactError | ProtocolViolation
  | PeerClosedEarly | ProxyTunnelError
  | ValueError | UnicodeEncodeError | JSONDecodeError | LookupError | KeyError | IndexError
  | TypeError | RuntimeError | AssertionError | OverflowError | AttributeError
  | OSError | ConnectionError | TimeoutError | FileNotFoundError | PermissionError
  | ClickUsageError | ClickBadParameter | PytestFail | PytestUsageError | SystemExit

text \<open>The direct bases, in the order of the class statement.\<close>

fun bases :: "exc_class \<Rightarrow> exc_class list" where
  "bases BaseException = []"
| "bases PyException = [BaseException]"
| "bases KeyboardInterrupt = [BaseException]"
| "bases GeneratorExit = [BaseException]"
| "bases NetstackError = [PyException]"
| "bases ConfigurationError = [NetstackError]"
| "bases InsufficientPrivilegesError = [NetstackError]"
| "bases UnsupportedHostError = [NetstackError]"
| "bases UnauthorizedTargetError = [NetstackError]"
| "bases CaptureError = [NetstackError]"
| "bases RunArtifactError = [NetstackError]"
| "bases ProtocolViolation = [NetstackError, ValueError]"
| "bases PeerClosedEarly = [ProtocolViolation, ConnectionError]"
| "bases ProxyTunnelError = [NetstackError]"
| "bases ValueError = [PyException]"
| "bases UnicodeEncodeError = [ValueError]"
| "bases JSONDecodeError = [ValueError]"
| "bases LookupError = [PyException]"
| "bases KeyError = [LookupError]"
| "bases IndexError = [LookupError]"
| "bases TypeError = [PyException]"
| "bases RuntimeError = [PyException]"
| "bases AssertionError = [PyException]"
| "bases OverflowError = [PyException]"
| "bases AttributeError = [PyException]"
| "bases OSError = [PyException]"
| "bases ConnectionError = [OSError]"
| "bases TimeoutError = [OSError]"
| "bases FileNotFoundError = [OSError]"
| "bases PermissionError = [OSError]"
| "bases ClickUsageError = [PyException]"
| "bases ClickBadParameter = [ClickUsageError]"
| "bases PytestFail = [BaseException]"
| "bases PytestUsageError = [PyException]"
| "bases SystemExit = [BaseException]"

text \<open>How far a class is from \<open>BaseException\<close> at most: the measure of the walk up the bases.\<close>

fun height :: "exc_class \<Rightarrow> nat" where
  "height BaseException = 0"
| "height PyException = 1"
| "height KeyboardInterrupt = 1"
| "height GeneratorExit = 1"
| "height PytestFail = 1"
| "height SystemExit = 1"
| "height ClickBadParameter = 3"
| "height ConfigurationError = 3"
| "height InsufficientPrivilegesError = 3"
| "height UnsupportedHostError = 3"
| "height UnauthorizedTargetError = 3"
| "height CaptureError = 3"
| "height RunArtifactError = 3"
| "height ProtocolViolation = 3"
| "height PeerClosedEarly = 4"
| "height ProxyTunnelError = 3"
| "height UnicodeEncodeError = 3"
| "height JSONDecodeError = 3"
| "height KeyError = 3"
| "height IndexError = 3"
| "height ConnectionError = 3"
| "height TimeoutError = 3"
| "height FileNotFoundError = 3"
| "height PermissionError = 3"
| "height _ = 2"

lemma bases_height: "b \<in> set (bases c) \<Longrightarrow> height b < height c"
  by (cases c) auto

text \<open>A class and everything it derives from, nearest first.\<close>

function ancestors :: "exc_class \<Rightarrow> exc_class list" where
  "ancestors c = c # concat (map ancestors (bases c))"
  by pat_completeness auto
termination
  by (relation "measure height") (auto simp: bases_height)

declare ancestors.simps [simp del]

definition is_a :: "exc_class \<Rightarrow> exc_class \<Rightarrow> bool" where
  "is_a c d \<longleftrightarrow> d \<in> set (ancestors c)"

lemma is_a_refl [simp]: "is_a c c"
  by (simp add: is_a_def ancestors.simps [of c])

lemma is_a_base: "b \<in> set (bases c) \<Longrightarrow> is_a b d \<Longrightarrow> is_a c d"
  by (auto simp: is_a_def ancestors.simps [of c])

lemma is_a_step: "is_a c d \<longleftrightarrow> c = d \<or> (\<exists>b \<in> set (bases c). is_a b d)"
  by (auto simp: is_a_def ancestors.simps [of c])

lemma is_a_trans: "is_a c d \<Longrightarrow> is_a d e \<Longrightarrow> is_a c e"
proof (induction c rule: ancestors.induct)
  case (1 c)
  then show ?case
    by (subst (asm) (1) is_a_step) (auto intro: is_a_base)
qed

text \<open>\<open>type(self).__name__\<close>.\<close>

fun class_name :: "exc_class \<Rightarrow> string" where
  "class_name BaseException = ''BaseException''"
| "class_name PyException = ''Exception''"
| "class_name KeyboardInterrupt = ''KeyboardInterrupt''"
| "class_name GeneratorExit = ''GeneratorExit''"
| "class_name NetstackError = ''NetstackError''"
| "class_name ConfigurationError = ''ConfigurationError''"
| "class_name InsufficientPrivilegesError = ''InsufficientPrivilegesError''"
| "class_name UnsupportedHostError = ''UnsupportedHostError''"
| "class_name UnauthorizedTargetError = ''UnauthorizedTargetError''"
| "class_name CaptureError = ''CaptureError''"
| "class_name RunArtifactError = ''RunArtifactError''"
| "class_name ProtocolViolation = ''ProtocolViolation''"
| "class_name PeerClosedEarly = ''PeerClosedEarly''"
| "class_name ProxyTunnelError = ''ProxyTunnelError''"
| "class_name ValueError = ''ValueError''"
| "class_name UnicodeEncodeError = ''UnicodeEncodeError''"
| "class_name JSONDecodeError = ''JSONDecodeError''"
| "class_name LookupError = ''LookupError''"
| "class_name KeyError = ''KeyError''"
| "class_name IndexError = ''IndexError''"
| "class_name TypeError = ''TypeError''"
| "class_name RuntimeError = ''RuntimeError''"
| "class_name AssertionError = ''AssertionError''"
| "class_name OverflowError = ''OverflowError''"
| "class_name AttributeError = ''AttributeError''"
| "class_name OSError = ''OSError''"
| "class_name ConnectionError = ''ConnectionError''"
| "class_name TimeoutError = ''TimeoutError''"
| "class_name FileNotFoundError = ''FileNotFoundError''"
| "class_name PermissionError = ''PermissionError''"
| "class_name ClickUsageError = ''UsageError''"
| "class_name ClickBadParameter = ''BadParameter''"
| "class_name PytestFail = ''Failed''"
| "class_name PytestUsageError = ''UsageError''"
| "class_name SystemExit = ''SystemExit''"

record 'd exn =
  exc :: exc_class
  msg :: string
  details :: "'d option"

abbreviation raise_exc :: "exc_class \<Rightarrow> string \<Rightarrow> 'd exn + 'a" where
  "raise_exc c m \<equiv> Inl \<lparr>exc = c, msg = m, details = None\<rparr>"

text \<open>Re-raising through a boundary that drops the details (or whose caller reads none).\<close>

definition retype :: "'d exn \<Rightarrow> 'e exn" where
  "retype e = \<lparr>exc = exc e, msg = msg e, details = None\<rparr>"

text \<open>\<open>raise ProxyTunnelError(message, details)\<close>.\<close>

definition tunnel_error :: "string \<Rightarrow> 'd option \<Rightarrow> 'd exn" where
  "tunnel_error m d = \<lparr>exc = ProxyTunnelError, msg = m, details = d\<rparr>"

text \<open>
  \<open>exit_code\<close> is a class attribute: the value is the one of the nearest class that sets it.
  Classes outside the hierarchy have no such attribute.
\<close>

fun own_exit_code :: "exc_class \<Rightarrow> int option" where
  "own_exit_code NetstackError = Some 1"
| "own_exit_code ConfigurationError = Some 2"
| "own_exit_code InsufficientPrivilegesError = Some 2"
| "own_exit_code UnsupportedHostError = Some 2"
| "own_exit_code UnauthorizedTargetError = Some 3"
| "own_exit_code _ = None"

fun first_some :: "'a option list \<Rightarrow> 'a option" where
  "first_some [] = None"
| "first_some (Some x # xs) = Some x"
| "first_some (None # xs) = first_some xs"

definition exit_code :: "exc_class \<Rightarrow> int option" where
  "exit_code c = first_some (map own_exit_code (ancestors c))"

definition render :: "string \<Rightarrow> 'd exn \<Rightarrow> string" where
  "render pre e = pre @ '': ['' @ class_name (exc e) @ ''] '' @ msg e"

lemmas ancestors_eval = ancestors.simps [of BaseException] ancestors.simps [of PyException]
  ancestors.simps [of KeyboardInterrupt] ancestors.simps [of GeneratorExit]
  ancestors.simps [of NetstackError] ancestors.simps [of ConfigurationError]
  ancestors.simps [of InsufficientPrivilegesError] ancestors.simps [of UnsupportedHostError]
  ancestors.simps [of UnauthorizedTargetError] ancestors.simps [of CaptureError]
  ancestors.simps [of RunArtifactError] ancestors.simps [of ProtocolViolation]
  ancestors.simps [of PeerClosedEarly] ancestors.simps [of ProxyTunnelError]
  ancestors.simps [of ValueError] ancestors.simps [of UnicodeEncodeError]
  ancestors.simps [of JSONDecodeError] ancestors.simps [of LookupError]
  ancestors.simps [of KeyError] ancestors.simps [of IndexError] ancestors.simps [of TypeError]
  ancestors.simps [of RuntimeError] ancestors.simps [of AssertionError]
  ancestors.simps [of OverflowError] ancestors.simps [of AttributeError]
  ancestors.simps [of OSError] ancestors.simps [of ConnectionError]
  ancestors.simps [of TimeoutError] ancestors.simps [of FileNotFoundError]
  ancestors.simps [of PermissionError] ancestors.simps [of ClickUsageError]
  ancestors.simps [of ClickBadParameter] ancestors.simps [of PytestFail]
  ancestors.simps [of PytestUsageError] ancestors.simps [of SystemExit]

text \<open>Exactly the classes of the package's own hierarchy have an exit status.\<close>

lemma exit_code_iff_netstack: "exit_code c \<noteq> None \<longleftrightarrow> is_a c NetstackError"
  by (cases c) (simp_all add: exit_code_def is_a_def ancestors_eval)

end
