(* ===== verification/IpAddr.thy ===== *)
theory IpAddr
  imports Errors
begin

unbundle bit_operations_syntax

text \<open>
  The part of the standard library's \<open>ipaddress\<close> module that \<open>src/config.py\<close>,
  \<open>src/proxy/tunnel.py\<close> and \<open>src/cli/main.py\<close> call: \<open>ip_address\<close>, \<open>ip_network\<close> with
  \<open>strict=False\<close>, membership, \<open>packed\<close>, and the text of an address. \<open>None\<close> is the
  \<open>ValueError\<close> the library raises. Big-endian packing (\<open>int.to_bytes\<close>, \<open>int.from_bytes\<close>)
  is proved to round trip, and parsing and printing an IPv4 address to be inverse.
\<close>

section \<open>Big-endian integers\<close>

fun to_be :: "nat \<Rightarrow> nat \<Rightarrow> bytes" where
  "to_be 0 n = []"
| "to_be (Suc k) n = to_be k (n div 256) @ [word_of_nat n]"

definition from_be :: "bytes \<Rightarrow> nat" where
  "from_be bs = foldl (\<lambda>a b. 256 * a + unat b) 0 bs"

lemma from_be_Nil [simp]: "from_be [] = 0"
  by (simp add: from_be_def)

lemma from_be_snoc [simp]: "from_be (bs @ [b]) = 256 * from_be bs + unat b"
  by (simp add: from_be_def)

lemma length_to_be [simp, wire_simps]: "length (to_be k n) = k"
  by (induction k arbitrary: n) auto

lemma from_be_less: "from_be bs < 256 ^ length bs"
proof (induction bs rule: rev_induct)
  case (snoc b bs)
  have "unat b < 256" using unsigned_less [of b] by simp
  with snoc show ?case by simp
qed simp

lemma from_be_to_be: "from_be (to_be k n) = n mod 256 ^ k"
proof (induction k arbitrary: n)
  case (Suc k)
  have "n mod (256 * 256 ^ k) = 256 * (n div 256 mod 256 ^ k) + n mod 256"
    by (rule mod_mult2_eq)
  with Suc show ?case by (simp add: unat_of_nat)
qed simp

lemma to_be_from_be [simp]: "to_be (length bs) (from_be bs) = bs"
proof (induction bs rule: rev_induct)
  case (snoc b bs)
  have b: "unat b < 256" using unsigned_less [of b] by simp
  have "word_of_nat (256 * from_be bs + unat b) = (word_of_nat (unat b) :: byte)"
    by (simp only: word_of_nat_eq_iff take_bit_eq_mod) simp
  with snoc b show ?case by simp
qed simp

lemma to_be_from_be_len: "length bs = k \<Longrightarrow> to_be k (from_be bs) = bs"
  using to_be_from_be [of bs] by simp

section \<open>Addresses\<close>

text \<open>An IPv6 address carries the scope identifier its text had.\<close>

datatype ip =
    V4 "32 word"
  | V6 "128 word" "string option"

fun ip_version :: "ip \<Rightarrow> nat" where
  "ip_version (V4 _) = 4"
| "ip_version (V6 _ _) = 6"

fun ip_packed :: "ip \<Rightarrow> bytes" where
  "ip_packed (V4 w) = to_be 4 (unat w)"
| "ip_packed (V6 w _) = to_be 16 (unat w)"

subsection \<open>IPv4\<close>

definition parse_octet :: "string \<Rightarrow> nat option" where
  "parse_octet s =
     (if s = [] then None
      else if \<not> list_all is_digit s then None
      else if 3 < length s then None
      else if s \<noteq> ''0'' \<and> hd s = CHR ''0'' then None
      else if 255 < undec s then None
      else Some (undec s))"

fun parse_all :: "(string \<Rightarrow> nat option) \<Rightarrow> string list \<Rightarrow> nat list option" where
  "parse_all p [] = Some []"
| "parse_all p (s # ss) =
     (case p s of None \<Rightarrow> None
      | Some n \<Rightarrow> (case parse_all p ss of None \<Rightarrow> None | Some ns \<Rightarrow> Some (n # ns)))"

definition parse_ipv4 :: "string \<Rightarrow> (32 word) option" where
  "parse_ipv4 s =
     (if CHR ''/'' \<in> set s then None
      else let os = split_on (CHR ''.'') s
           in if length os \<noteq> 4 then None
              else map_option (\<lambda>ns. word_of_nat (from_be (map word_of_nat ns)))
                     (parse_all parse_octet os))"

definition ipv4_text :: "32 word \<Rightarrow> string" where
  "ipv4_text w = join ''.'' (map (\<lambda>b. dec (unat b)) (to_be 4 (unat w)))"

lemma parse_octet_dec [simp]: "n < 256 \<Longrightarrow> parse_octet (dec n) = Some n"
proof -
  assume n: "n < 256"
  then have "length (dec n) \<le> 3" by (intro length_dec) auto
  moreover have "dec n \<noteq> ''0'' \<Longrightarrow> hd (dec n) \<noteq> CHR ''0''"
    by (rule hd_dec) (metis dec_0 gr0I)
  ultimately show ?thesis using n by (auto simp: parse_octet_def dec_digits)
qed

lemma parse_octet_Some:
  assumes "parse_octet s = Some n"
  shows "dec n = s" "n < 256" "CHR ''.'' \<notin> set s" "CHR ''/'' \<notin> set s"
proof -
  from assms have *: "s \<noteq> []" "list_all is_digit s" "s = ''0'' \<or> hd s \<noteq> CHR ''0''"
    "undec s \<le> 255" "n = undec s"
    by (auto simp: parse_octet_def split: if_splits)
  then show "dec n = s" by (auto intro!: dec_undec)
  from * show "n < 256" by simp
  have "\<not> is_digit (CHR ''.'')" "\<not> is_digit (CHR ''/'')"
    by (simp_all add: is_digit_def ord_def)
  with *(2) show "CHR ''.'' \<notin> set s" "CHR ''/'' \<notin> set s"
    by (auto simp: list_all_iff)
qed

lemma parse_all_Some_iff:
  "parse_all p ss = Some ns \<longleftrightarrow> list_all2 (\<lambda>s n. p s = Some n) ss ns"
proof (induction ss arbitrary: ns)
  case IH: (Cons s ss)
  show ?case
  proof (cases ns)
    case Nil
    then show ?thesis by (auto split: option.splits)
  next
    case (Cons m ms)
    then show ?thesis using IH.IH [of ms] by (auto split: option.splits)
  qed
qed auto

lemma parse_octets_dec: "map dec ns = os" if "parse_all parse_octet os = Some ns"
  using that by (auto simp: parse_all_Some_iff list_all2_conv_all_nth parse_octet_Some
      intro: nth_equalityI)

lemma parse_octets_less: "n \<in> set ns \<Longrightarrow> n < 256" if "parse_all parse_octet os = Some ns"
  using that by (auto simp: parse_all_Some_iff list_all2_conv_all_nth in_set_conv_nth
      dest: parse_octet_Some(2))

text \<open>An accepted dotted quad is the canonical text of its address.\<close>

lemma parse_ipv4_text: "parse_ipv4 s = Some w \<Longrightarrow> ipv4_text w = s"
proof -
  assume "parse_ipv4 s = Some w"
  then obtain ns where ns: "parse_all parse_octet (split_on (CHR ''.'') s) = Some ns"
    and w: "w = word_of_nat (from_be (map word_of_nat ns))"
    and len: "length (split_on (CHR ''.'') s) = 4"
    by (auto simp: parse_ipv4_def Let_def split: if_splits)
  have l: "length ns = 4"
    using ns len by (simp add: parse_all_Some_iff list_all2_lengthD [symmetric])
  let ?bs = "map word_of_nat ns :: bytes"
  have "from_be ?bs < 256 ^ 4" using from_be_less [of ?bs] l by simp
  then have "unat w = from_be ?bs" by (simp add: w unat_of_nat)
  then have "ipv4_text w = join ''.'' (map (\<lambda>b. dec (unat b)) ?bs)"
    using l by (simp add: ipv4_text_def to_be_from_be_len)
  also have "map (\<lambda>b. dec (unat b)) ?bs = map dec ns"
    using parse_octets_less [OF ns] by (auto simp: unat_of_nat)
  also have "\<dots> = split_on (CHR ''.'') s"
    using parse_octets_dec [OF ns] .
  finally show ?thesis by simp
qed

lemma parse_ipv4_ipv4_text [simp]: "parse_ipv4 (ipv4_text w) = Some w"
proof -
  let ?bs = "to_be 4 (unat w)"
  let ?ps = "map (\<lambda>b. dec (unat b)) ?bs"
  have dot: "\<not> is_digit (CHR ''.'')" "\<not> is_digit (CHR ''/'')"
    by (simp_all add: is_digit_def ord_def)
  have ne: "?ps \<noteq> []" using length_to_be [of 4 "unat w"] by (cases ?bs) auto
  then have split: "split_on (CHR ''.'') (ipv4_text w) = ?ps"
    unfolding ipv4_text_def by (intro split_on_join) (auto simp: dec_no_char dot)
  have slash: "CHR ''/'' \<notin> set (join ''.'' ps)"
    if "\<forall>p \<in> set ps. CHR ''/'' \<notin> set p" for ps
    using that by (induction ps rule: induct_list012) auto
  have "CHR ''/'' \<notin> set (ipv4_text w)"
    unfolding ipv4_text_def by (rule slash) (auto simp: dec_no_char dot)
  moreover have "parse_all parse_octet ?ps = Some (map unat ?bs)"
    using unsigned_less [where 'a = nat and 'b = 8]
    by (auto simp: parse_all_Some_iff list_all2_conv_all_nth)
  moreover have "unat w < 256 ^ 4" using unsigned_less [of w] by simp
  ultimately show ?thesis
    by (simp add: parse_ipv4_def split comp_def from_be_to_be)
qed

subsection \<open>IPv6\<close>

definition parse_hextet :: "string \<Rightarrow> nat option" where
  "parse_hextet s =
     (if s = [] \<or> 4 < length s \<or> list_ex (\<lambda>c. hex_val c = None) s then None
      else Some (foldl (\<lambda>a c. 16 * a + the (hex_val c)) 0 s))"

text \<open>A dotted quad as the last part stands for two hextets.\<close>

definition expand_v4_tail :: "string list \<Rightarrow> string list option" where
  "expand_v4_tail ps =
     (if CHR ''.'' \<in> set (last ps)
      then map_option (\<lambda>w. butlast ps @ [hex (unat w div 65536), hex (unat w mod 65536)])
             (parse_ipv4 (last ps))
      else Some ps)"

text \<open>The positions, first and last excluded, of the empty parts: where \<open>::\<close> stands.\<close>

definition skip_positions :: "string list \<Rightarrow> nat list" where
  "skip_positions ps = filter (\<lambda>i. ps ! i = []) [1..<length ps - 1]"

definition ipv6_parts :: "string list \<Rightarrow> nat list option" where
  "ipv6_parts ps =
     (case skip_positions ps of
        [] \<Rightarrow>
          (if length ps \<noteq> 8 then None else parse_all parse_hextet ps)
      | [k] \<Rightarrow>
          (let hi = k - (if hd ps = [] then 1 else 0);
               lo = length ps - k - 1 - (if last ps = [] then 1 else 0)
           in if hd ps = [] \<and> hi \<noteq> 0 then None
              else if last ps = [] \<and> lo \<noteq> 0 then None
              else if 7 < hi + lo then None
              else (case (parse_all parse_hextet (take hi ps),
                          parse_all parse_hextet (drop (length ps - lo) ps)) of
                      (Some hs, Some ls) \<Rightarrow> Some (hs @ replicate (8 - (hi + lo)) 0 @ ls)
                    | _ \<Rightarrow> None))
      | _ \<Rightarrow> None)"

definition hextets_value :: "nat list \<Rightarrow> 128 word" where
  "hextets_value hs = word_of_nat (foldl (\<lambda>a h. 65536 * a + h) 0 hs)"

definition parse_ipv6_body :: "string \<Rightarrow> (128 word) option" where
  "parse_ipv6_body s =
     (let ps = split_on (CHR '':'') s
      in if s = [] \<or> length ps < 3 then None
         else (case expand_v4_tail ps of
                 None \<Rightarrow> None
               | Some qs \<Rightarrow>
                   if 9 < length qs then None else map_option hextets_value (ipv6_parts qs)))"

definition parse_ipv6 :: "string \<Rightarrow> ip option" where
  "parse_ipv6 s =
     (if CHR ''/'' \<in> set s then None
      else case partition_at (CHR ''%'') s of
             (a, False, _) \<Rightarrow> map_option (\<lambda>w. V6 w None) (parse_ipv6_body a)
           | (a, True, scope) \<Rightarrow>
               if scope = [] \<or> CHR ''%'' \<in> set scope then None
               else map_option (\<lambda>w. V6 w (Some scope)) (parse_ipv6_body a))"

text \<open>\<open>ipaddress.ip_address(text)\<close>: IPv4 first.\<close>

definition ip_address :: "string \<Rightarrow> ip option" where
  "ip_address s = (case parse_ipv4 s of Some w \<Rightarrow> Some (V4 w) | None \<Rightarrow> parse_ipv6 s)"

text \<open>The text of an IPv6 address: the first longest run of at least two zero hextets is \<open>::\<close>.\<close>

fun zero_run :: "nat list \<Rightarrow> nat" where
  "zero_run [] = 0"
| "zero_run (h # hs) = (if h = 0 then Suc (zero_run hs) else 0)"

fun best_run :: "nat \<Rightarrow> nat list \<Rightarrow> nat \<times> nat" where
  "best_run i [] = (i, 0)"
| "best_run i (h # hs) =
     (let n = zero_run (h # hs); r = best_run (Suc i) hs
      in if n \<noteq> 0 \<and> snd r \<le> n then (i, n) else r)"

definition hextets :: "128 word \<Rightarrow> nat list" where
  "hextets w = map (\<lambda>i. unat w div 65536 ^ (7 - i) mod 65536) [0..<8]"

definition ipv6_text :: "128 word \<Rightarrow> string" where
  "ipv6_text w =
     (let hs = hextets w; xs = map hex hs
      in case best_run 0 hs of
           (i, n) \<Rightarrow>
             if n \<le> 1 then join '':'' xs
             else join '':''
                    ((if i = 0 then [[]] else []) @ take i xs @ [[]] @ drop (i + n) xs @
                     (if i + n = 8 then [[]] else [])))"

fun ip_text :: "ip \<Rightarrow> string" where
  "ip_text (V4 w) = ipv4_text w"
| "ip_text (V6 w s) = ipv6_text w @ (case s of None \<Rightarrow> [] | Some sc \<Rightarrow> ''%'' @ sc)"

section \<open>Networks\<close>

text \<open>The network address and the number of leading bits it fixes.\<close>

datatype network =
    Net4 "32 word" nat
  | Net6 "128 word" nat

definition prefix_mask :: "nat \<Rightarrow> 'a::len word" where
  "prefix_mask n = NOT (mask (LENGTH('a) - n))"

definition parse_prefix :: "nat \<Rightarrow> string \<Rightarrow> nat option" where
  "parse_prefix mx s =
     (if s \<noteq> [] \<and> list_all is_digit s \<and> length s \<le> 4300 \<and> undec s \<le> mx
      then Some (undec s) else None)"

text \<open>A dotted mask: a netmask (leading ones) or, failing that, a hostmask (trailing ones).\<close>

definition mask_length :: "32 word \<Rightarrow> nat option" where
  "mask_length m =
     (case filter (\<lambda>n. prefix_mask n = m) [0..<33] of [] \<Rightarrow> None | n # _ \<Rightarrow> Some n)"

definition parse_mask4 :: "string \<Rightarrow> nat option" where
  "parse_mask4 s =
     (case parse_prefix 32 s of
        Some n \<Rightarrow> Some n
      | None \<Rightarrow>
          (case parse_ipv4 s of
             None \<Rightarrow> None
           | Some m \<Rightarrow>
               (case mask_length m of Some n \<Rightarrow> Some n | None \<Rightarrow> mask_length (NOT m))))"

definition split_mask :: "string \<Rightarrow> (string \<times> string option) option" where
  "split_mask s =
     (case split_on (CHR ''/'') s of
        [a] \<Rightarrow> Some (a, None)
      | [a, m] \<Rightarrow> Some (a, Some m)
      | _ \<Rightarrow> None)"

definition network4 :: "string \<Rightarrow> network option" where
  "network4 s =
     (case split_mask s of
        None \<Rightarrow> None
      | Some (a, m) \<Rightarrow>
          (case (parse_ipv4 a, case m of None \<Rightarrow> Some 32 | Some t \<Rightarrow> parse_mask4 t) of
             (Some w, Some n) \<Rightarrow> Some (Net4 (w AND prefix_mask n) n)
           | _ \<Rightarrow> None))"

definition network6 :: "string \<Rightarrow> network option" where
  "network6 s =
     (case split_mask s of
        None \<Rightarrow> None
      | Some (a, m) \<Rightarrow>
          (case (parse_ipv6 a, case m of None \<Rightarrow> Some 128 | Some t \<Rightarrow> parse_prefix 128 t) of
             (Some (V6 w _), Some n) \<Rightarrow> Some (Net6 (w AND prefix_mask n) n)
           | _ \<Rightarrow> None))"

text \<open>\<open>ipaddress.ip_network(text, strict=False)\<close> and \<open>address in network\<close>.\<close>

definition ip_network :: "string \<Rightarrow> network option" where
  "ip_network s = (case network4 s of Some n \<Rightarrow> Some n | None \<Rightarrow> network6 s)"

fun in_network :: "ip \<Rightarrow> network \<Rightarrow> bool" where
  "in_network (V4 w) (Net4 a n) \<longleftrightarrow> w AND prefix_mask n = a"
| "in_network (V6 w _) (Net6 a n) \<longleftrightarrow> w AND prefix_mask n = a"
| "in_network _ _ \<longleftrightarrow> False"

text \<open>Membership is agreement on the leading bits.\<close>

lemma and_prefix_mask_eq_iff:
  fixes v w :: "'a::len word"
  shows "v AND prefix_mask n = w AND prefix_mask n \<longleftrightarrow>
    drop_bit (LENGTH('a) - n) v = drop_bit (LENGTH('a) - n) w"
proof -
  let ?k = "LENGTH('a) - n"
  have "(\<forall>i < LENGTH('a). ?k \<le> i \<longrightarrow> (bit v i \<longleftrightarrow> bit w i)) \<longleftrightarrow>
    (\<forall>j. bit v (?k + j) \<longleftrightarrow> bit w (?k + j))"
    by (metis bit_imp_le_length le_add1 le_add_diff_inverse)
  moreover have "v AND prefix_mask n = w AND prefix_mask n \<longleftrightarrow>
    (\<forall>i < LENGTH('a). ?k \<le> i \<longrightarrow> (bit v i \<longleftrightarrow> bit w i))"
    by (auto simp: bit_eq_iff prefix_mask_def bit_simps dest: bit_imp_le_length)
  moreover have "\<not> bit u (?k + j)" if "\<not> j < LENGTH('a)" for u :: "'a word" and j
    using that by (auto dest: bit_imp_le_length)
  then have "drop_bit ?k v = drop_bit ?k w \<longleftrightarrow>
    (\<forall>j. bit v (?k + j) \<longleftrightarrow> bit w (?k + j))"
    by (simp add: bit_eq_iff bit_simps) blast
  ultimately show ?thesis by simp
qed

end
