(* ===== verification/PyVal.thy ===== *)
theory PyVal
  imports Errors
begin

text \<open>
  The plain values that \<open>to_dict\<close> produces, \<open>from_dict\<close> reads and \<open>json\<close> carries: \<open>None\<close>,
  booleans, integers, floats, texts, lists and dictionaries with text keys in insertion order. A
  float is modelled by a rational number (its exact value; arithmetic on it does not round). The
  field readers return \<open>None\<close> where the value has a type the field does not declare: Python would
  store such a value unchecked, so what happens then is outside the model.
\<close>

datatype pyval =
    PNone
  | PBool bool
  | PInt int
  | PFloat rat
  | PStr string
  | PList "pyval list"
  | PDict "(string \<times> pyval) list"

type_synonym pydict = "(string \<times> pyval) list"

text \<open>\<open>bool(v)\<close>, which \<open>if\<close> and \<open>or\<close> consult.\<close>

fun py_true :: "pyval \<Rightarrow> bool" where
  "py_true PNone = False"
| "py_true (PBool b) = b"
| "py_true (PInt i) = (i \<noteq> 0)"
| "py_true (PFloat q) = (q \<noteq> 0)"
| "py_true (PStr s) = (s \<noteq> [])"
| "py_true (PList xs) = (xs \<noteq> [])"
| "py_true (PDict kvs) = (kvs \<noteq> [])"

text \<open>\<open>data.get(key, default)\<close>.\<close>

definition dget :: "pydict \<Rightarrow> string \<Rightarrow> pyval \<Rightarrow> pyval" where
  "dget d k v = (case map_of d k of None \<Rightarrow> v | Some w \<Rightarrow> w)"

definition put_opt :: "('a \<Rightarrow> pyval) \<Rightarrow> 'a option \<Rightarrow> pyval" where
  "put_opt f x = (case x of None \<Rightarrow> PNone | Some y \<Rightarrow> f y)"

fun get_str :: "pyval \<Rightarrow> string option" where
  "get_str (PStr s) = Some s"
| "get_str _ = None"

fun get_int :: "pyval \<Rightarrow> int option" where
  "get_int (PInt i) = Some i"
| "get_int _ = None"

fun get_float :: "pyval \<Rightarrow> rat option" where
  "get_float (PFloat q) = Some q"
| "get_float _ = None"

fun get_list :: "pyval \<Rightarrow> pyval list option" where
  "get_list (PList xs) = Some xs"
| "get_list _ = None"

definition get_opt :: "(pyval \<Rightarrow> 'a option) \<Rightarrow> pyval \<Rightarrow> 'a option option" where
  "get_opt g v = (if v = PNone then Some None else map_option Some (g v))"

fun collect_opt :: "'a option list \<Rightarrow> 'a list option" where
  "collect_opt [] = Some []"
| "collect_opt (None # xs) = None"
| "collect_opt (Some x # xs) = map_option (Cons x) (collect_opt xs)"

definition get_strs :: "pyval \<Rightarrow> string list option" where
  "get_strs v =
     (case get_list v of None \<Rightarrow> None | Some xs \<Rightarrow> collect_opt (map get_str xs))"

lemma collect_opt_map_Some [simp]: "collect_opt (map (\<lambda>x. Some (f x)) xs) = Some (map f xs)"
  by (induction xs) auto

lemma get_strs_map_PStr [simp]: "get_strs (PList (map PStr ss)) = Some ss"
  by (simp add: get_strs_def comp_def)

lemma get_opt_put_opt [simp]:
  "(\<And>x. g (f x) = Some x) \<Longrightarrow> (\<And>x. f x \<noteq> PNone) \<Longrightarrow> get_opt g (put_opt f x) = Some x"
  by (cases x) (auto simp: get_opt_def put_opt_def)

end
