(* ===== verification/Config.thy ===== *)
theory Config
  imports IpAddr PyVal
begin

text \<open>
  \<open>src/config.py\<close>: the run configuration, the proxy-leg rule and the allow-list, with the two
  gates that read it: \<open>src/utils/safety.py\<close> (whether a \<open>vuln\<close> test may run) and
  \<open>src/collection_policy.py\<close> (whether a test applies to the role and topology).
\<close>

section \<open>Roles and proxy legs\<close>

datatype role = Client | Server

fun role_value :: "role \<Rightarrow> string" where
  "role_value Client = ''client''"
| "role_value Server = ''server''"

text \<open>\<open>Role(value)\<close>: \<open>None\<close> is the enum's \<open>ValueError\<close>.\<close>

definition role_of :: "string \<Rightarrow> role option" where
  "role_of s = (if s = ''client'' then Some Client else if s = ''server'' then Some Server else None)"

datatype proxy_leg = Front | Back

fun leg_value :: "proxy_leg \<Rightarrow> string" where
  "leg_value Front = ''front''"
| "leg_value Back = ''back''"

definition leg_of :: "string \<Rightarrow> proxy_leg option" where
  "leg_of s = (if s = ''front'' then Some Front else if s = ''back'' then Some Back else None)"

fun implied_role :: "proxy_leg \<Rightarrow> role" where
  "implied_role Front = Client"
| "implied_role Back = Server"

definition resolve_role :: "proxy_leg option \<Rightarrow> role \<Rightarrow> role" where
  "resolve_role leg configured =
     (case leg of Some l \<Rightarrow> implied_role l | None \<Rightarrow> configured)"

definition resolve_leg_target ::
  "proxy_leg option \<Rightarrow> string option \<Rightarrow> int option \<Rightarrow> string option \<Rightarrow> int option \<Rightarrow>
   string option \<times> int option" where
  "resolve_leg_target leg ip port proxy_host proxy_port =
     (if leg \<noteq> Some Front then (ip, port)
      else (if truthy proxy_host then proxy_host else ip,
            case port of Some p \<Rightarrow> Some p | None \<Rightarrow> proxy_port))"

definition back_leg_requirement_error ::
  "proxy_leg option \<Rightarrow> string option \<Rightarrow> string option \<Rightarrow> string \<Rightarrow> string \<Rightarrow> string option" where
  "back_leg_requirement_error leg proxy_mode backend_host mode_label host_label =
     (if leg \<noteq> Some Back \<or> (truthy proxy_mode \<and> truthy backend_host) then None
      else Some (''A back proxy leg needs '' @ mode_label @ '' and '' @ host_label @
        '': a proxy's back leg is '' @
        ''idle unless traffic is driven through its front, so the run has to induce it. '' @
        ''See docs/proxy_testing.md.''))"

definition ephemeral_low :: int where "ephemeral_low = 49152"
definition ephemeral_high :: int where "ephemeral_high = 65535"

text \<open>\<open>secrets.randbelow\<close> is the argument \<open>randbelow\<close>: it returns a number below its bound.\<close>

definition random_ephemeral_port :: "(nat \<Rightarrow> nat) \<Rightarrow> int" where
  "random_ephemeral_port randbelow =
     ephemeral_low + int (randbelow (nat (ephemeral_high - ephemeral_low + 1)))"

section \<open>The run configuration\<close>

text \<open>
  \<open>interface\<close>, \<open>target_ip\<close> and \<open>target_stack\<close> are \<open>None\<close> when pytest is run without the
  option, which is what \<open>missing_required\<close> reports.
\<close>

record dut_config =
  interface :: "string option"
  target_ip :: "string option"
  target_stack :: "string option"
  target_mac :: "string option"
  target_port :: "int option"
  source_port :: "int option"
  dut_timeout :: rat
  dut_role :: role
  dut_leg :: "proxy_leg option"
  allowed_targets :: "string list"

definition dut_config_defaults :: dut_config where
  "dut_config_defaults =
     \<lparr>interface = None, target_ip = None, target_stack = None, target_mac = None,
      target_port = None, source_port = None, dut_timeout = 2, dut_role = Client,
      dut_leg = None, allowed_targets = []\<rparr>"

text \<open>\<open>REQUIRED_FIELDS\<close>: the field's value, the flag that sets it, its label.\<close>

definition required_fields :: "dut_config \<Rightarrow> (string option \<times> string \<times> string) list" where
  "required_fields c =
     [(target_ip c, ''--dut-ip'', ''Target IP''),
      (interface c, ''--dut-iface'', ''Interface''),
      (target_stack c, ''--target-stack'', ''Target stack'')]"

definition missing_required :: "bool \<Rightarrow> dut_config \<Rightarrow> string list" where
  "missing_required as_flags c =
     map (\<lambda>(v, flag, label). if as_flags then flag else label)
       (filter (\<lambda>(v, flag, label). \<not> truthy v) (required_fields c))"

definition show_target :: "dut_config \<Rightarrow> string" where
  "show_target c = (case target_ip c of None \<Rightarrow> ''None'' | Some t \<Rightarrow> py_repr t)"

definition no_ip_network :: "string \<Rightarrow> string" where
  "no_ip_network s = py_repr s @ '' does not appear to be an IPv4 or IPv6 network''"

fun in_allowed :: "ip \<Rightarrow> string list \<Rightarrow> 'd exn + bool" where
  "in_allowed addr [] = Inr False"
| "in_allowed addr (cidr # cidrs) =
     (case ip_network cidr of
        None \<Rightarrow> raise_exc ConfigurationError
          (''Allowed target '' @ py_repr cidr @ '' is not a valid CIDR range: '' @
           no_ip_network cidr)
      | Some net \<Rightarrow> if in_network addr net then Inr True else in_allowed addr cidrs)"

definition target_in_allowed_range :: "dut_config \<Rightarrow> 'd exn + bool" where
  "target_in_allowed_range c =
     (if allowed_targets c = [] then Inr False
      else case Option.bind (target_ip c) ip_address of
             None \<Rightarrow> raise_exc ConfigurationError
               (''Target '' @ show_target c @ '' is not an IP address, so it cannot be '' @
                ''checked against the vuln-test allow-list.'')
           | Some addr \<Rightarrow> in_allowed addr (allowed_targets c))"

section \<open>Serialisation\<close>

definition to_dict :: "dut_config \<Rightarrow> pydict" where
  "to_dict c =
     [(''interface'', put_opt PStr (interface c)),
      (''target_ip'', put_opt PStr (target_ip c)),
      (''target_stack'', put_opt PStr (target_stack c)),
      (''target_mac'', put_opt PStr (target_mac c)),
      (''target_port'', put_opt PInt (target_port c)),
      (''source_port'', put_opt PInt (source_port c)),
      (''timeout'', PFloat (dut_timeout c)),
      (''role'', PStr (role_value (dut_role c))),
      (''proxy_leg'', put_opt (\<lambda>l. PStr (leg_value l)) (dut_leg c)),
      (''allowed_targets'', PList (map PStr (allowed_targets c)))]"

text \<open>
  \<open>from_dict\<close> passes on the known keys that are present, so an absent optional key takes the
  dataclass default and an absent required one is a \<open>TypeError\<close>; an unknown enum value is a
  \<open>ValueError\<close>. The outer \<open>None\<close> is a value of a type the field does not declare.
\<close>

definition role_from :: "pyval \<Rightarrow> ('d exn + role) option" where
  "role_from v =
     (case v of
        PStr s \<Rightarrow> Some (case role_of s of
            Some r \<Rightarrow> Inr r
          | None \<Rightarrow> raise_exc ValueError (py_repr s @ '' is not a valid Role''))
      | _ \<Rightarrow> None)"

definition leg_from :: "pyval \<Rightarrow> ('d exn + proxy_leg option) option" where
  "leg_from v =
     (if \<not> py_true v then Some (Inr None)
      else case v of
        PStr s \<Rightarrow> Some (case leg_of s of
            Some l \<Rightarrow> Inr (Some l)
          | None \<Rightarrow> raise_exc ValueError (py_repr s @ '' is not a valid ProxyLeg''))
      | _ \<Rightarrow> None)"

definition required_keys :: "string list" where
  "required_keys = [''interface'', ''target_ip'', ''target_stack'']"

definition dut_fields :: "pydict \<Rightarrow> role \<Rightarrow> proxy_leg option \<Rightarrow> dut_config option" where
  "dut_fields d r l =
     (case (get_opt get_str (dget d ''interface'' PNone), get_opt get_str (dget d ''target_ip'' PNone),
            get_opt get_str (dget d ''target_stack'' PNone),
            get_opt get_str (dget d ''target_mac'' PNone),
            get_opt get_int (dget d ''target_port'' PNone),
            get_opt get_int (dget d ''source_port'' PNone),
            get_float (dget d ''timeout'' (PFloat 2)),
            get_strs (dget d ''allowed_targets'' (PList []))) of
        (Some i, Some ip, Some st, Some mac, Some tp, Some sp, Some t, Some al) \<Rightarrow>
          Some \<lparr>interface = i, target_ip = ip, target_stack = st, target_mac = mac,
                target_port = tp, source_port = sp, dut_timeout = t, dut_role = r,
                dut_leg = l, allowed_targets = al\<rparr>
      | _ \<Rightarrow> None)"

definition from_dict :: "pydict \<Rightarrow> ('d exn + dut_config) option" where
  "from_dict d =
     (case (role_from (dget d ''role'' (PStr ''client'')), leg_from (dget d ''proxy_leg'' PNone)) of
        (Some (Inl e), _) \<Rightarrow> Some (Inl e)
      | (Some (Inr r), Some (Inl e)) \<Rightarrow> Some (Inl e)
      | (Some (Inr r), Some (Inr l)) \<Rightarrow>
          (if list_ex (\<lambda>k. map_of d k = None) required_keys
           then Some (raise_exc TypeError ''missing required positional arguments'')
           else map_option Inr (dut_fields d r l))
      | _ \<Rightarrow> None)"

lemma role_of_value [simp]: "role_of (role_value r) = Some r"
  by (cases r) (simp_all add: role_of_def)

lemma leg_of_value [simp]: "leg_of (leg_value l) = Some l"
  by (cases l) (simp_all add: leg_of_def)

lemma leg_value_nonempty [simp]: "leg_value l \<noteq> []"
  by (cases l) auto

lemma leg_from_put [simp]: "leg_from (put_opt (\<lambda>l. PStr (leg_value l)) l) = Some (Inr l)"
  by (cases l) (simp_all add: leg_from_def put_opt_def)

section \<open>The safety gate for vuln-marked tests\<close>

definition enforce_vuln_test_authorization :: "dut_config \<Rightarrow> bool \<Rightarrow> 'd exn + unit" where
  "enforce_vuln_test_authorization c confirmed =
     rbind (target_in_allowed_range c) (\<lambda>allowed.
       if \<not> allowed then raise_exc UnauthorizedTargetError
         (''Target '' @ show_opt (target_ip c) @ '' is not within any of this run's '' @
          ''allowed_targets ranges '' @ repr_tuple (allowed_targets c) @ ''. Add it to '' @
          ''the DUTConfig allow-list before running vuln-marked tests.'')
       else if \<not> confirmed then raise_exc UnauthorizedTargetError
         (''vuln-marked tests require explicit confirmation '' @
          ''(--confirm-vuln-tests on the CLI, or the confirmation toggle '' @
          ''in the GUI) in addition to being in the allow-list.'')
       else Inr ())"

text \<open>What the gate promises: the target is an address inside a range the operator listed.\<close>

definition authorized :: "dut_config \<Rightarrow> bool" where
  "authorized c \<longleftrightarrow>
     (case Option.bind (target_ip c) ip_address of
        None \<Rightarrow> False
      | Some a \<Rightarrow> list_ex (\<lambda>cidr. case ip_network cidr of
            None \<Rightarrow> False | Some net \<Rightarrow> in_network a net) (allowed_targets c))"

lemma in_allowed_True:
  "in_allowed a cidrs = Inr True \<Longrightarrow>
   list_ex (\<lambda>cidr. case ip_network cidr of None \<Rightarrow> False | Some net \<Rightarrow> in_network a net) cidrs"
  by (induction cidrs) (auto split: option.splits if_splits)

lemma in_allowed_wellformed:
  "\<forall>cidr \<in> set cidrs. ip_network cidr \<noteq> None \<Longrightarrow>
   in_allowed a cidrs =
     Inr (list_ex (\<lambda>cidr. case ip_network cidr of None \<Rightarrow> False
       | Some net \<Rightarrow> in_network a net) cidrs)"
  by (induction cidrs) (auto split: option.splits)

lemma in_allowed_Inl: "in_allowed a cidrs = Inl e \<Longrightarrow> exc e = ConfigurationError"
  by (induction cidrs) (auto split: option.splits if_splits)

lemma range_Inr_True: "target_in_allowed_range c = Inr True \<Longrightarrow> authorized c"
  by (auto simp: target_in_allowed_range_def authorized_def dest: in_allowed_True
      split: if_splits option.splits)

lemma range_Inl: "target_in_allowed_range c = Inl e \<Longrightarrow> exc e = ConfigurationError"
  by (auto simp: target_in_allowed_range_def dest: in_allowed_Inl
      split: if_splits option.splits)

lemma in_allowed_False:
  "in_allowed a cidrs = Inr False \<Longrightarrow>
   \<not> list_ex (\<lambda>cidr. case ip_network cidr of None \<Rightarrow> False | Some net \<Rightarrow> in_network a net) cidrs"
  by (induction cidrs) (auto split: option.splits if_splits)

lemma range_Inr_False: "target_in_allowed_range c = Inr False \<Longrightarrow> \<not> authorized c"
  by (auto simp: target_in_allowed_range_def authorized_def dest!: in_allowed_False
      split: if_splits option.splits)


text \<open>Being inside a listed IPv4 range means agreeing with it on the leading bits that its prefix
  length fixes, and no IPv6 address is inside one.\<close>

theorem in_network_prefix:
  assumes "ip_network s = Some (Net4 a n)"
  shows "(in_network (V4 w) (Net4 a n) \<longleftrightarrow> drop_bit (32 - n) w = drop_bit (32 - n) a) \<and>
    \<not> in_network (V6 u sc) (Net4 a n)"
proof -
  from assms obtain x where "a = x AND prefix_mask n"
    by (auto simp: ip_network_def network4_def network6_def split: option.splits ip.splits)
  then have "a = a AND prefix_mask n" by (simp add: and.assoc)
  then show ?thesis
    using and_prefix_mask_eq_iff [of w n a] by simp
qed

lemma in_network_prefix_witness:
  "in_network (V4 0x0A010203) (Net4 0x0A000000 8) \<longleftrightarrow>
     drop_bit (32 - 8) (0x0A010203 :: 32 word) = drop_bit (32 - 8) 0x0A000000"
proof -
  have "ip_network ''10.0.0.0/8'' = Some (Net4 0x0A000000 8)" by code_simp
  from in_network_prefix [OF this] show ?thesis by blast
qed

text \<open>A configuration survives the trip through its dictionary form, which is how a run's
  configuration is stored and handed to the test process.\<close>

theorem from_dict_to_dict: "from_dict (to_dict c) = Some (Inr c)"
  by (simp add: from_dict_def to_dict_def dget_def role_from_def required_keys_def dut_fields_def)

section \<open>Which tests apply to a role and topology\<close>

text \<open>An item is the list of its marker names; \<open>get_closest_marker\<close> looks one up.\<close>

type_synonym item = "string list"

definition has_marker :: "item \<Rightarrow> string \<Rightarrow> bool" where
  "has_marker it name \<longleftrightarrow> name \<in> set it"

definition applicable_roles :: "item \<Rightarrow> string list" where
  "applicable_roles it =
     (let declared = filter (has_marker it) [''client'', ''server'']
      in if declared = [] then [''client''] else declared)"

definition proxy_skip_reason :: string where
  "proxy_skip_reason =
     ''proxy: needs --proxy-mode and a backend instance '' @
     ''(`netstack-cli proxy-serve`); see docs/proxy_testing.md''"

definition skip_reason :: "item \<Rightarrow> string \<Rightarrow> string option \<Rightarrow> string option" where
  "skip_reason it role proxy_mode =
     (if has_marker it ''internal'' then None
      else if has_marker it ''proxy'' then (if truthy proxy_mode then None else Some proxy_skip_reason)
      else let applicable = applicable_roles it
           in if role \<in> set applicable then None
              else Some (''role: applies to '' @ repr_list applicable @ '', running as '' @ role))"

text \<open>Exactly the right tests run. An internal test always does; a proxy test when a proxy mode is
  configured, whatever the role; any other test when the role is among those it declares, the
  client role being what a test without a declaration declares.\<close>

theorem skip_reason_None_iff:
  "skip_reason it r pm = None \<longleftrightarrow>
     ''internal'' \<in> set it \<or>
     ''proxy'' \<in> set it \<and> truthy pm \<or>
     ''proxy'' \<notin> set it \<and>
       (r = ''client'' \<and> \<not> (''server'' \<in> set it \<and> ''client'' \<notin> set it) \<or>
        r = ''server'' \<and> ''server'' \<in> set it)"
  by (auto simp: skip_reason_def has_marker_def applicable_roles_def Let_def)

text \<open>Resolving the proxy leg is idempotent and decides the role: a run with a leg always tests
  the role that leg implies, and the target it resolves is the proxy's front on the front leg (when
  a proxy host is configured) and the plain target otherwise.\<close>

theorem resolve_leg:
  "resolve_role leg (resolve_role leg r) = resolve_role leg r \<and>
   resolve_role (Some Front) r = Client \<and> resolve_role (Some Back) r = Server \<and>
   resolve_leg_target (Some Front) ip port (Some (x # xs)) pp =
     (Some (x # xs), if port = None then pp else port) \<and>
   resolve_leg_target (Some Back) ip port ph pp = (ip, port) \<and>
   resolve_leg_target None ip port ph pp = (ip, port)"
  by (simp add: resolve_role_def resolve_leg_target_def split: option.splits)

end
