(* ===== verification/Tunnel.thy ===== *)
theory Tunnel
  imports IpAddr "HOL-Library.AList"
begin

text \<open>
  \<open>src/proxy/tunnel.py\<close>: the wire formats of the two explicit-proxy handshakes, HTTP CONNECT and
  SOCKS5, as functions over bytes, and the incremental readers as functions over a \<open>reader\<close>, the
  model of the \<open>read(n)\<close> callable. The locale \<open>exact_reader\<close> states what the module's
  docstring asks of that callable; the facts about incremental reading are proved in it once and
  hold for every provider.
\<close>

section \<open>Bytes literals and representations\<close>

definition crlf :: bytes where
  "crlf = [13, 10]"

definition header_terminator :: bytes where
  "header_terminator = [13, 10, 13, 10]"

text \<open>\<open>bytes([...])\<close> of integers, and \<open>n.to_bytes(2, "big")\<close>.\<close>

definition py_bytes :: "int list \<Rightarrow> 'd exn + bytes" where
  "py_bytes is =
     (if list_all (\<lambda>i. 0 \<le> i \<and> i < 256) is then Inr (map word_of_int is)
      else raise_exc ValueError ''bytes must be in range(0, 256)'')"

definition port_bytes :: "int \<Rightarrow> 'd exn + bytes" where
  "port_bytes p =
     (if p < 0 then raise_exc OverflowError ''can't convert negative int to unsigned''
      else if 65535 < p then raise_exc OverflowError ''int too big to convert''
      else Inr (to_be 2 (nat p)))"

text \<open>\<open>bytes.decode("iso-8859-1")\<close>: one character per byte. Such a text is handled by its code
  points; \<open>utf8_of_latin\<close> gives the form in which texts are stored.\<close>

definition latin_text :: "bytes \<Rightarrow> string" where
  "latin_text bs = map char_at bs"

definition utf8_of_latin :: "string \<Rightarrow> string" where
  "utf8_of_latin s =
     concat (map (\<lambda>c. if ord c < 128 then [c]
       else [chr (192 + ord c div 64), chr (128 + ord c mod 64)]) s)"

definition latin_lower :: "char \<Rightarrow> char" where
  "latin_lower c =
     (if 65 \<le> ord c \<and> ord c \<le> 90 \<or> 192 \<le> ord c \<and> ord c \<le> 222 \<and> ord c \<noteq> 215
      then chr (ord c + 32) else c)"

definition hex_escape :: "char \<Rightarrow> string" where
  "hex_escape c = [chr 92, CHR ''x''] @ hex2 (ord c)"

definition repr_quote :: "string \<Rightarrow> char" where
  "repr_quote s = (if chr 39 \<in> set s \<and> chr 34 \<notin> set s then chr 34 else chr 39)"

definition bytes_repr :: "bytes \<Rightarrow> string" where
  "bytes_repr bs =
     (let s = map char_at bs; q = repr_quote s
      in ''b'' @ [q] @ concat (map (\<lambda>c. if 127 \<le> ord c then hex_escape c else repr_char q c) s) @
         [q])"

definition latin_repr :: "string \<Rightarrow> string" where
  "latin_repr s =
     (let q = repr_quote s
      in [q] @ concat (map (\<lambda>c. if 127 \<le> ord c \<and> ord c \<le> 160 \<or> ord c = 173
           then hex_escape c
           else if ord c < 127 then repr_char q c else utf8_of_latin [c]) s) @ [q])"

section \<open>HTTP CONNECT\<close>

record http_response =
  status :: int
  reason :: string
  headers :: "(string \<times> string) list"

definition tunnel_established :: "http_response \<Rightarrow> bool" where
  "tunnel_established r \<longleftrightarrow> 200 \<le> status r \<and> status r < 300"

definition format_authority :: "string \<Rightarrow> int \<Rightarrow> string" where
  "format_authority host port =
     (if CHR '':'' \<in> set host \<and> \<not> starts_with ''['' host
      then ''['' @ host @ '']:'' @ idec port
      else host @ '':'' @ idec port)"

definition ascii_encode :: "string \<Rightarrow> 'd exn + bytes" where
  "ascii_encode s =
     (if is_ascii s then Inr (utf8_encode s)
      else raise_exc UnicodeEncodeError ''ordinal not in range(128)'')"

definition crlf_text :: string where
  "crlf_text = [chr 13, chr 10]"

definition build_http_connect_request ::
  "string \<Rightarrow> int \<Rightarrow> (string \<times> string) list \<Rightarrow> 'd exn + bytes" where
  "build_http_connect_request host port extra_headers =
     (let authority = format_authority host port;
          lines = [''CONNECT '' @ authority @ '' HTTP/1.1'', ''Host: '' @ authority] @
            map (\<lambda>(name, value). name @ '': '' @ value) extra_headers
      in ascii_encode (join crlf_text lines @ crlf_text @ crlf_text))"

text \<open>\<open>headers[name.strip().lower()] = value.strip()\<close> for one header line.\<close>

definition add_header :: "(string \<times> string) list \<Rightarrow> bytes \<Rightarrow> (string \<times> string) list" where
  "add_header hs line =
     (if line = [] then hs
      else case partition_at (CHR '':'') (latin_text line) of
        (name, _, value) \<Rightarrow>
          AList.update (utf8_of_latin (map latin_lower (latin_strip name)))
            (utf8_of_latin (latin_strip value)) hs)"

definition parse_http_connect_response :: "bytes \<Rightarrow> 'd exn + http_response" where
  "parse_http_connect_response raw =
     (let lines = split_seq crlf (before header_terminator raw)
      in case lines of
        [] \<Rightarrow> raise_exc ProtocolViolation ''empty HTTP response''
      | line # rest \<Rightarrow>
          if line = [] then raise_exc ProtocolViolation ''empty HTTP response''
          else let parts = split_max 2 (CHR '' '') (latin_text line) in
            if length parts < 2 \<or> \<not> starts_with ''HTTP/'' (map upper_char (parts ! 0))
            then raise_exc ProtocolViolation (''malformed HTTP status line: '' @ bytes_repr line)
            else case py_int (parts ! 1) of
                None \<Rightarrow> raise_exc ProtocolViolation
                  (''non-numeric HTTP status code: '' @ latin_repr (parts ! 1))
              | Some st \<Rightarrow>
                  Inr \<lparr>status = st,
                       reason = (if 2 < length parts then utf8_of_latin (parts ! 2) else []),
                       headers = foldl add_header [] rest\<rparr>)"

section \<open>Reading the head of a response\<close>

type_synonym ('s, 'd) reader = "nat \<Rightarrow> 's \<Rightarrow> ('d exn + bytes) \<times> 's"

function read_head_from ::
  "('s, 'd) reader \<Rightarrow> bytes \<Rightarrow> 's \<Rightarrow> ('d exn + bytes) \<times> 's" where
  "read_head_from rd buffer s =
     (if contains header_terminator buffer then (Inr buffer, s)
      else case rd 1 s of
        (Inl e, s') \<Rightarrow> (Inl e, s')
      | (Inr chunk, s') \<Rightarrow>
          if chunk = [] then
            (raise_exc PeerClosedEarly ''proxy closed the connection during the CONNECT response'',
             s')
          else if 64 * 1024 < length (buffer @ chunk) then
            (raise_exc ProtocolViolation ''HTTP response header block exceeded 64 KiB'', s')
          else read_head_from rd (buffer @ chunk) s')"
  by pat_completeness auto
termination
proof (relation "measure (\<lambda>(rd, buffer, s). 64 * 1024 + 1 - length buffer)", simp, goal_cases)
  case (1 rd buffer s x s' chunk)
  have "65537 - (a + c) < 65537 - a" if "0 < c" "a + c \<le> 65536" for a c :: nat
    using that by linarith
  from this [of "length chunk" "length buffer"] 1 show ?case by simp
qed

declare read_head_from.simps [simp del]

definition read_http_response_head :: "('s, 'd) reader \<Rightarrow> 's \<Rightarrow> ('d exn + bytes) \<times> 's" where
  "read_http_response_head rd s = read_head_from rd [] s"

section \<open>SOCKS5\<close>

definition socks5_version :: int where "socks5_version = 5"
definition auth_none :: int where "auth_none = 0"
definition auth_gssapi :: int where "auth_gssapi = 1"
definition auth_username_password :: int where "auth_username_password = 2"
definition auth_no_acceptable :: int where "auth_no_acceptable = 255"
definition cmd_connect :: int where "cmd_connect = 1"
definition cmd_bind :: int where "cmd_bind = 2"
definition cmd_udp_associate :: int where "cmd_udp_associate = 3"
definition atyp_ipv4 :: int where "atyp_ipv4 = 1"
definition atyp_domainname :: int where "atyp_domainname = 3"
definition atyp_ipv6 :: int where "atyp_ipv6 = 4"
definition auth_subnegotiation_version :: int where "auth_subnegotiation_version = 1"

lemmas socks5_consts = socks5_version_def auth_none_def auth_username_password_def
  auth_no_acceptable_def cmd_connect_def atyp_ipv4_def atyp_domainname_def atyp_ipv6_def
  auth_subnegotiation_version_def

definition socks5_reply_messages :: "(int \<times> string) list" where
  "socks5_reply_messages =
     [(0, ''succeeded''),
      (1, ''general SOCKS server failure''),
      (2, ''connection not allowed by ruleset''),
      (3, ''network unreachable''),
      (4, ''host unreachable''),
      (5, ''connection refused''),
      (6, ''TTL expired''),
      (7, ''command not supported''),
      (8, ''address type not supported'')]"

record socks5_reply =
  reply_code :: int
  bound_host :: string
  bound_port :: int

definition succeeded :: "socks5_reply \<Rightarrow> bool" where
  "succeeded r \<longleftrightarrow> reply_code r = 0"

definition reply_message :: "socks5_reply \<Rightarrow> string" where
  "reply_message r =
     (case map_of socks5_reply_messages (reply_code r) of
        Some m \<Rightarrow> m
      | None \<Rightarrow> ''unassigned reply code 0x'' @ hex2 (nat (reply_code r)))"

definition build_socks5_greeting :: "int list \<Rightarrow> 'd exn + bytes" where
  "build_socks5_greeting methods =
     (if \<not> (1 \<le> length methods \<and> length methods \<le> 255)
      then raise_exc ConfigurationError ''SOCKS5 greeting needs between 1 and 255 methods''
      else py_bytes ([socks5_version, int (length methods)] @ methods))"

definition parse_socks5_method_selection :: "bytes \<Rightarrow> 'd exn + int" where
  "parse_socks5_method_selection raw =
     (if length raw \<noteq> 2
      then raise_exc ProtocolViolation
        (''SOCKS5 method selection must be 2 bytes, got '' @ dec (length raw))
      else if uint (raw ! 0) \<noteq> socks5_version
      then raise_exc ProtocolViolation (''expected SOCKS version 0x05, got 0x'' @ hex2 (unat (raw ! 0)))
      else Inr (uint (raw ! 1)))"

text \<open>\<open>host.encode("idna")\<close> is the argument \<open>idna\<close>.\<close>

definition encode_socks5_address ::
  "(string \<Rightarrow> 'd exn + bytes) \<Rightarrow> string \<Rightarrow> int \<Rightarrow> 'd exn + bytes" where
  "encode_socks5_address idna host port =
     rbind
       (case ip_address host of
          None \<Rightarrow>
            rbind (if \<not> is_ascii host then idna host else ascii_encode host) (\<lambda>encoded.
              if \<not> (1 \<le> length encoded \<and> length encoded \<le> 255)
              then raise_exc ConfigurationError ''SOCKS5 domain names must be 1-255 bytes''
              else rbind (py_bytes [atyp_domainname, int (length encoded)]) (\<lambda>h. Inr (h @ encoded)))
        | Some address \<Rightarrow>
            if ip_version address = 4
            then rbind (py_bytes [atyp_ipv4]) (\<lambda>h. Inr (h @ ip_packed address))
            else rbind (py_bytes [atyp_ipv6]) (\<lambda>h. Inr (h @ ip_packed address)))
       (\<lambda>head. rbind (port_bytes port) (\<lambda>p. Inr (head @ p)))"

definition build_socks5_request ::
  "(string \<Rightarrow> 'd exn + bytes) \<Rightarrow> string \<Rightarrow> int \<Rightarrow> int \<Rightarrow> 'd exn + bytes" where
  "build_socks5_request idna host port command =
     rbind (py_bytes [socks5_version, command, 0]) (\<lambda>h.
       rbind (encode_socks5_address idna host port) (\<lambda>a. Inr (h @ a)))"

definition build_socks5_userpass_auth :: "string \<Rightarrow> string \<Rightarrow> 'd exn + bytes" where
  "build_socks5_userpass_auth username password =
     (let user = utf8_encode username; secret = utf8_encode password
      in if \<not> (1 \<le> length user \<and> length user \<le> 255) \<or> \<not> (1 \<le> length secret \<and> length secret \<le> 255)
         then raise_exc ConfigurationError
           ''SOCKS5 username and password must each be 1-255 bytes''
         else rbind (py_bytes [auth_subnegotiation_version, int (length user)]) (\<lambda>h.
           rbind (py_bytes [int (length secret)]) (\<lambda>l. Inr (h @ user @ l @ secret))))"

definition parse_socks5_userpass_result :: "bytes \<Rightarrow> 'd exn + bool" where
  "parse_socks5_userpass_result raw =
     (if length raw \<noteq> 2
      then raise_exc ProtocolViolation
        (''SOCKS5 auth result must be 2 bytes, got '' @ dec (length raw))
      else Inr (raw ! 1 = 0))"

text \<open>\<open>str(ipaddress.IPv4Address(raw))\<close> and its IPv6 counterpart, of packed bytes.\<close>

definition packed_error :: "bytes \<Rightarrow> nat \<Rightarrow> nat \<Rightarrow> 'd exn + string" where
  "packed_error raw n version =
     raise_exc ValueError (bytes_repr raw @ '' (len '' @ dec (length raw) @ '' != '' @ dec n @
       '') is not permitted as an IPv'' @ dec version @ '' address'')"

definition text_of_ipv4 :: "bytes \<Rightarrow> 'd exn + string" where
  "text_of_ipv4 raw =
     (if length raw \<noteq> 4 then packed_error raw 4 4
      else Inr (ipv4_text (word_of_nat (from_be raw))))"

definition text_of_ipv6 :: "bytes \<Rightarrow> 'd exn + string" where
  "text_of_ipv6 raw =
     (if length raw \<noteq> 16 then packed_error raw 16 6
      else Inr (ipv6_text (word_of_nat (from_be raw))))"

text \<open>\<open>raw.decode("ascii", errors="replace")\<close>: a byte beyond ASCII becomes U+FFFD.\<close>

definition ascii_replace :: "bytes \<Rightarrow> string" where
  "ascii_replace bs =
     concat (map (\<lambda>b. if unat b < 128 then [char_at b] else [chr 239, chr 191, chr 189]) bs)"

text \<open>Sequencing of reads: the state goes through, an exception stops.\<close>

definition read_then ::
  "('d exn + 'a) \<times> 's \<Rightarrow> ('a \<Rightarrow> 's \<Rightarrow> ('d exn + 'b) \<times> 's) \<Rightarrow> ('d exn + 'b) \<times> 's" where
  "read_then r f = (case r of (Inl e, s) \<Rightarrow> (Inl e, s) | (Inr x, s) \<Rightarrow> f x s)"

lemma read_then_simps [simp, result_simps]:
  "read_then (Inl e, s) f = (Inl e, s)"
  "read_then (Inr x, s) f = f x s"
  by (simp_all add: read_then_def)

definition read_socks5_host :: "('s, 'd) reader \<Rightarrow> int \<Rightarrow> 's \<Rightarrow> ('d exn + string) \<times> 's" where
  "read_socks5_host rd atyp s =
     (if atyp = atyp_ipv4 then read_then (rd 4 s) (\<lambda>raw s. (text_of_ipv4 raw, s))
      else if atyp = atyp_ipv6 then read_then (rd 16 s) (\<lambda>raw s. (text_of_ipv6 raw, s))
      else if atyp = atyp_domainname then
        read_then (rd 1 s) (\<lambda>raw s.
          case raw of
            [] \<Rightarrow> (raise_exc PeerClosedEarly ''proxy closed before the SOCKS5 domain length byte'', s)
          | len # _ \<Rightarrow> read_then (rd (unat len) s) (\<lambda>name s. (Inr (ascii_replace name), s)))
      else (raise_exc ProtocolViolation
              (''unknown SOCKS5 address type 0x'' @ hex2 (nat atyp)), s))"

definition read_socks5_reply :: "('s, 'd) reader \<Rightarrow> 's \<Rightarrow> ('d exn + socks5_reply) \<times> 's" where
  "read_socks5_reply rd s =
     read_then (rd 4 s) (\<lambda>header s.
       case header of
         [version, code, reserved, atyp] \<Rightarrow>
           (if uint version \<noteq> socks5_version
            then (raise_exc ProtocolViolation
                    (''expected SOCKS version 0x05 in reply, got 0x'' @ hex2 (unat version)), s)
            else read_then (read_socks5_host rd (uint atyp) s) (\<lambda>host s.
              read_then (rd 2 s) (\<lambda>port s.
                (Inr \<lparr>reply_code = uint code, bound_host = host,
                      bound_port = int (from_be port)\<rparr>, s))))
       | _ \<Rightarrow> (raise_exc PeerClosedEarly ''short SOCKS5 reply header'', s))"

section \<open>The wire format of an address\<close>

text \<open>
  RFC 1928 section 5, independently of how the reader works: the field that follows the address
  type, and the host it denotes.
\<close>

definition address_text :: "byte \<Rightarrow> bytes \<Rightarrow> string option" where
  "address_text atyp f =
     (if atyp = 1 \<and> length f = 4 then Some (ipv4_text (word_of_nat (from_be f)))
      else if atyp = 4 \<and> length f = 16 then Some (ipv6_text (word_of_nat (from_be f)))
      else if atyp = 3 \<and> f \<noteq> [] \<and> length (tl f) = unat (hd f) then Some (ascii_replace (tl f))
      else None)"

lemma uint_eq_iff: "uint (b :: byte) = n \<longleftrightarrow> b = word_of_int n \<and> 0 \<le> n \<and> n < 256"
  using unsigned_less [where 'a = int and 'b = 8] by (auto simp: uint_word_of_int)

lemma ascii_replace_ascii: "list_all (\<lambda>b. unat b < 128) bs \<Longrightarrow> ascii_replace bs = utf8_text bs"
  by (induction bs) (auto simp: ascii_replace_def utf8_text_def)

lemma ascii_replace_encode: "is_ascii s \<Longrightarrow> ascii_replace (utf8_encode s) = s"
  using ascii_replace_ascii [of "utf8_encode s"]
  by (simp add: is_ascii_def list_all_iff unat_byte_of) (simp add: utf8_encode_def unat_byte_of)

section \<open>What the readers do over any provider of bytes\<close>

text \<open>
  The contract of the \<open>read(n)\<close> callable: a provider whose pending bytes are \<open>stream s\<close> returns
  exactly the next \<open>n\<close> of them, and raises an error of the operating-system family (which
  \<open>PeerClosedEarly\<close> belongs to) when there are fewer.
\<close>

locale exact_reader =
  fixes rd :: "('s, 'd) reader"
    and stream :: "'s \<Rightarrow> bytes"
    and ok :: "'s \<Rightarrow> bool"
  assumes rd_enough: "ok s \<Longrightarrow> n \<le> length (stream s) \<Longrightarrow>
      \<exists>s'. rd n s = (Inr (take n (stream s)), s') \<and> ok s' \<and> stream s' = drop n (stream s)"
    and rd_short: "ok s \<Longrightarrow> length (stream s) < n \<Longrightarrow>
      \<exists>e s'. rd n s = (Inl e, s') \<and> is_a (exc e) OSError"
begin

lemma rd_prefix:
  assumes "ok s" "stream s = p @ q" "length p = n"
  obtains s' where "rd n s = (Inr p, s')" "ok s'" "stream s' = q"
  using rd_enough [of s n] assms by auto

lemma rd_next:
  "ok s \<Longrightarrow> stream s = p @ q \<Longrightarrow> \<exists>s'. rd (length p) s = (Inr p, s') \<and> ok s' \<and> stream s' = q"
  by (metis rd_prefix)

lemma rd_Inr:
  assumes "ok s" "rd n s = (Inr x, s')"
  shows "stream s = x @ stream s'" "length x = n" "ok s'"
  using assms rd_enough [of s n] rd_short [of s n]
  by (cases "n \<le> length (stream s)"; auto)+

lemma rd_Inl:
  assumes "ok s" "rd n s = (Inl e, s')"
  shows "is_a (exc e) OSError"
  using assms rd_enough [of s n] rd_short [of s n] by (cases "n \<le> length (stream s)") auto

text \<open>The head is read up to its terminator and not a byte further.\<close>

lemma head_from_Inr:
  "ok s \<Longrightarrow> read_head_from rd buf s = (Inr h, s') \<Longrightarrow>
   (\<forall>k < length buf. \<not> contains header_terminator (take k buf)) \<Longrightarrow>
   buf @ stream s = h @ stream s' \<and> contains header_terminator h \<and> ok s' \<and>
   (\<forall>k < length h. \<not> contains header_terminator (take k h))"
proof (induction "length (stream s)" arbitrary: buf s rule: less_induct)
  case less
  show ?case
  proof (cases "contains header_terminator buf")
    case True
    with less.prems show ?thesis by (simp add: read_head_from.simps)
  next
    case False
    with less.prems obtain c t where c: "rd 1 s = (Inr c, t)" "read_head_from rd (buf @ c) t = (Inr h, s')"
      by (auto simp: read_head_from.simps [of rd buf s] split: prod.splits sum.splits if_splits)
    note r = rd_Inr [OF less.prems(1) c(1)]
    have pre: "\<forall>k < length (buf @ c). \<not> contains header_terminator (take k (buf @ c))"
      using less.prems(3) False r(2) by (auto simp: less_Suc_eq)
    have "length (stream t) < length (stream s)" using r(1,2) by simp
    from less.hyps [OF this r(3) c(2) pre] r(1) show ?thesis by simp
  qed
qed

lemma head_from_Inl:
  "ok s \<Longrightarrow> read_head_from rd buf s = (Inl e, s') \<Longrightarrow>
   exc e = ProtocolViolation \<or> is_a (exc e) OSError"
proof (induction "length (stream s)" arbitrary: buf s rule: less_induct)
  case less
  from less.prems(2) consider
      t where "rd 1 s = (Inl e, t)"
    | "exc e = ProtocolViolation \<or> exc e = PeerClosedEarly"
    | c t where "rd 1 s = (Inr c, t)" "read_head_from rd (buf @ c) t = (Inl e, s')"
    by (auto simp: read_head_from.simps [of rd buf s] split: prod.splits sum.splits if_splits)
  then show ?case
  proof cases
    case 1
    with less.prems(1) show ?thesis by (auto dest: rd_Inl)
  next
    case 2
    then show ?thesis by (auto simp: is_a_def ancestors_eval)
  next
    case 3
    note r = rd_Inr [OF less.prems(1) 3(1)]
    then have "length (stream t) < length (stream s)" by simp
    from less.hyps [OF this r(3) 3(2)] show ?thesis .
  qed
qed

lemma head_from_complete:
  "ok s \<Longrightarrow> stream s = p @ rest \<Longrightarrow> length (buf @ p) \<le> 64 * 1024 \<Longrightarrow>
   contains header_terminator (buf @ p) \<Longrightarrow>
   (\<forall>k < length (buf @ p). \<not> contains header_terminator (take k (buf @ p))) \<Longrightarrow>
   \<exists>s'. read_head_from rd buf s = (Inr (buf @ p), s') \<and> ok s' \<and> stream s' = rest"
proof (induction p arbitrary: buf s)
  case Nil
  then show ?case by (subst read_head_from.simps) simp
next
  case (Cons b p)
  then have no: "\<not> contains header_terminator buf"
    by (auto dest: spec [of _ "length buf"])
  from Cons.prems obtain t where t: "rd 1 s = (Inr [b], t)" "ok t" "stream t = p @ rest"
    by (auto intro: rd_prefix [of s "[b]" "p @ rest" 1])
  from Cons.prems t have "\<exists>s'. read_head_from rd (buf @ [b]) t = (Inr ((buf @ [b]) @ p), s') \<and>
      ok s' \<and> stream s' = rest"
    by (intro Cons.IH) auto
  with Cons.prems t no show ?case
    by (subst read_head_from.simps) simp
qed

lemma head_exact:
  "ok s \<Longrightarrow> read_http_response_head rd s = (Inr h, s') \<Longrightarrow>
   stream s = h @ stream s' \<and> contains header_terminator h \<and> ok s' \<and>
   (\<forall>k < length h. \<not> contains header_terminator (take k h))"
  using head_from_Inr [of s "[]" h s'] by (simp add: read_http_response_head_def)

lemma head_complete:
  "ok s \<Longrightarrow> stream s = h @ rest \<Longrightarrow> length h \<le> 64 * 1024 \<Longrightarrow> contains header_terminator h \<Longrightarrow>
   (\<forall>k < length h. \<not> contains header_terminator (take k h)) \<Longrightarrow>
   \<exists>s'. read_http_response_head rd s = (Inr h, s') \<and> ok s' \<and> stream s' = rest"
  using head_from_complete [of s h rest "[]"] by (simp add: read_http_response_head_def)

lemma head_Inl:
  "ok s \<Longrightarrow> read_http_response_head rd s = (Inl e, s') \<Longrightarrow>
   exc e = ProtocolViolation \<or> is_a (exc e) OSError"
  by (simp add: read_http_response_head_def head_from_Inl)

text \<open>The bound address, read by its type.\<close>

lemma host_Inr:
  assumes "ok s" "read_socks5_host rd (uint atyp) s = (Inr h, s')"
  shows "\<exists>f. stream s = f @ stream s' \<and> address_text atyp f = Some h \<and> ok s'"
proof -
  from assms(2) consider
      f where "atyp = 1" "rd 4 s = (Inr f, s')" "length f = 4 \<longrightarrow> h = ipv4_text (word_of_nat (from_be f))"
    | f where "atyp = 4" "rd 16 s = (Inr f, s')" "length f = 16 \<longrightarrow> h = ipv6_text (word_of_nat (from_be f))"
    | l ls n t where "atyp = 3" "rd 1 s = (Inr (l # ls), t)" "rd (unat l) t = (Inr n, s')"
        "h = ascii_replace n"
    by (auto simp: read_socks5_host_def read_then_def text_of_ipv4_def text_of_ipv6_def socks5_consts
        uint_eq_iff packed_error_def split: if_splits prod.splits sum.splits list.splits)
  then show ?thesis
  proof cases
    case 1
    with rd_Inr [OF assms(1) 1(2)] show ?thesis by (auto simp: address_text_def)
  next
    case 2
    with rd_Inr [OF assms(1) 2(2)] show ?thesis by (auto simp: address_text_def)
  next
    case 3
    note r = rd_Inr [OF assms(1) 3(2)]
    note q = rd_Inr [OF r(3) 3(3)]
    from 3 r q have "stream s = (l # n) @ stream s'" "address_text atyp (l # n) = Some h" "ok s'"
      by (auto simp: address_text_def)
    then show ?thesis by blast
  qed
qed

lemma host_complete:
  assumes "ok s" "stream s = f @ rest" "address_text atyp f = Some h"
  shows "\<exists>s'. read_socks5_host rd (uint atyp) s = (Inr h, s') \<and> ok s' \<and> stream s' = rest"
proof -
  from assms(3) consider "atyp = 1" "length f = 4" "h = ipv4_text (word_of_nat (from_be f))"
    | "atyp = 4" "length f = 16" "h = ipv6_text (word_of_nat (from_be f))"
    | l n where "atyp = 3" "f = l # n" "length n = unat l" "h = ascii_replace n"
    by (cases f) (auto simp: address_text_def split: if_splits)
  then show ?thesis
  proof cases
    case 1
    with rd_next [OF assms(1,2)] show ?thesis
      by (auto simp: read_socks5_host_def socks5_consts text_of_ipv4_def)
  next
    case 2
    with rd_next [OF assms(1,2)] show ?thesis
      by (auto simp: read_socks5_host_def socks5_consts text_of_ipv6_def)
  next
    case 3
    obtain t where t: "rd 1 s = (Inr [l], t)" "ok t" "stream t = n @ rest"
      using rd_prefix [of s "[l]" "n @ rest" 1] assms(1,2) 3(2) by auto
    obtain u where "rd (unat l) t = (Inr n, u)" "ok u" "stream u = rest"
      using rd_prefix [OF t(2,3) 3(3)] .
    with t 3 show ?thesis by (auto simp: read_socks5_host_def socks5_consts)
  qed
qed

lemma host_Inl:
  assumes "ok s" "read_socks5_host rd (uint atyp) s = (Inl e, s')"
  shows "exc e = ProtocolViolation \<or> is_a (exc e) OSError"
proof -
  from assms(2) consider
      n t where "rd n s = (Inl e, t)"
    | n f t where "rd n s = (Inr f, t)" "length f \<noteq> n"
    | l ls t u where "rd 1 s = (Inr (l # ls), t)" "rd (unat l) t = (Inl e, u)"
    | "exc e = ProtocolViolation"
    by (auto simp: read_socks5_host_def read_then_def text_of_ipv4_def text_of_ipv6_def
        split: if_splits prod.splits sum.splits list.splits)
  then show ?thesis
  proof cases
    case 3
    from rd_Inr [OF assms(1) 3(1)] 3(2) show ?thesis by (auto dest: rd_Inl)
  qed (auto dest: rd_Inl [OF assms(1)] rd_Inr [OF assms(1)])
qed

lemma reply_Inr:
  assumes "ok s" "read_socks5_reply rd s = (Inr r, s')"
  shows "\<exists>code rsv atyp f port. stream s = [5, code, rsv, atyp] @ f @ port @ stream s' \<and>
    address_text atyp f = Some (bound_host r) \<and> length port = 2 \<and>
    reply_code r = uint code \<and> bound_port r = int (from_be port) \<and> ok s'"
proof -
  from assms(2) obtain v code rsv atyp t h u port where
    1: "rd 4 s = (Inr [v, code, rsv, atyp], t)" and v: "v = 5"
    and 2: "read_socks5_host rd (uint atyp) t = (Inr h, u)" and 3: "rd 2 u = (Inr port, s')"
    and r: "r = \<lparr>reply_code = uint code, bound_host = h, bound_port = int (from_be port)\<rparr>"
    by (auto simp: read_socks5_reply_def read_then_def socks5_version_def uint_eq_iff
        split: if_splits prod.splits sum.splits list.splits)
  note a = rd_Inr [OF assms(1) 1]
  from host_Inr [OF a(3) 2] obtain f where
    f: "stream t = f @ stream u" "address_text atyp f = Some h" and u: "ok u" by blast
  note b = rd_Inr [OF u 3]
  from a b f v have "stream s = [5, code, rsv, atyp] @ f @ port @ stream s'" by simp
  with b f r show ?thesis by auto
qed

lemma reply_complete:
  assumes "ok s" "stream s = [5, code, rsv, atyp] @ f @ port @ rest"
    "address_text atyp f = Some h" "length port = 2"
  shows "\<exists>s'. read_socks5_reply rd s =
      (Inr \<lparr>reply_code = uint code, bound_host = h, bound_port = int (from_be port)\<rparr>, s') \<and>
    ok s' \<and> stream s' = rest"
proof -
  obtain t where t: "rd 4 s = (Inr [5, code, rsv, atyp], t)" "ok t" "stream t = f @ port @ rest"
    using rd_prefix [OF assms(1), of "[5, code, rsv, atyp]" "f @ port @ rest" 4] assms(2) by auto
  obtain u where u: "read_socks5_host rd (uint atyp) t = (Inr h, u)" "ok u"
      "stream u = port @ rest"
    using host_complete [OF t(2,3) assms(3)] by auto
  obtain w where "rd 2 u = (Inr port, w)" "ok w" "stream w = rest"
    using rd_next [OF u(2,3)] assms(4) by auto
  with t u show ?thesis by (simp add: read_socks5_reply_def socks5_version_def)
qed

lemma reply_Inl:
  assumes "ok s" "read_socks5_reply rd s = (Inl e, s')"
  shows "exc e = ProtocolViolation \<or> is_a (exc e) OSError"
proof (cases "rd 4 s")
  case (Pair r t)
  show ?thesis
  proof (cases r)
    case (Inl x)
    with Pair assms show ?thesis by (auto simp: read_socks5_reply_def dest: rd_Inl)
  next
    case (Inr h)
    with Pair assms(1) have t: "ok t" and "length h = 4" using rd_Inr [of s 4 h t] by auto
    then obtain v code rsv a where h: "h = [v, code, rsv, a]"
      by (auto simp: length_Suc_conv numeral_eq_Suc)
    obtain q u where q: "read_socks5_host rd (uint a) t = (q, u)" by fastforce
    show ?thesis
    proof (cases q)
      case (Inl y)
      with q have "exc y = ProtocolViolation \<or> is_a (exc y) OSError"
        using host_Inl [OF t] by simp
      with Inl q Pair Inr h assms(2) show ?thesis
        by (auto simp: read_socks5_reply_def split: if_splits)
    next
      case y: (Inr y)
      with q have "ok u" using host_Inr [OF t] by blast
      with y q Pair Inr h assms(2) show ?thesis
        by (cases "rd 2 u"; cases "fst (rd 2 u)")
          (auto simp: read_socks5_reply_def dest: rd_Inl split: if_splits)
    qed
  qed
qed

end

text \<open>A reader that leaves the rest of its state alone.\<close>

locale framed_reader = exact_reader +
  fixes kept :: "'a \<Rightarrow> 'k"
  assumes rd_kept: "rd n s = (r, s') \<Longrightarrow> kept s' = kept s"
begin

lemma head_from_kept: "ok s \<Longrightarrow> read_head_from rd buf s = (r, s') \<Longrightarrow> kept s' = kept s"
proof (induction "length (stream s)" arbitrary: buf s rule: less_induct)
  case less
  from less.prems(2) consider
      "s' = s"
    | t x where "rd 1 s = (x, t)" "t = s'"
    | c t where "rd 1 s = (Inr c, t)" "read_head_from rd (buf @ c) t = (r, s')"
    by (auto simp: read_head_from.simps [of rd buf s] split: prod.splits sum.splits if_splits)
  then show ?case
  proof cases
    case 3
    note q = rd_Inr [OF less.prems(1) 3(1)]
    then have "length (stream t) < length (stream s)" by simp
    from less.hyps [OF this q(3) 3(2)] rd_kept [OF 3(1)] show ?thesis by simp
  qed (auto dest: rd_kept)
qed

lemma head_kept: "ok s \<Longrightarrow> read_http_response_head rd s = (r, s') \<Longrightarrow> kept s' = kept s"
  by (simp add: read_http_response_head_def head_from_kept)

lemma host_kept: "read_socks5_host rd atyp s = (r, s') \<Longrightarrow> kept s' = kept s"
  by (auto simp: read_socks5_host_def read_then_def dest!: rd_kept
      split: if_splits prod.splits sum.splits list.splits)

lemma reply_kept: "read_socks5_reply rd s = (r, s') \<Longrightarrow> kept s' = kept s"
  by (auto simp: read_socks5_reply_def read_then_def dest!: rd_kept host_kept
      split: if_splits prod.splits sum.splits list.splits)

end

text \<open>What a CONNECT request says about the host is what a reader of the same field gets back.\<close>

lemma address_text_encode:
  assumes "encode_socks5_address idna host port = Inr bs" "is_ascii host"
  shows "\<exists>atyp f. bs = atyp # f @ to_be 2 (nat port) \<and> 0 \<le> port \<and> port < 65536 \<and>
    address_text atyp f =
      Some (case ip_address host of Some (V6 w _) \<Rightarrow> ipv6_text w | _ \<Rightarrow> host)"
proof -
  from assms(1) obtain head where bs: "bs = head @ to_be 2 (nat port)" and p: "0 \<le> port" "port < 65536"
    and h: "(case ip_address host of
          None \<Rightarrow>
            rbind (if \<not> is_ascii host then idna host else ascii_encode host) (\<lambda>encoded.
              if \<not> (1 \<le> length encoded \<and> length encoded \<le> 255)
              then raise_exc ConfigurationError ''SOCKS5 domain names must be 1-255 bytes''
              else rbind (py_bytes [atyp_domainname, int (length encoded)]) (\<lambda>h. Inr (h @ encoded)))
        | Some address \<Rightarrow>
            if ip_version address = 4
            then rbind (py_bytes [atyp_ipv4]) (\<lambda>h. Inr (h @ ip_packed address))
            else rbind (py_bytes [atyp_ipv6]) (\<lambda>h. Inr (h @ ip_packed address))) = Inr head"
    by (auto simp: encode_socks5_address_def port_bytes_def rbind_Inr_iff split: if_splits)
  show ?thesis
  proof (cases "ip_address host")
    case None
    with h assms(2) have "head = 3 # word_of_nat (length host) # utf8_encode host" "host \<noteq> []"
        "length host \<le> 255"
      by (auto simp: ascii_encode_def py_bytes_def socks5_consts split: if_splits)
    then have "address_text 3 (tl head) = Some host" "head = 3 # tl head"
      using assms(2) by (simp_all add: address_text_def ascii_replace_encode unat_of_nat)
    with None bs p show ?thesis by (intro exI [of _ 3] exI [of _ "tl head"]) auto
  next
    case (Some a)
    show ?thesis
    proof (cases a)
      case (V4 w)
      with Some h have "head = 1 # to_be 4 (unat w)"
        by (auto simp: py_bytes_def socks5_consts)
      moreover have "ipv4_text w = host"
        using Some V4 by (auto simp: ip_address_def parse_ipv6_def dest: parse_ipv4_text
            split: option.splits if_splits prod.splits bool.splits)
      ultimately show ?thesis using V4 Some bs p unsigned_less [of w, where 'a = nat]
        by (intro exI [of _ 1] exI [of _ "tl head"]) (simp add: address_text_def from_be_to_be)
    next
      case (V6 w sc)
      with Some h have "head = 4 # to_be 16 (unat w)"
        by (auto simp: py_bytes_def socks5_consts)
      then show ?thesis using V6 Some bs p unsigned_less [of w, where 'a = nat]
        by (intro exI [of _ 4] exI [of _ "tl head"]) (simp add: address_text_def from_be_to_be)
    qed
  qed
qed

section \<open>Reading a head ends\<close>

text \<open>A reader that counts its calls beside the connection.\<close>

definition counting :: "('s, 'd) reader \<Rightarrow> ('s \<times> nat, 'd) reader" where
  "counting rd n x = (case x of (s, k) \<Rightarrow> (case rd n s of (r, s') \<Rightarrow> (r, s', Suc k)))"

lemma counted_head:
  assumes "length buf \<le> 64 * 1024"
  shows "\<exists>r s' k'. read_head_from rd buf s = (r, s') \<and> read_head_from (counting rd) buf (s, k) = (r, s', k') \<and>
    k' + length buf \<le> k + 64 * 1024 + 1 \<and> length (case r of Inl e \<Rightarrow> [] | Inr h \<Rightarrow> h) \<le> 64 * 1024"
  using assms
proof (induction rd buf s arbitrary: k rule: read_head_from.induct)
  case (1 rd buf s)
  show ?case
  proof (cases "contains header_terminator buf")
    case True
    with 1(2) show ?thesis by (simp add: read_head_from.simps)
  next
    case False
    obtain x t where rd: "rd 1 s = (x, t)" by fastforce
    then have c: "counting rd 1 (s, k) = (x, t, Suc k)" by (simp add: counting_def)
    show ?thesis
    proof (cases "\<exists>chunk. x = Inr chunk \<and> chunk \<noteq> [] \<and> length (buf @ chunk) \<le> 64 * 1024")
      case True
      then obtain chunk where x: "x = Inr chunk" "chunk \<noteq> []" "length (buf @ chunk) \<le> 64 * 1024" by blast
      have step: "read_head_from rd buf s = read_head_from rd (buf @ chunk) t"
        "read_head_from (counting rd) buf (s, k) = read_head_from (counting rd) (buf @ chunk) (t, Suc k)"
        using False rd c x by (simp_all add: read_head_from.simps [of _ buf] not_less)
      obtain r s' k' where r: "read_head_from rd (buf @ chunk) t = (r, s')"
        "read_head_from (counting rd) (buf @ chunk) (t, Suc k) = (r, s', k')"
        "k' + length (buf @ chunk) \<le> Suc k + 64 * 1024 + 1"
        "length (case r of Inl e \<Rightarrow> [] | Inr h \<Rightarrow> h) \<le> 64 * 1024"
        using "1.IH" [OF False rd [symmetric] x(1,2) _ x(3), of "Suc k"] x(3) by auto
      have "0 < length chunk" using x(2) by simp
      then have "k' + length buf \<le> k + 64 * 1024 + 1" using r(3) unfolding length_append by linarith
      with r(1,2,4) show ?thesis unfolding step by blast
    next
      case nomore: False
      with False rd c 1(2) show ?thesis
        by (cases x) (auto simp: read_head_from.simps [of _ buf])
    qed
  qed
qed

text \<open>C23: reading a response head ends against every peer. Whatever the proxy sends and however the network
  cuts it, at most 65537 reads are made before the reader returns a head of at most 64 KiB or an
  error; counting the reads changes nothing.\<close>

theorem head_read_ends:
  "\<exists>r s' k. read_http_response_head (counting rd) (s, 0) = (r, s', k) \<and>
     read_http_response_head rd s = (r, s') \<and> k \<le> 65537 \<and>
     length (case r of Inl e \<Rightarrow> [] | Inr h \<Rightarrow> h) \<le> 65536"
  using counted_head [of "[]" rd s 0] by (fastforce simp: read_http_response_head_def)

end
