(* ===== verification/Proxy.thy ===== *)
theory Proxy
  imports Tunnel
begin

text \<open>
  The client instance of a proxy test: \<open>src/proxy/config.py\<close> (modes and addresses),
  \<open>src/proxy/handshakes.py\<close> (one tunnel strategy per mode) and \<open>src/proxy/client.py\<close> (the
  socket's lifecycle and the relay operations). The operating system's socket is modelled by what
  it will deliver to \<open>recv\<close>, in the order and the pieces in which it does, and by what was sent
  on it. The module's own \<open>read(n)\<close> is shown to satisfy the contract that \<open>Tunnel.thy\<close> asks of it.
\<close>

section \<open>Modes and addresses\<close>

definition default_backend_port :: int where "default_backend_port = 9099"
definition recv_chunk :: nat where "recv_chunk = 65536"

datatype proxy_mode = Transparent | HttpConnect | Socks5

fun mode_value :: "proxy_mode \<Rightarrow> string" where
  "mode_value Transparent = ''transparent''"
| "mode_value HttpConnect = ''http-connect''"
| "mode_value Socks5 = ''socks5''"

definition is_explicit :: "proxy_mode \<Rightarrow> bool" where
  "is_explicit m \<longleftrightarrow> m \<noteq> Transparent"

record proxy_config =
  mode :: proxy_mode
  backend_host :: string
  backend_port :: int
  proxy_host :: "string option"
  proxy_port :: "int option"
  proxy_timeout :: rat
  username :: "string option"
  password :: "string option"

text \<open>The constructor, with the check of \<open>__post_init__\<close>.\<close>

definition post_init :: "proxy_config \<Rightarrow> 'd exn + proxy_config" where
  "post_init c =
     (if is_explicit (mode c) \<and>
         \<not> (truthy (proxy_host c) \<and> proxy_port c \<noteq> None \<and> proxy_port c \<noteq> Some 0)
      then raise_exc ConfigurationError
        (mode_value (mode c) @ '' is an explicit proxy mode and needs '' @
         ''proxy_host and proxy_port (the DUT's front address).'')
      else Inr c)"

definition dial_target :: "proxy_config \<Rightarrow> 'd exn + string \<times> int" where
  "dial_target c =
     (if is_explicit (mode c) then
        (case (proxy_host c, proxy_port c) of
           (Some h, Some p) \<Rightarrow> Inr (h, p)
         | _ \<Rightarrow> raise_exc AssertionError '''')
      else Inr (backend_host c, backend_port c))"

definition origin :: "proxy_config \<Rightarrow> string \<times> int" where
  "origin c = (backend_host c, backend_port c)"

section \<open>What a handshake reports\<close>

datatype dut_details =
    HttpDetails http_response
  | SocksDetails int socks5_reply
  | SocksAuthFailure int string

type_synonym perror = "dut_details exn"

section \<open>The socket\<close>

text \<open>
  \<open>inbox\<close> holds what successive \<open>recv\<close> calls meet: a piece of data (never empty), the peer's
  close, a read timeout or an error. Nothing left means nothing more arrives, a timeout.
  \<open>send_script\<close> says which of the next \<open>sendall\<close> calls fail, and \<open>close_fault\<close> whether
  \<open>close\<close> does.
\<close>

datatype recv_event =
    Chunk bytes
  | PeerEof
  | RecvTimeout
  | RecvError exc_class string

record sock =
  inbox :: "recv_event list"
  outbox :: bytes
  send_script :: "perror option list"
  wr_shut :: bool
  closed :: bool
  close_fault :: "perror option"

definition sock_recv :: "nat \<Rightarrow> sock \<Rightarrow> (perror + bytes) \<times> sock" where
  "sock_recv n s =
     (if closed s then (raise_exc OSError ''Bad file descriptor'', s)
      else case inbox s of
        [] \<Rightarrow> (raise_exc TimeoutError ''timed out'', s)
      | Chunk c # rest \<Rightarrow>
          (if length c \<le> n then (Inr c, s\<lparr>inbox := rest\<rparr>)
           else (Inr (take n c), s\<lparr>inbox := Chunk (drop n c) # rest\<rparr>))
      | PeerEof # rest \<Rightarrow> (Inr [], s)
      | RecvTimeout # rest \<Rightarrow> (raise_exc TimeoutError ''timed out'', s\<lparr>inbox := rest\<rparr>)
      | RecvError c m # rest \<Rightarrow> (raise_exc c m, s\<lparr>inbox := rest\<rparr>))"

definition sock_sendall :: "bytes \<Rightarrow> sock \<Rightarrow> (perror + unit) \<times> sock" where
  "sock_sendall bs s =
     (if closed s then (raise_exc OSError ''Bad file descriptor'', s)
      else if wr_shut s then (raise_exc ConnectionError ''Broken pipe'', s)
      else case send_script s of
        Some e # rest \<Rightarrow> (Inl e, s\<lparr>send_script := rest\<rparr>)
      | _ \<Rightarrow> (Inr (), s\<lparr>outbox := outbox s @ bs, send_script := tl (send_script s)\<rparr>))"

definition sock_shutdown_wr :: "sock \<Rightarrow> (perror + unit) \<times> sock" where
  "sock_shutdown_wr s =
     (if closed s then (raise_exc OSError ''Bad file descriptor'', s)
      else (Inr (), s\<lparr>wr_shut := True\<rparr>))"

text \<open>\<open>ProxyClient._recv_exact\<close>: the loop runs until \<open>count\<close> bytes are there.\<close>

function recv_loop :: "nat \<Rightarrow> bytes \<Rightarrow> sock \<Rightarrow> (perror + bytes) \<times> sock" where
  "recv_loop count buffer s =
     (if \<not> length buffer < count then (Inr buffer, s)
      else case sock_recv (count - length buffer) s of
        (Inl e, s') \<Rightarrow> (Inl e, s')
      | (Inr chunk, s') \<Rightarrow>
          if chunk = [] then
            (raise_exc PeerClosedEarly
               (''connection closed after '' @ dec (length buffer) @ '' of '' @ dec count @
                '' expected bytes''), s')
          else recv_loop count (buffer @ chunk) s')"
  by pat_completeness auto
termination
proof (relation "measure (\<lambda>(count, buffer, s). count - length buffer)", simp, goal_cases)
  case (1 count buffer s x s' chunk)
  have "n - (a + c) < n - a" if "0 < c" "a < n" for a c n :: nat
    using that by linarith
  from this [of "length chunk" "length buffer" count] 1 show ?case by simp
qed

declare recv_loop.simps [simp del]

definition recv_exact_sock :: "nat \<Rightarrow> sock \<Rightarrow> (perror + bytes) \<times> sock" where
  "recv_exact_sock count s = recv_loop count [] s"

section \<open>Handshakes\<close>

definition connect_hints :: "(int \<times> string) list" where
  "connect_hints =
     [(403, ''the proxy's ruleset forbids this origin''),
      (405, ''the DUT does not implement the CONNECT method (RFC 9110 '' @ sect @ ''9.3.6)''),
      (407, ''the proxy requires authentication (RFC 9110 '' @ sect @ ''11.7); no HTTP proxy '' @
            ''credentials are configured''),
      (502, ''the proxy could not reach the origin '' @ em_dash @
            '' is the backend instance running?''),
      (504, ''the proxy timed out reaching the origin'')]"

definition lift_sock :: "(perror + 'a) \<Rightarrow> sock \<Rightarrow> (perror + 'a) \<times> sock" where
  "lift_sock r s = (r, s)"

definition establish_http :: "string \<times> int \<Rightarrow> sock \<Rightarrow> (perror + dut_details option) \<times> sock" where
  "establish_http orig s =
     (case orig of (host, port) \<Rightarrow>
        read_then (lift_sock (build_http_connect_request host port []) s) (\<lambda>request s.
        read_then (sock_sendall request s) (\<lambda>_ s.
        read_then (read_http_response_head recv_exact_sock s) (\<lambda>head s.
        read_then (lift_sock (parse_http_connect_response head) s) (\<lambda>response s.
          if \<not> tunnel_established response then
            let message = strip (''CONNECT '' @ format_authority host port @ '' was refused: '' @
                                 idec (status response) @ '' '' @ reason response)
            in (Inl (tunnel_error
                  (case map_of connect_hints (status response) of
                     Some hint \<Rightarrow> message @ '' '' @ em_dash @ '' '' @ hint
                   | None \<Rightarrow> message)
                  (Some (HttpDetails response))), s)
          else (Inr (Some (HttpDetails response)), s))))))"

definition negotiate ::
  "string option \<Rightarrow> string option \<Rightarrow> sock \<Rightarrow> (perror + int) \<times> sock" where
  "negotiate user secret s =
     (let methods = [auth_none] @ (if user \<noteq> None then [auth_username_password] else [])
      in read_then (lift_sock (build_socks5_greeting methods) s) (\<lambda>greeting s.
         read_then (sock_sendall greeting s) (\<lambda>_ s.
         read_then (recv_exact_sock 2 s) (\<lambda>raw s.
         read_then (lift_sock (parse_socks5_method_selection raw) s) (\<lambda>method s.
           if method = auth_no_acceptable then
             (Inl (tunnel_error
                ''SOCKS5 proxy rejected every offered authentication method (0xFF)''
                (Some (SocksAuthFailure method ''method-selection''))), s)
           else if method = auth_username_password then
             (case (user, secret) of
                (Some u, Some p) \<Rightarrow>
                  read_then (lift_sock (build_socks5_userpass_auth u p) s) (\<lambda>auth s.
                  read_then (sock_sendall auth s) (\<lambda>_ s.
                  read_then (recv_exact_sock 2 s) (\<lambda>raw s.
                  read_then (lift_sock (parse_socks5_userpass_result raw) s) (\<lambda>accepted s.
                    if \<not> accepted then
                      (Inl (tunnel_error
                         ''SOCKS5 username/password authentication failed (RFC 1929)''
                         (Some (SocksAuthFailure method ''userpass''))), s)
                    else (Inr method, s)))))
              | _ \<Rightarrow>
                  (Inl (tunnel_error
                     (''SOCKS5 proxy selected username/password auth but no '' @
                      ''credentials were configured'')
                     (Some (SocksAuthFailure method ''method-selection''))), s))
           else if method \<noteq> auth_none then
             (Inl (tunnel_error
                (''SOCKS5 proxy selected unsupported method 0x'' @ hex2 (nat method))
                (Some (SocksAuthFailure method ''method-selection''))), s)
           else (Inr method, s))))))"

definition establish_socks5 ::
  "(string \<Rightarrow> perror + bytes) \<Rightarrow> string option \<Rightarrow> string option \<Rightarrow> string \<times> int \<Rightarrow> sock \<Rightarrow>
   (perror + dut_details option) \<times> sock" where
  "establish_socks5 idna user secret orig s =
     read_then (negotiate user secret s) (\<lambda>method s.
       case orig of (host, port) \<Rightarrow>
         read_then (lift_sock (build_socks5_request idna host port cmd_connect) s) (\<lambda>request s.
         read_then (sock_sendall request s) (\<lambda>_ s.
         read_then (read_socks5_reply recv_exact_sock s) (\<lambda>reply s.
           if \<not> succeeded reply then
             (Inl (tunnel_error
                (''SOCKS5 CONNECT to '' @ host @ '':'' @ idec port @ '' failed: 0x'' @
                 hex2 (nat (reply_code reply)) @ '' ('' @ reply_message reply @ '')'')
                (Some (SocksDetails method reply))), s)
           else (Inr (Some (SocksDetails method reply)), s)))))"

text \<open>\<open>for_config(config).establish(sock, read, origin)\<close>.\<close>

definition establish ::
  "(string \<Rightarrow> perror + bytes) \<Rightarrow> proxy_config \<Rightarrow> sock \<Rightarrow> (perror + dut_details option) \<times> sock" where
  "establish idna c s =
     (case mode c of
        Transparent \<Rightarrow> (Inr None, s)
      | HttpConnect \<Rightarrow> establish_http (origin c) s
      | Socks5 \<Rightarrow> establish_socks5 idna (username c) (password c) (origin c) s)"

section \<open>The client\<close>

text \<open>\<open>released\<close> records the sockets on which \<open>close\<close> was called.\<close>

record client =
  client_config :: proxy_config
  client_details :: "dut_details option"
  client_sock :: "sock option"
  released :: "sock list"

definition new_client :: "proxy_config \<Rightarrow> client" where
  "new_client c = \<lparr>client_config = c, client_details = None, client_sock = None, released = []\<rparr>"

definition close_client :: "client \<Rightarrow> (perror + unit) \<times> client" where
  "close_client cl =
     (case client_sock cl of
        None \<Rightarrow> (Inr (), cl)
      | Some s \<Rightarrow>
          ((case close_fault s of Some e \<Rightarrow> Inl e | None \<Rightarrow> Inr ()),
           cl\<lparr>client_sock := None, released := released cl @ [s\<lparr>closed := True\<rparr>]\<rparr>))"

text \<open>\<open>socket.create_connection\<close> is the argument \<open>dial\<close>: an error, or a connected socket.\<close>

definition connect_client ::
  "(string \<Rightarrow> perror + bytes) \<Rightarrow> (string \<times> int \<Rightarrow> rat \<Rightarrow> perror + sock) \<Rightarrow> client \<Rightarrow>
   (perror + unit) \<times> client" where
  "connect_client idna dial cl =
     (case dial_target (client_config cl) of
        Inl e \<Rightarrow> (Inl e, cl)
      | Inr target \<Rightarrow>
          (case dial target (proxy_timeout (client_config cl)) of
             Inl e \<Rightarrow> (Inl e, cl)
           | Inr s0 \<Rightarrow>
               (case establish idna (client_config cl) s0 of
                  (Inr report, s) \<Rightarrow>
                    (Inr (), cl\<lparr>client_sock := Some s, client_details := report\<rparr>)
                | (Inl e, s) \<Rightarrow>
                    (case close_client
                            (cl\<lparr>client_sock := Some s, client_details := details e\<rparr>) of
                       (Inl e', cl') \<Rightarrow> (Inl e', cl')
                     | (Inr _, cl') \<Rightarrow> (Inl e, cl')))))"

text \<open>The \<open>socket\<close> property, and an operation on the socket it returns.\<close>

definition on_socket ::
  "(sock \<Rightarrow> (perror + 'a) \<times> sock) \<Rightarrow> client \<Rightarrow> (perror + 'a) \<times> client" where
  "on_socket f cl =
     (case client_sock cl of
        None \<Rightarrow>
          (raise_exc RuntimeError ''ProxyClient is not connected; call connect() first'', cl)
      | Some s \<Rightarrow> (case f s of (r, s') \<Rightarrow> (r, cl\<lparr>client_sock := Some s'\<rparr>)))"

definition send :: "bytes \<Rightarrow> client \<Rightarrow> (perror + unit) \<times> client" where
  "send payload = on_socket (sock_sendall payload)"

definition recv_exact :: "nat \<Rightarrow> client \<Rightarrow> (perror + bytes) \<times> client" where
  "recv_exact count cl =
     (if count = 0 then (Inr [], cl) else on_socket (recv_exact_sock count) cl)"

definition roundtrip :: "bytes \<Rightarrow> client \<Rightarrow> (perror + bytes) \<times> client" where
  "roundtrip payload cl =
     read_then (send payload cl) (\<lambda>_ cl. recv_exact (length payload) cl)"

definition half_close :: "client \<Rightarrow> (perror + unit) \<times> client" where
  "half_close = on_socket sock_shutdown_wr"

text \<open>\<open>frepr\<close> is the text of a float.\<close>

function eof_loop ::
  "(rat \<Rightarrow> string) \<Rightarrow> rat \<Rightarrow> nat \<Rightarrow> bytes \<Rightarrow> sock \<Rightarrow> (perror + bytes) \<times> sock" where
  "eof_loop frepr tmo limit buffer s =
     (if \<not> length buffer < limit then (Inr buffer, s)
      else case sock_recv recv_chunk s of
        (Inl e, s') \<Rightarrow>
          (if is_a (exc e) TimeoutError
           then (raise_exc ProtocolViolation
                   (''no EOF within '' @ frepr tmo @ ''s after '' @ dec (length buffer) @ '' '' @
                    ''byte(s) '' @ em_dash @ '' the DUT did not propagate the peer's close '' @
                    ''(RFC 9293 '' @ sect @ ''3.6)''), s')
           else (Inl e, s'))
      | (Inr chunk, s') \<Rightarrow>
          if chunk = [] then (Inr buffer, s')
          else eof_loop frepr tmo limit (buffer @ chunk) s')"
  by pat_completeness auto
termination
proof (relation "measure (\<lambda>(_, _, limit, buffer, s). limit - length buffer)", simp, goal_cases)
  case (1 frepr tmo limit buffer s x s' chunk)
  have "n - (a + c) < n - a" if "0 < c" "a < n" for a c n :: nat
    using that by linarith
  from this [of "length chunk" "length buffer" limit] 1 show ?case by simp
qed

declare eof_loop.simps [simp del]

definition read_until_eof ::
  "(rat \<Rightarrow> string) \<Rightarrow> nat \<Rightarrow> client \<Rightarrow> (perror + bytes) \<times> client" where
  "read_until_eof frepr limit cl =
     (if limit = 0 then (Inr [], cl)
      else on_socket (eof_loop frepr (proxy_timeout (client_config cl)) limit []) cl)"

section \<open>What the socket delivers\<close>

text \<open>The bytes that will arrive before a close, a timeout or an error does.\<close>

fun pending :: "recv_event list \<Rightarrow> bytes" where
  "pending (Chunk c # es) = c @ pending es"
| "pending _ = []"

fun wf_event :: "recv_event \<Rightarrow> bool" where
  "wf_event (Chunk c) \<longleftrightarrow> c \<noteq> []"
| "wf_event (RecvError c m) \<longleftrightarrow> is_a c OSError"
| "wf_event _ \<longleftrightarrow> True"

definition sock_stream :: "sock \<Rightarrow> bytes" where
  "sock_stream s = pending (inbox s)"

definition sock_ok :: "sock \<Rightarrow> bool" where
  "sock_ok s \<longleftrightarrow> \<not> closed s \<and> list_all wf_event (inbox s)"

lemma os_errors [simp]:
  "is_a TimeoutError OSError" "is_a PeerClosedEarly OSError" "is_a ConnectionError OSError"
  by (simp_all add: is_a_def ancestors_eval)

lemma recv_Inr:
  assumes "sock_ok s" "sock_recv n s = (Inr c, s')" "c \<noteq> []"
  shows "sock_stream s = c @ sock_stream s'" "length c \<le> n" "sock_ok s'"
    "s' = s\<lparr>inbox := inbox s'\<rparr>"
  using assms
  by (auto simp: sock_recv_def sock_stream_def sock_ok_def split: list.splits recv_event.splits if_splits)

lemma recv_Nil:
  assumes "sock_ok s" "sock_recv n s = (Inr [], s')" "0 < n"
  shows "s' = s" "\<exists>es. inbox s = PeerEof # es"
  using assms
  by (auto simp: sock_recv_def sock_ok_def split: list.splits recv_event.splits if_splits)

lemma recv_Inl:
  assumes "sock_ok s" "sock_recv n s = (Inl e, s')"
  shows "is_a (exc e) OSError" "sock_stream s = []" "s' = s\<lparr>inbox := inbox s'\<rparr>"
  using assms
  by (auto simp: sock_recv_def sock_stream_def sock_ok_def split: list.splits recv_event.splits if_splits)

lemma recv_some:
  assumes "sock_ok s" "sock_stream s \<noteq> []" "0 < n"
  shows "\<exists>c s'. sock_recv n s = (Inr c, s') \<and> c \<noteq> []"
  using assms
  by (auto simp: sock_recv_def sock_stream_def sock_ok_def split: list.splits recv_event.splits if_splits)

text \<open>However the kernel cuts the stream up, the loop gathers the next \<open>count\<close> bytes of it.\<close>

lemma recv_loop_enough:
  "sock_ok s \<Longrightarrow> length buf \<le> n \<Longrightarrow> n - length buf \<le> length (sock_stream s) \<Longrightarrow>
   \<exists>s'. recv_loop n buf s = (Inr (buf @ take (n - length buf) (sock_stream s)), s') \<and>
     sock_ok s' \<and> sock_stream s' = drop (n - length buf) (sock_stream s) \<and>
     s' = s\<lparr>inbox := inbox s'\<rparr>"
proof (induction "n - length buf" arbitrary: buf s rule: less_induct)
  case less
  show ?case
  proof (cases "length buf < n")
    case False
    with less.prems show ?thesis by (subst recv_loop.simps) simp
  next
    case True
    with less.prems obtain c t where c: "sock_recv (n - length buf) s = (Inr c, t)" "c \<noteq> []"
      using recv_some [of s "n - length buf"] by fastforce
    note r = recv_Inr [OF less.prems(1) c]
    have small: "n - length (buf @ c) < n - length buf"
      using True c(2) r(2) by (simp add: diff_less_mono2)
    have "length (buf @ c) \<le> n" "n - length (buf @ c) \<le> length (sock_stream t)"
      using True r(1,2) less.prems(3) by auto
    from less.hyps [OF small r(3) this] obtain u where
      u: "recv_loop n (buf @ c) t = (Inr ((buf @ c) @ take (n - length (buf @ c)) (sock_stream t)), u)"
        "sock_ok u" "sock_stream u = drop (n - length (buf @ c)) (sock_stream t)"
        "u = t\<lparr>inbox := inbox u\<rparr>" by blast
    have step: "recv_loop n buf s = recv_loop n (buf @ c) t"
      using True c by (subst recv_loop.simps) simp
    have "u = s\<lparr>inbox := inbox u\<rparr>" using u(4) r(4)
      by (cases s; cases t; cases u) simp
    moreover have "c @ take (n - length (buf @ c)) (sock_stream t) = take (n - length buf) (sock_stream s)"
      "drop (n - length (buf @ c)) (sock_stream t) = drop (n - length buf) (sock_stream s)"
      using r(1,2) by simp_all
    ultimately show ?thesis using step u by auto
  qed
qed

lemma recv_loop_short:
  "sock_ok s \<Longrightarrow> length (sock_stream s) < n - length buf \<Longrightarrow>
   \<exists>e s'. recv_loop n buf s = (Inl e, s') \<and> is_a (exc e) OSError"
proof (induction "n - length buf" arbitrary: buf s rule: less_induct)
  case less
  from less.prems have n: "length buf < n" by simp
  show ?case
  proof (cases "sock_recv (n - length buf) s")
    case (Pair x t)
    show ?thesis
    proof (cases x)
      case (Inl e)
      with Pair n recv_Inl [OF less.prems(1)] show ?thesis by (subst recv_loop.simps) auto
    next
      case (Inr c)
      show ?thesis
      proof (cases "c = []")
        case True
        with Pair Inr n show ?thesis by (subst recv_loop.simps) simp
      next
        case False
        note r = recv_Inr [OF less.prems(1) Pair [unfolded Inr] False]
        have "n - length (buf @ c) < n - length buf"
          using n False r(2) by (simp add: diff_less_mono2)
        moreover have "length (sock_stream t) < n - length (buf @ c)"
          using less.prems(2) r(1,2) by simp
        ultimately have "\<exists>e s'. recv_loop n (buf @ c) t = (Inl e, s') \<and> is_a (exc e) OSError"
          using less.hyps r(3) by blast
        moreover have "recv_loop n buf s = recv_loop n (buf @ c) t"
          using n Pair Inr False by (subst recv_loop.simps) simp
        ultimately show ?thesis by simp
      qed
    qed
  qed
qed

text \<open>What receiving leaves alone.\<close>

definition sent_state :: "sock \<Rightarrow> bytes \<times> perror option list \<times> bool \<times> bool" where
  "sent_state s = (outbox s, send_script s, wr_shut s, closed s)"

lemma sock_recv_kept: "sock_recv n s = (r, s') \<Longrightarrow> sent_state s' = sent_state s"
  by (auto simp: sock_recv_def sent_state_def split: list.splits recv_event.splits if_splits)

lemma recv_loop_kept: "recv_loop n buf s = (r, s') \<Longrightarrow> sent_state s' = sent_state s"
proof (induction n buf s arbitrary: r s' rule: recv_loop.induct)
  case (1 n buf s)
  show ?case
  proof (cases "length buf < n")
    case False
    with "1.prems" show ?thesis by (simp add: recv_loop.simps)
  next
    case True
    obtain x t where t: "sock_recv (n - length buf) s = (x, t)" by fastforce
    note k = sock_recv_kept [OF t]
    show ?thesis
    proof (cases "\<exists>c. x = Inr c \<and> c \<noteq> []")
      case False
      with "1.prems" t True k show ?thesis
        by (auto simp: recv_loop.simps [of n buf s] split: sum.splits if_splits)
    next
      case go: True
      then obtain c where c: "x = Inr c" "c \<noteq> []" by blast
      with "1.prems" t True have "recv_loop n (buf @ c) t = (r, s')"
        by (simp add: recv_loop.simps [of n buf s])
      with "1.IH" [of x t c] True t c k show ?thesis by simp
    qed
  qed
qed

interpretation rx: framed_reader recv_exact_sock sock_stream sock_ok sent_state
proof unfold_locales
  fix s :: sock and n
  assume "sock_ok s" "n \<le> length (sock_stream s)"
  then show "\<exists>s'. recv_exact_sock n s = (Inr (take n (sock_stream s)), s') \<and> sock_ok s' \<and>
      sock_stream s' = drop n (sock_stream s)"
    using recv_loop_enough [of s "[]" n] by (auto simp: recv_exact_sock_def)
next
  fix s :: sock and n :: nat
  assume "sock_ok s" "length (sock_stream s) < n"
  then show "\<exists>e s'. recv_exact_sock n s = (Inl e, s') \<and> is_a (exc e) OSError"
    using recv_loop_short [of s n "[]"] by (auto simp: recv_exact_sock_def)
next
  fix n s r s'
  assume "recv_exact_sock n s = (r, s')"
  then show "sent_state s' = sent_state s"
    by (auto simp: recv_exact_sock_def dest: recv_loop_kept)
qed

section \<open>Properties of the client\<close>

text \<open>C2: whatever goes wrong while connecting, the client holds no socket afterwards. Either none
  was opened (the configuration names no target, or dialling failed), or the handshake over the
  opened one failed, its report was kept as the client's details, and the socket was closed.\<close>

theorem connect_failure_releases_socket:
  assumes "connect_client idna dial cl = (Inl e, cl')" "client_sock cl = None"
  shows "client_sock cl' = None \<and>
    (released cl' = released cl \<and>
       ((\<exists>e'. dial_target (client_config cl) = (Inl e' :: perror + _)) \<or>
        (\<exists>t. dial_target (client_config cl) = (Inr t :: perror + _) \<and>
             dial t (proxy_timeout (client_config cl)) = Inl e)) \<or>
     (\<exists>t s0 e0 s. dial_target (client_config cl) = (Inr t :: perror + _) \<and>
        dial t (proxy_timeout (client_config cl)) = Inr s0 \<and>
        establish idna (client_config cl) s0 = (Inl e0, s) \<and> client_details cl' = details e0 \<and>
        released cl' = released cl @ [s\<lparr>closed := True\<rparr>]))"
  using assms
  by (auto simp: connect_client_def close_client_def split: sum.splits prod.splits option.splits)

definition demo_config :: "proxy_mode \<Rightarrow> proxy_config" where
  "demo_config m =
     \<lparr>mode = m, backend_host = ''192.0.2.7'', backend_port = 9099, proxy_host = Some ''10.0.0.1'',
      proxy_port = Some 1080, proxy_timeout = 5, username = None, password = None\<rparr>"

definition demo_sock :: "recv_event list \<Rightarrow> sock" where
  "demo_sock es = \<lparr>inbox = es, outbox = [], send_script = [], wr_shut = False, closed = False,
     close_fault = None\<rparr>"

definition demo_idna :: "string \<Rightarrow> perror + bytes" where
  "demo_idna h = raise_exc UnicodeEncodeError h"

lemma connect_failure_releases_socket_witness:
  "\<exists>e cl'. connect_client demo_idna (\<lambda>_ _. Inr (demo_sock [Chunk [5], Chunk [255]]))
      (new_client (demo_config Socks5)) = (Inl e, cl') \<and> client_sock cl' = None"
proof -
  have "isl (fst (connect_client demo_idna (\<lambda>_ _. Inr (demo_sock [Chunk [5], Chunk [255]]))
      (new_client (demo_config Socks5))))" by code_simp
  moreover have "client_sock (new_client (demo_config Socks5)) = None" by code_simp
  ultimately show ?thesis using connect_failure_releases_socket by (blast dest: raised_pair)
qed

lemma read_then_Inr_iff:
  "read_then r f = (Inr y, s') \<longleftrightarrow> (\<exists>x s. r = (Inr x, s) \<and> f x s = (Inr y, s'))"
  by (cases r; cases "fst r") auto

lemma sendall_Inr:
  assumes "sock_sendall bs s = (Inr u, s')"
  shows "outbox s' = outbox s @ bs" "inbox s' = inbox s" "closed s' = closed s"
  using assms by (auto simp: sock_sendall_def split: if_splits list.splits option.splits)

lemma sendall_ok: "sock_sendall bs s = (Inr u, s') \<Longrightarrow> sock_ok s' = sock_ok s"
  by (auto simp: sock_ok_def sendall_Inr)

lemma sendall_stream: "sock_sendall bs s = (Inr u, s') \<Longrightarrow> sock_stream s' = sock_stream s"
  by (auto simp: sock_stream_def sendall_Inr)

lemma sent_state_outbox: "sent_state s' = sent_state s \<Longrightarrow> outbox s' = outbox s"
  by (simp add: sent_state_def)

text \<open>C24: a CONNECT handshake that succeeds sent exactly the request for the origin and consumed
  exactly the response head: the bytes up to and including the first empty line, whose status is a
  2xx. What follows it in the stream is untouched and is the tunnel's.\<close>

theorem http_handshake_exact:
  assumes "establish_http (host, port) s = (Inr r, s')" "sock_ok s"
  shows "\<exists>request head response. build_http_connect_request host port [] = (Inr request :: perror + _) \<and>
    outbox s' = outbox s @ request \<and>
    sock_stream s = head @ sock_stream s' \<and> contains header_terminator head \<and>
    (\<forall>k < length head. \<not> contains header_terminator (take k head)) \<and>
    parse_http_connect_response head = (Inr response :: perror + _) \<and>
    r = Some (HttpDetails response) \<and> 200 \<le> status response \<and> status response < 300"
proof -
  from assms(1) obtain request t u head response where
    req: "build_http_connect_request host port [] = (Inr request :: perror + _)"
    and t: "sock_sendall request s = (Inr (), t)"
    and h: "read_http_response_head recv_exact_sock t = (Inr head, s')"
    and p: "parse_http_connect_response head = (Inr response :: perror + _)"
    and r: "tunnel_established response" "r = Some (HttpDetails response)"
    by (auto simp: establish_http_def read_then_Inr_iff lift_sock_def Let_def split: if_splits)
  have ok: "sock_ok t" using sendall_ok [OF t] assms(2) by simp
  have "outbox s' = outbox s @ request"
    using sent_state_outbox [OF rx.head_kept [OF ok h]] sendall_Inr(1) [OF t] by simp
  with rx.head_exact [OF ok h] sendall_stream [OF t] req p r show ?thesis
    by (auto simp: tunnel_established_def)
qed

definition demo_200 :: sock where
  "demo_200 = demo_sock [Chunk (utf8_encode ''HTTP/1.1 200 OK''), Chunk [13], Chunk [10, 13, 10, 7, 8]]"

lemma http_handshake_exact_witness:
  "\<exists>r s'. establish_http (''h'', 9099) demo_200 = (Inr r, s') \<and>
     outbox s' = utf8_encode ''CONNECT h:9099 HTTP/1.1'' @ crlf @ utf8_encode ''Host: h:9099'' @
       header_terminator \<and> sock_stream s' = [7, 8]"
proof -
  let ?r = "establish_http (''h'', 9099) demo_200"
  have ok: "sock_ok demo_200" by code_simp
  have "\<not> isl (fst ?r)" by code_simp
  then obtain r s' where e: "?r = (Inr r, s')" using returned_pair by blast
  have "outbox (snd ?r) = utf8_encode ''CONNECT h:9099 HTTP/1.1'' @ crlf @
      utf8_encode ''Host: h:9099'' @ header_terminator \<and> sock_stream (snd ?r) = [7, 8]"
    by code_simp
  with http_handshake_exact [OF e ok] e show ?thesis by auto
qed

text \<open>The two bytes that select a method, and what the negotiation sends.\<close>

definition greeting_for :: "string option \<Rightarrow> bytes" where
  "greeting_for user = (if user = None then [5, 1, 0] else [5, 2, 0, 2])"

lemma greeting_bytes:
  "build_socks5_greeting [0] = Inr [5, 1, 0]"
  "build_socks5_greeting [0, 2] = Inr [5, 2, 0, 2]"
  by (simp_all add: build_socks5_greeting_def py_bytes_def socks5_consts)

lemma length_2_conv: "length xs = 2 \<longleftrightarrow> (\<exists>a b. xs = [a, b])"
  by (auto simp: length_Suc_conv numeral_eq_Suc)

lemma method_selection_Inr:
  "parse_socks5_method_selection raw = Inr m \<longleftrightarrow> (\<exists>b. raw = [5, b] \<and> m = uint b)"
  by (auto simp: parse_socks5_method_selection_def length_2_conv socks5_version_def
      uint_eq_iff [where n = 5] split: if_splits)

lemma userpass_result_Inr:
  "parse_socks5_userpass_result raw = Inr ok \<longleftrightarrow> (\<exists>a b. raw = [a, b] \<and> ok = (b = 0))"
  by (auto simp: parse_socks5_userpass_result_def length_2_conv split: if_splits)

lemma recv_step:
  assumes "recv_exact_sock n s = (Inr x, s')" "sock_ok s"
  shows "sock_stream s = x @ sock_stream s'" "sock_ok s'" "outbox s' = outbox s"
  using rx.rd_Inr [OF assms(2,1)] sent_state_outbox [OF rx.rd_kept [OF assms(1)]] by auto

lemma send_step:
  assumes "sock_sendall bs s = (Inr u, s')" "sock_ok s"
  shows "outbox s' = outbox s @ bs" "sock_stream s' = sock_stream s" "sock_ok s'"
  using assms by (auto simp: sendall_Inr sendall_ok sendall_stream)

text \<open>What goes over the wire between the method selection and the request: nothing for method 0,
  the credentials and an accepting answer for method 2.\<close>

definition auth_exchange ::
  "string option \<Rightarrow> string option \<Rightarrow> int \<Rightarrow> bytes \<Rightarrow> bytes \<Rightarrow> bool" where
  "auth_exchange user secret m auth answer \<longleftrightarrow>
     m = 0 \<and> auth = [] \<and> answer = [] \<or>
     m = 2 \<and> user \<noteq> None \<and> secret \<noteq> None \<and>
       build_socks5_userpass_auth (the user) (the secret) = (Inr auth :: perror + _) \<and>
       length answer = 2 \<and> answer ! 1 = 0"

lemma negotiate_Inr:
  assumes "negotiate user secret s = (Inr m, s')" "sock_ok s"
  shows "\<exists>auth answer. auth_exchange user secret m auth answer \<and> sock_ok s' \<and>
    sock_stream s = [5, word_of_int m] @ answer @ sock_stream s' \<and>
    outbox s' = outbox s @ greeting_for user @ auth"
proof -
  from assms(1) obtain t a raw b where
    t: "sock_sendall (greeting_for user) s = (Inr (), t)"
    and a: "recv_exact_sock 2 t = (Inr [5, b], a)" and m: "m = uint b"
    and rest: "b = 0 \<and> s' = a \<or> (\<exists>u p auth c d v. b = 2 \<and> user = Some u \<and> secret = Some p \<and>
      build_socks5_userpass_auth u p = (Inr auth :: perror + _) \<and>
      sock_sendall auth a = (Inr (), c) \<and> recv_exact_sock 2 c = (Inr [v, 0], s'))"
    by (auto simp: negotiate_def read_then_Inr_iff lift_sock_def Let_def greeting_bytes
        greeting_for_def method_selection_Inr userpass_result_Inr uint_eq_iff socks5_consts
        split: if_splits option.splits)
  note t' = send_step [OF t assms(2)]
  note a' = recv_step [OF a t'(3)]
  from rest show ?thesis
  proof (elim disjE exE conjE)
    assume "b = 0" "s' = a"
    with m t' a' show ?thesis
      by (intro exI [of _ "[]"]) (simp add: auth_exchange_def)
  next
    fix u p auth c v
    assume x: "b = 2" "user = Some u" "secret = Some p"
      "build_socks5_userpass_auth u p = (Inr auth :: perror + _)"
      and c: "sock_sendall auth a = (Inr (), c)" and d: "recv_exact_sock 2 c = (Inr [v, 0], s')"
    note c' = send_step [OF c a'(2)]
    note d' = recv_step [OF d c'(3)]
    have "sock_stream s = [5, word_of_int m] @ [v, 0] @ sock_stream s'"
      using t'(2) a'(1) c'(2) d'(1) x(1) m by simp
    moreover have "auth_exchange user secret m auth [v, 0]"
      using x m by (simp add: auth_exchange_def)
    moreover have "outbox s' = outbox s @ greeting_for user @ auth"
      using t'(1) a'(3) c'(1) d'(3) by simp
    ultimately show ?thesis using d'(2) by blast
  qed
qed

text \<open>C22: a SOCKS5 handshake that succeeds sent the greeting, the credentials if and only if the DUT
  selected username/password, and the CONNECT request, in this order; it consumed exactly the
  method selection, the authentication result if there was one, and one successful reply, whose
  fields it reports. The bytes after the reply are untouched.\<close>

theorem socks5_handshake_exact:
  assumes "establish_socks5 idna user secret (host, port) s = (Inr r, s')" "sock_ok s"
  shows "\<exists>m auth answer request rsv atyp f bnd h. auth_exchange user secret m auth answer \<and>
    build_socks5_request idna host port cmd_connect = Inr request \<and>
    outbox s' = outbox s @ greeting_for user @ auth @ request \<and>
    sock_stream s = [5, word_of_int m] @ answer @ [5, 0, rsv, atyp] @ f @ bnd @ sock_stream s' \<and>
    address_text atyp f = Some h \<and> length bnd = 2 \<and>
    r = Some (SocksDetails m
      \<lparr>reply_code = 0, bound_host = h, bound_port = int (from_be bnd)\<rparr>)"
proof -
  from assms(1) obtain m t request u reply where
    t: "negotiate user secret s = (Inr m, t)"
    and req: "build_socks5_request idna host port cmd_connect = Inr request"
    and u: "sock_sendall request t = (Inr (), u)"
    and reply: "read_socks5_reply recv_exact_sock u = (Inr reply, s')"
    and r: "reply_code reply = 0" "r = Some (SocksDetails m reply)"
    by (auto simp: establish_socks5_def read_then_Inr_iff lift_sock_def succeeded_def
        split: if_splits)
  from negotiate_Inr [OF t assms(2)] obtain auth answer where n:
    "auth_exchange user secret m auth answer" "sock_ok t"
    "sock_stream s = [5, word_of_int m] @ answer @ sock_stream t"
    "outbox t = outbox s @ greeting_for user @ auth" by blast
  note u' = send_step [OF u n(2)]
  from rx.reply_Inr [OF u'(3) reply] obtain code rsv atyp f bnd where
    s: "sock_stream u = [5, code, rsv, atyp] @ f @ bnd @ sock_stream s'"
       "address_text atyp f = Some (bound_host reply)" "length bnd = 2"
       "reply_code reply = uint code" "bound_port reply = int (from_be bnd)"
    by blast
  have "code = 0" using s(4) r(1) uint_eq_iff [of code 0] by simp
  with n(3) u'(2) s(1) have str: "sock_stream s =
      [5, word_of_int m] @ answer @ [5, 0, rsv, atyp] @ f @ bnd @ sock_stream s'" by simp
  have "outbox s' = outbox u"
    using rx.reply_kept [OF reply] by (rule sent_state_outbox)
  with n(4) u'(1) have out: "outbox s' = outbox s @ greeting_for user @ auth @ request" by simp
  have "reply = \<lparr>reply_code = 0, bound_host = bound_host reply,
      bound_port = int (from_be bnd)\<rparr>"
    using s(5) r(1) by simp
  then have "r = Some (SocksDetails m \<lparr>reply_code = 0, bound_host = bound_host reply,
      bound_port = int (from_be bnd)\<rparr>)"
    using r(2) by simp
  with n(1) req out str s(2,3) show ?thesis by blast
qed

definition demo_socks :: sock where
  "demo_socks = demo_sock [Chunk [5], Chunk [0, 5, 0], Chunk [0, 1, 10, 0, 0, 9, 4, 56, 42]]"

lemma socks5_handshake_exact_witness:
  "\<exists>r s'. establish_socks5 demo_idna None None (''example.org'', 80) demo_socks = (Inr r, s') \<and>
     (\<exists>m b. r = Some (SocksDetails m b)) \<and> sock_stream s' = [42]"
proof -
  let ?r = "establish_socks5 demo_idna None None (''example.org'', 80) demo_socks"
  have ok: "sock_ok demo_socks" by code_simp
  have "\<not> isl (fst ?r)" by code_simp
  then obtain r s' where e: "?r = (Inr r, s')" using returned_pair by blast
  have "sock_stream (snd ?r) = [42]" by code_simp
  with socks5_handshake_exact [OF e ok] e show ?thesis by auto
qed

definition sends_freely :: "sock \<Rightarrow> bool" where
  "sends_freely s \<longleftrightarrow> send_script s = [] \<and> \<not> wr_shut s \<and> \<not> closed s"

lemma send_free:
  assumes "sends_freely s" "sock_ok s"
  obtains s' where "sock_sendall bs s = (Inr (), s')" "sends_freely s'" "sock_ok s'"
    "sock_stream s' = sock_stream s" "outbox s' = outbox s @ bs"
  using assms
  by (simp add: sock_sendall_def sends_freely_def sock_ok_def sock_stream_def)

lemma recv_free:
  assumes "sends_freely s" "sock_ok s" "sock_stream s = p @ q" "length p = n"
  obtains s' where "recv_exact_sock n s = (Inr p, s')" "sends_freely s'" "sock_ok s'"
    "sock_stream s' = q" "outbox s' = outbox s"
proof -
  obtain s' where s': "recv_exact_sock n s = (Inr p, s')" "sock_ok s'" "sock_stream s' = q"
    using rx.rd_prefix [OF assms(2-4)] .
  moreover have "sends_freely s'" "outbox s' = outbox s"
    using rx.rd_kept [OF s'(1)] assms(1) by (simp_all add: sends_freely_def sent_state_def)
  ultimately show ?thesis using that by blast
qed



text \<open>C27: the round trip sends the whole payload and returns the next bytes the DUT delivers, as many
  as were sent, however they are cut into pieces; so its result equals the payload exactly when
  the DUT relayed the payload back.\<close>

theorem roundtrip_relays:
  assumes "client_sock cl = Some s" "sock_ok s" "sends_freely s" "sock_stream s = echo @ rest"
    "length echo = length payload" "payload \<noteq> []"
  shows "\<exists>s'. roundtrip payload cl = (Inr echo, cl\<lparr>client_sock := Some s'\<rparr>) \<and>
    outbox s' = outbox s @ payload \<and> sock_stream s' = rest"
proof -
  obtain t where t: "sock_sendall payload s = (Inr (), t)" "sends_freely t" "sock_ok t"
    "sock_stream t = echo @ rest" "outbox t = outbox s @ payload"
    using send_free [OF assms(3,2)] assms(4) by metis
  obtain u where "recv_exact_sock (length payload) t = (Inr echo, u)"
    "sock_stream u = rest" "outbox u = outbox s @ payload"
    using recv_free [OF t(2-4) assms(5)] t(5) by metis
  with t(1) assms(1,6) show ?thesis
    by (intro exI [of _ u]) (simp add: roundtrip_def send_def recv_exact_def on_socket_def)
qed

definition connected_client :: "sock \<Rightarrow> client" where
  "connected_client s = (new_client (demo_config Transparent))\<lparr>client_sock := Some s\<rparr>"

lemma roundtrip_relays_witness:
  "fst (roundtrip [1, 2, 3] (connected_client (demo_sock [Chunk [1, 2], Chunk [3, 9]]))) =
     Inr [1, 2, 3]"
proof -
  let ?s = "demo_sock [Chunk [1, 2], Chunk [3, 9]]"
  have "client_sock (connected_client ?s) = Some ?s" "sock_ok ?s" "sends_freely ?s"
    "sock_stream ?s = [1, 2, 3] @ [9]" "length [1 :: byte, 2, 3] = length [1 :: byte, 2, 3]"
    "[1 :: byte, 2, 3] \<noteq> []"
    by code_simp+
  from roundtrip_relays [OF this] show ?thesis by auto
qed

text \<open>Reading until the peer closes.\<close>

lemma eof_loop_Inr:
  "sock_ok s \<Longrightarrow> eof_loop fr tmo n buf s = (Inr b, s') \<Longrightarrow>
   \<exists>d. b = buf @ d \<and> sock_stream s = d @ sock_stream s' \<and>
     (length b < n \<longrightarrow> (\<exists>es. inbox s' = PeerEof # es))"
proof (induction fr tmo n buf s arbitrary: b s' rule: eof_loop.induct)
  case (1 fr tmo n buf s)
  show ?case
  proof (cases "length buf < n")
    case False
    with "1.prems" show ?thesis by (simp add: eof_loop.simps)
  next
    case True
    with "1.prems" obtain c t where c: "sock_recv recv_chunk s = (Inr c, t)"
      by (cases "sock_recv recv_chunk s"; cases "fst (sock_recv recv_chunk s)")
        (auto simp: eof_loop.simps [of fr tmo n buf s] split: if_splits)
    show ?thesis
    proof (cases "c = []")
      case True
      with c "1.prems" recv_Nil [of s recv_chunk t] show ?thesis
        using \<open>length buf < n\<close> by (auto simp: eof_loop.simps [of fr tmo n buf s] recv_chunk_def)
    next
      case False
      note r = recv_Inr [OF "1.prems"(1) c False]
      have "eof_loop fr tmo n (buf @ c) t = (Inr b, s')"
        using "1.prems"(2) True c False by (simp add: eof_loop.simps [of fr tmo n buf s])
      from "1.IH" [OF _ c [symmetric] refl False r(3) this] True r(1) show ?thesis by auto
    qed
  qed
qed

fun stalls :: "recv_event list \<Rightarrow> bool" where
  "stalls (Chunk c # es) = stalls es"
| "stalls (RecvTimeout # es) = True"
| "stalls [] = True"
| "stalls _ = False"

lemma stalls_recv:
  assumes "stalls (inbox s)" "sock_ok s" "sock_recv recv_chunk s = (r, t)"
  shows "(\<exists>c. r = Inr c \<and> c \<noteq> [] \<and> stalls (inbox t)) \<or> (\<exists>e. r = Inl e \<and> exc e = TimeoutError)"
  using assms
  by (auto simp: sock_recv_def sock_ok_def recv_chunk_def
      split: if_splits list.splits recv_event.splits)

lemma eof_loop_stall:
  "sock_ok s \<Longrightarrow> stalls (inbox s) \<Longrightarrow> length buf + length (sock_stream s) < n \<Longrightarrow>
   \<exists>e s'. eof_loop fr tmo n buf s = (Inl e, s') \<and> exc e = ProtocolViolation"
proof (induction fr tmo n buf s rule: eof_loop.induct)
  case (1 fr tmo n buf s)
  then have n: "length buf < n" by simp
  from "1.prems" consider
      c t where "sock_recv recv_chunk s = (Inr c, t)" "c \<noteq> []" "stalls (inbox t)"
    | e t where "sock_recv recv_chunk s = (Inl e, t)" "exc e = TimeoutError"
    using stalls_recv by (cases "sock_recv recv_chunk s") blast
  then show ?case
  proof cases
    case 1
    note r = recv_Inr [OF "1.prems"(1) 1(1,2)]
    have len: "length (buf @ c) + length (sock_stream t) < n"
      using "1.prems"(3) r(1) by simp
    have "eof_loop fr tmo n buf s = eof_loop fr tmo n (buf @ c) t"
      using n 1 by (simp add: eof_loop.simps [of fr tmo n buf s])
    with "1.IH" [OF _ 1(1) [symmetric] refl 1(2) r(3) 1(3) len] n show ?thesis by simp
  next
    case 2
    with n show ?thesis by (simp add: eof_loop.simps [of fr tmo n buf s])
  qed
qed

text \<open>C26: reading until end of file never mistakes silence for a close. If the read returns fewer
  bytes than its limit, the peer did close and every byte before that close is returned; if the
  peer goes silent instead, the call raises a protocol violation.\<close>

theorem read_until_eof_verdict:
  assumes "client_sock cl = Some s" "sock_ok s"
  shows "case read_until_eof fr n cl of
      (Inr b, cl') \<Rightarrow> (\<exists>t. sock_stream s = b @ t) \<and>
        (length b < n \<longrightarrow> sock_stream s = b \<and> \<not> stalls (inbox s) \<and>
           (\<exists>s' es. client_sock cl' = Some s' \<and> inbox s' = PeerEof # es))
    | (Inl e, cl') \<Rightarrow> stalls (inbox s) \<longrightarrow> length (sock_stream s) < n \<longrightarrow> exc e = ProtocolViolation"
proof (cases "n = 0")
  case True
  then show ?thesis by (simp add: read_until_eof_def)
next
  case False
  obtain r s' where loop: "eof_loop fr (proxy_timeout (client_config cl)) n [] s = (r, s')"
    by fastforce
  with assms(1) False have red: "read_until_eof fr n cl = (r, cl\<lparr>client_sock := Some s'\<rparr>)"
    by (simp add: read_until_eof_def on_socket_def)
  have stall: "stalls (inbox s) \<Longrightarrow> length (sock_stream s) < n \<Longrightarrow>
      \<exists>e. r = Inl e \<and> exc e = ProtocolViolation"
    using eof_loop_stall [OF assms(2), of "[]" n fr "proxy_timeout (client_config cl)"] loop by auto
  show ?thesis
  proof (cases r)
    case (Inl e)
    with stall red show ?thesis by auto
  next
    case (Inr b)
    with eof_loop_Inr [OF assms(2) loop [unfolded Inr]] red stall show ?thesis
      by (auto simp: sock_stream_def)
  qed
qed

lemma read_until_eof_verdict_witness:
  "fst (read_until_eof (\<lambda>q. ''5.0'') 10 (connected_client (demo_sock [Chunk [1], PeerEof]))) = Inr [1] \<and>
   (\<exists>e. fst (read_until_eof (\<lambda>q. ''5.0'') 10 (connected_client (demo_sock [Chunk [1]]))) = Inl e \<and>
     exc e = ProtocolViolation)"
proof -
  let ?a = "demo_sock [Chunk [1], PeerEof]" and ?b = "demo_sock [Chunk [1]]"
  have b: "client_sock (connected_client ?b) = Some ?b" "sock_ok ?b" by code_simp+
  have s: "isl (fst (read_until_eof (\<lambda>q. ''5.0'') 10 (connected_client ?b)))"
    "stalls (inbox ?b)" "length (sock_stream ?b) < 10" by code_simp+
  then obtain e cl where "read_until_eof (\<lambda>q. ''5.0'') 10 (connected_client ?b) = (Inl e, cl)"
    using raised_pair by blast
  with read_until_eof_verdict [OF b, where fr = "\<lambda>q. ''5.0''" and n = 10] s
  have "\<exists>e. fst (read_until_eof (\<lambda>q. ''5.0'') 10 (connected_client ?b)) = Inl e \<and>
     exc e = ProtocolViolation" by simp
  moreover have "fst (read_until_eof (\<lambda>q. ''5.0'') 10 (connected_client ?a)) = Inr [1]"
    by code_simp
  ultimately show ?thesis by simp
qed

end
