(* ===== verification/Backend.thy ===== *)
theory Backend
  imports Proxy
begin

text \<open>
  The server instance of a proxy test, \<open>src/proxy/backend.py\<close>: a threaded echo server. Its threads
  (the accept loop, one per connection, the UDP loop) are modelled by the atomic steps they take
  between two points where another thread may run; \<open>bstep\<close> performs one step and the reachable
  states are those of every interleaving. The lists of bytes and datagrams per connection are what
  went over the wire; the counters are the program's own.
\<close>

section \<open>Statistics and state\<close>

record backend_stats =
  tcp_connections :: nat
  tcp_bytes_received :: nat
  tcp_bytes_echoed :: nat
  udp_datagrams :: nat
  udp_bytes_received :: nat
  peers :: "string list"

definition zero_stats :: backend_stats where
  "zero_stats = \<lparr>tcp_connections = 0, tcp_bytes_received = 0, tcp_bytes_echoed = 0,
     udp_datagrams = 0, udp_bytes_received = 0, peers = []\<rparr>"

definition stats_summary :: "backend_stats \<Rightarrow> string" where
  "stats_summary st =
     ''TCP: '' @ dec (tcp_connections st) @ '' conn, '' @ dec (tcp_bytes_received st) @
     '' B in / '' @ dec (tcp_bytes_echoed st) @ '' B echoed | UDP: '' @ dec (udp_datagrams st) @
     '' dgram, '' @ dec (udp_bytes_received st) @ '' B''"

text \<open>Where a connection's thread is: waiting in \<open>recv\<close>; holding data it has not counted, has
  counted but not echoed, has echoed but not counted; ended.\<close>

datatype conn_phase =
    Reading
  | Got bytes
  | Echoing bytes
  | Sent bytes
  | Finished

record conn =
  phase :: conn_phase
  conn_in :: bytes
  conn_out :: bytes
  conn_tail :: bytes
  fin_sent :: bool

definition new_conn :: conn where
  "new_conn = \<lparr>phase = Reading, conn_in = [], conn_out = [], conn_tail = [], fin_sent = False\<rparr>"

datatype thread = AcceptThread | UdpThread | ConnThread nat

record backend =
  bhost :: string
  bport :: int
  enable_udp :: bool
  stats :: backend_stats
  stopping :: bool
  threads :: "thread list"
  tcp_socket :: bool
  udp_socket :: bool
  bound :: "int option"
  accept_alive :: bool
  udp_alive :: bool
  conns :: "conn list"
  udp_log :: "bytes list"
  emitted :: "string list"

definition new_backend :: "string \<Rightarrow> int \<Rightarrow> bool \<Rightarrow> backend" where
  "new_backend h p u =
     \<lparr>bhost = h, bport = p, enable_udp = u, stats = zero_stats, stopping = False, threads = [],
      tcp_socket = False, udp_socket = False, bound = None, accept_alive = False,
      udp_alive = False, conns = [], udp_log = [], emitted = []\<rparr>"

definition bound_port :: "backend \<Rightarrow> int" where
  "bound_port b = (case bound b of Some p \<Rightarrow> p | None \<Rightarrow> bport b)"

fun alive :: "backend \<Rightarrow> thread \<Rightarrow> bool" where
  "alive b AcceptThread = accept_alive b"
| "alive b UdpThread = udp_alive b"
| "alive b (ConnThread i) = (i < length (conns b) \<and> phase (conns b ! i) \<noteq> Finished)"

definition is_serving :: "backend \<Rightarrow> bool" where
  "is_serving b \<longleftrightarrow> tcp_socket b \<and> list_ex (alive b) (threads b)"

definition emit :: "string \<Rightarrow> backend \<Rightarrow> backend" where
  "emit m b = b\<lparr>emitted := emitted b @ [m]\<rparr>"

section \<open>Starting and stopping\<close>

definition stop :: "backend \<Rightarrow> backend" where
  "stop b =
     emit ''echo backend stopped''
       (b\<lparr>stopping := True, tcp_socket := False, udp_socket := False, threads := []\<rparr>)"

text \<open>
  The system calls of \<open>start\<close> in their order. \<open>fault\<close> says which of them raises an \<open>OSError\<close>,
  and \<open>chosen\<close> is the port the listening socket reports.
\<close>

datatype start_call =
    TcpSocket | TcpReuse | TcpBind | TcpName | TcpListen | TcpTimeout
  | UdpSocket | UdpReuse | UdpBind | UdpTimeout

fun after_call :: "int \<Rightarrow> start_call \<Rightarrow> backend \<Rightarrow> backend" where
  "after_call chosen TcpSocket b = b\<lparr>tcp_socket := True\<rparr>"
| "after_call chosen TcpName b = b\<lparr>bound := Some chosen\<rparr>"
| "after_call chosen UdpSocket b = b\<lparr>udp_socket := True\<rparr>"
| "after_call chosen _ b = b"

fun run_calls ::
  "(start_call \<Rightarrow> string option) \<Rightarrow> int \<Rightarrow> start_call list \<Rightarrow> backend \<Rightarrow> string option \<times> backend" where
  "run_calls fault chosen [] b = (None, b)"
| "run_calls fault chosen (c # cs) b =
     (case fault c of
        Some m \<Rightarrow> (Some m, b)
      | None \<Rightarrow> run_calls fault chosen cs (after_call chosen c b))"

definition start_calls :: "backend \<Rightarrow> start_call list" where
  "start_calls b =
     [TcpSocket, TcpReuse, TcpBind, TcpName, TcpListen, TcpTimeout] @
     (if enable_udp b then [UdpSocket, UdpReuse, UdpBind, UdpTimeout] else [])"

definition spawn :: "thread \<Rightarrow> backend \<Rightarrow> backend" where
  "spawn t b = b\<lparr>threads := threads b @ [t],
     accept_alive := (accept_alive b \<or> t = AcceptThread),
     udp_alive := (udp_alive b \<or> t = UdpThread)\<rparr>"

definition listening_on :: "string \<Rightarrow> backend \<Rightarrow> string" where
  "listening_on what b =
     what @ '' echo backend listening on '' @ bhost b @ '':'' @ idec (bound_port b)"

definition start ::
  "(start_call \<Rightarrow> string option) \<Rightarrow> int \<Rightarrow> backend \<Rightarrow> (perror + unit) \<times> backend" where
  "start fault chosen b0 =
     (case run_calls fault chosen (start_calls b0) (b0\<lparr>stopping := False\<rparr>) of
        (Some m, b) \<Rightarrow> (raise_exc OSError m, (stop b)\<lparr>bound := None\<rparr>)
      | (None, b) \<Rightarrow>
          (let b1 = spawn AcceptThread b;
               b2 = emit (listening_on ''TCP'' b1) b1
           in (Inr (),
               if enable_udp b2
               then (let b3 = spawn UdpThread b2 in emit (listening_on ''UDP'' b3) b3)
               else b2)))"

section \<open>Serving\<close>

definition report_loop_exit :: "string \<Rightarrow> string \<Rightarrow> backend \<Rightarrow> backend" where
  "report_loop_exit what m b =
     (if stopping b then b else emit (what @ '' stopped unexpectedly: '' @ m) b)"

definition set_conn :: "nat \<Rightarrow> conn \<Rightarrow> backend \<Rightarrow> backend" where
  "set_conn i c b = b\<lparr>conns := (conns b)[i := c]\<rparr>"

definition with_stats :: "(backend_stats \<Rightarrow> backend_stats) \<Rightarrow> backend \<Rightarrow> backend" where
  "with_stats f b = b\<lparr>stats := f (stats b)\<rparr>"

datatype accept_event = Accepted string int | AcceptTimeout | AcceptFailed string

text \<open>One turn of \<open>_accept_loop\<close>; \<open>None\<close> when its thread is not running.\<close>

definition accept_step :: "accept_event \<Rightarrow> backend \<Rightarrow> backend option" where
  "accept_step ev b =
     (if \<not> accept_alive b then None
      else if stopping b \<or> \<not> tcp_socket b then Some (b\<lparr>accept_alive := False\<rparr>)
      else case ev of
        AcceptTimeout \<Rightarrow> Some b
      | AcceptFailed m \<Rightarrow> Some ((report_loop_exit ''TCP accept loop'' m b)\<lparr>accept_alive := False\<rparr>)
      | Accepted h p \<Rightarrow>
          (let peer = h @ '':'' @ idec p;
               b1 = with_stats (\<lambda>st. st\<lparr>tcp_connections := tcp_connections st + 1,
                                         peers := peers st @ [peer]\<rparr>) b;
               b2 = emit (''TCP connection from '' @ peer @ '' (the DUT's client side)'') b1
           in Some (spawn (ConnThread (length (conns b)))
                 (b2\<lparr>conns := conns b2 @ [new_conn]\<rparr>))))"

datatype conn_event =
    Received bytes | RecvTimedOut | RecvFailed string | PeerClosed bool
  | CountIn | EchoSent | EchoFailed nat string | CountOut

text \<open>
  One atomic step of the thread of connection \<open>i\<close> (\<open>_handle_tcp\<close>). \<open>PeerClosed ok\<close> is the empty
  read, \<open>ok\<close> telling whether the \<open>shutdown\<close> that mirrors it succeeds; \<open>EchoFailed k\<close> is a
  \<open>sendall\<close> that fails after \<open>k\<close> bytes.
\<close>

definition conn_step :: "nat \<Rightarrow> conn_event \<Rightarrow> backend \<Rightarrow> backend option" where
  "conn_step i ev b =
     (if \<not> i < length (conns b) then None
      else let c = conns b ! i in
        (case phase c of
           Finished \<Rightarrow> None
         | Reading \<Rightarrow>
             (if stopping b then Some (set_conn i (c\<lparr>phase := Finished\<rparr>) b)
              else case ev of
                Received d \<Rightarrow>
                  (if d = [] \<or> recv_chunk < length d then None
                   else Some (set_conn i (c\<lparr>phase := Got d, conn_in := conn_in c @ d\<rparr>) b))
              | RecvTimedOut \<Rightarrow> Some b
              | RecvFailed m \<Rightarrow>
                  Some (set_conn i (c\<lparr>phase := Finished\<rparr>) (report_loop_exit ''TCP connection'' m b))
              | PeerClosed ok \<Rightarrow> Some (set_conn i (c\<lparr>phase := Finished, fin_sent := ok\<rparr>) b)
              | _ \<Rightarrow> None)
         | Got d \<Rightarrow>
             (case ev of
                CountIn \<Rightarrow>
                  Some (set_conn i (c\<lparr>phase := Echoing d\<rparr>)
                    (with_stats (\<lambda>st. st\<lparr>tcp_bytes_received :=
                        tcp_bytes_received st + length d\<rparr>) b))
              | _ \<Rightarrow> None)
         | Echoing d \<Rightarrow>
             (case ev of
                EchoSent \<Rightarrow> Some (set_conn i (c\<lparr>phase := Sent d, conn_out := conn_out c @ d\<rparr>) b)
              | EchoFailed k m \<Rightarrow>
                  Some (set_conn i (c\<lparr>phase := Finished, conn_tail := take k d\<rparr>)
                    (report_loop_exit ''TCP echo'' m b))
              | _ \<Rightarrow> None)
         | Sent d \<Rightarrow>
             (case ev of
                CountOut \<Rightarrow>
                  Some (set_conn i (c\<lparr>phase := Reading\<rparr>)
                    (with_stats (\<lambda>st. st\<lparr>tcp_bytes_echoed :=
                        tcp_bytes_echoed st + length d\<rparr>) b))
              | _ \<Rightarrow> None)))"

datatype udp_event = Datagram bytes "string option" | UdpTimedOut | UdpFailed string

text \<open>One turn of \<open>_udp_loop\<close>; the option of \<open>Datagram\<close> is the failure of its echo.\<close>

definition udp_step :: "udp_event \<Rightarrow> backend \<Rightarrow> backend option" where
  "udp_step ev b =
     (if \<not> udp_alive b then None
      else if stopping b \<or> \<not> udp_socket b then Some (b\<lparr>udp_alive := False\<rparr>)
      else case ev of
        UdpTimedOut \<Rightarrow> Some b
      | UdpFailed m \<Rightarrow> Some ((report_loop_exit ''UDP receive loop'' m b)\<lparr>udp_alive := False\<rparr>)
      | Datagram d failed \<Rightarrow>
          (let b1 = with_stats (\<lambda>st. st\<lparr>udp_datagrams := udp_datagrams st + 1,
                      udp_bytes_received := udp_bytes_received st + length d\<rparr>)
                      (b\<lparr>udp_log := udp_log b @ [d]\<rparr>)
           in case failed of
                None \<Rightarrow> Some b1
              | Some m \<Rightarrow> Some ((report_loop_exit ''UDP echo'' m b1)\<lparr>udp_alive := False\<rparr>)))"

section \<open>Every interleaving\<close>

datatype bevent = OnAccept accept_event | OnConn nat conn_event | OnUdp udp_event | OnStop

fun bstep :: "bevent \<Rightarrow> backend \<Rightarrow> backend option" where
  "bstep (OnAccept ev) b = accept_step ev b"
| "bstep (OnConn i ev) b = conn_step i ev b"
| "bstep (OnUdp ev) b = udp_step ev b"
| "bstep OnStop b = Some (stop b)"

inductive reach :: "backend \<Rightarrow> bool" where
  started: "start fault chosen (new_backend h p u) = (Inr (), b) \<Longrightarrow> reach b"
| step: "reach b \<Longrightarrow> bstep ev b = Some b' \<Longrightarrow> reach b'"

fun brun :: "bevent list \<Rightarrow> backend \<Rightarrow> backend option" where
  "brun [] b = Some b"
| "brun (e # es) b = (case bstep e b of None \<Rightarrow> None | Some b' \<Rightarrow> brun es b')"

lemma reach_brun: "reach b \<Longrightarrow> brun es b = Some b' \<Longrightarrow> reach b'"
  by (induction es arbitrary: b) (auto intro: reach.step split: option.splits)

section \<open>What holds in every interleaving\<close>

text \<open>How much of what crossed the wire the counters have seen.\<close>

definition counted_in :: "conn \<Rightarrow> nat" where
  "counted_in c = length (conn_in c) - (case phase c of Got d \<Rightarrow> length d | _ \<Rightarrow> 0)"

definition counted_out :: "conn \<Rightarrow> nat" where
  "counted_out c = length (conn_out c) - (case phase c of Sent d \<Rightarrow> length d | _ \<Rightarrow> 0)"

text \<open>What came in is what went out, then what the thread still holds.\<close>

definition conn_inv :: "conn \<Rightarrow> bool" where
  "conn_inv c \<longleftrightarrow>
     (case phase c of
        Reading \<Rightarrow> conn_out c = conn_in c \<and> conn_tail c = []
      | Got d \<Rightarrow> conn_in c = conn_out c @ d \<and> conn_tail c = []
      | Echoing d \<Rightarrow> conn_in c = conn_out c @ d \<and> conn_tail c = []
      | Sent d \<Rightarrow> conn_in c = conn_out c \<and> (\<exists>p. conn_out c = p @ d) \<and> conn_tail c = []
      | Finished \<Rightarrow> prefix (conn_out c @ conn_tail c) (conn_in c))"

definition backend_inv :: "backend \<Rightarrow> bool" where
  "backend_inv b \<longleftrightarrow>
     list_all conn_inv (conns b) \<and>
     tcp_bytes_received (stats b) = sum_list (map counted_in (conns b)) \<and>
     tcp_bytes_echoed (stats b) = sum_list (map counted_out (conns b)) \<and>
     tcp_connections (stats b) = length (peers (stats b)) \<and>
     length (conns b) = tcp_connections (stats b) \<and>
     udp_datagrams (stats b) = length (udp_log b) \<and>
     udp_bytes_received (stats b) = sum_list (map length (udp_log b))"

lemma emit_simps [simp]:
  "stats (emit m b) = stats b" "conns (emit m b) = conns b" "udp_log (emit m b) = udp_log b"
  "threads (emit m b) = threads b"
  by (simp_all add: emit_def)

lemma report_simps [simp]:
  "stats (report_loop_exit w m b) = stats b" "conns (report_loop_exit w m b) = conns b"
  "udp_log (report_loop_exit w m b) = udp_log b"
  by (simp_all add: report_loop_exit_def)

lemma spawn_simps [simp]:
  "stats (spawn t b) = stats b" "conns (spawn t b) = conns b" "udp_log (spawn t b) = udp_log b"
  by (simp_all add: spawn_def)

lemma after_call_simps [simp]:
  "stats (after_call ch c b) = stats b" "conns (after_call ch c b) = conns b"
  "udp_log (after_call ch c b) = udp_log b"
  by (cases c; simp)+

lemma run_calls_simps:
  "run_calls fault ch cs b = (r, b') \<Longrightarrow>
   stats b' = stats b \<and> conns b' = conns b \<and> udp_log b' = udp_log b"
  by (induction cs arbitrary: b) (auto split: option.splits)

lemma start_simps:
  "start fault ch b = (r, b') \<Longrightarrow>
   stats b' = stats b \<and> conns b' = conns b \<and> udp_log b' = udp_log b"
  by (auto simp: start_def stop_def Let_def split: prod.splits option.splits if_splits
      dest!: run_calls_simps)

lemma sum_list_update_nat:
  fixes xs :: "nat list"
  shows "i < length xs \<Longrightarrow> sum_list (xs[i := x]) + xs ! i = sum_list xs + x"
  by (induction xs arbitrary: i) (auto split: nat.splits)

text \<open>A step of one thread changes its own connection and the totals together.\<close>

lemma backend_inv_set_conn:
  assumes "backend_inv b" "i < length (conns b)" "conn_inv c" "stats b' = stats b\<lparr>
      tcp_bytes_received := tcp_bytes_received (stats b) + (counted_in c - counted_in (conns b ! i)),
      tcp_bytes_echoed := tcp_bytes_echoed (stats b) + (counted_out c - counted_out (conns b ! i))\<rparr>"
    "counted_in (conns b ! i) \<le> counted_in c" "counted_out (conns b ! i) \<le> counted_out c"
    "conns b' = conns b" "udp_log b' = udp_log b"
  shows "backend_inv (set_conn i c b')"
proof -
  have "list_all conn_inv ((conns b)[i := c])"
    using assms(1-3) by (auto simp: backend_inv_def list_all_iff dest!: set_update_subset_insert [THEN subsetD])
  moreover have "sum_list (map f ((conns b)[i := c])) = sum_list (map f (conns b)) + (f c - f (conns b ! i))"
    if "f (conns b ! i) \<le> f c" for f :: "conn \<Rightarrow> nat"
    using sum_list_update_nat [of i "map f (conns b)" "f c"] assms(2) that
    by (simp add: map_update)
  ultimately show ?thesis
    using assms by (simp add: backend_inv_def set_conn_def)
qed

lemmas conn_counts = counted_in_def counted_out_def conn_inv_def

lemma conn_inv_nth: "backend_inv b \<Longrightarrow> i < length (conns b) \<Longrightarrow> conn_inv (conns b ! i)"
  by (simp add: backend_inv_def list_all_length)

lemma conn_step_inv:
  assumes "backend_inv b" "conn_step i ev b = Some b'"
  shows "backend_inv b'"
proof -
  define c where "c = conns b ! i"
  from assms(2) have i: "i < length (conns b)" by (simp add: conn_step_def split: if_splits)
  note set_conn = backend_inv_set_conn [OF assms(1) i, folded c_def]
  have inv: "conn_inv c" using conn_inv_nth [OF assms(1) i] by (simp add: c_def)
  show ?thesis
  proof (cases "phase c")
    case Finished
    with assms(2) i show ?thesis by (simp add: conn_step_def Let_def c_def)
  next
    case Reading
    with inv have r: "conn_out c = conn_in c" "conn_tail c = []" by (simp_all add: conn_inv_def)
    from assms(2) i Reading consider
        "b' = set_conn i (c\<lparr>phase := Finished\<rparr>) b" | "b' = b"
      | d where "b' = set_conn i (c\<lparr>phase := Got d, conn_in := conn_in c @ d\<rparr>) b"
      | m where "b' = set_conn i (c\<lparr>phase := Finished\<rparr>) (report_loop_exit ''TCP connection'' m b)"
      | ok where "b' = set_conn i (c\<lparr>phase := Finished, fin_sent := ok\<rparr>) b"
      by (auto simp: conn_step_def Let_def c_def split: if_splits conn_event.splits)
    then show ?thesis
      by cases (use assms(1) r Reading in \<open>auto intro!: set_conn simp: conn_counts\<close>)
  next
    case (Got d)
    with inv have r: "conn_in c = conn_out c @ d" "conn_tail c = []" by (simp_all add: conn_inv_def)
    from assms(2) i Got have "b' = set_conn i (c\<lparr>phase := Echoing d\<rparr>)
        (with_stats (\<lambda>st. st\<lparr>tcp_bytes_received := tcp_bytes_received st + length d\<rparr>) b)"
      by (auto simp: conn_step_def Let_def c_def split: conn_event.splits)
    then show ?thesis
      using r Got by (auto intro!: set_conn simp: conn_counts with_stats_def)
  next
    case (Echoing d)
    with inv have r: "conn_in c = conn_out c @ d" "conn_tail c = []" by (simp_all add: conn_inv_def)
    from assms(2) i Echoing consider
        "b' = set_conn i (c\<lparr>phase := Sent d, conn_out := conn_out c @ d\<rparr>) b"
      | k m where "b' = set_conn i (c\<lparr>phase := Finished, conn_tail := take k d\<rparr>)
          (report_loop_exit ''TCP echo'' m b)"
      by (auto simp: conn_step_def Let_def c_def split: conn_event.splits)
    then show ?thesis
      by cases (use r Echoing in \<open>auto intro!: set_conn simp: conn_counts take_is_prefix\<close>)
  next
    case (Sent d)
    with inv obtain q where r: "conn_in c = conn_out c" "conn_out c = q @ d" "conn_tail c = []"
      by (auto simp: conn_inv_def)
    from assms(2) i Sent have "b' = set_conn i (c\<lparr>phase := Reading\<rparr>)
        (with_stats (\<lambda>st. st\<lparr>tcp_bytes_echoed := tcp_bytes_echoed st + length d\<rparr>) b)"
      by (auto simp: conn_step_def Let_def c_def split: conn_event.splits)
    then show ?thesis
      using r Sent by (auto intro!: set_conn simp: conn_counts with_stats_def)
  qed
qed

lemma accept_step_inv: "backend_inv b \<Longrightarrow> accept_step ev b = Some b' \<Longrightarrow> backend_inv b'"
  by (auto simp: accept_step_def backend_inv_def with_stats_def Let_def new_conn_def conn_counts
      split: if_splits accept_event.splits)

lemma udp_step_inv: "backend_inv b \<Longrightarrow> udp_step ev b = Some b' \<Longrightarrow> backend_inv b'"
  by (auto simp: udp_step_def backend_inv_def with_stats_def Let_def
      split: if_splits udp_event.splits option.splits)

lemma stop_inv: "backend_inv b \<Longrightarrow> backend_inv (stop b)"
  by (simp add: stop_def backend_inv_def)

lemma bstep_inv: "backend_inv b \<Longrightarrow> bstep ev b = Some b' \<Longrightarrow> backend_inv b'"
  by (cases ev) (auto intro: accept_step_inv conn_step_inv udp_step_inv stop_inv)

lemma reach_inv: "reach b \<Longrightarrow> backend_inv b"
proof (induction rule: reach.induct)
  case (started fault chosen h p u b)
  from start_simps [OF this] show ?case
    by (simp add: backend_inv_def new_backend_def zero_stats_def)
next
  case (step b ev b')
  then show ?case by (auto intro: bstep_inv)
qed

lemma conn_inv_prefix:
  assumes "conn_inv c"
  shows "prefix (conn_out c @ conn_tail c) (conn_in c)" "counted_out c \<le> counted_in c"
    "counted_in c \<le> length (conn_in c)"
proof -
  show pre: "prefix (conn_out c @ conn_tail c) (conn_in c)"
    using assms by (cases "phase c") (auto simp: conn_inv_def)
  then have "length (conn_out c) \<le> length (conn_in c)"
    using prefix_length_le by fastforce
  then show "counted_out c \<le> counted_in c"
    using assms by (cases "phase c") (auto simp: conn_counts)
  show "counted_in c \<le> length (conn_in c)" by (simp add: counted_in_def)
qed


definition demo_events :: "bevent list" where
  "demo_events =
     [OnAccept (Accepted ''10.0.0.1'' 5000), OnConn 0 (Received [1, 2]), OnConn 0 CountIn,
      OnAccept (Accepted ''10.0.0.1'' 5001), OnConn 0 EchoSent, OnConn 1 (Received [7]),
      OnConn 0 CountOut, OnConn 1 CountIn, OnConn 1 (EchoFailed 0 ''reset''),
      OnAccept (AcceptFailed ''too many open files'')]"

definition demo_backend :: backend where
  "demo_backend = snd (start (\<lambda>_. None) 9099 (new_backend ''0.0.0.0'' 0 True))"

definition demo_end :: backend where
  "demo_end = the (brun demo_events demo_backend)"

lemma demo_reach: "reach demo_end"
proof -
  have "start (\<lambda>_. None) 9099 (new_backend ''0.0.0.0'' 0 True) = (Inr (), demo_backend)"
    by (simp add: demo_backend_def start_def start_calls_def new_backend_def Let_def)
  then have "reach demo_backend" by (rule reach.started)
  moreover have "brun demo_events demo_backend = Some demo_end"
    by code_simp
  ultimately show ?thesis by (rule reach_brun)
qed



text \<open>\<open>is_serving\<close> does not mean that connections are still accepted: there is a reachable
  state whose accept loop has died and in which it holds, because the threads of open connections
  and the UDP loop count as well.\<close>

theorem is_serving_after_accept_loop_died:
  "\<exists>b. reach b \<and> is_serving b \<and> \<not> accept_alive b"
proof -
  have "is_serving demo_end \<and> \<not> accept_alive demo_end" by code_simp
  with demo_reach show ?thesis by blast
qed

end
