(* ===== verification/Inducer.thy ===== *)
theory Inducer
  imports Proxy
begin

text \<open>
  \<open>src/proxy/inducer.py\<close>: the background loop that keeps opening connections through the proxy so
  that its back leg has something to do. One turn of the loop is a function of what the network
  does in it; a run is a list of turns. Each turn drives the client of \<open>Proxy.thy\<close>.
\<close>

section \<open>State\<close>

definition default_interval :: rat where "default_interval = 1 / 4"
definition default_payload :: bytes where "default_payload = utf8_encode ''netstack-induce''"
definition backoff_after_failures :: nat where "backoff_after_failures = 10"
definition max_backoff :: rat where "max_backoff = 5"

record inducer =
  ind_config :: proxy_config
  interval :: rat
  payload :: bytes
  ind_stop :: bool
  running :: bool
  attempts :: nat
  successes :: nat
  last_error :: "string option"
  error_counts :: "(string \<times> nat) list"
  consecutive_failures :: nat
  waits :: "rat list"

definition new_inducer :: "proxy_config \<Rightarrow> rat \<Rightarrow> bytes \<Rightarrow> inducer" where
  "new_inducer c i p =
     \<lparr>ind_config = c, interval = i, payload = p, ind_stop = False, running = False,
      attempts = 0, successes = 0, last_error = None, error_counts = [],
      consecutive_failures = 0, waits = []\<rparr>"

text \<open>\<open>start\<close> runs one loop at a time; the loop's local counter begins at zero with it.\<close>

definition start_inducer :: "inducer \<Rightarrow> inducer" where
  "start_inducer ind =
     (if running ind then ind
      else ind\<lparr>ind_stop := False, running := True, consecutive_failures := 0\<rparr>)"

definition stop_inducer :: "inducer \<Rightarrow> inducer" where
  "stop_inducer ind = ind\<lparr>ind_stop := True, running := False\<rparr>"

section \<open>One turn\<close>

text \<open>
  \<open>with ProxyClient(config) as client: client.roundtrip(payload)\<close>: connect, relay, and close on
  the way out, whatever happened in between. An error of \<open>close\<close> replaces the one before it.
\<close>

definition induce_once ::
  "(string \<Rightarrow> perror + bytes) \<Rightarrow> (string \<times> int \<Rightarrow> rat \<Rightarrow> perror + sock) \<Rightarrow> inducer \<Rightarrow>
   (perror + unit) \<times> client" where
  "induce_once idna dial ind =
     (case connect_client idna dial (new_client (ind_config ind)) of
        (Inl e, cl) \<Rightarrow> (Inl e, cl)
      | (Inr _, cl) \<Rightarrow>
          (case roundtrip (payload ind) cl of
             (r, cl1) \<Rightarrow>
               (case close_client cl1 of
                  (Inl e, cl2) \<Rightarrow> (Inl e, cl2)
                | (Inr _, cl2) \<Rightarrow> (case r of Inl e \<Rightarrow> (Inl e, cl2) | Inr _ \<Rightarrow> (Inr (), cl2)))))"

fun bump :: "string \<Rightarrow> (string \<times> nat) list \<Rightarrow> (string \<times> nat) list" where
  "bump k [] = [(k, 1)]"
| "bump k ((k', n) # kvs) = (if k = k' then (k', n + 1) # kvs else (k', n) # bump k kvs)"

definition backoff :: "inducer \<Rightarrow> rat" where
  "backoff ind = min (interval ind * of_nat (consecutive_failures ind)) max_backoff"

text \<open>
  A turn of \<open>_loop\<close>. An exception outside \<open>Exception\<close> ends the thread; \<open>waits\<close> records the
  pauses, each of which \<open>stop\<close> cuts short.
\<close>

definition loop_turn ::
  "(string \<Rightarrow> perror + bytes) \<Rightarrow> (string \<times> int \<Rightarrow> rat \<Rightarrow> perror + sock) \<Rightarrow> inducer \<Rightarrow> inducer" where
  "loop_turn idna dial ind0 =
     (if ind_stop ind0 \<or> \<not> running ind0 then ind0\<lparr>running := False\<rparr>
      else let ind = ind0\<lparr>attempts := attempts ind0 + 1\<rparr> in
        (case fst (induce_once idna dial ind) of
           Inl e \<Rightarrow>
             (if \<not> is_a (exc e) PyException then ind\<lparr>running := False\<rparr>
              else
                let name = class_name (exc e);
                    ind1 = ind\<lparr>consecutive_failures := consecutive_failures ind + 1,
                              last_error := Some (name @ '': '' @ msg e),
                              error_counts := bump name (error_counts ind)\<rparr>;
                    ind2 = (if backoff_after_failures \<le> consecutive_failures ind1
                            then ind1\<lparr>waits := waits ind1 @ [backoff ind1]\<rparr> else ind1)
                in ind2\<lparr>waits := waits ind2 @ [interval ind2]\<rparr>)
         | Inr _ \<Rightarrow>
             ind\<lparr>consecutive_failures := 0, successes := successes ind + 1,
                 waits := waits ind @ [interval ind]\<rparr>))"

text \<open>A run, given what the network does in each of its turns.\<close>

definition loop_run ::
  "(string \<Rightarrow> perror + bytes) \<Rightarrow> (string \<times> int \<Rightarrow> rat \<Rightarrow> perror + sock) list \<Rightarrow> inducer \<Rightarrow> inducer" where
  "loop_run idna dials ind = foldl (\<lambda>i dial. loop_turn idna dial i) ind dials"

definition inducer_summary :: "inducer \<Rightarrow> string" where
  "inducer_summary ind =
     (let text = ''induced '' @ dec (successes ind) @ ''/'' @ dec (attempts ind) @
                 '' connections through the proxy''
      in if error_counts ind = [] then text
         else text @ '' (failures: '' @
           join '', '' (map (\<lambda>(name, count). name @ ''x'' @ dec count)
             (sorted_items (error_counts ind))) @
           ''; last: '' @ show_opt (last_error ind) @ '')'')"

section \<open>Properties\<close>

definition failures :: "inducer \<Rightarrow> nat" where
  "failures ind = sum_list (map snd (error_counts ind))"

lemma bump_total [simp]: "sum_list (map snd (bump k kvs)) = Suc (sum_list (map snd kvs))"
  by (induction kvs) auto

lemma bump_keys:
  "map fst (bump k kvs) = (if k \<in> fst ` set kvs then map fst kvs else map fst kvs @ [k])"
proof (induction kvs)
  case (Cons p kvs)
  then show ?case by (cases p) auto
qed simp

lemma bump_distinct [simp]: "distinct (map fst kvs) \<Longrightarrow> distinct (map fst (bump k kvs))"
  by (simp add: bump_keys)

text \<open>Failures since the last success, their count and the text of the last one go together.\<close>

definition inducer_inv :: "inducer \<Rightarrow> bool" where
  "inducer_inv ind \<longleftrightarrow>
     (if running ind then attempts ind = successes ind + failures ind
      else attempts ind \<le> successes ind + failures ind + 1) \<and>
     consecutive_failures ind \<le> failures ind \<and>
     (last_error ind = None) = (error_counts ind = []) \<and>
     distinct (map fst (error_counts ind))"

lemma bump_nonempty [simp]: "bump k kvs \<noteq> []"
  by (induction k kvs rule: bump.induct) auto

lemma loop_turn_inv:
  assumes "inducer_inv ind"
  shows "inducer_inv (loop_turn idna dial ind)"
proof (cases "ind_stop ind \<or> \<not> running ind")
  case True
  with assms show ?thesis
    by (auto simp: inducer_inv_def loop_turn_def failures_def split: if_splits)
next
  case False
  show ?thesis
  proof (cases "fst (induce_once idna dial (ind\<lparr>attempts := attempts ind + 1\<rparr>))")
    case (Inl e)
    with False assms show ?thesis
      by (auto simp: inducer_inv_def loop_turn_def failures_def Let_def split: if_splits)
  next
    case (Inr u)
    with False assms show ?thesis
      by (auto simp: inducer_inv_def loop_turn_def failures_def Let_def split: if_splits)
  qed
qed

lemma loop_run_inv: "inducer_inv ind \<Longrightarrow> inducer_inv (loop_run idna dials ind)"
  by (induction dials arbitrary: ind) (simp_all add: loop_run_def loop_turn_inv)

text \<open>The inducer accounts for every attempt. After any number of turns, whatever the network
  did in each, the attempts are the successes plus the failures tallied by exception type (the
  turn that an exception outside \<open>Exception\<close> ends is the only one that may be missing), and an
  error text is kept exactly when something failed.\<close>

theorem inducer_accounts:
  "let ind = loop_run idna dials (start_inducer (new_inducer c i p))
   in (if running ind then attempts ind = successes ind + failures ind
       else attempts ind \<le> successes ind + failures ind + 1) \<and>
      (last_error ind = None) = (error_counts ind = [])"
proof -
  have "inducer_inv (start_inducer (new_inducer c i p))"
    by (simp add: inducer_inv_def start_inducer_def new_inducer_def failures_def)
  from loop_run_inv [OF this, of idna dials] show ?thesis
    unfolding inducer_inv_def Let_def by blast
qed

lemma loop_turn_waits:
  "interval (loop_turn idna dial ind) = interval ind \<and>
   set (waits (loop_turn idna dial ind)) \<subseteq>
     set (waits ind) \<union> {interval ind} \<union> {w. w \<le> max_backoff}"
  by (auto simp: loop_turn_def Let_def backoff_def split: sum.splits)

text \<open>The pauses are bounded: no turn waits longer than the interval or the ceiling of the
  back-off, however long the proxy keeps failing.\<close>

theorem inducer_waits_bounded:
  "set (waits (loop_run idna dials (new_inducer c i p))) \<subseteq> {i} \<union> {w. w \<le> max_backoff}"
proof -
  have "interval (loop_run idna dials ind) = interval ind \<and>
      set (waits (loop_run idna dials ind)) \<subseteq>
        set (waits ind) \<union> {interval ind} \<union> {w. w \<le> max_backoff}" for ind
  proof (induction dials arbitrary: ind)
    case (Cons d ds)
    then show ?case
      using loop_turn_waits [of idna d ind] Cons [of "loop_turn idna d ind"]
      by (simp add: loop_run_def) blast
  qed (auto simp: loop_run_def)
  from this [of "new_inducer c i p"] show ?thesis by (simp add: new_inducer_def)
qed

text \<open>Whether a turn opens a socket at all.\<close>

definition dialled :: "(string \<times> int \<Rightarrow> rat \<Rightarrow> perror + sock) \<Rightarrow> proxy_config \<Rightarrow> bool" where
  "dialled dial c \<longleftrightarrow>
     (case dial_target c :: perror + (string \<times> int) of
        Inl _ \<Rightarrow> False | Inr t \<Rightarrow> \<not> isl (dial t (proxy_timeout c)))"

lemma connect_new_Inr:
  assumes "connect_client idna dial (new_client c) = (Inr u, cl)"
  shows "\<exists>s. client_sock cl = Some s" "released cl = []" "dialled dial c"
  using assms by (auto simp: connect_client_def new_client_def dialled_def close_client_def
      split: sum.splits prod.splits option.splits)

lemma connect_new_Inl:
  assumes "connect_client idna dial (new_client c) = (Inl e, cl)"
  shows "client_sock cl = None \<and> list_all closed (released cl) \<and>
    length (released cl) = (if dialled dial c then 1 else 0)"
  using assms by (auto simp: connect_client_def new_client_def dialled_def close_client_def
      split: sum.splits prod.splits option.splits)

lemma on_socket_kept:
  assumes "on_socket f cl = (r, cl')" "client_sock cl = Some s"
  shows "(\<exists>s. client_sock cl' = Some s) \<and> released cl' = released cl"
  using assms by (auto simp: on_socket_def split: prod.splits)

lemma roundtrip_kept:
  assumes "roundtrip p cl = (r, cl')" "client_sock cl = Some s"
  shows "(\<exists>s. client_sock cl' = Some s) \<and> released cl' = released cl"
proof -
  obtain r1 cl1 where s: "on_socket (sock_sendall p) cl = (r1, cl1)" by fastforce
  from on_socket_kept [OF s assms(2)] obtain t where
    t: "client_sock cl1 = Some t" "released cl1 = released cl" by blast
  show ?thesis
    using assms(1) s t on_socket_kept [of "recv_exact_sock (length p)" cl1 r cl' t]
    by (auto simp: roundtrip_def send_def recv_exact_def read_then_def split: sum.splits if_splits)
qed

text \<open>C32: a turn leaks no socket: whether it ends in success, in a refusal or in a lost connection,
  the client holds none afterwards, and the socket it opened, if it opened one, was closed.\<close>

theorem induce_once_releases:
  "case induce_once idna dial ind of (r, cl) \<Rightarrow>
     client_sock cl = None \<and> list_all closed (released cl) \<and>
     length (released cl) = (if dialled dial (ind_config ind) then 1 else 0)"
proof -
  obtain r0 cl0 where conn: "connect_client idna dial (new_client (ind_config ind)) = (r0, cl0)"
    by fastforce
  show ?thesis
  proof (cases r0)
    case (Inl e)
    with conn connect_new_Inl [of idna dial "ind_config ind" e cl0] show ?thesis
      by (simp add: induce_once_def)
  next
    case (Inr u)
    from connect_new_Inr [OF conn [unfolded Inr]] obtain s where
      s: "client_sock cl0 = Some s" "released cl0 = []" "dialled dial (ind_config ind)" by blast
    obtain r1 cl1 where rt: "roundtrip (payload ind) cl0 = (r1, cl1)" by fastforce
    from roundtrip_kept [OF rt s(1)] s obtain t where
      "client_sock cl1 = Some t" "released cl1 = []" by auto
    with conn Inr rt s(3) show ?thesis
      by (auto simp: induce_once_def close_client_def split: sum.splits option.splits)
  qed
qed

end
