(* ===== verification/Flags.thy ===== *)
theory Flags
  imports PyText
begin

unbundle bit_operations_syntax

text \<open>
  \<open>src/utils/tcp_flags.py\<close> and \<open>src/packet_engine/sequence.py\<close>: TCP flag bits, the predicates over
  a received packet's flags, and 32-bit sequence arithmetic. A packet is opaque here: the
  argument \<open>tcp_of\<close> reads the flags of its TCP layer, and is \<open>None\<close> when it has none.
\<close>

section \<open>Flag bits\<close>

definition FIN :: int where "FIN = 0x01"
definition SYN :: int where "SYN = 0x02"
definition RST :: int where "RST = 0x04"
definition PSH :: int where "PSH = 0x08"
definition ACK :: int where "ACK = 0x10"
definition URG :: int where "URG = 0x20"
definition ECE :: int where "ECE = 0x40"
definition CWR :: int where "CWR = 0x80"

definition SYN_ACK :: int where "SYN_ACK = SYN OR ACK"
definition FIN_ACK :: int where "FIN_ACK = FIN OR ACK"

lemmas flag_bits = FIN_def SYN_def RST_def PSH_def ACK_def URG_def ECE_def CWR_def

definition flag_names :: "(int \<times> string) list" where
  "flag_names =
     [(FIN, ''FIN''), (SYN, ''SYN''), (RST, ''RST''), (PSH, ''PSH''), (ACK, ''ACK''),
      (URG, ''URG''), (ECE, ''ECE''), (CWR, ''CWR'')]"

section \<open>Sequence space\<close>

definition max_seq :: int where
  "max_seq = 2 ^ 32 - 1"

definition seq32 :: "int \<Rightarrow> int" where
  "seq32 value = value AND max_seq"

lemma seq32_mod: "seq32 v = v mod 2 ^ 32"
proof -
  have "seq32 v = take_bit 32 v"
    by (simp add: seq32_def max_seq_def take_bit_eq_mask mask_eq_exp_minus_1)
  then show ?thesis by (simp add: take_bit_eq_mod)
qed

lemma seq32_range [simp]: "0 \<le> seq32 v" "seq32 v \<le> max_seq"
  using pos_mod_bound [of "2 ^ 32" v] by (simp_all add: seq32_mod max_seq_def)

lemma seq32_add [simp]: "seq32 (seq32 a + b) = seq32 (a + b)"
  by (simp add: seq32_mod mod_simps)

text \<open>The tracker of one connection.\<close>

record tracker =
  seq :: int
  ack :: int

definition new_tracker :: "(int \<Rightarrow> int \<Rightarrow> int) \<Rightarrow> tracker" where
  "new_tracker randint = \<lparr>seq = randint 0 max_seq, ack = 0\<rparr>"

definition on_send :: "int \<Rightarrow> bool \<Rightarrow> bool \<Rightarrow> tracker \<Rightarrow> int \<times> tracker" where
  "on_send payload_len syn fin t =
     (seq t, t\<lparr>seq := seq32 (seq t + payload_len + (if syn \<or> fin then 1 else 0))\<rparr>)"

definition on_receive :: "int \<Rightarrow> int \<Rightarrow> bool \<Rightarrow> bool \<Rightarrow> tracker \<Rightarrow> tracker" where
  "on_receive remote_seq payload_len syn fin t =
     t\<lparr>ack := seq32 (remote_seq + payload_len + (if syn \<or> fin then 1 else 0))\<rparr>"

section \<open>Predicates over a received packet\<close>

definition flags_of :: "('p \<Rightarrow> int option) \<Rightarrow> 'p option \<Rightarrow> int" where
  "flags_of tcp_of packet =
     (case packet of
        None \<Rightarrow> 0
      | Some p \<Rightarrow> (case tcp_of p of None \<Rightarrow> 0 | Some f \<Rightarrow> f))"

definition has_flags :: "('p \<Rightarrow> int option) \<Rightarrow> 'p option \<Rightarrow> int \<Rightarrow> bool" where
  "has_flags tcp_of packet m \<longleftrightarrow> (if m = 0 then False else flags_of tcp_of packet AND m = m)"

definition any_flags :: "('p \<Rightarrow> int option) \<Rightarrow> 'p option \<Rightarrow> int \<Rightarrow> bool" where
  "any_flags tcp_of packet m \<longleftrightarrow> flags_of tcp_of packet AND m \<noteq> 0"

definition is_syn_ack :: "('p \<Rightarrow> int option) \<Rightarrow> 'p option \<Rightarrow> bool" where
  "is_syn_ack tcp_of packet \<longleftrightarrow> has_flags tcp_of packet SYN_ACK"

definition is_bare_syn_ack :: "('p \<Rightarrow> int option) \<Rightarrow> 'p option \<Rightarrow> bool" where
  "is_bare_syn_ack tcp_of packet \<longleftrightarrow>
     is_syn_ack tcp_of packet \<and> flags_of tcp_of packet AND (FIN OR RST) = 0"

definition is_bare_syn :: "('p \<Rightarrow> int option) \<Rightarrow> 'p option \<Rightarrow> bool" where
  "is_bare_syn tcp_of packet \<longleftrightarrow> has_flags tcp_of packet SYN \<and> \<not> has_flags tcp_of packet ACK"

definition is_rst :: "('p \<Rightarrow> int option) \<Rightarrow> 'p option \<Rightarrow> bool" where
  "is_rst tcp_of packet \<longleftrightarrow> has_flags tcp_of packet RST"

definition is_ack :: "('p \<Rightarrow> int option) \<Rightarrow> 'p option \<Rightarrow> bool" where
  "is_ack tcp_of packet \<longleftrightarrow> has_flags tcp_of packet ACK"

definition flag_labels :: "int \<Rightarrow> string" where
  "flag_labels flags =
     (let names = map snd (filter (\<lambda>(b, name). flags AND b \<noteq> 0) flag_names)
      in if names = [] then ''[]'' else ''['' @ join '', '' names @ '']'')"

section \<open>Properties\<close>

lemma and_exp_nonzero: "(f :: int) AND 2 ^ n \<noteq> 0 \<longleftrightarrow> bit f n"
  by (auto simp: bit_eq_iff [where 'a = int] bit_simps)

lemma and_eq_mask_iff: "(f :: int) AND m = m \<longleftrightarrow> (\<forall>n. bit m n \<longrightarrow> bit f n)"
  by (auto simp: bit_eq_iff [where 'a = int] bit_simps)

lemma and_exp_all: "(f :: int) AND 2 ^ n = 2 ^ n \<longleftrightarrow> bit f n"
  by (auto simp: and_eq_mask_iff bit_simps)

lemma flag_exps:
  "FIN = 2 ^ 0" "SYN = 2 ^ 1" "RST = 2 ^ 2" "PSH = 2 ^ 3" "ACK = 2 ^ 4" "URG = 2 ^ 5"
  "ECE = 2 ^ 6" "CWR = 2 ^ 7"
  by (simp_all add: flag_bits)

lemma has_flag_bit: "m = 2 ^ n \<Longrightarrow> has_flags tcp p m \<longleftrightarrow> bit (flags_of tcp p) n"
  by (simp add: has_flags_def and_exp_all)

lemma has_flags_bits:
  "has_flags tcp p FIN = bit (flags_of tcp p) 0" "has_flags tcp p SYN = bit (flags_of tcp p) 1"
  "has_flags tcp p RST = bit (flags_of tcp p) 2" "has_flags tcp p ACK = bit (flags_of tcp p) 4"
  by (rule has_flag_bit, rule flag_exps)+

lemma or_mask_bits:
  "(f :: int) AND (2 ^ m OR 2 ^ n) = 2 ^ m OR 2 ^ n \<longleftrightarrow> bit f m \<and> bit f n"
  "(f :: int) AND (2 ^ m OR 2 ^ n) = 0 \<longleftrightarrow> \<not> bit f m \<and> \<not> bit f n"
  by (auto simp: bit_eq_iff [where 'a = int] bit_simps)

lemma syn_ack_bits: "is_syn_ack tcp p \<longleftrightarrow> bit (flags_of tcp p) 1 \<and> bit (flags_of tcp p) 4"
proof -
  have "SYN_ACK \<noteq> 0" by code_simp
  then show ?thesis
    unfolding is_syn_ack_def has_flags_def SYN_ACK_def flag_exps or_mask_bits by simp
qed

lemma bare_syn_ack_bits: "is_bare_syn_ack tcp p \<longleftrightarrow>
    bit (flags_of tcp p) 1 \<and> bit (flags_of tcp p) 4 \<and>
    \<not> bit (flags_of tcp p) 0 \<and> \<not> bit (flags_of tcp p) 2"
  unfolding is_bare_syn_ack_def syn_ack_bits flag_exps or_mask_bits by blast

text \<open>The verdicts the suite draws from a reply's flags exclude one another where the protocol
  does: a genuine acceptance is a SYN-ACK and neither a reset nor a connection request, a
  connection request is not an acceptance, and a packet without a TCP layer, or no packet at all,
  is none of them.\<close>

theorem verdicts_exclusive:
  "(is_bare_syn_ack tcp p \<longleftrightarrow> is_syn_ack tcp p \<and> \<not> is_rst tcp p \<and> \<not> has_flags tcp p FIN) \<and>
   \<not> (is_bare_syn tcp p \<and> is_syn_ack tcp p) \<and> \<not> (is_bare_syn_ack tcp p \<and> is_rst tcp p) \<and>
   (is_syn_ack tcp p \<longleftrightarrow> has_flags tcp p SYN \<and> is_ack tcp p) \<and>
   \<not> is_bare_syn tcp None \<and> \<not> is_syn_ack tcp None \<and> \<not> is_rst tcp None \<and>
   \<not> is_syn_ack (\<lambda>_. None) p \<and> \<not> is_rst (\<lambda>_. None) p"
proof -
  have "flags_of tcp None = 0" "flags_of (\<lambda>_. None) p = 0"
    by (simp_all add: flags_of_def split: option.splits)
  then show ?thesis
    by (auto simp: bare_syn_ack_bits syn_ack_bits is_rst_def is_ack_def is_bare_syn_def
        has_flags_bits)
qed


end
