(* ===== verification/Payloads.thy ===== *)
theory Payloads
  imports Errors
begin

text \<open>
  \<open>src/packet_engine/payloads.py\<close>: the application-layer bytes that ride in a crafted packet. The
  operating system's random source and the file system are arguments.
\<close>

datatype payload_mode = Zeros | Ones | Random | Custom

fun payload_mode_value :: "payload_mode \<Rightarrow> string" where
  "payload_mode_value Zeros = ''zeros''"
| "payload_mode_value Ones = ''ones''"
| "payload_mode_value Random = ''random''"
| "payload_mode_value Custom = ''custom''"

text \<open>\<open>b * sz\<close> is empty for a negative size; \<open>os.urandom\<close> raises.\<close>

definition zeros :: "int \<Rightarrow> bytes" where
  "zeros sz = replicate (nat sz) 0"

definition ones :: "int \<Rightarrow> bytes" where
  "ones sz = replicate (nat sz) 255"

definition random_bytes :: "(nat \<Rightarrow> bytes) \<Rightarrow> int \<Rightarrow> 'd exn + bytes" where
  "random_bytes urandom sz =
     (if sz < 0 then raise_exc ValueError ''negative argument not allowed''
      else Inr (urandom (nat sz)))"

definition from_text :: "string \<Rightarrow> bytes" where
  "from_text text = utf8_encode text"

section \<open>Hexadecimal payloads\<close>

definition ascii_space :: "char \<Rightarrow> bool" where
  "ascii_space c \<longleftrightarrow> 9 \<le> ord c \<and> ord c \<le> 13 \<or> ord c = 32"

text \<open>
  \<open>bytes.fromhex\<close>: pairs of digits, white space allowed before each pair. \<open>Inl\<close> is the position
  of the character that is no digit, or of the end of a text with a digit left over.
\<close>

fun fromhex_at :: "nat \<Rightarrow> string \<Rightarrow> nat + bytes" where
  "fromhex_at i [] = Inr []"
| "fromhex_at i (c # cs) =
     (if ascii_space c then fromhex_at (i + 1) cs
      else case hex_val c of
        None \<Rightarrow> Inl i
      | Some hi \<Rightarrow>
          (case cs of
             [] \<Rightarrow> Inl (i + 1)
           | d # ds \<Rightarrow>
               (case hex_val d of
                  None \<Rightarrow> Inl (i + 1)
                | Some lo \<Rightarrow>
                    (case fromhex_at (i + 2) ds of
                       Inl j \<Rightarrow> Inl j
                     | Inr bs \<Rightarrow> Inr (word_of_nat (16 * hi + lo) # bs)))))"

definition fromhex :: "string \<Rightarrow> nat + bytes" where
  "fromhex s =
     (if is_ascii s then fromhex_at 0 s
      else Inl (length (takeWhile (\<lambda>c. ord c < 128) s)))"

definition without :: "char \<Rightarrow> string \<Rightarrow> string" where
  "without c s = filter (\<lambda>d. d \<noteq> c) s"

definition from_hex :: "string \<Rightarrow> 'd exn + bytes" where
  "from_hex hex_str =
     (case fromhex (without (CHR '':'') (without (CHR '' '') hex_str)) of
        Inl i \<Rightarrow> raise_exc ConfigurationError
          (''payload hex is not valid hex: non-hexadecimal number found in fromhex() arg at position '' @
           dec i)
      | Inr bs \<Rightarrow> Inr bs)"

text \<open>\<open>read_bytes\<close> is the file system: \<open>Inl\<close> the text of an \<open>OSError\<close>.\<close>

definition from_file :: "(string \<Rightarrow> string + bytes) \<Rightarrow> string \<Rightarrow> 'd exn + bytes" where
  "from_file read_bytes path =
     (case read_bytes path of
        Inl m \<Rightarrow> raise_exc ConfigurationError
          (''payload file '' @ py_repr path @ '' could not be read: '' @ m)
      | Inr bs \<Rightarrow> Inr bs)"

definition resolve_custom_source ::
  "(string \<Rightarrow> string + bytes) \<Rightarrow> string option \<Rightarrow> string option \<Rightarrow> string option \<Rightarrow>
   'd exn + bytes option" where
  "resolve_custom_source read_bytes text hex_str file =
     (case text of
        Some (c # cs) \<Rightarrow> Inr (Some (from_text (c # cs)))
      | _ \<Rightarrow>
          (case hex_str of
             Some (c # cs) \<Rightarrow> rbind (from_hex (c # cs)) (\<lambda>bs. Inr (Some bs))
           | _ \<Rightarrow>
               (case file of
                  Some (c # cs) \<Rightarrow> rbind (from_file read_bytes (c # cs)) (\<lambda>bs. Inr (Some bs))
                | _ \<Rightarrow> Inr None)))"

text \<open>\<open>_GENERATORS\<close>, and the dispatcher over it.\<close>

definition generators ::
  "(nat \<Rightarrow> bytes) \<Rightarrow> (payload_mode \<times> (int \<Rightarrow> 'd exn + bytes)) list" where
  "generators urandom =
     [(Zeros, \<lambda>n. Inr (zeros n)), (Ones, \<lambda>n. Inr (ones n)), (Random, random_bytes urandom)]"

definition resolve_payload ::
  "(nat \<Rightarrow> bytes) \<Rightarrow> payload_mode \<Rightarrow> int \<Rightarrow> bytes option \<Rightarrow> 'd exn + bytes" where
  "resolve_payload urandom mode sz custom =
     (if mode = Custom then
        (case custom of
           None \<Rightarrow> raise_exc ConfigurationError ''PayloadMode.CUSTOM requires `custom` bytes''
         | Some bs \<Rightarrow> Inr bs)
      else case map_of (generators urandom) mode of
          Some gen \<Rightarrow> gen sz
        | None \<Rightarrow> raise_exc ValueError (''Unhandled PayloadMode: '' @ payload_mode_value mode))"

section \<open>Properties\<close>

definition hex_text :: "bytes \<Rightarrow> string" where
  "hex_text bs = concat (map (\<lambda>b. hex2 (unat b)) bs)"

text \<open>The text form of a payload with the separators the front ends tolerate.\<close>

definition separator :: "string \<Rightarrow> bool" where
  "separator s \<longleftrightarrow> list_all (\<lambda>c. c = CHR '' '' \<or> c = CHR '':'') s"

lemma hex_digit_char:
  assumes "n < 16"
  shows "hex_digit n \<noteq> CHR '' ''" "hex_digit n \<noteq> CHR '':''" "\<not> ascii_space (hex_digit n)"
    "ord (hex_digit n) < 128"
proof -
  have "48 \<le> ord (hex_digit n) \<and> ord (hex_digit n) \<le> 57 \<or> 97 \<le> ord (hex_digit n) \<and> ord (hex_digit n) \<le> 102"
    using assms by (auto simp: hex_digit_def)
  moreover have "ord (CHR '' '') = 32" "ord (CHR '':'') = 58" by code_simp+
  ultimately show "hex_digit n \<noteq> CHR '' ''" "hex_digit n \<noteq> CHR '':''" "\<not> ascii_space (hex_digit n)"
    "ord (hex_digit n) < 128"
    by (auto simp: ascii_space_def)
qed

lemma hex2_chars: "hex2 n = [hex_digit (n div 16 mod 16), hex_digit (n mod 16)]"
  by (simp add: hex2_def)

definition clean :: "string \<Rightarrow> string" where
  "clean s = without (CHR '':'') (without (CHR '' '') s)"

lemma clean_append: "clean (s @ t) = clean s @ clean t"
  by (simp add: clean_def without_def)

lemma clean_hex2: "clean (hex2 n) = hex2 n"
  by (simp add: clean_def without_def hex2_def hex_digit_char)

lemma clean_separator: "separator s \<Longrightarrow> clean s = []"
  by (induction s) (auto simp: clean_def without_def separator_def)

lemma fromhex_hex2:
  "fromhex_at i (hex2 (unat (b :: byte)) @ s) =
     (case fromhex_at (i + 2) s of Inl j \<Rightarrow> Inl j | Inr bs \<Rightarrow> Inr (b # bs))"
proof -
  have b: "unat b < 256" using unsigned_less [of b] by simp
  then have "16 * (unat b div 16 mod 16) + unat b mod 16 = unat b" by simp
  then show ?thesis
    by (simp add: hex2_def hex_digit_char del: of_nat_add of_nat_mult split: sum.split)
qed

lemma fromhex_at_hex_text: "fromhex_at i (hex_text bs) = Inr bs"
  by (induction bs arbitrary: i) (simp_all add: hex_text_def fromhex_hex2)

lemma is_ascii_hex_text: "is_ascii (hex_text bs)"
  by (induction bs) (simp_all add: hex_text_def is_ascii_def hex2_def hex_digit_char)

text \<open>Every byte string can be given as hexadecimal: its digits, with any spaces and colons
  before each byte and at the end, are read back as exactly those bytes.\<close>

theorem from_hex_tolerant:
  assumes "list_all separator seps" "length seps = length bs" "separator tail"
  shows "from_hex (concat (map2 (\<lambda>s b. s @ hex2 (unat b)) seps bs) @ tail) =
    (Inr bs :: 'd exn + bytes)"
proof -
  have "clean (concat (map2 (\<lambda>s b. s @ hex2 (unat b)) seps bs) @ tail) = hex_text bs"
    using assms(2,1)
  proof (induction seps bs rule: list_induct2)
    case Nil
    then show ?case using clean_separator [OF assms(3)] by (simp add: hex_text_def)
  next
    case (Cons s seps b bs)
    then show ?case
      by (simp add: clean_append clean_separator clean_hex2 hex_text_def)
  qed
  then show ?thesis
    by (simp add: from_hex_def fromhex_def is_ascii_hex_text fromhex_at_hex_text flip: clean_def)
qed

lemma from_hex_tolerant_witness: "from_hex ''de:ad be ef'' = (Inr [0xde, 0xad, 0xbe, 0xef] :: unit exn + bytes)"
proof -
  have "list_all separator [[], '':'', '' '', '' '']" "length [[], '':'', '' '', '' ''] = length [0xde :: byte, 0xad, 0xbe, 0xef]"
    "separator []" by code_simp+
  from from_hex_tolerant [OF this]
  have "from_hex (concat (map2 (\<lambda>s b. s @ hex2 (unat b)) [[], '':'', '' '', '' ''] [0xde :: byte, 0xad, 0xbe, 0xef]) @ []) =
    (Inr [0xde, 0xad, 0xbe, 0xef] :: unit exn + bytes)" .
  moreover have "concat (map2 (\<lambda>s b. s @ hex2 (unat b)) [[], '':'', '' '', '' ''] [0xde :: byte, 0xad, 0xbe, 0xef]) @ [] =
    ''de:ad be ef''" by code_simp
  ultimately show ?thesis by simp
qed

text \<open>The dispatcher covers every mode: the size-driven ones give exactly the requested number
  of bytes of their pattern, the custom mode gives the caller's bytes, and the internal
  "unhandled mode" error is never raised.\<close>

theorem resolve_payload_spec:
  "resolve_payload urandom mode (int n) custom =
     (case mode of
        Zeros \<Rightarrow> Inr (replicate n 0)
      | Ones \<Rightarrow> Inr (replicate n 255)
      | Random \<Rightarrow> Inr (urandom n)
      | Custom \<Rightarrow>
          (case custom of
             Some bs \<Rightarrow> Inr bs
           | None \<Rightarrow> raise_exc ConfigurationError ''PayloadMode.CUSTOM requires `custom` bytes''))"
  by (cases mode) (simp_all add: resolve_payload_def generators_def zeros_def ones_def random_bytes_def)

end
