(* ===== verification/Packets.thy ===== *)
theory Packets
  imports Flags Payloads
begin

unbundle bit_operations_syntax

text \<open>
  The packet-crafting layer: \<open>src/packet_engine/builders.py\<close> and \<open>src/custom_packet/builder.py\<close>.
  Packets are Scapy's, a library the sources only call: a \<open>scapy\<close> value holds the constructors and
  accessors they use, and \<open>scapy_ok\<close> states what they rely on: a layer's accessor reads back the
  fields the layer was built with, and looks through the layers stacked around it.
\<close>

section \<open>Scapy\<close>

text \<open>The keyword arguments given to \<open>IP(...)\<close> and \<open>TCP(...)\<close>; an absent one is \<open>None\<close>.\<close>

record ip_args =
  a_src :: string
  a_dst :: string
  a_ttl :: "int option"
  a_flags :: "string option"
  a_frag :: "int option"
  a_proto :: "int option"

record tcp_args =
  a_sport :: int
  a_dport :: int
  a_tcp_flags :: string
  a_seq :: "int option"
  a_ack :: int
  a_window :: int

text \<open>What is read off a TCP layer.\<close>

record tcp_view =
  v_sport :: int
  v_dport :: int
  v_flags :: int
  v_seq :: int
  v_ack :: int
  v_window :: int

record 'p scapy =
  sc_ether :: "string \<Rightarrow> string \<Rightarrow> 'p"
  sc_ip :: "ip_args \<Rightarrow> 'p"
  sc_tcp :: "tcp_args \<Rightarrow> 'p"
  sc_udp :: "int \<Rightarrow> int \<Rightarrow> 'p"
  sc_icmp :: "int \<Rightarrow> int \<Rightarrow> int \<Rightarrow> 'p"
  sc_raw :: "bytes \<Rightarrow> 'p"
  sc_over :: "'p \<Rightarrow> 'p \<Rightarrow> 'p"
  ether_of :: "'p \<Rightarrow> (string \<times> string) option"
  ip_of :: "'p \<Rightarrow> (string \<times> string) option"
  tcp_of :: "'p \<Rightarrow> tcp_view option"
  udp_of :: "'p \<Rightarrow> (int \<times> int) option"
  icmp_of :: "'p \<Rightarrow> (int \<times> int \<times> int) option"
  raw_of :: "'p \<Rightarrow> bytes option"
  icmp_code :: "'p \<Rightarrow> int"
  ip_proto :: "'p \<Rightarrow> int"
  sc_summary :: "'p \<Rightarrow> string"
  sc_len :: "'p \<Rightarrow> nat"

text \<open>The value of a flag string: the letters F S R P A U E C name the bits.\<close>

definition flag_letter :: "char \<Rightarrow> int" where
  "flag_letter c =
     (if c = CHR ''F'' then FIN else if c = CHR ''S'' then SYN else if c = CHR ''R'' then RST
      else if c = CHR ''P'' then PSH else if c = CHR ''A'' then ACK else if c = CHR ''U'' then URG
      else if c = CHR ''E'' then ECE else if c = CHR ''C'' then CWR else 0)"

definition flags_value :: "string \<Rightarrow> int" where
  "flags_value s = foldl (\<lambda>f c. f OR flag_letter c) 0 s"

definition first_of :: "'a option \<Rightarrow> 'a option \<Rightarrow> 'a option" where
  "first_of x y = (case x of Some v \<Rightarrow> Some v | None \<Rightarrow> y)"

definition tcp_seen :: "tcp_args \<Rightarrow> tcp_view" where
  "tcp_seen a = \<lparr>v_sport = a_sport a, v_dport = a_dport a, v_flags = flags_value (a_tcp_flags a),
     v_seq = (case a_seq a of Some n \<Rightarrow> n | None \<Rightarrow> 0), v_ack = a_ack a, v_window = a_window a\<rparr>"

definition scapy_ok :: "'p scapy \<Rightarrow> bool" where
  "scapy_ok S \<longleftrightarrow>
     (\<forall>p q. ether_of S (sc_over S p q) = first_of (ether_of S p) (ether_of S q) \<and>
            ip_of S (sc_over S p q) = first_of (ip_of S p) (ip_of S q) \<and>
            tcp_of S (sc_over S p q) = first_of (tcp_of S p) (tcp_of S q) \<and>
            udp_of S (sc_over S p q) = first_of (udp_of S p) (udp_of S q) \<and>
            icmp_of S (sc_over S p q) = first_of (icmp_of S p) (icmp_of S q) \<and>
            raw_of S (sc_over S p q) = first_of (raw_of S p) (raw_of S q)) \<and>
     (\<forall>s d. ether_of S (sc_ether S s d) = Some (s, d) \<and> ip_of S (sc_ether S s d) = None \<and>
            tcp_of S (sc_ether S s d) = None \<and> udp_of S (sc_ether S s d) = None \<and>
            icmp_of S (sc_ether S s d) = None \<and> raw_of S (sc_ether S s d) = None) \<and>
     (\<forall>a. ip_of S (sc_ip S a) = Some (a_src a, a_dst a) \<and> ether_of S (sc_ip S a) = None \<and>
            tcp_of S (sc_ip S a) = None \<and> udp_of S (sc_ip S a) = None \<and>
            icmp_of S (sc_ip S a) = None \<and> raw_of S (sc_ip S a) = None) \<and>
     (\<forall>a. tcp_of S (sc_tcp S a) = Some (tcp_seen a) \<and> ether_of S (sc_tcp S a) = None \<and>
            ip_of S (sc_tcp S a) = None \<and> udp_of S (sc_tcp S a) = None \<and>
            icmp_of S (sc_tcp S a) = None \<and> raw_of S (sc_tcp S a) = None) \<and>
     (\<forall>s d. udp_of S (sc_udp S s d) = Some (s, d) \<and> ether_of S (sc_udp S s d) = None \<and>
            ip_of S (sc_udp S s d) = None \<and> tcp_of S (sc_udp S s d) = None \<and>
            icmp_of S (sc_udp S s d) = None \<and> raw_of S (sc_udp S s d) = None) \<and>
     (\<forall>t i n. icmp_of S (sc_icmp S t i n) = Some (t, i, n) \<and> ether_of S (sc_icmp S t i n) = None \<and>
            ip_of S (sc_icmp S t i n) = None \<and> tcp_of S (sc_icmp S t i n) = None \<and>
            udp_of S (sc_icmp S t i n) = None \<and> raw_of S (sc_icmp S t i n) = None) \<and>
     (\<forall>bs. raw_of S (sc_raw S bs) = Some bs \<and> ether_of S (sc_raw S bs) = None \<and>
            ip_of S (sc_raw S bs) = None \<and> tcp_of S (sc_raw S bs) = None \<and>
            udp_of S (sc_raw S bs) = None \<and> icmp_of S (sc_raw S bs) = None)"

lemma first_of_simps [simp]:
  "first_of None y = y" "first_of (Some v) y = Some v" "first_of x None = x"
  by (simp_all add: first_of_def split: option.split)

section \<open>Builders\<close>

definition default_ttl :: int where "default_ttl = 64"
definition default_window :: int where "default_window = 8192"

definition with_payload :: "'p scapy \<Rightarrow> 'p \<Rightarrow> bytes \<Rightarrow> 'p" where
  "with_payload S pkt payload = (if payload \<noteq> [] then sc_over S pkt (sc_raw S payload) else pkt)"

definition build_ip ::
  "'p scapy \<Rightarrow> string \<Rightarrow> string \<Rightarrow> int \<Rightarrow> string \<Rightarrow> int \<Rightarrow> int option \<Rightarrow> bytes \<Rightarrow> 'p" where
  "build_ip S src_ip dst_ip ttl flags frag proto payload =
     with_payload S
       (sc_ip S \<lparr>a_src = src_ip, a_dst = dst_ip, a_ttl = Some ttl, a_flags = Some flags,
                 a_frag = Some frag, a_proto = proto\<rparr>) payload"

definition plain_ip :: "'p scapy \<Rightarrow> string \<Rightarrow> string \<Rightarrow> int option \<Rightarrow> 'p" where
  "plain_ip S src_ip dst_ip ttl =
     sc_ip S \<lparr>a_src = src_ip, a_dst = dst_ip, a_ttl = ttl, a_flags = None, a_frag = None,
              a_proto = None\<rparr>"

definition build_udp ::
  "'p scapy \<Rightarrow> string \<Rightarrow> string \<Rightarrow> int \<Rightarrow> int \<Rightarrow> int \<Rightarrow> bytes \<Rightarrow> 'p" where
  "build_udp S src_ip dst_ip src_port dst_port ttl payload =
     with_payload S (sc_over S (plain_ip S src_ip dst_ip (Some ttl)) (sc_udp S src_port dst_port))
       payload"

definition build_tcp ::
  "'p scapy \<Rightarrow> string \<Rightarrow> string \<Rightarrow> int \<Rightarrow> int \<Rightarrow> string \<Rightarrow> int option \<Rightarrow> int \<Rightarrow> int \<Rightarrow> int \<Rightarrow> bytes \<Rightarrow> 'p" where
  "build_tcp S src_ip dst_ip src_port dst_port flags sq ak window ttl payload =
     with_payload S
       (sc_over S (plain_ip S src_ip dst_ip (Some ttl))
          (sc_tcp S \<lparr>a_sport = src_port, a_dport = dst_port, a_tcp_flags = flags, a_seq = sq,
                     a_ack = ak, a_window = window\<rparr>))
       payload"

definition wrap_ethernet :: "'p scapy \<Rightarrow> 'p \<Rightarrow> string \<Rightarrow> string \<Rightarrow> 'p" where
  "wrap_ethernet S l3_packet src_mac dst_mac = sc_over S (sc_ether S src_mac dst_mac) l3_packet"

section \<open>Custom packets\<close>

datatype proto = TCP | UDP

fun proto_value :: "proto \<Rightarrow> string" where
  "proto_value TCP = ''tcp''"
| "proto_value UDP = ''udp''"

record custom_spec =
  c_proto :: proto
  c_src_ip :: string
  c_dst_ip :: string
  c_src_port :: int
  c_dst_port :: int
  c_src_mac :: string
  c_dst_mac :: string
  c_ttl :: int
  c_tcp_flags :: string
  c_payload_mode :: payload_mode
  c_payload_size :: int
  c_custom_payload :: "bytes option"

definition build_custom_packet ::
  "'p scapy \<Rightarrow> (nat \<Rightarrow> bytes) \<Rightarrow> custom_spec \<Rightarrow> 'd exn + 'p" where
  "build_custom_packet S urandom spec =
     rbind (resolve_payload urandom (c_payload_mode spec) (c_payload_size spec) (c_custom_payload spec))
       (\<lambda>payload.
         let l3 = (case c_proto spec of
             TCP \<Rightarrow> build_tcp S (c_src_ip spec) (c_dst_ip spec) (c_src_port spec) (c_dst_port spec)
                      (c_tcp_flags spec) None 0 default_window (c_ttl spec) payload
           | UDP \<Rightarrow> build_udp S (c_src_ip spec) (c_dst_ip spec) (c_src_port spec) (c_dst_port spec)
                      (c_ttl spec) payload)
         in Inr (wrap_ethernet S l3 (c_src_mac spec) (c_dst_mac spec)))"

section \<open>A concrete packet library\<close>

text \<open>Layers as data, outermost first: an instance of the interface, for the witnesses.\<close>

datatype layer =
    LEther string string
  | LIp ip_args
  | LTcp tcp_args
  | LUdp int int
  | LIcmp int int int
  | LRaw bytes

fun find_layer :: "(layer \<Rightarrow> 'a option) \<Rightarrow> layer list \<Rightarrow> 'a option" where
  "find_layer f [] = None"
| "find_layer f (l # ls) = first_of (f l) (find_layer f ls)"

definition layers :: "layer list scapy" where
  "layers = \<lparr>sc_ether = (\<lambda>s d. [LEther s d]), sc_ip = (\<lambda>a. [LIp a]), sc_tcp = (\<lambda>a. [LTcp a]),
     sc_udp = (\<lambda>s d. [LUdp s d]), sc_icmp = (\<lambda>t i n. [LIcmp t i n]), sc_raw = (\<lambda>bs. [LRaw bs]),
     sc_over = (@),
     ether_of = find_layer (\<lambda>l. case l of LEther s d \<Rightarrow> Some (s, d) | _ \<Rightarrow> None),
     ip_of = find_layer (\<lambda>l. case l of LIp a \<Rightarrow> Some (a_src a, a_dst a) | _ \<Rightarrow> None),
     tcp_of = find_layer (\<lambda>l. case l of LTcp a \<Rightarrow> Some (tcp_seen a) | _ \<Rightarrow> None),
     udp_of = find_layer (\<lambda>l. case l of LUdp s d \<Rightarrow> Some (s, d) | _ \<Rightarrow> None),
     icmp_of = find_layer (\<lambda>l. case l of LIcmp t i n \<Rightarrow> Some (t, i, n) | _ \<Rightarrow> None),
     raw_of = find_layer (\<lambda>l. case l of LRaw bs \<Rightarrow> Some bs | _ \<Rightarrow> None),
     icmp_code = (\<lambda>_. 0), ip_proto = (\<lambda>_. 0), sc_summary = (\<lambda>_. ''packet''),
     sc_len = length\<rparr>"

lemma find_layer_append: "find_layer f (xs @ ys) = first_of (find_layer f xs) (find_layer f ys)"
  by (induction xs) (auto simp: first_of_def split: option.splits)

lemma layers_ok: "scapy_ok layers"
  by (simp add: scapy_ok_def layers_def find_layer_append)

section \<open>Properties\<close>


definition demo_spec :: custom_spec where
  "demo_spec = \<lparr>c_proto = TCP, c_src_ip = ''10.0.0.1'', c_dst_ip = ''10.0.0.5'', c_src_port = 50000,
     c_dst_port = 80, c_src_mac = ''aa'', c_dst_mac = ''bb'', c_ttl = 64, c_tcp_flags = ''SA'',
     c_payload_mode = Ones, c_payload_size = 2, c_custom_payload = None\<rparr>"


end
