(* ===== verification/Models.thy ===== *)
theory Models
  imports PyVal
begin

text \<open>
  \<open>src/reporting/models.py\<close>: the canonical result models and their dictionary forms, and the counts
  every front end prints. Dates are records of their fields; \<open>datetime.fromisoformat\<close> is an
  argument, of which only that it reads back what \<open>isoformat\<close> printed is ever used.
\<close>

section \<open>Dates\<close>

record datetime =
  year :: nat
  month :: nat
  day :: nat
  hour :: nat
  minute :: nat
  second :: nat
  micros :: nat

text \<open>\<open>datetime.isoformat()\<close> of a UTC time: the fraction only when it is not zero.\<close>

definition two :: "nat \<Rightarrow> string" where
  "two n = pad_left 2 (CHR ''0'') (dec n)"

definition isoformat :: "datetime \<Rightarrow> string" where
  "isoformat d =
     pad_left 4 (CHR ''0'') (dec (year d)) @ ''-'' @ two (month d) @ ''-'' @ two (day d) @ ''T'' @
     two (hour d) @ '':'' @ two (minute d) @ '':'' @ two (second d) @
     (if micros d = 0 then '''' else ''.'' @ pad_left 6 (CHR ''0'') (dec (micros d))) @ ''+00:00''"

lemma isoformat_nonempty [simp]: "isoformat d \<noteq> []"
  by (simp add: isoformat_def)

section \<open>Packet events\<close>

datatype packet_direction = SENT | RECEIVED

fun direction_value :: "packet_direction \<Rightarrow> string" where
  "direction_value SENT = ''sent''"
| "direction_value RECEIVED = ''received''"

definition direction_of :: "string \<Rightarrow> packet_direction option" where
  "direction_of s =
     (if s = ''sent'' then Some SENT else if s = ''received'' then Some RECEIVED else None)"

record packet_event =
  timestamp :: rat
  direction :: packet_direction
  ev_summary :: string
  size_bytes :: int
  ev_nodeid :: "string option"

definition packet_to_dict :: "packet_event \<Rightarrow> pydict" where
  "packet_to_dict e =
     [(''timestamp'', PFloat (timestamp e)),
      (''direction'', PStr (direction_value (direction e))),
      (''summary'', PStr (ev_summary e)),
      (''size_bytes'', PInt (size_bytes e)),
      (''test_nodeid'', put_opt PStr (ev_nodeid e))]"

text \<open>
  \<open>PacketDirection(data["direction"])\<close>: a missing key is a \<open>KeyError\<close>, an unknown value a
  \<open>ValueError\<close> (a list or dictionary compares unequal to every value as well).
\<close>

definition direction_from :: "pydict \<Rightarrow> 'd exn + packet_direction" where
  "direction_from d =
     (case map_of d ''direction'' of
        None \<Rightarrow> raise_exc KeyError ''direction''
      | Some v \<Rightarrow>
          (case Option.bind (get_str v) direction_of of
             Some x \<Rightarrow> Inr x
           | None \<Rightarrow> raise_exc ValueError ''not a valid PacketDirection''))"

definition packet_keys :: "string list" where
  "packet_keys = [''timestamp'', ''direction'', ''summary'', ''size_bytes'', ''test_nodeid'']"

definition packet_fields :: "pydict \<Rightarrow> packet_direction \<Rightarrow> packet_event option" where
  "packet_fields d x =
     (case (get_float (dget d ''timestamp'' PNone), get_str (dget d ''summary'' PNone),
            get_int (dget d ''size_bytes'' PNone),
            get_opt get_str (dget d ''test_nodeid'' PNone)) of
        (Some t, Some s, Some n, Some i) \<Rightarrow>
          Some \<lparr>timestamp = t, direction = x, ev_summary = s, size_bytes = n, ev_nodeid = i\<rparr>
      | _ \<Rightarrow> None)"

text \<open>\<open>cls(**...)\<close> rejects an unknown key and a missing required one.\<close>

definition packet_from_dict :: "pydict \<Rightarrow> ('d exn + packet_event) option" where
  "packet_from_dict d =
     (case direction_from d of
        Inl e \<Rightarrow> Some (Inl e)
      | Inr x \<Rightarrow>
          (if list_ex (\<lambda>(k, v). k \<notin> set packet_keys) d
           then Some (raise_exc TypeError ''unexpected keyword argument'')
           else if list_ex (\<lambda>k. map_of d k = None) (butlast packet_keys)
           then Some (raise_exc TypeError ''missing required positional arguments'')
           else map_option Inr (packet_fields d x)))"

section \<open>Test events\<close>

datatype test_outcome = PASSED | FAILED | SKIPPED | ERROR

fun outcome_value :: "test_outcome \<Rightarrow> string" where
  "outcome_value PASSED = ''passed''"
| "outcome_value FAILED = ''failed''"
| "outcome_value SKIPPED = ''skipped''"
| "outcome_value ERROR = ''error''"

definition outcome_of :: "string \<Rightarrow> test_outcome option" where
  "outcome_of s =
     (if s = ''passed'' then Some PASSED else if s = ''failed'' then Some FAILED
      else if s = ''skipped'' then Some SKIPPED else if s = ''error'' then Some ERROR else None)"

record test_event =
  nodeid :: string
  outcome :: test_outcome
  duration_s :: rat
  event_markers :: "string list"
  message :: "string option"

definition test_to_dict :: "test_event \<Rightarrow> pydict" where
  "test_to_dict t =
     [(''nodeid'', PStr (nodeid t)),
      (''outcome'', PStr (outcome_value (outcome t))),
      (''duration_s'', PFloat (duration_s t)),
      (''markers'', PList (map PStr (event_markers t))),
      (''message'', put_opt PStr (message t))]"

definition outcome_from :: "pydict \<Rightarrow> 'd exn + test_outcome" where
  "outcome_from d =
     (case map_of d ''outcome'' of
        None \<Rightarrow> raise_exc KeyError ''outcome''
      | Some v \<Rightarrow>
          (case Option.bind (get_str v) outcome_of of
             Some x \<Rightarrow> Inr x
           | None \<Rightarrow> raise_exc ValueError ''not a valid TestOutcome''))"

definition test_fields :: "pydict \<Rightarrow> test_outcome \<Rightarrow> test_event option" where
  "test_fields d x =
     (case (get_str (dget d ''nodeid'' PNone), get_float (dget d ''duration_s'' PNone),
            get_strs (dget d ''markers'' (PList [])),
            get_opt get_str (dget d ''message'' PNone)) of
        (Some n, Some t, Some ms, Some m) \<Rightarrow>
          Some \<lparr>nodeid = n, outcome = x, duration_s = t, event_markers = ms, message = m\<rparr>
      | _ \<Rightarrow> None)"

text \<open>Unknown keys are dropped here; \<open>markers\<close> and \<open>message\<close> have defaults.\<close>

definition test_from_dict :: "pydict \<Rightarrow> ('d exn + test_event) option" where
  "test_from_dict d =
     (case outcome_from d of
        Inl e \<Rightarrow> Some (Inl e)
      | Inr x \<Rightarrow>
          (if map_of d ''nodeid'' = None \<or> map_of d ''duration_s'' = None
           then Some (raise_exc TypeError ''missing required positional arguments'')
           else map_option Inr (test_fields d x)))"

definition summary_line :: "nat \<Rightarrow> test_event \<Rightarrow> string" where
  "summary_line label_width t =
     (let line = ''['' @ pad_right label_width (CHR '' '') (map upper_char (outcome_value (outcome t))) @
                 ''] '' @ nodeid t @ '' ('' @ fixed 3 (duration_s t) @ ''s)''
      in case message t of
           Some (c # cs) \<Rightarrow> line @ '' '' @ em_dash @ '' '' @ (c # cs)
         | _ \<Rightarrow> line)"

section \<open>The result of a run\<close>

record run_result =
  run_id :: string
  started_at :: "datetime option"
  finished_at :: "datetime option"
  run_target_ip :: "string option"
  run_target_stack :: "string option"
  host_platform :: string
  run_payload_mode :: string
  run_role :: string
  run_proxy_leg :: "string option"
  tests :: "test_event list"
  packet_events :: "packet_event list"
  pytest_returncode :: "int option"

definition role_description :: "run_result \<Rightarrow> string" where
  "role_description r =
     (if run_proxy_leg r = Some ''front'' then
        ''client '' @ em_dash @ '' probing the FRONT leg of a proxy DUT: the stack it serves '' @
        ''its own clients with''
      else if run_proxy_leg r = Some ''back'' then
        ''server '' @ em_dash @ '' observing the BACK leg of a proxy DUT: the stack it dials '' @
        ''origin servers with (traffic induced through the front)''
      else if run_role r = ''server'' then
        ''server '' @ em_dash @
        '' the suite responded; the DUT initiated (validates its client path)''
      else ''client '' @ em_dash @ '' the suite initiated (validates the DUT's responder)'')"

definition errored :: "run_result \<Rightarrow> bool" where
  "errored r \<longleftrightarrow> (case pytest_returncode r of None \<Rightarrow> False | Some n \<Rightarrow> 2 \<le> n)"

definition count_outcome :: "test_outcome \<Rightarrow> run_result \<Rightarrow> nat" where
  "count_outcome x r = length (filter (\<lambda>t. outcome t = x) (tests r))"

definition passed :: "run_result \<Rightarrow> nat" where "passed r = count_outcome PASSED r"
definition failed :: "run_result \<Rightarrow> nat" where "failed r = count_outcome FAILED r"
definition errors :: "run_result \<Rightarrow> nat" where "errors r = count_outcome ERROR r"
definition skipped :: "run_result \<Rightarrow> nat" where "skipped r = count_outcome SKIPPED r"
definition total :: "run_result \<Rightarrow> nat" where "total r = length (tests r)"

definition counts_summary :: "run_result \<Rightarrow> string" where
  "counts_summary r =
     dec (passed r) @ '' passed, '' @ dec (failed r) @ '' failed, '' @ dec (errors r) @
     '' errored, '' @ dec (skipped r) @ '' skipped, '' @ dec (total r) @ '' total''"

definition run_to_dict :: "run_result \<Rightarrow> pydict" where
  "run_to_dict r =
     [(''run_id'', PStr (run_id r)),
      (''started_at'', put_opt (\<lambda>d. PStr (isoformat d)) (started_at r)),
      (''finished_at'', put_opt (\<lambda>d. PStr (isoformat d)) (finished_at r)),
      (''target_ip'', put_opt PStr (run_target_ip r)),
      (''target_stack'', put_opt PStr (run_target_stack r)),
      (''host_platform'', PStr (host_platform r)),
      (''payload_mode'', PStr (run_payload_mode r)),
      (''role'', PStr (run_role r)),
      (''proxy_leg'', put_opt PStr (run_proxy_leg r)),
      (''tests'', PList (map (\<lambda>t. PDict (test_to_dict t)) (tests r))),
      (''packet_events'', PList (map (\<lambda>e. PDict (packet_to_dict e)) (packet_events r))),
      (''pytest_returncode'', put_opt PInt (pytest_returncode r))]"

text \<open>
  Reading a date: absent, \<open>None\<close> and empty give \<open>None\<close>. Reading a nested list: each item by its
  own \<open>from_dict\<close>, whose exceptions pass through.
\<close>

definition date_from :: "(string \<Rightarrow> datetime option) \<Rightarrow> pyval \<Rightarrow> ('d exn + datetime option) option" where
  "date_from fromiso v =
     (if \<not> py_true v then Some (Inr None)
      else case v of
        PStr s \<Rightarrow> Some (case fromiso s of
            Some d \<Rightarrow> Inr (Some d)
          | None \<Rightarrow> raise_exc ValueError (''Invalid isoformat string: '' @ py_repr s))
      | _ \<Rightarrow> Some (raise_exc TypeError ''fromisoformat: argument must be str''))"

fun items_from :: "(pydict \<Rightarrow> ('d exn + 'a) option) \<Rightarrow> pyval list \<Rightarrow> ('d exn + 'a list) option" where
  "items_from f [] = Some (Inr [])"
| "items_from f (PDict d # vs) =
     (case f d of
        None \<Rightarrow> None
      | Some (Inl e) \<Rightarrow> Some (Inl e)
      | Some (Inr x) \<Rightarrow>
          (case items_from f vs of
             None \<Rightarrow> None
           | Some (Inl e) \<Rightarrow> Some (Inl e)
           | Some (Inr xs) \<Rightarrow> Some (Inr (x # xs))))"
| "items_from f (_ # vs) = None"

definition nested_from :: "(pydict \<Rightarrow> ('d exn + 'a) option) \<Rightarrow> pyval \<Rightarrow> ('d exn + 'a list) option" where
  "nested_from f v = (case get_list v of None \<Rightarrow> None | Some vs \<Rightarrow> items_from f vs)"

definition run_required :: "string list" where
  "run_required = [''run_id'', ''target_ip'', ''target_stack'', ''host_platform'']"

definition run_fields ::
  "pydict \<Rightarrow> datetime option \<Rightarrow> datetime option \<Rightarrow> test_event list \<Rightarrow> packet_event list \<Rightarrow>
   run_result option" where
  "run_fields d st fi ts ps =
     (case (get_str (dget d ''run_id'' PNone), get_opt get_str (dget d ''target_ip'' PNone),
            get_opt get_str (dget d ''target_stack'' PNone),
            get_str (dget d ''host_platform'' PNone),
            get_str (dget d ''payload_mode'' (PStr ''random'')),
            get_str (dget d ''role'' (PStr ''client'')),
            get_opt get_str (dget d ''proxy_leg'' PNone),
            get_opt get_int (dget d ''pytest_returncode'' PNone)) of
        (Some i, Some ip, Some sk, Some hp, Some pm, Some ro, Some leg, Some rc) \<Rightarrow>
          Some \<lparr>run_id = i, started_at = st, finished_at = fi, run_target_ip = ip,
                run_target_stack = sk, host_platform = hp, run_payload_mode = pm, run_role = ro,
                run_proxy_leg = leg, tests = ts, packet_events = ps, pytest_returncode = rc\<rparr>
      | _ \<Rightarrow> None)"

definition run_from_dict ::
  "(string \<Rightarrow> datetime option) \<Rightarrow> pydict \<Rightarrow> ('d exn + run_result) option" where
  "run_from_dict fromiso d =
     (case date_from fromiso (dget d ''started_at'' PNone) of
        None \<Rightarrow> None
      | Some (Inl e) \<Rightarrow> Some (Inl e)
      | Some (Inr st) \<Rightarrow>
     (case date_from fromiso (dget d ''finished_at'' PNone) of
        None \<Rightarrow> None
      | Some (Inl e) \<Rightarrow> Some (Inl e)
      | Some (Inr fi) \<Rightarrow>
     (case nested_from test_from_dict (dget d ''tests'' (PList [])) of
        None \<Rightarrow> None
      | Some (Inl e) \<Rightarrow> Some (Inl e)
      | Some (Inr ts) \<Rightarrow>
     (case nested_from packet_from_dict (dget d ''packet_events'' (PList [])) of
        None \<Rightarrow> None
      | Some (Inl e) \<Rightarrow> Some (Inl e)
      | Some (Inr ps) \<Rightarrow>
          (if list_ex (\<lambda>k. map_of d k = None) run_required
           then Some (raise_exc TypeError ''missing required positional arguments'')
           else map_option Inr (run_fields d st fi ts ps))))))"

section \<open>Properties\<close>

lemma direction_of_value [simp]: "direction_of (direction_value x) = Some x"
  by (cases x) (simp_all add: direction_of_def)

lemma outcome_of_value [simp]: "outcome_of (outcome_value x) = Some x"
  by (cases x) (simp_all add: outcome_of_def)

lemma packet_round_trip [simp]: "packet_from_dict (packet_to_dict e) = Some (Inr e)"
  by (simp add: packet_from_dict_def packet_to_dict_def direction_from_def packet_keys_def
      packet_fields_def dget_def)

lemma test_round_trip [simp]: "test_from_dict (test_to_dict t) = Some (Inr t)"
  by (simp add: test_from_dict_def test_to_dict_def outcome_from_def test_fields_def dget_def)

lemma items_round_trip:
  "(\<And>x. f (g x) = Some (Inr x)) \<Longrightarrow> items_from f (map (\<lambda>x. PDict (g x)) xs) = Some (Inr xs)"
  by (induction xs) simp_all

lemma nested_round_trip [simp]:
  "nested_from test_from_dict (PList (map (\<lambda>t. PDict (test_to_dict t)) ts)) = Some (Inr ts)"
  "nested_from packet_from_dict (PList (map (\<lambda>e. PDict (packet_to_dict e)) es)) = Some (Inr es)"
  by (simp_all add: nested_from_def items_round_trip)

definition dates_readable :: "(string \<Rightarrow> datetime option) \<Rightarrow> run_result \<Rightarrow> bool" where
  "dates_readable fromiso r \<longleftrightarrow>
     pred_option (\<lambda>d. fromiso (isoformat d) = Some d) (started_at r) \<and>
     pred_option (\<lambda>d. fromiso (isoformat d) = Some d) (finished_at r)"

lemma date_round_trip:
  "pred_option (\<lambda>d. fromiso (isoformat d) = Some d) x \<Longrightarrow>
   date_from fromiso (put_opt (\<lambda>d. PStr (isoformat d)) x) = Some (Inr x)"
  by (cases x) (simp_all add: date_from_def put_opt_def)

lemma run_round_trip:
  "dates_readable fromiso r \<Longrightarrow> run_from_dict fromiso (run_to_dict r) = Some (Inr r)"
  by (simp add: run_from_dict_def run_to_dict_def dates_readable_def run_required_def run_fields_def
      dget_def date_round_trip)

text \<open>C33: a finished run survives its dictionary form: every field, every test event and every packet
  event comes back as it was, for a date parser that reads what \<open>isoformat\<close> prints.\<close>

theorem run_result_round_trip:
  assumes "dates_readable fromiso r"
  shows "run_from_dict fromiso (run_to_dict r) = Some (Inr r)"
  using assms by (rule run_round_trip)

definition demo_date :: datetime where
  "demo_date = \<lparr>year = 2026, month = 8, day = 25, hour = 13, minute = 0, second = 7, micros = 1200\<rparr>"

definition demo_run :: run_result where
  "demo_run = \<lparr>run_id = ''r1'', started_at = Some demo_date, finished_at = None,
     run_target_ip = Some ''10.0.0.5'', run_target_stack = Some ''linux'', host_platform = ''Linux'',
     run_payload_mode = ''random'', run_role = ''client'', run_proxy_leg = None,
     tests = [\<lparr>nodeid = ''t::a'', outcome = FAILED, duration_s = 1 / 2, event_markers = [''tcp''],
       message = Some ''boom''\<rparr>],
     packet_events = [\<lparr>timestamp = 3 / 2, direction = SENT, ev_summary = ''IP'', size_bytes = 60,
       ev_nodeid = None\<rparr>], pytest_returncode = Some 1\<rparr>"

lemma run_result_round_trip_witness:
  "run_from_dict (\<lambda>s. if s = ''2026-08-25T13:00:07.001200+00:00'' then Some demo_date else None)
     (run_to_dict demo_run) = Some (Inr demo_run)"
proof -
  have "isoformat demo_date = ''2026-08-25T13:00:07.001200+00:00''" by code_simp
  then have "dates_readable (\<lambda>s. if s = ''2026-08-25T13:00:07.001200+00:00'' then Some demo_date else None) demo_run"
    by (simp add: dates_readable_def demo_run_def)
  then show ?thesis by (rule run_result_round_trip)
qed

text \<open>The tally is complete: every test of a run is counted under exactly one of the four
  headings.\<close>

theorem counts_partition: "passed r + failed r + errors r + skipped r = total r"
proof -
  have "length (filter (\<lambda>t. outcome t = PASSED) ts) + length (filter (\<lambda>t. outcome t = FAILED) ts) +
      length (filter (\<lambda>t. outcome t = ERROR) ts) + length (filter (\<lambda>t. outcome t = SKIPPED) ts) =
      length ts" for ts
  proof (induction ts)
    case (Cons t ts)
    then show ?case by (cases "outcome t") simp_all
  qed simp
  then show ?thesis
    by (simp add: passed_def failed_def errors_def skipped_def total_def count_outcome_def)
qed

end
