(* ===== verification/Interface.thy ===== *)
theory Interface
  imports Packets Models
begin

text \<open>
  What every frame passes through: \<open>src/packet_engine/interface.py\<close> (send, send-and-receive, sniff,
  and the one recording path), \<open>src/custom_packet/sender.py\<close> and
  \<open>src/utils/debug_log.py\<close> (the per-packet trace). The network is a script of what Scapy's calls meet; files are the
  lists of what was written to them.
\<close>

section \<open>The debug log\<close>

text \<open>A stack frame: the base name of its file, its function and its line.\<close>

type_synonym frame = "string \<times> string \<times> nat"

definition internal_files :: "string list" where
  "internal_files = [''interface.py'', ''debug_log.py'', ''recorder.py'']"

fun resolve_caller :: "frame list \<Rightarrow> string" where
  "resolve_caller [] = ''<unknown>''"
| "resolve_caller ((file, func, line) # fs) =
     (if file \<notin> set internal_files then func @ ''@'' @ file @ '':'' @ dec line
      else resolve_caller fs)"

definition payload_len :: "'p scapy \<Rightarrow> 'p \<Rightarrow> nat" where
  "payload_len S p = (case raw_of S p of Some bs \<Rightarrow> length bs | None \<Rightarrow> 0)"

definition format_packet_summary :: "'p scapy \<Rightarrow> 'p \<Rightarrow> string" where
  "format_packet_summary S p =
     (case ip_of S p of
        None \<Rightarrow> sc_summary S p
      | Some (src, dst) \<Rightarrow>
          (case tcp_of S p of
             Some t \<Rightarrow>
               ''TCP '' @ src @ '':'' @ idec (v_sport t) @ '' -> '' @ dst @ '':'' @ idec (v_dport t) @
               '' '' @ flag_labels (v_flags t) @
               '' Seq='' @ idec (v_seq t) @ '' Ack='' @ idec (v_ack t) @ '' Win='' @
               idec (v_window t) @ '' Len='' @ dec (payload_len S p)
           | None \<Rightarrow>
               (case udp_of S p of
                  Some (sport, dport) \<Rightarrow>
                    ''UDP '' @ src @ '':'' @ idec sport @ '' -> '' @ dst @ '':'' @ idec dport @
                    '' Len='' @ dec (payload_len S p)
                | None \<Rightarrow>
                    (case icmp_of S p of
                       Some (typ, i, n) \<Rightarrow>
                         ''ICMP '' @ src @ '' -> '' @ dst @ '' type='' @ idec typ @ '' code='' @
                         idec (icmp_code S p)
                     | None \<Rightarrow>
                         ''IP '' @ src @ '' -> '' @ dst @ '' proto='' @ idec (ip_proto S p) @
                         '' Len='' @ dec (sc_len S p)))))"

text \<open>\<open>clock\<close> holds the coming readings: the wall time as text and the monotonic time.\<close>

record debug_log =
  dl_text :: string
  dl_frame :: nat
  dl_start :: "rat option"
  dl_closed :: bool
  dl_clock :: "(string \<times> rat) list"

definition debug_header :: string where
  "debug_header =
     ''# netstack debug log '' @ em_dash @ '' tshark-style per-packet trace'' @ nl @
     ''# columns: #frame  iso_timestamp  +relative  DIR  <L3/L4 summary>  {test= called_by=}'' @ nl"

definition new_debug_log :: "(string \<times> rat) list \<Rightarrow> debug_log" where
  "new_debug_log clock = \<lparr>dl_text = debug_header, dl_frame = 0, dl_start = None, dl_closed = False,
     dl_clock = clock\<rparr>"

definition dl_now :: "debug_log \<Rightarrow> (string \<times> rat) \<times> debug_log" where
  "dl_now dl =
     (case dl_clock dl of
        [] \<Rightarrow> (('''', 0), dl)
      | (wall, mon) # rest \<Rightarrow>
          (let st = (case dl_start dl of None \<Rightarrow> mon | Some s \<Rightarrow> s)
           in ((wall, mon - st), dl\<lparr>dl_start := Some st, dl_clock := rest\<rparr>)))"

definition dl_write :: "string \<Rightarrow> debug_log \<Rightarrow> ('d exn + unit) \<times> debug_log" where
  "dl_write line dl =
     (if dl_closed dl then (raise_exc ValueError ''I/O operation on closed file.'', dl)
      else (Inr (), dl\<lparr>dl_text := dl_text dl @ line\<rparr>))"

definition log_packet ::
  "'p scapy \<Rightarrow> frame list \<Rightarrow> 'p \<Rightarrow> string \<Rightarrow> string option \<Rightarrow> debug_log \<Rightarrow>
   ('d exn + unit) \<times> debug_log" where
  "log_packet S stack packet dir test_nodeid dl0 =
     (let dl1 = dl0\<lparr>dl_frame := dl_frame dl0 + 1\<rparr>
      in case dl_now dl1 of ((wall, rel), dl) \<Rightarrow>
           dl_write
             (''#'' @ pad_left 6 (CHR ''0'') (dec (dl_frame dl)) @ '' '' @ wall @ '' +'' @ fixed 6 rel @
              ''s '' @ pad_right 2 (CHR '' '') dir @ '' '' @ format_packet_summary S packet @ '' '' @
              ''{test='' @ (if truthy test_nodeid then the test_nodeid else ''-'') @ '' called_by='' @
              resolve_caller stack @ ''}'' @ nl) dl)"

definition log_event :: "string \<Rightarrow> debug_log \<Rightarrow> ('d exn + unit) \<times> debug_log" where
  "log_event m dl0 =
     (case dl_now dl0 of ((wall, rel), dl) \<Rightarrow>
        dl_write (''       '' @ wall @ '' +'' @ fixed 6 rel @ ''s -- '' @ m @ nl) dl)"

definition dl_close :: "debug_log \<Rightarrow> debug_log" where
  "dl_close dl = dl\<lparr>dl_closed := True\<rparr>"

section \<open>The network interface\<close>

text \<open>
  A sink is given by what it raises for an event, if anything. \<open>nic_delivered\<close> records which sink
  (by position) was called with what; \<open>nic_wire\<close> the frames handed to Scapy for sending. The
  scripts hold what the next calls of \<open>sendp\<close>, \<open>srp1\<close> and \<open>sniff\<close> meet: an \<open>OSError\<close>, or the
  reply, or the packets that arrive in the window.
\<close>

record 'p nic =
  nic_iface :: string
  capture_path :: "string option"
  writer_open :: bool
  pcap_frames :: "('p \<times> string option) list"
  pcap_count :: nat
  sinks :: "(packet_event \<Rightarrow> unit exn option) list"
  nic_delivered :: "(nat \<times> packet_event) list"
  nic_debug :: "debug_log option"
  nic_times :: "rat list"
  nic_wire :: "'p list"
  send_script :: "string option list"
  reply_script :: "(string + 'p option) list"
  window_script :: "(string + 'p list) list"

definition debug_direction :: "packet_direction \<Rightarrow> string" where
  "debug_direction d = (case d of SENT \<Rightarrow> ''TX'' | RECEIVED \<Rightarrow> ''RX'')"

definition subscribe :: "(packet_event \<Rightarrow> unit exn option) \<Rightarrow> 'p nic \<Rightarrow> 'p nic" where
  "subscribe sink n = n\<lparr>sinks := sinks n @ [sink]\<rparr>"

fun call_sinks ::
  "nat \<Rightarrow> (packet_event \<Rightarrow> unit exn option) list \<Rightarrow> packet_event \<Rightarrow> 'p nic \<Rightarrow>
   (unit exn + unit) \<times> 'p nic" where
  "call_sinks i [] ev n = (Inr (), n)"
| "call_sinks i (f # fs) ev n =
     (let n' = n\<lparr>nic_delivered := nic_delivered n @ [(i, ev)]\<rparr>
      in case f ev of Some e \<Rightarrow> (Inl e, n') | None \<Rightarrow> call_sinks (i + 1) fs ev n')"

definition write_pcap :: "'p \<Rightarrow> string option \<Rightarrow> 'p nic \<Rightarrow> 'p nic" where
  "write_pcap packet test_nodeid n =
     (if capture_path n = None then n
      else n\<lparr>writer_open := True,
             pcap_frames := pcap_frames n @ [(packet, if truthy test_nodeid then test_nodeid else None)],
             pcap_count := pcap_count n + 1\<rparr>)"

definition debug_packet ::
  "'p scapy \<Rightarrow> frame list \<Rightarrow> 'p \<Rightarrow> packet_direction \<Rightarrow> string option \<Rightarrow> 'p nic \<Rightarrow>
   (unit exn + unit) \<times> 'p nic" where
  "debug_packet S stack packet dir test_nodeid n =
     (case nic_debug n of
        None \<Rightarrow> (Inr (), n)
      | Some dl \<Rightarrow>
          (case log_packet S stack packet (debug_direction dir) test_nodeid dl of
             (r, dl') \<Rightarrow> (r, n\<lparr>nic_debug := Some dl'\<rparr>)))"

definition record_packet ::
  "'p scapy \<Rightarrow> frame list \<Rightarrow> 'p \<Rightarrow> packet_direction \<Rightarrow> string option \<Rightarrow> 'p nic \<Rightarrow>
   (unit exn + unit) \<times> 'p nic" where
  "record_packet S stack packet dir test_nodeid n0 =
     (case debug_packet S stack packet dir test_nodeid (write_pcap packet test_nodeid n0) of
        (Inl e, n) \<Rightarrow> (Inl e, n)
      | (Inr _, n) \<Rightarrow>
          (if sinks n = [] then (Inr (), n)
           else let now = (case nic_times n of [] \<Rightarrow> 0 | t # _ \<Rightarrow> t);
                    ev = \<lparr>timestamp = now, direction = dir, ev_summary = sc_summary S packet,
                          size_bytes = int (sc_len S packet), ev_nodeid = test_nodeid\<rparr>
                in call_sinks 0 (sinks n) ev (n\<lparr>nic_times := tl (nic_times n)\<rparr>)))"

definition nic_send ::
  "'p scapy \<Rightarrow> frame list \<Rightarrow> 'p \<Rightarrow> string option \<Rightarrow> 'p nic \<Rightarrow> (unit exn + unit) \<times> 'p nic" where
  "nic_send S stack packet test_nodeid n =
     (case send_script n of
        Some m # rest \<Rightarrow> (raise_exc OSError m, n\<lparr>send_script := rest\<rparr>)
      | _ \<Rightarrow> record_packet S stack packet SENT test_nodeid
               (n\<lparr>send_script := tl (send_script n), nic_wire := nic_wire n @ [packet]\<rparr>))"

text \<open>\<open>send_receive\<close> records the frame before it hands it to \<open>srp1\<close>.\<close>

definition send_receive ::
  "'p scapy \<Rightarrow> frame list \<Rightarrow> 'p \<Rightarrow> string option \<Rightarrow> 'p nic \<Rightarrow> (unit exn + 'p option) \<times> 'p nic" where
  "send_receive S stack packet test_nodeid n0 =
     (case record_packet S stack packet SENT test_nodeid n0 of
        (Inl e, n) \<Rightarrow> (Inl e, n)
      | (Inr _, n) \<Rightarrow>
          (case reply_script n of
             Inl m # rest \<Rightarrow> (raise_exc OSError m, n\<lparr>reply_script := rest\<rparr>)
           | Inr (Some reply) # rest \<Rightarrow>
               (case record_packet S stack reply RECEIVED test_nodeid
                       (n\<lparr>reply_script := rest, nic_wire := nic_wire n @ [packet]\<rparr>) of
                  (Inl e, n') \<Rightarrow> (Inl e, n')
                | (Inr _, n') \<Rightarrow> (Inr (Some reply), n'))
           | _ \<Rightarrow> (Inr None, n\<lparr>reply_script := tl (reply_script n),
                              nic_wire := nic_wire n @ [packet]\<rparr>)))"

fun record_all ::
  "'p scapy \<Rightarrow> frame list \<Rightarrow> 'p list \<Rightarrow> string option \<Rightarrow> 'p nic \<Rightarrow> (unit exn + unit) \<times> 'p nic" where
  "record_all S stack [] test_nodeid n = (Inr (), n)"
| "record_all S stack (p # ps) test_nodeid n =
     (case record_packet S stack p RECEIVED test_nodeid n of
        (Inl e, n') \<Rightarrow> (Inl e, n')
      | (Inr _, n') \<Rightarrow> record_all S stack ps test_nodeid n')"

text \<open>
  Scapy's \<open>sniff\<close> is the argument \<open>sn\<close>: which of the packets that arrive in the window it returns
  for a count and a filter. \<open>sniff_ok\<close> is what the responders rely on.
\<close>

type_synonym 'p sniffer = "nat \<Rightarrow> ('p \<Rightarrow> bool) \<Rightarrow> 'p list \<Rightarrow> 'p list"

definition sniff_ok :: "'p sniffer \<Rightarrow> bool" where
  "sniff_ok sn \<longleftrightarrow>
     (\<forall>f w. sn 1 f w = (case filter f w of [] \<Rightarrow> [] | p # _ \<Rightarrow> [p]))"

definition nic_sniff ::
  "'p scapy \<Rightarrow> 'p sniffer \<Rightarrow> frame list \<Rightarrow> nat \<Rightarrow> ('p \<Rightarrow> bool) \<Rightarrow> string option \<Rightarrow> 'p nic \<Rightarrow>
   (unit exn + 'p list) \<times> 'p nic" where
  "nic_sniff S sn stack count lfilter test_nodeid n =
     (case window_script n of
        Inl m # rest \<Rightarrow> (raise_exc OSError m, n\<lparr>window_script := rest\<rparr>)
      | script \<Rightarrow>
          (let arrived = (case script of Inr w # _ \<Rightarrow> w | _ \<Rightarrow> []);
               packets = sn count lfilter arrived
           in case record_all S stack packets test_nodeid (n\<lparr>window_script := tl script\<rparr>) of
                (Inl e, n') \<Rightarrow> (Inl e, n')
              | (Inr _, n') \<Rightarrow> (Inr packets, n')))"

definition nic_close :: "'p nic \<Rightarrow> 'p nic" where
  "nic_close n = n\<lparr>writer_open := False\<rparr>"

definition new_nic :: "string \<Rightarrow> string option \<Rightarrow> 'p nic" where
  "new_nic iface path =
     \<lparr>nic_iface = iface, capture_path = path, writer_open = False, pcap_frames = [], pcap_count = 0,
      sinks = [], nic_delivered = [], nic_debug = None, nic_times = [], nic_wire = [],
      send_script = [], reply_script = [], window_script = []\<rparr>"

text \<open>\<open>send_custom_packet\<close>: the interface is closed on the way out, whatever happened.\<close>

definition send_custom_packet ::
  "'p scapy \<Rightarrow> (nat \<Rightarrow> bytes) \<Rightarrow> frame list \<Rightarrow> custom_spec \<Rightarrow> 'p nic \<Rightarrow>
   (unit exn + 'p option) \<times> 'p nic" where
  "send_custom_packet S urandom stack spec n =
     (case build_custom_packet S urandom spec of
        Inl e \<Rightarrow> (Inl e, n)
      | Inr packet \<Rightarrow>
          (case send_receive S stack packet (Some ''custom_packet'') n of
             (r, n') \<Rightarrow> (r, nic_close n')))"

section \<open>Properties\<close>

text \<open>What one frame leaves behind.\<close>

definition comment_of :: "string option \<Rightarrow> string option" where
  "comment_of test_nodeid = (if truthy test_nodeid then test_nodeid else None)"

definition quiet :: "'p nic \<Rightarrow> bool" where
  "quiet n \<longleftrightarrow> (\<forall>f \<in> set (sinks n). \<forall>ev. f ev = None) \<and>
     (case nic_debug n of None \<Rightarrow> True | Some dl \<Rightarrow> \<not> dl_closed dl)"

lemma call_sinks_frame:
  "call_sinks i fs ev n = (r, n') \<Longrightarrow>
   pcap_frames n' = pcap_frames n \<and> pcap_count n' = pcap_count n \<and> sinks n' = sinks n \<and>
   capture_path n' = capture_path n \<and> nic_wire n' = nic_wire n \<and> nic_debug n' = nic_debug n \<and>
   send_script n' = send_script n \<and> reply_script n' = reply_script n \<and>
   window_script n' = window_script n \<and>
   (\<exists>k \<le> length fs. nic_delivered n' = nic_delivered n @ map (\<lambda>j. (i + j, ev)) [0..<k] \<and>
     ((\<exists>u. r = Inr u) \<longrightarrow> k = length fs))"
proof (induction i fs ev n arbitrary: r n' rule: call_sinks.induct)
  case (1 i ev n)
  then show ?case by simp
next
  case (2 i f fs ev n)
  show ?case
  proof (cases "f ev")
    case None
    let ?n = "n\<lparr>nic_delivered := nic_delivered n @ [(i, ev)]\<rparr>"
    from None 2(2) have rest: "call_sinks (i + 1) fs ev ?n = (r, n')" by (simp add: Let_def)
    from "2.IH" [OF refl None rest] obtain k where
      k: "k \<le> length fs" "nic_delivered n' = nic_delivered ?n @ map (\<lambda>j. (i + 1 + j, ev)) [0..<k]"
        "(\<exists>u. r = Inr u) \<longrightarrow> k = length fs" by blast
    have "map (\<lambda>j. (i + j, ev)) [0..<Suc k] = (i, ev) # map (\<lambda>j. (i + 1 + j, ev)) [0..<k]"
      by (simp add: upt_conv_Cons map_Suc_upt [symmetric] del: upt_Suc)
    with k "2.IH" [OF refl None rest] show ?thesis
      by (intro conjI exI [of _ "Suc k"]) (auto simp del: upt_Suc)
  next
    case (Some e)
    with 2(2) have "r = Inl e" "n' = n\<lparr>nic_delivered := nic_delivered n @ [(i, ev)]\<rparr>"
      by (simp_all add: Let_def)
    then show ?thesis by (auto intro!: exI [of _ 1])
  qed
qed

lemma call_sinks_quiet:
  "\<forall>f \<in> set fs. \<forall>ev. f ev = None \<Longrightarrow> \<exists>n'. call_sinks i fs ev n = (Inr (), n')"
  by (induction fs arbitrary: i n) (auto simp: Let_def)

lemma dl_now_closed: "dl_closed (snd (dl_now dl)) = dl_closed dl"
  by (auto simp: dl_now_def Let_def split: list.splits)

lemma log_packet_open:
  "\<not> dl_closed dl \<Longrightarrow> \<exists>dl'. log_packet S st p d i dl = (Inr (), dl') \<and> \<not> dl_closed dl'"
  using dl_now_closed [of "dl\<lparr>dl_frame := dl_frame dl + 1\<rparr>"]
  by (auto simp: log_packet_def dl_write_def Let_def split: prod.splits)

lemma debug_packet_quiet:
  assumes "quiet n"
  shows "\<exists>dl. debug_packet S st p d i n = (Inr (), n\<lparr>nic_debug := dl\<rparr>) \<and> quiet (n\<lparr>nic_debug := dl\<rparr>)"
proof (cases "nic_debug n")
  case None
  with assms show ?thesis by (intro exI [of _ None]) (cases n, simp add: debug_packet_def quiet_def)
next
  case (Some dl)
  with assms have "\<not> dl_closed dl" by (simp add: quiet_def)
  then obtain dl' where
    "log_packet S st p (debug_direction d) i dl = (Inr () :: unit exn + unit, dl')" "\<not> dl_closed dl'"
    by (metis log_packet_open)
  with Some assms show ?thesis
    by (intro exI [of _ "Some dl'"]) (simp add: debug_packet_def quiet_def)
qed

text \<open>Recording a frame never fails when no consumer does; it appends the frame, with the owning
  test as its comment, and hands the event to every sink once.\<close>

definition captured :: "'p nic \<Rightarrow> 'p \<Rightarrow> string option \<Rightarrow> ('p \<times> string option) list" where
  "captured n p i = (if capture_path n = None then [] else [(p, comment_of i)])"

definition same_setup :: "'p nic \<Rightarrow> 'p nic \<Rightarrow> bool" where
  "same_setup n n' \<longleftrightarrow> sinks n' = sinks n \<and> capture_path n' = capture_path n \<and>
     nic_wire n' = nic_wire n \<and> send_script n' = send_script n \<and>
     reply_script n' = reply_script n \<and> window_script n' = window_script n"

lemma record_quiet:
  assumes "quiet n"
  shows "\<exists>n'. record_packet S st p d i n = (Inr (), n') \<and> quiet n' \<and> same_setup n n' \<and>
    pcap_frames n' = pcap_frames n @ captured n p i \<and>
    pcap_count n' = pcap_count n + length (captured n p i) \<and>
    (\<exists>ev. direction ev = d \<and> ev_nodeid ev = i \<and> nic_delivered n' =
       nic_delivered n @ map (\<lambda>j. (j, ev)) [0..<length (sinks n)])"
proof -
  let ?w = "write_pcap p i n"
  have w: "quiet ?w" "same_setup n ?w" "pcap_frames ?w = pcap_frames n @ captured n p i"
    "pcap_count ?w = pcap_count n + length (captured n p i)" "nic_delivered ?w = nic_delivered n"
    using assms by (auto simp: write_pcap_def quiet_def same_setup_def captured_def comment_of_def)
  obtain dl where dl: "debug_packet S st p d i ?w = (Inr (), ?w\<lparr>nic_debug := dl\<rparr>)"
    "quiet (?w\<lparr>nic_debug := dl\<rparr>)"
    using debug_packet_quiet [OF w(1)] by blast
  let ?m = "?w\<lparr>nic_debug := dl\<rparr>"
  show ?thesis
  proof (cases "sinks ?m = []")
    case True
    with dl w show ?thesis
      by (intro exI [of _ ?m] conjI)
        (auto simp: record_packet_def same_setup_def
          intro!: exI [of _ "\<lparr>timestamp = 0, direction = d, ev_summary = '''', size_bytes = 0, ev_nodeid = i\<rparr>"])
  next
    case False
    define ev where "ev = \<lparr>timestamp = (case nic_times ?m of [] \<Rightarrow> 0 | t # _ \<Rightarrow> t), direction = d,
      ev_summary = sc_summary S p, size_bytes = int (sc_len S p), ev_nodeid = i\<rparr>"
    let ?t = "?m\<lparr>nic_times := tl (nic_times ?m)\<rparr>"
    have "\<forall>f \<in> set (sinks ?m). \<forall>ev. f ev = None" using dl(2) by (simp add: quiet_def)
    from call_sinks_quiet [OF this] obtain n' where n': "call_sinks 0 (sinks ?m) ev ?t = (Inr (), n')"
      by blast
    have r: "record_packet S st p d i n = (Inr (), n')"
      using dl(1) False n' by (simp add: record_packet_def ev_def Let_def)
    note f = call_sinks_frame [OF n']
    then have "nic_delivered n' = nic_delivered ?t @ map (\<lambda>j. (j, ev)) [0..<length (sinks ?m)]"
      by auto
    with w have "nic_delivered n' = nic_delivered n @ map (\<lambda>j. (j, ev)) [0..<length (sinks n)]"
      by (simp add: same_setup_def)
    then have "\<exists>ev. direction ev = d \<and> ev_nodeid ev = i \<and> nic_delivered n' =
        nic_delivered n @ map (\<lambda>j. (j, ev)) [0..<length (sinks n)]"
      by (intro exI [of _ ev]) (simp add: ev_def)
    with f r w dl(2) show ?thesis
      by (intro exI [of _ n']) (simp add: quiet_def same_setup_def)
  qed
qed


definition demo_nic :: "layer list nic" where
  "demo_nic = (new_nic ''eth0'' (Some ''capture.pcap''))
     \<lparr>reply_script := [Inr (Some [LRaw [2]])]\<rparr>"


end
