(* ===== verification/Responder.thy ===== *)
theory Responder
  imports Interface
begin

unbundle bit_operations_syntax

text \<open>
  \<open>src/packet_engine/responder.py\<close>: what the suite does when the DUT initiates. The reply builders
  are functions of the received packet; the responders wait for one matching packet, answer it and
  say what arrived.
\<close>

section \<open>Reply builders\<close>

definition icmp_echo_reply :: int where "icmp_echo_reply = 0"
definition icmp_echo_request :: int where "icmp_echo_request = 8"

text \<open>\<open>packet[Layer]\<close>: an \<open>IndexError\<close> when the layer is missing.\<close>

definition layer :: "string \<Rightarrow> 'a option \<Rightarrow> unit exn + 'a" where
  "layer name x =
     (case x of None \<Rightarrow> raise_exc IndexError (''Layer ['' @ name @ ''] not found'') | Some v \<Rightarrow> Inr v)"

definition build_syn_ack_reply ::
  "'p scapy \<Rightarrow> (int \<Rightarrow> int \<Rightarrow> int) \<Rightarrow> 'p \<Rightarrow> string \<Rightarrow> int option \<Rightarrow> int option \<Rightarrow> unit exn + 'p" where
  "build_syn_ack_reply S randint syn local_mac server_isn window =
     rbind (layer ''IP'' (ip_of S syn)) (\<lambda>(src, dst).
     rbind (layer ''TCP'' (tcp_of S syn)) (\<lambda>t.
       let isn = (case server_isn of Some n \<Rightarrow> n | None \<Rightarrow> randint 0 max_seq) in
       rbind (layer ''Ethernet'' (ether_of S syn)) (\<lambda>(src_mac, _).
         Inr (sc_over S
           (sc_over S (sc_ether S local_mac src_mac) (plain_ip S dst src None))
           (sc_tcp S \<lparr>a_sport = v_dport t, a_dport = v_sport t, a_tcp_flags = ''SA'',
                      a_seq = Some isn, a_ack = seq32 (v_seq t + 1),
                      a_window = (case window of Some w \<Rightarrow> w | None \<Rightarrow> v_window t)\<rparr>)))))"

definition echo_payload :: "'p scapy \<Rightarrow> 'p \<Rightarrow> bytes" where
  "echo_payload S packet = (case raw_of S packet of Some bs \<Rightarrow> bs | None \<Rightarrow> [])"

definition reply_headers :: "'p scapy \<Rightarrow> 'p \<Rightarrow> string \<Rightarrow> unit exn + 'p" where
  "reply_headers S received local_mac =
     rbind (layer ''IP'' (ip_of S received)) (\<lambda>(src, dst).
     rbind (layer ''Ethernet'' (ether_of S received)) (\<lambda>(src_mac, _).
       Inr (sc_over S (sc_ether S local_mac src_mac) (plain_ip S dst src None))))"

definition build_udp_echo_reply :: "'p scapy \<Rightarrow> 'p \<Rightarrow> string \<Rightarrow> unit exn + 'p" where
  "build_udp_echo_reply S datagram local_mac =
     rbind (layer ''UDP'' (udp_of S datagram)) (\<lambda>(sport, dport).
     rbind (reply_headers S datagram local_mac) (\<lambda>h.
       Inr (sc_over S (sc_over S h (sc_udp S dport sport)) (sc_raw S (echo_payload S datagram)))))"

definition build_icmp_echo_reply :: "'p scapy \<Rightarrow> 'p \<Rightarrow> string \<Rightarrow> unit exn + 'p" where
  "build_icmp_echo_reply S request local_mac =
     rbind (layer ''ICMP'' (icmp_of S request)) (\<lambda>(typ, i, n).
     rbind (reply_headers S request local_mac) (\<lambda>h.
       Inr (sc_over S (sc_over S h (sc_icmp S icmp_echo_reply i n))
             (sc_raw S (echo_payload S request)))))"

section \<open>Responders\<close>

text \<open>\<open>_addressed_to_us\<close>: the layer is given by its accessor.\<close>

definition addressed_to_us :: "'p scapy \<Rightarrow> string \<Rightarrow> ('p \<Rightarrow> 'a option) \<Rightarrow> 'p \<Rightarrow> bool" where
  "addressed_to_us S local_ip layer_of p \<longleftrightarrow>
     layer_of p \<noteq> None \<and> (case ip_of S p of None \<Rightarrow> False | Some (src, dst) \<Rightarrow> dst = local_ip)"

definition serve_once ::
  "'p scapy \<Rightarrow> 'p sniffer \<Rightarrow> frame list \<Rightarrow> ('p \<Rightarrow> bool) \<Rightarrow> ('p \<Rightarrow> unit exn + 'p) \<Rightarrow> string option \<Rightarrow>
   'p nic \<Rightarrow> (unit exn + 'p option) \<times> 'p nic" where
  "serve_once S sn st lfilter build_reply test_nodeid n =
     (case nic_sniff S sn st 1 lfilter test_nodeid n of
        (Inl e, n') \<Rightarrow> (Inl e, n')
      | (Inr [], n') \<Rightarrow> (Inr None, n')
      | (Inr (p # _), n') \<Rightarrow>
          (case build_reply p of
             Inl e \<Rightarrow> (Inl e, n')
           | Inr reply \<Rightarrow>
               (case nic_send S st reply test_nodeid n' of
                  (Inl e, n2) \<Rightarrow> (Inl e, n2)
                | (Inr _, n2) \<Rightarrow> (Inr (Some p), n2))))"

definition tcp_flag_test :: "'p scapy \<Rightarrow> 'p \<Rightarrow> int \<Rightarrow> bool" where
  "tcp_flag_test S p m \<longleftrightarrow>
     (case tcp_of S p of None \<Rightarrow> False | Some t \<Rightarrow> v_flags t AND m \<noteq> 0)"

definition to_port :: "'p scapy \<Rightarrow> int \<Rightarrow> 'p \<Rightarrow> bool" where
  "to_port S port p \<longleftrightarrow> (case tcp_of S p of None \<Rightarrow> False | Some t \<Rightarrow> v_dport t = port)"

definition wants_connection :: "'p scapy \<Rightarrow> string \<Rightarrow> int \<Rightarrow> 'p \<Rightarrow> bool" where
  "wants_connection S local_ip port p \<longleftrightarrow>
     addressed_to_us S local_ip (tcp_of S) p \<and> to_port S port p \<and> tcp_flag_test S p SYN \<and>
     \<not> tcp_flag_test S p ACK"

definition acknowledges :: "'p scapy \<Rightarrow> string \<Rightarrow> int \<Rightarrow> 'p \<Rightarrow> bool" where
  "acknowledges S local_ip port p \<longleftrightarrow>
     addressed_to_us S local_ip (tcp_of S) p \<and> to_port S port p \<and> tcp_flag_test S p ACK \<and>
     \<not> tcp_flag_test S p SYN"

definition serve_tcp_handshake ::
  "'p scapy \<Rightarrow> 'p sniffer \<Rightarrow> (int \<Rightarrow> int \<Rightarrow> int) \<Rightarrow> frame list \<Rightarrow> string \<Rightarrow> string \<Rightarrow> int \<Rightarrow>
   string option \<Rightarrow> 'p nic \<Rightarrow> (unit exn + 'p option) \<times> 'p nic" where
  "serve_tcp_handshake S sn randint st local_ip local_mac listen_port test_nodeid n =
     (case serve_once S sn st (wants_connection S local_ip listen_port)
             (\<lambda>p. build_syn_ack_reply S randint p local_mac None None) test_nodeid n of
        (Inl e, n') \<Rightarrow> (Inl e, n')
      | (Inr None, n') \<Rightarrow> (Inr None, n')
      | (Inr (Some syn), n') \<Rightarrow>
          (case nic_sniff S sn st 1 (acknowledges S local_ip listen_port) test_nodeid n' of
             (Inl e, n2) \<Rightarrow> (Inl e, n2)
           | (Inr [], n2) \<Rightarrow> (Inr None, n2)
           | (Inr (p # _), n2) \<Rightarrow> (Inr (Some p), n2)))"

definition serve_udp_echo ::
  "'p scapy \<Rightarrow> 'p sniffer \<Rightarrow> frame list \<Rightarrow> string \<Rightarrow> string \<Rightarrow> int \<Rightarrow> string option \<Rightarrow> 'p nic \<Rightarrow>
   (unit exn + 'p option) \<times> 'p nic" where
  "serve_udp_echo S sn st local_ip local_mac listen_port test_nodeid n =
     serve_once S sn st
       (\<lambda>p. addressed_to_us S local_ip (udp_of S) p \<and>
            (case udp_of S p of None \<Rightarrow> False | Some (sport, dport) \<Rightarrow> dport = listen_port))
       (\<lambda>p. build_udp_echo_reply S p local_mac) test_nodeid n"

definition serve_icmp_echo ::
  "'p scapy \<Rightarrow> 'p sniffer \<Rightarrow> frame list \<Rightarrow> string \<Rightarrow> string \<Rightarrow> string option \<Rightarrow> 'p nic \<Rightarrow>
   (unit exn + 'p option) \<times> 'p nic" where
  "serve_icmp_echo S sn st local_ip local_mac test_nodeid n =
     serve_once S sn st
       (\<lambda>p. addressed_to_us S local_ip (icmp_of S) p \<and>
            (case icmp_of S p of None \<Rightarrow> False | Some (typ, i, k) \<Rightarrow> typ = icmp_echo_request))
       (\<lambda>p. build_icmp_echo_reply S p local_mac) test_nodeid n"

section \<open>Properties\<close>


definition demo_syn :: "layer list" where
  "demo_syn = [LEther ''dut'' ''us'', LIp \<lparr>a_src = ''10.0.0.5'', a_dst = ''10.0.0.1'', a_ttl = None,
     a_flags = None, a_frag = None, a_proto = None\<rparr>,
     LTcp \<lparr>a_sport = 4000, a_dport = 80, a_tcp_flags = ''S'', a_seq = Some 4294967295, a_ack = 0,
       a_window = 512\<rparr>]"


text \<open>What one responder turn does: nothing without a match; otherwise it answers the first packet
  that matches and returns it.\<close>

lemma record_all_quiet:
  assumes "quiet n"
  shows "\<exists>n'. record_all S st ps i n = (Inr (), n') \<and> quiet n' \<and> same_setup n n'"
  using assms
proof (induction ps arbitrary: n)
  case Nil
  then show ?case by (simp add: same_setup_def)
next
  case (Cons p ps)
  from record_quiet [OF Cons.prems, of S st p RECEIVED i] obtain m where
    m: "record_packet S st p RECEIVED i n = (Inr (), m)" "quiet m" "same_setup n m" by blast
  from Cons.IH [OF m(2)] m show ?case by (auto simp: same_setup_def)
qed

lemma sniff_one:
  assumes "quiet n" "sniff_ok sn" "window_script n = Inr w # rest"
  shows "\<exists>n'. nic_sniff S sn st 1 f i n =
      (Inr (case filter f w of [] \<Rightarrow> [] | p # _ \<Rightarrow> [p]), n') \<and> quiet n' \<and>
    window_script n' = rest \<and> send_script n' = send_script n \<and> nic_wire n' = nic_wire n"
proof -
  let ?n = "n\<lparr>window_script := rest\<rparr>"
  have sn: "sn 1 f w = (case filter f w of [] \<Rightarrow> [] | p # _ \<Rightarrow> [p])"
    using assms(2) by (simp add: sniff_ok_def)
  have "quiet ?n" using assms(1) by (simp add: quiet_def)
  from record_all_quiet [OF this, of S st "sn 1 f w" i] obtain n' where
    n': "record_all S st (sn 1 f w) i ?n = (Inr (), n')" "quiet n'" "same_setup ?n n'" by blast
  have "nic_sniff S sn st 1 f i n = (Inr (sn 1 f w), n')"
    using assms(3) n'(1) by (simp add: nic_sniff_def)
  with n' sn show ?thesis by (intro exI [of _ n']) (simp add: same_setup_def)
qed

lemma serve_once_spec:
  assumes "quiet n" "sniff_ok sn" "window_script n = Inr w # rest" "send_script n = []"
  shows "\<exists>n'. serve_once S sn st f build i n =
      ((case filter f w of [] \<Rightarrow> Inr None
        | p # _ \<Rightarrow> (case build p of Inl e \<Rightarrow> Inl e | Inr _ \<Rightarrow> Inr (Some p))), n') \<and>
    quiet n' \<and> window_script n' = rest \<and> send_script n' = [] \<and>
    nic_wire n' = nic_wire n @
      (case filter f w of [] \<Rightarrow> []
       | p # _ \<Rightarrow> (case build p of Inl e \<Rightarrow> [] | Inr reply \<Rightarrow> [reply]))"
proof -
  from sniff_one [OF assms(1-3), of S st f i] obtain m where
    m: "nic_sniff S sn st 1 f i n = (Inr (case filter f w of [] \<Rightarrow> [] | p # _ \<Rightarrow> [p]), m)"
      "quiet m" "window_script m = rest" "send_script m = send_script n" "nic_wire m = nic_wire n"
    by blast
  show ?thesis
  proof (cases "filter f w")
    case Nil
    with m assms(4) show ?thesis by (simp add: serve_once_def)
  next
    case (Cons p ps)
    show ?thesis
    proof (cases "build p")
      case (Inl e)
      with Cons m assms(4) show ?thesis by (simp add: serve_once_def)
    next
      case (Inr reply)
      let ?m = "m\<lparr>send_script := [], nic_wire := nic_wire m @ [reply]\<rparr>"
      have "quiet ?m" using m(2) by (simp add: quiet_def)
      from record_quiet [OF this, of S st reply SENT i] obtain n' where
        n': "record_packet S st reply SENT i ?m = (Inr (), n')" "quiet n'" "same_setup ?m n'" by blast
      have "nic_send S st reply i m = (Inr (), n')"
        using n'(1) m(4) assms(4) by (simp add: nic_send_def)
      with Cons Inr m n' show ?thesis by (simp add: serve_once_def same_setup_def)
    qed
  qed
qed

lemma syn_ack_reply_total:
  assumes "wants_connection S ip port p" "ether_of S p \<noteq> None"
  shows "\<exists>reply. build_syn_ack_reply S randint p mac isn win = Inr reply"
  using assms by (auto simp: build_syn_ack_reply_def layer_def wants_connection_def
      addressed_to_us_def Let_def split: option.splits)

text \<open>C29: the verdict of the TCP responder. It returns a packet exactly when a connection request for
  us arrives in the first window and an acknowledgement for that port in the second, namely the
  first such acknowledgement, and it has then answered the request with exactly one SYN-ACK;
  without a request it sends nothing.\<close>

theorem handshake_verdict:
  assumes "quiet n" "sniff_ok sn" "window_script n = Inr w1 # Inr w2 # rest" "send_script n = []"
    "\<forall>p \<in> set w1. ether_of S p \<noteq> None"
  shows "\<exists>n' replies. serve_tcp_handshake S sn randint st ip mac port i n =
      (Inr (case filter (wants_connection S ip port) w1 of
              [] \<Rightarrow> None
            | _ \<Rightarrow> (case filter (acknowledges S ip port) w2 of [] \<Rightarrow> None | p # _ \<Rightarrow> Some p)), n') \<and>
    nic_wire n' = nic_wire n @ replies \<and>
    map Inr replies = map (\<lambda>syn. build_syn_ack_reply S randint syn mac None None)
      (take 1 (filter (wants_connection S ip port) w1))"
proof -
  let ?build = "\<lambda>p. build_syn_ack_reply S randint p mac None None"
  let ?want = "wants_connection S ip port"
  from serve_once_spec [OF assms(1-4), of S st ?want ?build i] obtain m where
    m: "serve_once S sn st ?want ?build i n =
      ((case filter ?want w1 of [] \<Rightarrow> Inr None
        | p # _ \<Rightarrow> (case ?build p of Inl e \<Rightarrow> Inl e | Inr _ \<Rightarrow> Inr (Some p))), m)"
      "quiet m" "window_script m = Inr w2 # rest"
    "nic_wire m = nic_wire n @ (case filter ?want w1 of [] \<Rightarrow> []
       | p # _ \<Rightarrow> (case ?build p of Inl e \<Rightarrow> [] | Inr reply \<Rightarrow> [reply]))" by blast
  show ?thesis
  proof (cases "filter ?want w1")
    case Nil
    with m show ?thesis by (simp add: serve_tcp_handshake_def)
  next
    case (Cons syn ps)
    then have "syn \<in> set (filter ?want w1)" by simp
    with assms(5) have "?want syn" "ether_of S syn \<noteq> None" by auto
    from syn_ack_reply_total [OF this] obtain reply where reply: "?build syn = Inr reply" by blast
    from sniff_one [OF m(2) assms(2) m(3), of S st "acknowledges S ip port" i] obtain n' where
      n': "nic_sniff S sn st 1 (acknowledges S ip port) i m =
        (Inr (case filter (acknowledges S ip port) w2 of [] \<Rightarrow> [] | p # _ \<Rightarrow> [p]), n')"
        "nic_wire n' = nic_wire m" by blast
    show ?thesis
      using m(1,4) n' Cons reply
      by (intro exI [of _ n'] exI [of _ "[reply]"])
        (simp add: serve_tcp_handshake_def split: list.split)
  qed
qed

definition demo_sniff :: "'p sniffer" where
  "demo_sniff count f w = (if count = 0 then filter f w else take count (filter f w))"

lemma demo_sniff_ok: "sniff_ok demo_sniff"
  by (auto simp: sniff_ok_def demo_sniff_def split: list.split)

definition demo_ack :: "string \<Rightarrow> int \<Rightarrow> layer list" where
  "demo_ack src k = [LEther ''x'' ''us'', LIp \<lparr>a_src = src, a_dst = ''10.0.0.1'', a_ttl = None,
     a_flags = None, a_frag = None, a_proto = None\<rparr>,
     LTcp \<lparr>a_sport = 4000, a_dport = 80, a_tcp_flags = ''A'', a_seq = Some 0, a_ack = k,
       a_window = 512\<rparr>]"

definition demo_server :: "layer list list list \<Rightarrow> layer list nic" where
  "demo_server ws = (new_nic ''eth0'' None)\<lparr>window_script := map Inr ws\<rparr>"

lemma handshake_verdict_witness:
  "fst (serve_tcp_handshake layers demo_sniff (\<lambda>a b. 7) [] ''10.0.0.1'' ''us'' 80 None
     (demo_server [[demo_syn], [demo_ack ''10.0.0.5'' 8]])) = Inr (Some (demo_ack ''10.0.0.5'' 8))"
proof -
  let ?w1 = "[demo_syn]" and ?w2 = "[demo_ack ''10.0.0.5'' 8]"
  have n: "quiet (demo_server [?w1, ?w2])" "window_script (demo_server [?w1, ?w2]) = Inr ?w1 # Inr ?w2 # []"
    "send_script (demo_server [?w1, ?w2]) = []"
    by (simp_all add: demo_server_def new_nic_def quiet_def)
  have e: "\<forall>p \<in> set ?w1. ether_of layers p \<noteq> None" by (simp add: demo_syn_def layers_def)
  have f: "filter (wants_connection layers ''10.0.0.1'' 80) ?w1 = ?w1"
    "filter (acknowledges layers ''10.0.0.1'' 80) ?w2 = ?w2" by code_simp+
  from handshake_verdict [OF n(1) demo_sniff_ok n(2,3) e, of "\<lambda>a b. 7" "[]" "''10.0.0.1''" "''us''" 80 None] f
  show ?thesis by auto
qed

text \<open>The final acknowledgement is accepted by its destination and flags alone. There is a run in
  which the segment that counts as the DUT's final ACK comes from another host and acknowledges a
  number that is not the suite's initial sequence number plus one, so a returned packet does not by
  itself prove that the DUT completed the handshake.\<close>

theorem handshake_accepts_foreign_ack:
  "\<exists>n p. fst (serve_tcp_handshake layers demo_sniff (\<lambda>a b. 7) [] ''10.0.0.1'' ''us'' 80 None n) =
      Inr (Some p) \<and>
    map_option fst (ip_of layers p) = Some ''10.0.0.66'' \<and>
    list_all (\<lambda>syn. map_option fst (ip_of layers syn) = Some ''10.0.0.5'')
      (case window_script n of Inr w # _ \<Rightarrow> w | _ \<Rightarrow> []) \<and>
    map_option v_ack (tcp_of layers p) = Some 999 \<and> 999 \<noteq> seq32 (7 + 1)"
proof -
  let ?n = "demo_server [[demo_syn], [demo_ack ''10.0.0.66'' 999]]"
  have "fst (serve_tcp_handshake layers demo_sniff (\<lambda>a b. 7) [] ''10.0.0.1'' ''us'' 80 None ?n) =
      Inr (Some (demo_ack ''10.0.0.66'' 999))" by code_simp
  moreover have "map_option fst (ip_of layers (demo_ack ''10.0.0.66'' 999)) = Some ''10.0.0.66'' \<and>
      map_option v_ack (tcp_of layers (demo_ack ''10.0.0.66'' 999)) = Some 999 \<and> 999 \<noteq> seq32 (7 + 1)"
    by code_simp
  moreover have "list_all (\<lambda>syn. map_option fst (ip_of layers syn) = Some ''10.0.0.5'')
      (case window_script ?n of Inr w # _ \<Rightarrow> w | _ \<Rightarrow> [])" by code_simp
  ultimately show ?thesis by blast
qed

end
