(* ===== verification/Recorder.thy ===== *)
theory Recorder
  imports Models
begin

text \<open>
  The two background writers: \<open>src/packet_engine/recorder.py\<close>, the passive on-wire recorder, and
  \<open>PacketEventLogWriter\<close> of \<open>src/reporting/collector.py\<close>. Scapy's \<open>AsyncSniffer\<close> is represented
  by what the recorder observes of it: whether it is running and the exception stored on it.
\<close>

section \<open>The recorder\<close>

record sniffer_state =
  sniffer_running :: bool
  stored_error :: "string option"

text \<open>A sink is given by whether it raises for a packet. \<open>sink_calls\<close> records the calls (sink,
  packet), \<open>sink_faults\<close> how many of them raised, \<open>dropped\<close> the frames that came after the
  capture was closed.\<close>

record 'p recorder =
  rec_iface :: string
  bpf_filter :: "string option"
  rec_sinks :: "('p \<Rightarrow> bool) list"
  rec_count :: nat
  rec_writer :: bool
  rec_frames :: "'p list"
  sniffer :: "sniffer_state option"
  sink_calls :: "(nat \<times> 'p) list"
  sink_faults :: nat
  dropped :: nat

definition build_host_filter :: "string option \<Rightarrow> string option" where
  "build_host_filter host_ip =
     (case host_ip of
        Some (c # cs) \<Rightarrow> Some (''host '' @ c # cs)
      | _ \<Rightarrow> None)"

definition new_recorder :: "string \<Rightarrow> string option \<Rightarrow> 'p recorder" where
  "new_recorder iface bpf =
     \<lparr>rec_iface = iface, bpf_filter = bpf, rec_sinks = [], rec_count = 0, rec_writer = False,
      rec_frames = [], sniffer = None, sink_calls = [], sink_faults = 0, dropped = 0\<rparr>"

definition rec_subscribe :: "('p \<Rightarrow> bool) \<Rightarrow> 'p recorder \<Rightarrow> 'p recorder" where
  "rec_subscribe sink r = r\<lparr>rec_sinks := rec_sinks r @ [sink]\<rparr>"

fun notify_sinks :: "nat \<Rightarrow> ('p \<Rightarrow> bool) list \<Rightarrow> 'p \<Rightarrow> 'p recorder \<Rightarrow> 'p recorder" where
  "notify_sinks i [] packet r = r"
| "notify_sinks i (f # fs) packet r =
     notify_sinks (i + 1) fs packet
       (r\<lparr>sink_calls := sink_calls r @ [(i, packet)],
          sink_faults := sink_faults r + (if f packet then 1 else 0)\<rparr>)"

definition handle :: "'p \<Rightarrow> 'p recorder \<Rightarrow> 'p recorder" where
  "handle packet r =
     (if \<not> rec_writer r then r\<lparr>dropped := dropped r + 1\<rparr>
      else notify_sinks 0 (rec_sinks r) packet
        (r\<lparr>rec_frames := rec_frames r @ [packet], rec_count := rec_count r + 1\<rparr>))"

text \<open>\<open>open_pcap\<close> truncates the file; whether the sniffer's own start succeeds is its argument.\<close>

definition rec_start :: "string option \<Rightarrow> 'p recorder \<Rightarrow> 'p recorder" where
  "rec_start fault r =
     r\<lparr>rec_writer := True, rec_frames := [],
       sniffer := Some \<lparr>sniffer_running = True, stored_error = fault\<rparr>\<rparr>"

definition capture_error :: "'p recorder \<Rightarrow> string \<Rightarrow> 'd exn" where
  "capture_error r m =
     \<lparr>exc = CaptureError,
      msg = ''Capture on interface '' @ py_repr (rec_iface r) @ '' failed: '' @ m @
        ''. Check the interface name and the BPF filter ('' @
        (case bpf_filter r of None \<Rightarrow> ''None'' | Some f \<Rightarrow> py_repr f) @ '').'',
      details = None\<rparr>"

definition close_writer :: "'p recorder \<Rightarrow> 'p recorder" where
  "close_writer r = r\<lparr>rec_writer := False\<rparr>"

definition rec_join :: "'p recorder \<Rightarrow> ('d exn + unit) \<times> 'p recorder" where
  "rec_join r =
     (case sniffer r of
        Some s \<Rightarrow>
          (case stored_error s of
             Some m \<Rightarrow> (Inl (capture_error r m), close_writer r)
           | None \<Rightarrow>
               (Inr (), close_writer (r\<lparr>sniffer := Some (s\<lparr>sniffer_running := False\<rparr>)\<rparr>)))
      | None \<Rightarrow> (Inr (), close_writer r))"

definition rec_stop :: "'p recorder \<Rightarrow> ('d exn + nat) \<times> 'p recorder" where
  "rec_stop r =
     (case sniffer r of
        Some s \<Rightarrow>
          (if sniffer_running s then
             (case stored_error s of
                Some m \<Rightarrow> (Inl (capture_error r m), close_writer r)
              | None \<Rightarrow>
                  (Inr (rec_count r),
                   close_writer (r\<lparr>sniffer := Some (s\<lparr>sniffer_running := False\<rparr>)\<rparr>)))
           else (Inr (rec_count r), close_writer r))
      | None \<Rightarrow> (Inr (rec_count r), close_writer r))"

section \<open>The packet-event log\<close>

text \<open>\<open>json.dumps\<close> is the argument \<open>dumps\<close>.\<close>

record event_log =
  log_text :: string
  log_closed :: bool

definition write_event :: "(pyval \<Rightarrow> string) \<Rightarrow> packet_event \<Rightarrow> event_log \<Rightarrow> event_log" where
  "write_event dumps ev w =
     (let line = dumps (PDict (packet_to_dict ev))
      in if log_closed w then w else w\<lparr>log_text := log_text w @ line @ nl\<rparr>)"

definition close_log :: "event_log \<Rightarrow> event_log" where
  "close_log w = w\<lparr>log_closed := True\<rparr>"

section \<open>Properties\<close>

lemma notify_sinks_spec:
  "notify_sinks i fs p r =
     r\<lparr>sink_calls := sink_calls r @ map (\<lambda>j. (i + j, p)) [0..<length fs],
       sink_faults := sink_faults r + length (filter (\<lambda>f. f p) fs)\<rparr>"
proof (induction fs arbitrary: i r)
  case (Cons f fs)
  have "map (\<lambda>j. (i + j, p)) [0..<Suc (length fs)] = (i, p) # map (\<lambda>j. (Suc i + j, p)) [0..<length fs]"
    by (simp add: upt_conv_Cons map_Suc_upt [symmetric] del: upt_Suc)
  with Cons show ?case by (simp del: upt_Suc)
qed simp

lemma handle_spec:
  "rec_frames (handle p r) = rec_frames r @ (if rec_writer r then [p] else [])"
  "rec_count (handle p r) = rec_count r + (if rec_writer r then 1 else 0)"
  "dropped (handle p r) = dropped r + (if rec_writer r then 0 else 1)"
  "rec_writer (handle p r) = rec_writer r" "rec_sinks (handle p r) = rec_sinks r"
  "sink_calls (handle p r) =
     sink_calls r @ (if rec_writer r then map (\<lambda>j. (j, p)) [0..<length (rec_sinks r)] else [])"
  by (simp_all add: handle_def notify_sinks_spec)

text \<open>The recorder loses nothing and no sink can stop it. While the capture is open every frame
  handed to it is written, counted and offered to every sink, in order, also to those behind a sink
  that raises; once it is closed frames are dropped and the file and the count stay as they are.\<close>

theorem recorder_complete:
  "let r' = foldl (\<lambda>r p. handle p r) r ps
   in (if rec_writer r
       then rec_frames r' = rec_frames r @ ps \<and> rec_count r' = rec_count r + length ps \<and>
         dropped r' = dropped r \<and> sink_calls r' = sink_calls r @
           concat (map (\<lambda>p. map (\<lambda>j. (j, p)) [0..<length (rec_sinks r)]) ps)
       else rec_frames r' = rec_frames r \<and> rec_count r' = rec_count r \<and>
         dropped r' = dropped r + length ps \<and> sink_calls r' = sink_calls r)"
proof -
  have "rec_sinks (foldl (\<lambda>r p. handle p r) r ps) = rec_sinks r" for r :: "'p recorder" and ps
    by (induction ps arbitrary: r) (simp_all add: handle_spec)
  show ?thesis
    by (induction ps arbitrary: r) (simp_all add: handle_spec Let_def)
qed

text \<open>However a capture ends, its file is closed; a capture that failed in the background ends in
  the capture error that names the interface, and otherwise the frame count is reported.\<close>

theorem recorder_stop_closes:
  "case rec_stop r of
     (Inl e, r') \<Rightarrow> \<not> rec_writer r' \<and> rec_frames r' = rec_frames r \<and> exc e = CaptureError \<and>
       (\<exists>s. sniffer r = Some s \<and> sniffer_running s \<and> stored_error s \<noteq> None)
   | (Inr k, r') \<Rightarrow> \<not> rec_writer r' \<and> rec_frames r' = rec_frames r \<and> k = rec_count r \<and>
       \<not> (\<exists>s. sniffer r' = Some s \<and> sniffer_running s)"
  by (auto simp: rec_stop_def close_writer_def capture_error_def split: option.splits)

text \<open>The event log is a sequence of complete lines, one per event written before it was closed,
  and nothing after; events that arrive later change nothing.\<close>

theorem event_log_lines:
  assumes "log_closed w = False"
  shows "log_text (foldl (\<lambda>w e. write_event dumps e w) (close_log (foldl (\<lambda>w e. write_event dumps e w) w es)) late) =
    log_text w @ concat (map (\<lambda>e. dumps (PDict (packet_to_dict e)) @ nl) es)"
proof -
  have open_log: "log_text (foldl (\<lambda>w e. write_event dumps e w) w es) =
      log_text w @ concat (map (\<lambda>e. dumps (PDict (packet_to_dict e)) @ nl) es)"
    if "\<not> log_closed w" for w es
    using that by (induction es arbitrary: w) (simp_all add: write_event_def)
  have closed_log: "foldl (\<lambda>w e. write_event dumps e w) w es = w" if "log_closed w" for w es
    using that by (induction es) (simp_all add: write_event_def)
  show ?thesis using assms open_log by (simp add: close_log_def closed_log)
qed

definition demo_event :: packet_event where
  "demo_event = \<lparr>timestamp = 1, direction = SENT, ev_summary = ''IP'', size_bytes = 60, ev_nodeid = None\<rparr>"

lemma event_log_lines_witness:
  "log_text (foldl (\<lambda>w e. write_event (\<lambda>_. ''{}'') e w)
     (close_log (foldl (\<lambda>w e. write_event (\<lambda>_. ''{}'') e w) \<lparr>log_text = [], log_closed = False\<rparr>
       [demo_event, demo_event])) [demo_event]) = ''{}'' @ nl @ ''{}'' @ nl"
  by (subst event_log_lines) (simp_all add: nl_def)

end
