(* ===== verification/Host.thy ===== *)
theory Host
  imports Config
begin

text \<open>
  What the suite asks of the machine it runs on before it sends anything:
  \<open>src/packet_engine/platform_backend.py\<close> (socket backend per host), \<open>src/utils/permissions.py\<close>
  (privileges and elevation), \<open>src/packet_engine/preflight.py\<close> (the check before a run),
  \<open>src/packet_engine/rst_guard.py\<close> and \<open>src/utils/logging_config.py\<close>. The operating system is a
  record of what its calls return.
\<close>

section \<open>The host\<close>

text \<open>
  \<open>admin\<close> is the answer of \<open>IsUserAnAdmin\<close> (\<open>None\<close> when the call fails), \<open>getcap\<close> the output of
  that program (\<open>None\<close> when it is missing or does not answer), \<open>shell_execute\<close> the result of the
  UAC relaunch for a program, its parameters and a directory.
\<close>

record host =
  system :: string
  admin :: "bool option"
  euid :: nat
  getcap :: "string option"
  interpreter :: string
  executable :: string
  frozen :: bool
  argv :: "string list"
  cwd :: string
  shell_execute :: "string \<Rightarrow> string \<Rightarrow> string \<Rightarrow> int"

definition supported_hosts :: "string list" where
  "supported_hosts = [''Windows'', ''Linux'']"

definition unsupported_host_message :: "string \<Rightarrow> string" where
  "unsupported_host_message sys =
     ''Unsupported host platform: '' @ py_repr sys @ ''. This suite supports running on '' @
     join '' and '' supported_hosts @ '' hosts.''"

record scapy_conf_backend =
  host_name :: string
  use_pcap :: bool

definition backends :: "(string \<times> scapy_conf_backend) list" where
  "backends =
     [(''Windows'', \<lparr>host_name = ''Windows'', use_pcap = True\<rparr>),
      (''Linux'', \<lparr>host_name = ''Linux'', use_pcap = False\<rparr>)]"

text \<open>\<open>configure\<close> assigns Scapy's global \<open>conf.use_pcap\<close>.\<close>

definition configure :: "scapy_conf_backend \<Rightarrow> bool \<Rightarrow> bool" where
  "configure b conf_use_pcap = use_pcap b"

definition get_backend :: "host \<Rightarrow> 'd exn + scapy_conf_backend" where
  "get_backend h =
     (case map_of backends (system h) of
        Some b \<Rightarrow> Inr b
      | None \<Rightarrow> raise_exc UnsupportedHostError (unsupported_host_message (system h)))"

section \<open>Privileges\<close>

definition has_linux_capabilities :: "host \<Rightarrow> bool" where
  "has_linux_capabilities h =
     (case getcap h of
        None \<Rightarrow> False
      | Some out \<Rightarrow> contains ''cap_net_raw'' out \<and> contains ''cap_net_admin'' out)"

definition is_elevated :: "host \<Rightarrow> 'd exn + bool" where
  "is_elevated h =
     (if system h = ''Windows'' then
        (case admin h of Some b \<Rightarrow> Inr b | None \<Rightarrow> Inr False)
      else if system h = ''Linux'' then
        (if euid h = 0 then Inr True else Inr (has_linux_capabilities h))
      else raise_exc UnsupportedHostError (unsupported_host_message (system h)))"

definition remediation_message :: "host \<Rightarrow> string" where
  "remediation_message h =
     (if system h = ''Windows'' then
        ''Raw Ethernet access requires Administrator privileges, or Npcap '' @
        ''installed with 'Restrict Npcap driver's access to Administrators '' @
        ''only' UNCHECKED during setup. Re-run as Administrator, or '' @
        ''reinstall Npcap with that option disabled.''
      else if system h = ''Linux'' then
        ''Raw Ethernet access requires root, or (recommended '' @ em_dash @ '' running '' @
        ''the GUI as root is discouraged) grant capabilities once to the '' @
        ''interpreter:'' @ nl @ ''  sudo setcap cap_net_raw,cap_net_admin+eip '' @ interpreter h
      else unsupported_host_message (system h))"

definition require_elevation :: "host \<Rightarrow> 'd exn + unit" where
  "require_elevation h =
     rbind (is_elevated h) (\<lambda>e.
       if \<not> e then raise_exc InsufficientPrivilegesError (remediation_message h) else Inr ())"

datatype elevation_result = ALREADY | RELAUNCHED | DECLINED | UNSUPPORTED

text \<open>\<open>subprocess.list2cmdline\<close> is the argument \<open>cmdline\<close>.\<close>

definition relaunch_module_as_admin ::
  "(string list \<Rightarrow> string) \<Rightarrow> string \<Rightarrow> host \<Rightarrow> 'd exn + elevation_result" where
  "relaunch_module_as_admin cmdline modname h =
     (if system h \<noteq> ''Windows'' then Inr UNSUPPORTED
      else rbind (is_elevated h) (\<lambda>e.
        if e then Inr ALREADY
        else let params = (if frozen h then cmdline (tl (argv h))
                           else cmdline ([''-m'', modname] @ tl (argv h)));
                 rc = shell_execute h (executable h) params (cwd h)
             in Inr (if 32 < rc then RELAUNCHED else DECLINED)))"

section \<open>Preflight\<close>

record preflight_result =
  ok :: bool
  pf_errors :: "string list"
  warnings :: "string list"
  info :: "string list"
  dut_mac :: "string option"

definition render_lines :: "preflight_result \<Rightarrow> string list" where
  "render_lines r =
     map (\<lambda>m. ''[ok]   '' @ m) (info r) @ map (\<lambda>m. ''[warn] '' @ m) (warnings r) @
     map (\<lambda>m. ''[FAIL] '' @ m) (pf_errors r)"

text \<open>What the ARP probe (\<open>srp1\<close> and the imports before it) met: the reply's hardware address,
  silence, or an exception.\<close>

datatype probe =
    ArpReply string
  | NoReply
  | ProbeRaised exc_class string

definition show_none :: "string option \<Rightarrow> string" where
  "show_none s = (case s of None \<Rightarrow> ''None'' | Some t \<Rightarrow> py_repr t)"

definition probe_error ::
  "dut_config \<Rightarrow> string list \<Rightarrow> exc_class \<Rightarrow> string \<Rightarrow> unit exn + preflight_result" where
  "probe_error c notes cls m =
     (if is_a cls OSError then
        Inr \<lparr>ok = False,
             pf_errors = [''Could not send on interface '' @ show_none (interface c) @ '': '' @ m,
               ''Check the interface name and that Npcap (Windows) / capabilities (Linux) are set up.''],
             warnings = [], info = notes, dut_mac = None\<rparr>
      else if is_a cls PyException then
        Inr \<lparr>ok = False,
             pf_errors = [''Preflight probe failed unexpectedly: '' @ class_name cls @ '': '' @ m,
               ''This is not a configuration problem '' @ em_dash @
               '' the details were written to the log.''],
             warnings = [], info = notes, dut_mac = None\<rparr>
      else raise_exc cls m)"

text \<open>\<open>frepr\<close> is the text of a float.\<close>

definition run_preflight ::
  "host \<Rightarrow> (rat \<Rightarrow> string) \<Rightarrow> probe \<Rightarrow> dut_config \<Rightarrow> rat \<Rightarrow> unit exn + preflight_result" where
  "run_preflight h frepr probe c tmo =
     (let missing = missing_required False c in
      if missing \<noteq> [] then
        Inr \<lparr>ok = False,
             pf_errors = [''Missing required configuration: '' @ join '', '' missing @ ''.''],
             warnings = [], info = [], dut_mac = None\<rparr>
      else case require_elevation h of
        Inl e \<Rightarrow>
          (if is_a (exc e) InsufficientPrivilegesError then
             Inr \<lparr>ok = False,
                  pf_errors = [''Insufficient privileges to open a raw socket.'', msg e],
                  warnings = [], info = [], dut_mac = None\<rparr>
           else Inl e)
      | Inr _ \<Rightarrow>
          (let notes = [''Privileges OK. Interface: '' @ show_opt (interface c) @
                      '', target stack: '' @ show_opt (target_stack c) @ ''.'']
           in case probe of
                ProbeRaised cls m \<Rightarrow> probe_error c notes cls m
              | NoReply \<Rightarrow>
                  Inr \<lparr>ok = True, pf_errors = [],
                       warnings =
                         [''No ARP reply from '' @ show_opt (target_ip c) @ '' on '' @
                          show_opt (interface c) @ '' within '' @ frepr tmo @ ''s.'',
                          ''The DUT may not implement ARP, or may be unreachable at layer 2. '' @
                          ''Proceeding '' @ em_dash @ '' tests that expect a reply may time out.''],
                       info = notes, dut_mac = None\<rparr>
              | ArpReply mac \<Rightarrow>
                  Inr \<lparr>ok = True, pf_errors = [], warnings = [],
                       info = notes @ [''DUT '' @ show_opt (target_ip c) @ '' responded to ARP (MAC '' @
                         mac @ ''). Layer-2 reachability confirmed.''],
                       dut_mac = Some mac\<rparr>))"

section \<open>The host's RST guard\<close>

text \<open>\<open>handle\<close> and \<open>thread\<close> of \<open>HostRstGuard\<close>; what the diverted queue delivers is a list, ended
  by the \<open>OSError\<close> that closing causes.\<close>

record rst_guard =
  guard_filter :: string
  guard_open :: bool
  guard_thread :: bool
  diverted :: nat

definition new_guard :: "string \<Rightarrow> rst_guard" where
  "new_guard local_ip =
     \<lparr>guard_filter = ''tcp and ip.DstAddr == '' @ local_ip @ '' and tcp.DstPort >= '' @
        idec ephemeral_low @ '' and tcp.DstPort <= '' @ idec ephemeral_high,
      guard_open = False, guard_thread = False, diverted = 0\<rparr>"

definition start_guard :: "rst_guard \<Rightarrow> rst_guard" where
  "start_guard g = g\<lparr>guard_open := True, guard_thread := True\<rparr>"

text \<open>One turn of \<open>_run\<close>: a received packet is dropped by not being sent on.\<close>

definition guard_turn :: "bool \<Rightarrow> rst_guard \<Rightarrow> rst_guard" where
  "guard_turn received g =
     (if \<not> guard_thread g then g
      else if received \<and> guard_open g then g\<lparr>diverted := diverted g + 1\<rparr>
      else g\<lparr>guard_thread := False\<rparr>)"

definition stop_guard :: "rst_guard \<Rightarrow> rst_guard" where
  "stop_guard g = g\<lparr>guard_open := False, guard_thread := False\<rparr>"

definition start_for_host :: "host \<Rightarrow> string \<Rightarrow> rst_guard option" where
  "start_for_host h local_ip =
     (if system h \<noteq> ''Windows'' then None else Some (start_guard (new_guard local_ip)))"

section \<open>Logging\<close>

datatype log_handler = Console | LogFile string

text \<open>\<open>open_file\<close> says whether the log file can be opened; the second component is the warning.\<close>

definition configure_logging ::
  "(string \<Rightarrow> string option) \<Rightarrow> string option \<Rightarrow> log_handler list \<times> string option" where
  "configure_logging open_file log_file =
     (case log_file of
        None \<Rightarrow> ([Console], None)
      | Some f \<Rightarrow>
          (case open_file f of
             None \<Rightarrow> ([Console, LogFile f], None)
           | Some failure \<Rightarrow>
               ([Console],
                Some (''Could not open the log file '' @ f @ '': '' @ failure @
                  ''. Logging to the console only '' @ em_dash @ '' '' @
                  ''the GUI's log panel is cleared at the start of every run, so a '' @
                  ''failed run will leave no durable record.''))))"

section \<open>Properties\<close>

lemma is_elevated_Inl: "is_elevated h = Inl e \<Longrightarrow> exc e = UnsupportedHostError \<and> system h \<notin> set supported_hosts"
  by (auto simp: is_elevated_def supported_hosts_def split: if_splits option.splits)

lemma require_elevation_cases:
  "require_elevation h = (Inr () :: 'd exn + unit) \<longleftrightarrow> is_elevated h = (Inr True :: 'd exn + bool)"
  for h :: host
  by (cases "is_elevated h :: 'd exn + bool") (auto simp: require_elevation_def split: if_splits)

lemma require_elevation_Inl:
  "require_elevation h = (Inl e :: 'd exn + unit) \<Longrightarrow>
   is_elevated h = (Inr False :: 'd exn + bool) \<and> exc e = InsufficientPrivilegesError \<or>
   exc e = UnsupportedHostError \<and> system h \<notin> set supported_hosts"
  by (cases "is_elevated h :: 'd exn + bool")
    (auto simp: require_elevation_def dest: is_elevated_Inl split: if_splits)

lemma class_facts [simp]:
  "\<not> is_a UnsupportedHostError InsufficientPrivilegesError" "is_a OSError PyException"
  by (simp_all add: is_a_def ancestors_eval)

lemma os_is_exception: "is_a c OSError \<Longrightarrow> is_a c PyException"
  by (erule is_a_trans) simp

definition probed :: "probe \<Rightarrow> bool" where
  "probed p \<longleftrightarrow> (case p of ProbeRaised c m \<Rightarrow> False | _ \<Rightarrow> True)"

text \<open>What blocks a run and what does not. Preflight says go exactly when the configuration is
  complete, the process may open raw sockets and the probe could be sent; silence from the DUT is
  a warning, never a blocker; a refusal always carries an error text and an approval none; the
  hardware address is the one that answered. What is not turned into a result is the unsupported
  host and an exception that is no \<open>Exception\<close>.\<close>

theorem preflight_verdict:
  "case run_preflight h frepr probe c tmo of
     Inr r \<Rightarrow>
       (ok r \<longleftrightarrow> missing_required False c = [] \<and> is_elevated h = (Inr True :: unit exn + bool) \<and>
                 probed probe) \<and>
       (ok r \<longleftrightarrow> pf_errors r = []) \<and>
       (dut_mac r = (case probe of ArpReply mac \<Rightarrow> if ok r then Some mac else None | _ \<Rightarrow> None)) \<and>
       (warnings r \<noteq> [] \<longleftrightarrow> ok r \<and> probe = NoReply)
   | Inl e \<Rightarrow> exc e = UnsupportedHostError \<and> system h \<notin> set supported_hosts \<or>
       (\<exists>m. probe = ProbeRaised (exc e) m) \<and> \<not> is_a (exc e) PyException"
proof (cases "missing_required False c = []")
  case False
  then show ?thesis by (simp add: run_preflight_def Let_def split: probe.split)
next
  case complete: True
  show ?thesis
  proof (cases "require_elevation h :: unit exn + unit")
    case (Inl e)
    then have "is_elevated h \<noteq> (Inr True :: unit exn + bool)"
      using require_elevation_cases [where 'd = unit and h = h] by auto
    with Inl complete require_elevation_Inl [OF Inl] show ?thesis
      by (auto simp: run_preflight_def Let_def split: probe.split)
  next
    case (Inr u)
    then have "is_elevated h = (Inr True :: unit exn + bool)"
      using require_elevation_cases [where 'd = unit and h = h] by auto
    with Inr complete show ?thesis
      by (auto simp: run_preflight_def probe_error_def probed_def Let_def os_is_exception
          split: probe.split)
  qed
qed

text \<open>Elevation never loops and never pretends: only a Windows process that is not elevated is
  relaunched, and it is reported as relaunched only if the system call says so.\<close>

theorem relaunch_spec:
  "relaunch_module_as_admin cmdline modname h = (Inr r :: 'd exn + elevation_result) \<longleftrightarrow>
     (if system h \<noteq> ''Windows'' then r = UNSUPPORTED
      else if admin h = Some True then r = ALREADY
      else r = (if 32 < shell_execute h (executable h)
             (cmdline (if frozen h then tl (argv h) else [''-m'', modname] @ tl (argv h))) (cwd h)
           then RELAUNCHED else DECLINED))"
  by (auto simp: relaunch_module_as_admin_def is_elevated_def Let_def split: option.splits)

end
