(* ===== verification/Artifacts.thy ===== *)
theory Artifacts
  imports Models
begin

text \<open>
  Where a run's files are: \<open>src/paths.py\<close> (source and frozen layouts) and
  \<open>src/run_artifacts.py\<close> (the names in a run directory, \<open>save\<close> and \<open>load\<close> of
  \<open>results.json\<close>). Paths are texts joined with a slash. The file system is a map from paths to
  contents, and the JSON library a pair of functions.
\<close>

section \<open>Paths\<close>

definition path_join :: "string \<Rightarrow> string \<Rightarrow> string" where
  "path_join r name = r @ ''/'' @ name"

text \<open>\<open>sys.frozen\<close>, \<open>sys._MEIPASS\<close>, the parent of \<open>src/\<close>, and \<open>sys.executable\<close> with its folder.\<close>

record layout =
  frozen_build :: bool
  meipass :: string
  source_root :: string
  sys_executable :: string
  executable_dir :: string

definition pytest_sentinel :: string where "pytest_sentinel = ''--__run_pytest__''"

definition is_frozen :: "layout \<Rightarrow> bool" where
  "is_frozen l = frozen_build l"

definition project_root :: "layout \<Rightarrow> string" where
  "project_root l = (if is_frozen l then meipass l else source_root l)"

definition tests_root :: "layout \<Rightarrow> string" where
  "tests_root l = path_join (project_root l) ''tests''"

definition reports_base :: "layout \<Rightarrow> string" where
  "reports_base l = (if is_frozen l then executable_dir l else project_root l)"

definition app_icon :: "layout \<Rightarrow> string" where
  "app_icon l = path_join (path_join (project_root l) ''packaging'') ''icon.png''"

section \<open>The files of a run\<close>

definition results_name :: string where "results_name = ''results.json''"
definition report_log_name :: string where "report_log_name = ''report_log.jsonl''"
definition packet_events_name :: string where "packet_events_name = ''packet_events.jsonl''"
definition capture_name :: string where "capture_name = ''capture.pcap''"
definition debug_log_name :: string where "debug_log_name = ''debug.log''"
definition pytest_output_name :: string where "pytest_output_name = ''pytest_output.log''"

definition artifact_descriptions :: "(string \<times> string) list" where
  "artifact_descriptions =
     [(capture_name, ''every frame the suite sent and received.''),
      (debug_log_name, ''tshark-style per-packet trace (present only if Debug mode was on).''),
      (pytest_output_name, ''raw test-runner output.''),
      (results_name, ''this run in machine-readable form.'')]"

definition results_path :: "string \<Rightarrow> string" where
  "results_path rundir = path_join rundir results_name"

definition report_log_path :: "string \<Rightarrow> string" where
  "report_log_path rundir = path_join rundir report_log_name"

definition packet_events_path :: "string \<Rightarrow> string" where
  "packet_events_path rundir = path_join rundir packet_events_name"

definition capture_file :: "string \<Rightarrow> string" where
  "capture_file rundir = path_join rundir capture_name"

definition debug_log_path :: "string \<Rightarrow> string" where
  "debug_log_path rundir = path_join rundir debug_log_name"

definition pytest_output_path :: "string \<Rightarrow> string" where
  "pytest_output_path rundir = path_join rundir pytest_output_name"

definition report_path :: "string \<Rightarrow> string \<Rightarrow> string" where
  "report_path rundir ext = path_join rundir (''report.'' @ ext)"

section \<open>Saving and loading\<close>

type_synonym files = "string \<Rightarrow> string option"

text \<open>\<open>fault\<close> is the \<open>OSError\<close> that creating the directory or writing raises, if any; \<open>dumps\<close> and
  \<open>loads\<close> are \<open>json\<close>'s (\<open>None\<close>: a \<open>JSONDecodeError\<close>).\<close>

definition save ::
  "(pyval \<Rightarrow> string) \<Rightarrow> string option \<Rightarrow> string \<Rightarrow> run_result \<Rightarrow> files \<Rightarrow> ('d exn + unit) \<times> files" where
  "save dumps fault rundir result fs =
     (case fault of
        Some m \<Rightarrow>
          (raise_exc RunArtifactError
             (''Could not write '' @ results_path rundir @ '': '' @ m @ ''. The run itself completed '' @
              em_dash @ '' its pcap and logs are already on disk in the same directory.''), fs)
      | None \<Rightarrow> (Inr (), fs(results_path rundir \<mapsto> dumps (PDict (run_to_dict result)))))"

definition load ::
  "(string \<Rightarrow> pyval option) \<Rightarrow> (string \<Rightarrow> datetime option) \<Rightarrow> string \<Rightarrow> files \<Rightarrow>
   ('d exn + run_result) option" where
  "load loads fromiso rundir fs =
     (case fs (results_path rundir) of
        None \<Rightarrow> Some (raise_exc FileNotFoundError (results_path rundir))
      | Some text \<Rightarrow>
          (case loads text of
             None \<Rightarrow> Some (raise_exc JSONDecodeError text)
           | Some (PDict d) \<Rightarrow> run_from_dict fromiso d
           | Some _ \<Rightarrow> Some (raise_exc AttributeError ''get'')))"


definition demo_dumps :: "pyval \<Rightarrow> string" where
  "demo_dumps v = (if v = PDict (run_to_dict demo_run) then ''R'' else ''?'')"

definition demo_loads :: "string \<Rightarrow> pyval option" where
  "demo_loads s = (if s = ''R'' then Some (PDict (run_to_dict demo_run)) else None)"

definition demo_fromiso :: "string \<Rightarrow> datetime option" where
  "demo_fromiso s = (if s = isoformat demo_date then Some demo_date else None)"


text \<open>The six files of a run are distinct, and so are the reports of distinct formats.\<close>

lemma artifact_names_distinct:
  "distinct [results_path r, report_log_path r, packet_events_path r, capture_file r,
     debug_log_path r, pytest_output_path r]"
  by (simp add: results_path_def report_log_path_def packet_events_path_def capture_file_def
      debug_log_path_def pytest_output_path_def path_join_def results_name_def report_log_name_def
      packet_events_name_def capture_name_def debug_log_name_def pytest_output_name_def)

end
