(* ===== verification/Runner.thy ===== *)
theory Runner
  imports Artifacts Config Payloads
begin

text \<open>
  \<open>src/runner.py\<close>: how a run is described, how the test process is invoked, and how its progress is
  read back from two growing files. The test process is represented by what its files hold at each
  poll and how it ended. \<open>json.loads\<close>, the text of a JSON value (\<open>str\<close>) and the TOML reader are
  arguments.
\<close>

section \<open>The request\<close>

record run_request =
  rq_config :: dut_config
  rq_module :: "string option"
  submodule :: "string option"
  test_name :: "string option"
  targets :: "string list"
  rq_markers :: "string list"
  rq_payload_mode :: payload_mode
  payload_size :: int
  confirm_vuln_tests :: bool
  debug :: bool
  rq_proxy_mode :: "string option"
  rq_proxy_host :: "string option"
  rq_proxy_port :: "int option"
  rq_backend_host :: "string option"
  rq_backend_port :: "int option"

definition request_role :: "run_request \<Rightarrow> role" where
  "request_role rq = dut_role (rq_config rq)"

definition request_leg :: "run_request \<Rightarrow> string option" where
  "request_leg rq = map_option leg_value (dut_leg (rq_config rq))"

definition or_none :: "string option \<Rightarrow> string option" where
  "or_none s = (if truthy s then s else None)"

definition optional_flags :: "run_request \<Rightarrow> (string \<times> string option) list" where
  "optional_flags rq =
     [(''--dut-mac'', or_none (target_mac (rq_config rq))),
      (''--dut-port'', map_option idec (target_port (rq_config rq))),
      (''--dut-source-port'', map_option idec (source_port (rq_config rq))),
      (''--proxy-mode'', or_none (rq_proxy_mode rq)),
      (''--proxy-leg'', or_none (request_leg rq))]"

definition topology_flags :: "run_request \<Rightarrow> (string \<times> string option) list" where
  "topology_flags rq =
     [(''--proxy-host'', or_none (rq_proxy_host rq)),
      (''--proxy-port'', map_option idec (rq_proxy_port rq)),
      (''--backend-host'', or_none (rq_backend_host rq)),
      (''--backend-port'', map_option idec (rq_backend_port rq))]"

definition emit_flags :: "(string \<times> string option) list \<Rightarrow> string list" where
  "emit_flags fs = map (\<lambda>(flag, v). flag @ ''='' @ the v) (filter (\<lambda>(flag, v). v \<noteq> None) fs)"

definition test_targets :: "run_request \<Rightarrow> string list" where
  "test_targets rq =
     (if targets rq \<noteq> [] then targets rq
      else [join ''/'' (map the (filter truthy [Some ''tests'', rq_module rq, submodule rq]))])"

definition launcher :: "layout \<Rightarrow> string list" where
  "launcher l =
     (if is_frozen l then [sys_executable l, pytest_sentinel, ''-p'', ''pytest_reportlog.plugin'']
      else [sys_executable l, ''-m'', ''pytest''])"

definition build_pytest_args :: "layout \<Rightarrow> run_request \<Rightarrow> string \<Rightarrow> string list" where
  "build_pytest_args l rq run_dir =
     launcher l @ test_targets rq @
     [''--report-log='' @ report_log_path run_dir,
      ''--target-stack='' @ show_opt (target_stack (rq_config rq)),
      ''--role='' @ role_value (request_role rq),
      ''--dut-ip='' @ show_opt (target_ip (rq_config rq)),
      ''--dut-iface='' @ show_opt (interface (rq_config rq)),
      ''--payload-mode='' @ payload_mode_value (rq_payload_mode rq),
      ''--payload-size='' @ idec (payload_size rq),
      ''--live-events-log='' @ packet_events_path run_dir,
      ''--capture-pcap='' @ capture_file run_dir,
      ''-v''] @
     emit_flags (optional_flags rq) @
     (if truthy (test_name rq) then [''-k'', the (test_name rq)] else []) @
     (if rq_markers rq \<noteq> [] then [''-m'', join '' and '' (rq_markers rq)] else []) @
     (if confirm_vuln_tests rq then [''--confirm-vuln-tests''] else []) @
     map (\<lambda>cidr. ''--allowed-targets='' @ cidr) (allowed_targets (rq_config rq)) @
     (if debug rq then [''--debug-log='' @ debug_log_path run_dir] else []) @
     (if truthy (rq_proxy_mode rq) \<or> truthy (request_leg rq)
      then emit_flags (topology_flags rq) else [])"

section \<open>Run directory and result\<close>

definition reports_dir :: "layout \<Rightarrow> string" where
  "reports_dir l = path_join (reports_base l) ''reports''"

text \<open>The run identifier from the time and six random hexadecimal digits; \<open>mkdir\<close> is the
  \<open>OSError\<close> of creating the directory, if any.\<close>

definition run_id_of :: "datetime \<Rightarrow> string \<Rightarrow> string" where
  "run_id_of now hex6 =
     pad_left 4 (CHR ''0'') (dec (year now)) @ two (month now) @ two (day now) @ ''T'' @
     two (hour now) @ two (minute now) @ two (second now) @ ''-'' @ hex6"

definition new_run_dir ::
  "layout \<Rightarrow> datetime \<Rightarrow> string \<Rightarrow> (string \<Rightarrow> string option) \<Rightarrow> 'd exn + string \<times> string" where
  "new_run_dir l now hex6 mkdir =
     (let rid = run_id_of now hex6; run_dir = path_join (reports_dir l) rid
      in case mkdir run_dir of
           Some m \<Rightarrow> raise_exc RunArtifactError
             (''Could not create the run directory '' @ run_dir @ '': '' @ m)
         | None \<Rightarrow> Inr (rid, run_dir))"

definition new_run_result :: "string \<Rightarrow> datetime \<Rightarrow> string \<Rightarrow> run_request \<Rightarrow> run_result" where
  "new_run_result rid now platform_system rq =
     \<lparr>run_id = rid, started_at = Some now, finished_at = None,
      run_target_ip = target_ip (rq_config rq), run_target_stack = target_stack (rq_config rq),
      host_platform = platform_system, run_payload_mode = payload_mode_value (rq_payload_mode rq),
      run_role = role_value (request_role rq), run_proxy_leg = request_leg rq, tests = [],
      packet_events = [], pytest_returncode = None\<rparr>"

definition finalize_run ::
  "(pyval \<Rightarrow> string) \<Rightarrow> string option \<Rightarrow> datetime \<Rightarrow> run_result \<Rightarrow> string \<Rightarrow> int option \<Rightarrow> files \<Rightarrow>
   ('d exn + run_result) \<times> files" where
  "finalize_run dumps fault now result run_dir returncode fs =
     (let r = result\<lparr>pytest_returncode := returncode, finished_at := Some now\<rparr>
      in case save dumps fault run_dir r fs of
           (Inl e, fs') \<Rightarrow> (Inl e, fs')
         | (Inr _, fs') \<Rightarrow> (Inr r, fs'))"

text \<open>\<open>entries\<close> is the list under \<open>tool.pytest.ini_options.markers\<close>; \<open>None\<close> when
  \<open>pyproject.toml\<close> cannot be read or parsed.\<close>

definition registered_markers :: "string list option \<Rightarrow> string list" where
  "registered_markers entries =
     (case entries of
        None \<Rightarrow> []
      | Some es \<Rightarrow> map (\<lambda>e. strip (hd (split_max 1 (CHR '':'') e))) es)"

section \<open>Tailing the files\<close>

text \<open>Everything up to and including the last newline.\<close>

definition upto_newline :: "bytes \<Rightarrow> bytes" where
  "upto_newline bs = rev (dropWhile (\<lambda>b. b \<noteq> 10) (rev bs))"

definition text_lines :: "bytes \<Rightarrow> string list" where
  "text_lines bs = filter (\<lambda>ln. strip ln \<noteq> []) (splitlines (decode_replace bs))"

definition read_new_lines :: "bytes option \<Rightarrow> nat \<Rightarrow> string list \<times> nat" where
  "read_new_lines file offset =
     (case file of
        None \<Rightarrow> ([], offset)
      | Some content \<Rightarrow>
          (let data = drop offset content
           in if data = [] then ([], offset)
              else if 10 \<notin> set data then ([], offset)
              else let consumed = upto_newline data
                   in (text_lines consumed, offset + length consumed)))"

section \<open>Test reports\<close>

text \<open>A report line gives an event, nothing, or (\<open>None\<close>) holds values of types that the event's
  fields do not declare.\<close>

definition extract_message :: "(pyval \<Rightarrow> string) \<Rightarrow> pydict \<Rightarrow> string option option" where
  "extract_message pystr d =
     (let longrepr = dget d ''longrepr'' PNone
      in if \<not> py_true longrepr then Some None
         else case longrepr of
           PDict r \<Rightarrow>
             (let crash = dget r ''reprcrash'' PNone
              in if \<not> py_true crash then Some None
                 else case crash of
                   PDict c \<Rightarrow> get_opt get_str (dget c ''message'' PNone)
                 | _ \<Rightarrow> None)
         | PList [a, b, PStr reason] \<Rightarrow> Some (Some reason)
         | PStr s \<Rightarrow>
             (let stripped = strip s
              in Some (if stripped = [] then None else Some (last (splitlines stripped))))
         | v \<Rightarrow> Some (Some (pystr v)))"

definition call_outcome :: "pyval \<Rightarrow> test_outcome option" where
  "call_outcome v =
     (case v of
        PStr s \<Rightarrow>
          Some (if s = ''passed'' then PASSED else if s = ''failed'' then FAILED
                else if s = ''skipped'' then SKIPPED else ERROR)
      | PList _ \<Rightarrow> None
      | PDict _ \<Rightarrow> None
      | _ \<Rightarrow> Some ERROR)"

definition verdict :: "pydict \<Rightarrow> test_outcome option option" where
  "verdict d =
     (let phase = dget d ''when'' PNone; outcome_str = dget d ''outcome'' (PStr [])
      in if phase = PStr ''call'' then map_option Some (call_outcome outcome_str)
         else if phase = PStr ''setup'' then
           (if outcome_str = PStr ''passed'' then Some None
            else Some (Some (if outcome_str = PStr ''skipped'' then SKIPPED else ERROR)))
         else if phase = PStr ''teardown'' then
           (if outcome_str \<noteq> PStr ''failed'' then Some None else Some (Some ERROR))
         else Some None)"

fun get_num :: "pyval \<Rightarrow> rat option" where
  "get_num (PFloat q) = Some q"
| "get_num (PInt i) = Some (of_int i)"
| "get_num _ = None"

definition keyword_names :: "pyval \<Rightarrow> string list option" where
  "keyword_names v = (case v of PDict d \<Rightarrow> Some (map fst d) | _ \<Rightarrow> None)"

definition parse_report_log_line ::
  "(string \<Rightarrow> pyval option) \<Rightarrow> (pyval \<Rightarrow> string) \<Rightarrow> string list \<Rightarrow> string \<Rightarrow> test_event option option" where
  "parse_report_log_line loads pystr known line =
     (case loads line of
        Some (PDict d) \<Rightarrow>
          (if map_of d ''$report_type'' \<noteq> Some (PStr ''TestReport'') then Some None
           else case verdict d of
             None \<Rightarrow> None
           | Some None \<Rightarrow> Some None
           | Some (Some oc) \<Rightarrow>
               (case (if oc = PASSED then Some None else extract_message pystr d,
                      keyword_names (dget d ''keywords'' (PDict [])),
                      get_str (dget d ''nodeid'' (PStr ''<unknown>'')),
                      get_num (dget d ''duration'' (PFloat 0))) of
                  (Some m, Some ks, Some n, Some t) \<Rightarrow>
                    Some (Some \<lparr>nodeid = n, outcome = oc, duration_s = t,
                                event_markers = filter (\<lambda>k. k \<in> set known) ks, message = m\<rparr>)
                | _ \<Rightarrow> None))
      | _ \<Rightarrow> Some None)"

fun severity :: "test_outcome \<Rightarrow> nat" where
  "severity PASSED = 0"
| "severity SKIPPED = 1"
| "severity FAILED = 2"
| "severity ERROR = 3"

definition worsen :: "test_event \<Rightarrow> test_event \<Rightarrow> test_event" where
  "worsen event existing =
     existing\<lparr>outcome := outcome event,
              message := (if truthy (message event) then message event else message existing),
              duration_s := duration_s existing + duration_s event\<rparr>"

text \<open>The index maps a node id to the event object, the last one of that id in the list.\<close>

fun update_last :: "('a \<Rightarrow> bool) \<Rightarrow> ('a \<Rightarrow> 'a) \<Rightarrow> 'a list \<Rightarrow> 'a list" where
  "update_last P f [] = []"
| "update_last P f (x # xs) =
     (if list_ex P xs then x # update_last P f xs else if P x then f x # xs else x # xs)"

definition upsert :: "test_event \<Rightarrow> test_event list \<Rightarrow> test_event list \<times> test_event list" where
  "upsert event ts =
     (case find (\<lambda>t. nodeid t = nodeid event) (rev ts) of
        None \<Rightarrow> (ts @ [event], [event])
      | Some existing \<Rightarrow>
          (if severity (outcome existing) < severity (outcome event)
           then (update_last (\<lambda>t. nodeid t = nodeid event) (worsen event) ts, [worsen event existing])
           else (ts, [])))"

text \<open>\<open>drain_test_events\<close>: the result, the new offset and the events the callback saw.\<close>

definition test_line ::
  "(string \<Rightarrow> test_event option option) \<Rightarrow> (run_result \<times> test_event list) option \<Rightarrow> string \<Rightarrow>
   (run_result \<times> test_event list) option" where
  "test_line parse acc line =
     (case acc of
        None \<Rightarrow> None
      | Some (r, seen) \<Rightarrow>
          (case parse line of
             None \<Rightarrow> None
           | Some None \<Rightarrow> Some (r, seen)
           | Some (Some event) \<Rightarrow>
               (case upsert event (tests r) of
                  (ts, told) \<Rightarrow> Some (r\<lparr>tests := ts\<rparr>, seen @ told))))"

definition drain_test_events ::
  "(string \<Rightarrow> test_event option option) \<Rightarrow> bytes option \<Rightarrow> nat \<Rightarrow> run_result \<Rightarrow>
   (nat \<times> run_result \<times> test_event list) option" where
  "drain_test_events parse file offset r =
     (case read_new_lines file offset of
        (lines, new_offset) \<Rightarrow>
          map_option (\<lambda>(r', seen). (new_offset, r', seen))
            (foldl (test_line parse) (Some (r, [])) lines))"

section \<open>Packet events\<close>

text \<open>A line that is no JSON object, lacks a key or names no direction is skipped.\<close>

definition parse_packet_line :: "(string \<Rightarrow> pyval option) \<Rightarrow> string \<Rightarrow> packet_event option option" where
  "parse_packet_line loads line =
     (case loads line of
        Some (PDict d) \<Rightarrow>
          (if list_ex (\<lambda>k. map_of d k = None) [''timestamp'', ''direction'', ''summary'', ''size_bytes'']
           then Some None
           else case Option.bind (get_str (dget d ''direction'' PNone)) direction_of of
             None \<Rightarrow> Some None
           | Some x \<Rightarrow>
               (case (get_num (dget d ''timestamp'' PNone), get_str (dget d ''summary'' PNone),
                      get_int (dget d ''size_bytes'' PNone),
                      get_opt get_str (dget d ''test_nodeid'' PNone)) of
                  (Some t, Some s, Some n, Some i) \<Rightarrow>
                    Some (Some \<lparr>timestamp = t, direction = x, ev_summary = s, size_bytes = n,
                                ev_nodeid = i\<rparr>)
                | _ \<Rightarrow> None))
      | _ \<Rightarrow> Some None)"

definition packet_line ::
  "(string \<Rightarrow> packet_event option option) \<Rightarrow> run_result option \<Rightarrow> string \<Rightarrow> run_result option" where
  "packet_line parse acc line =
     (case acc of
        None \<Rightarrow> None
      | Some r \<Rightarrow>
          (case parse line of
             None \<Rightarrow> None
           | Some None \<Rightarrow> Some r
           | Some (Some ev) \<Rightarrow> Some (r\<lparr>packet_events := packet_events r @ [ev]\<rparr>)))"

definition drain_packet_events ::
  "(string \<Rightarrow> packet_event option option) \<Rightarrow> bytes option \<Rightarrow> nat \<Rightarrow> run_result \<Rightarrow>
   (nat \<times> run_result) option" where
  "drain_packet_events parse file offset r =
     (case read_new_lines file offset of
        (lines, new_offset) \<Rightarrow>
          map_option (Pair new_offset) (foldl (packet_line parse) (Some r) lines))"

section \<open>A run\<close>

text \<open>What the two files hold at a moment; the state of the loop; how the process ended.\<close>

record snapshot =
  report_file :: "bytes option"
  events_file :: "bytes option"

record stream_state =
  st_result :: run_result
  report_offset :: nat
  events_offset :: nat
  told_tests :: "test_event list"

datatype ending =
    Exited int
  | Interrupted exc_class "int option"

definition poll ::
  "(string \<Rightarrow> test_event option option) \<Rightarrow> (string \<Rightarrow> packet_event option option) \<Rightarrow> snapshot \<Rightarrow>
   stream_state \<Rightarrow> stream_state option" where
  "poll pt pp snap st =
     (case drain_test_events pt (report_file snap) (report_offset st) (st_result st) of
        None \<Rightarrow> None
      | Some (ro, r, seen) \<Rightarrow>
          (case drain_packet_events pp (events_file snap) (events_offset st) r of
             None \<Rightarrow> None
           | Some (eo, r') \<Rightarrow>
               Some \<lparr>st_result = r', report_offset = ro, events_offset = eo,
                     told_tests = told_tests st @ seen\<rparr>))"

fun poll_all ::
  "(string \<Rightarrow> test_event option option) \<Rightarrow> (string \<Rightarrow> packet_event option option) \<Rightarrow> snapshot list \<Rightarrow>
   stream_state \<Rightarrow> stream_state option" where
  "poll_all pt pp [] st = Some st"
| "poll_all pt pp (s # ss) st =
     (case poll pt pp s st of None \<Rightarrow> None | Some st' \<Rightarrow> poll_all pt pp ss st')"

definition start_state :: "run_result \<Rightarrow> stream_state" where
  "start_state r = \<lparr>st_result = r, report_offset = 0, events_offset = 0, told_tests = []\<rparr>"

text \<open>
  \<open>stream_run\<close> after the process was started: the polls while it runs, then, however it ended, the
  final drain and the saved result; an interruption is raised again afterwards.
\<close>

definition stream_run ::
  "(string \<Rightarrow> test_event option option) \<Rightarrow> (string \<Rightarrow> packet_event option option) \<Rightarrow>
   (pyval \<Rightarrow> string) \<Rightarrow> string option \<Rightarrow> datetime \<Rightarrow> string \<Rightarrow> run_result \<Rightarrow> snapshot list \<Rightarrow> snapshot \<Rightarrow>
   ending \<Rightarrow> files \<Rightarrow> (('d exn + run_result) \<times> files) option" where
  "stream_run pt pp dumps fault now run_dir r0 snaps final ending fs =
     (case poll_all pt pp (snaps @ [final]) (start_state r0) of
        None \<Rightarrow> None
      | Some st \<Rightarrow>
          Some (case finalize_run dumps fault now (st_result st) run_dir
                  (case ending of Exited rc \<Rightarrow> Some rc | Interrupted c rc \<Rightarrow> rc) fs of
             (Inl e, fs') \<Rightarrow> (Inl e, fs')
           | (Inr r, fs') \<Rightarrow>
               ((case ending of Exited rc \<Rightarrow> Inr r | Interrupted c rc \<Rightarrow> raise_exc c ''''), fs')))"

section \<open>From request to result\<close>

text \<open>
  What a run meets outside: the clock at its two ends, the random digits, the \<open>OSError\<close>s of making
  the directory, of opening the output file and of saving; the test process, given its arguments:
  it cannot be started, or the files grow as polled and it ends.
\<close>

record 'd world =
  w_layout :: layout
  w_started :: datetime
  w_ended :: datetime
  w_hex6 :: string
  w_system :: string
  w_mkdir :: "string \<Rightarrow> string option"
  w_open_output :: "string \<Rightarrow> string option"
  w_save :: "string option"
  w_child :: "string list \<Rightarrow> 'd exn + snapshot list \<times> snapshot \<times> ending"
  w_loads :: "string \<Rightarrow> pyval option"
  w_dumps :: "pyval \<Rightarrow> string"
  w_pystr :: "pyval \<Rightarrow> string"
  w_markers :: "string list option"

definition parse_test :: "'d world \<Rightarrow> string \<Rightarrow> test_event option option" where
  "parse_test w = parse_report_log_line (w_loads w) (w_pystr w) (registered_markers (w_markers w))"

definition parse_packet :: "'d world \<Rightarrow> string \<Rightarrow> packet_event option option" where
  "parse_packet w = parse_packet_line (w_loads w)"

text \<open>\<open>run_tests\<close>: the result with the events the callback was given, and the files.\<close>

definition run_tests ::
  "'d world \<Rightarrow> run_request \<Rightarrow> files \<Rightarrow> (('d exn + run_result) \<times> test_event list \<times> files) option" where
  "run_tests w rq fs =
     (case new_run_dir (w_layout w) (w_started w) (w_hex6 w) (w_mkdir w) of
        Inl e \<Rightarrow> Some (Inl e, [], fs)
      | Inr (rid, dir) \<Rightarrow>
          (let r0 = new_run_result rid (w_started w) (w_system w) rq;
               args = build_pytest_args (w_layout w) rq dir
           in case w_open_output w (pytest_output_path dir) of
                Some m \<Rightarrow>
                  Some (raise_exc RunArtifactError
                    (''Could not open '' @ pytest_output_path dir @ '' for the runner's output: '' @ m),
                    [], fs)
              | None \<Rightarrow>
                  (case w_child w args of
                     Inl e \<Rightarrow> Some (Inl e, [], fs)
                   | Inr (snaps, final, en) \<Rightarrow>
                       (case (stream_run (parse_test w) (parse_packet w) (w_dumps w) (w_save w)
                                (w_ended w) dir r0 snaps final en fs,
                              poll_all (parse_test w) (parse_packet w) (snaps @ [final])
                                (start_state r0)) of
                          (Some (out, fs'), Some st) \<Rightarrow> Some (out, told_tests st, fs')
                        | _ \<Rightarrow> None))))"

section \<open>Tailing equals reading once\<close>

definition content :: "bytes option \<Rightarrow> bytes" where
  "content fl = (case fl of None \<Rightarrow> [] | Some bs \<Rightarrow> bs)"

lemma upto_newline_none: "10 \<notin> set bs \<Longrightarrow> upto_newline bs = []"
  by (auto simp: upto_newline_def dropWhile_eq_Nil_conv)

lemma upto_newline_split:
  "10 \<in> set bs \<Longrightarrow> \<exists>xs ys. bs = xs @ 10 # ys \<and> 10 \<notin> set ys \<and> upto_newline bs = xs @ [10]"
proof (induction bs rule: rev_induct)
  case (snoc b bs)
  show ?case
  proof (cases "b = 10")
    case True
    then show ?thesis by (intro exI [of _ bs] exI [of _ "[]"]) (simp add: upto_newline_def)
  next
    case False
    with snoc obtain xs ys where "bs = xs @ 10 # ys" "10 \<notin> set ys" "upto_newline bs = xs @ [10]"
      by auto
    with False show ?thesis
      by (intro exI [of _ xs] exI [of _ "ys @ [b]"]) (simp add: upto_newline_def)
  qed
qed simp

definition ends_line :: "bytes \<Rightarrow> bool" where
  "ends_line bs \<longleftrightarrow> bs = [] \<or> last bs = 10"

lemma upto_newline_ends: "ends_line (upto_newline bs)"
proof (cases "10 \<in> set bs")
  case True
  then show ?thesis using upto_newline_split [OF True] by (auto simp: ends_line_def)
qed (simp add: upto_newline_none ends_line_def)

lemma upto_newline_prefix: "prefix (upto_newline bs) bs"
proof (cases "10 \<in> set bs")
  case True
  then show ?thesis using upto_newline_split [OF True] by auto
qed (simp add: upto_newline_none)

lemma upto_newline_append:
  assumes "ends_line a"
  shows "upto_newline (a @ b) = a @ upto_newline b"
proof (cases "10 \<in> set b")
  case True
  from upto_newline_split [OF this] obtain xs ys where
    b: "b = xs @ 10 # ys" "10 \<notin> set ys" "upto_newline b = xs @ [10]" by blast
  then have "upto_newline (a @ b) = (a @ xs) @ [10]"
    by (simp add: upto_newline_def dropWhile_append3)
  with b show ?thesis by simp
next
  case False
  then have "upto_newline (a @ b) = upto_newline a"
    by (simp add: upto_newline_def) (subst dropWhile_append2, auto)
  moreover have "upto_newline a = a"
    using assms by (cases a rule: rev_cases) (auto simp: upto_newline_def ends_line_def)
  ultimately show ?thesis using False by (simp add: upto_newline_none)
qed

lemma text_lines_append:
  assumes "ends_line a"
  shows "text_lines (a @ b) = text_lines a @ text_lines b"
proof (cases a rule: rev_cases)
  case Nil
  then show ?thesis by (simp add: text_lines_def splitlines_def)
next
  case (snoc xs x)
  with assms have "x = 10" by (simp add: ends_line_def)
  with snoc show ?thesis using decoded_lines_newline [of xs b] by (simp add: text_lines_def)
qed

text \<open>One read from the offset a reader has reached.\<close>

lemma read_new_lines_from:
  assumes "prefix c0 (content fl)"
  shows "read_new_lines fl (length (upto_newline c0)) =
      (text_lines (upto_newline (drop (length (upto_newline c0)) (content fl))),
       length (upto_newline (content fl))) \<and>
    upto_newline (content fl) =
      upto_newline c0 @ upto_newline (drop (length (upto_newline c0)) (content fl))"
proof -
  let ?a = "upto_newline c0"
  let ?b = "drop (length ?a) (content fl)"
  have "prefix ?a (content fl)"
    using upto_newline_prefix assms by (rule prefix_order.trans)
  then have c: "content fl = ?a @ ?b" by (auto simp: prefix_def)
  have u: "upto_newline (content fl) = ?a @ upto_newline ?b"
    by (subst c) (rule upto_newline_append [OF upto_newline_ends])
  show ?thesis
  proof (cases fl)
    case None
    then have "?a = []" using c by (simp add: content_def)
    with None u show ?thesis
      by (simp add: read_new_lines_def text_lines_def splitlines_def content_def upto_newline_def)
  next
    case (Some bs)
    with u show ?thesis
      by (auto simp: read_new_lines_def content_def Let_def upto_newline_none text_lines_def
          splitlines_def)
  qed
qed

text \<open>A file that only grows: every snapshot begins with the one before.\<close>

fun grows :: "bytes \<Rightarrow> bytes option list \<Rightarrow> bool" where
  "grows c [] \<longleftrightarrow> True"
| "grows c (f # fs) \<longleftrightarrow> prefix c (content f) \<and> grows (content f) fs"

text \<open>The two kinds of lines change different fields, so their folds can be taken apart.\<close>

definition test_step ::
  "(string \<Rightarrow> test_event option option) \<Rightarrow> (test_event list \<times> test_event list) option \<Rightarrow> string \<Rightarrow>
   (test_event list \<times> test_event list) option" where
  "test_step pt acc line =
     (case acc of
        None \<Rightarrow> None
      | Some (ts, told) \<Rightarrow>
          (case pt line of
             None \<Rightarrow> None
           | Some None \<Rightarrow> Some (ts, told)
           | Some (Some ev) \<Rightarrow> (case upsert ev ts of (ts', t') \<Rightarrow> Some (ts', told @ t'))))"

definition packet_step ::
  "(string \<Rightarrow> packet_event option option) \<Rightarrow> packet_event list option \<Rightarrow> string \<Rightarrow> packet_event list option" where
  "packet_step pp acc line =
     (case acc of
        None \<Rightarrow> None
      | Some es \<Rightarrow>
          (case pp line of None \<Rightarrow> None | Some None \<Rightarrow> Some es | Some (Some ev) \<Rightarrow> Some (es @ [ev])))"

lemma test_line_step:
  "test_line pt (map_option (\<lambda>(ts, told). (r\<lparr>tests := ts\<rparr>, seen @ told)) acc) l =
     map_option (\<lambda>(ts, told). (r\<lparr>tests := ts\<rparr>, seen @ told)) (test_step pt acc l)"
  by (auto simp: test_line_def test_step_def split: option.splits prod.splits)

lemma foldl_test_line:
  "foldl (test_line pt) (map_option (\<lambda>(ts, told). (r\<lparr>tests := ts\<rparr>, seen @ told)) acc) ls =
     map_option (\<lambda>(ts, told). (r\<lparr>tests := ts\<rparr>, seen @ told)) (foldl (test_step pt) acc ls)"
  by (induction ls arbitrary: acc) (simp_all add: test_line_step)

lemma packet_line_step:
  "packet_line pp (map_option (\<lambda>es. r\<lparr>packet_events := es\<rparr>) acc) l =
     map_option (\<lambda>es. r\<lparr>packet_events := es\<rparr>) (packet_step pp acc l)"
  by (auto simp: packet_line_def packet_step_def split: option.splits)

lemma foldl_packet_line:
  "foldl (packet_line pp) (map_option (\<lambda>es. r\<lparr>packet_events := es\<rparr>) acc) ls =
     map_option (\<lambda>es. r\<lparr>packet_events := es\<rparr>) (foldl (packet_step pp) acc ls)"
  by (induction ls arbitrary: acc) (simp_all add: packet_line_step)

lemma test_step_shift:
  "test_step pt (map_option (\<lambda>(ts, t). (ts, s @ t)) acc) l =
     map_option (\<lambda>(ts, t). (ts, s @ t)) (test_step pt acc l)"
  by (auto simp: test_step_def split: option.splits prod.splits)

lemma foldl_test_step_shift:
  "foldl (test_step pt) (map_option (\<lambda>(ts, t). (ts, s @ t)) acc) ls =
     map_option (\<lambda>(ts, t). (ts, s @ t)) (foldl (test_step pt) acc ls)"
  by (induction ls arbitrary: acc) (simp_all add: test_step_shift)

lemma foldl_steps_None [simp]:
  "foldl (test_step pt) None ls = None" "foldl (packet_step pp) None ls = None"
  by (induction ls) (simp_all add: test_step_def packet_step_def)

text \<open>What a state is after lines: the tests and events the lines hold, on top of a result.\<close>

definition after_lines ::
  "(string \<Rightarrow> test_event option option) \<Rightarrow> (string \<Rightarrow> packet_event option option) \<Rightarrow> run_result \<Rightarrow>
   string list \<Rightarrow> string list \<Rightarrow> (run_result \<times> test_event list) option" where
  "after_lines pt pp r tls pls =
     (case (foldl (test_step pt) (Some (tests r, [])) tls,
            foldl (packet_step pp) (Some (packet_events r)) pls) of
        (Some (ts, told), Some es) \<Rightarrow> Some (r\<lparr>tests := ts, packet_events := es\<rparr>, told)
      | _ \<Rightarrow> None)"

lemma after_lines_Nil [simp]: "after_lines pt pp r [] [] = Some (r, [])"
  by (simp add: after_lines_def)

lemma after_lines_append:
  assumes "after_lines pt pp r tls pls = Some (r1, told1)"
  shows "after_lines pt pp r (tls @ tls') (pls @ pls') =
    map_option (\<lambda>(r2, told2). (r2, told1 @ told2)) (after_lines pt pp r1 tls' pls')"
proof -
  from assms obtain ts es where
    t: "foldl (test_step pt) (Some (tests r, [])) tls = Some (ts, told1)" and
    e: "foldl (packet_step pp) (Some (packet_events r)) pls = Some es" and
    r1: "r1 = r\<lparr>tests := ts, packet_events := es\<rparr>"
    by (auto simp: after_lines_def split: option.splits)
  have "foldl (test_step pt) (Some (ts, told1)) tls' =
      map_option (\<lambda>(ts, t). (ts, told1 @ t)) (foldl (test_step pt) (Some (ts, [])) tls')"
    using foldl_test_step_shift [of pt told1 "Some (ts, [])" tls'] by simp
  with t e r1 show ?thesis
    by (cases "foldl (test_step pt) (Some (ts, [])) tls'";
        cases "foldl (packet_step pp) (Some es) pls'") (auto simp: after_lines_def)
qed

lemma poll_after_lines:
  assumes "read_new_lines (report_file snap) (report_offset st) = (tls, ro)"
    "read_new_lines (events_file snap) (events_offset st) = (pls, eo)"
  shows "poll pt pp snap st =
    map_option (\<lambda>(r, told). \<lparr>st_result = r, report_offset = ro, events_offset = eo,
        told_tests = told_tests st @ told\<rparr>) (after_lines pt pp (st_result st) tls pls)"
proof -
  let ?r = "st_result st"
  have t: "foldl (test_line pt) (Some (?r, [])) tls =
      map_option (\<lambda>(ts, told). (?r\<lparr>tests := ts\<rparr>, told)) (foldl (test_step pt) (Some (tests ?r, [])) tls)"
    using foldl_test_line [of pt ?r "[]" "Some (tests ?r, [])" tls] by simp
  have p: "foldl (packet_line pp) (Some r) pls =
      map_option (\<lambda>es. r\<lparr>packet_events := es\<rparr>) (foldl (packet_step pp) (Some (packet_events r)) pls)" for r
    using foldl_packet_line [of pp r "Some (packet_events r)" pls] by simp
  show ?thesis
    by (cases "foldl (test_step pt) (Some (tests ?r, [])) tls";
        cases "foldl (packet_step pp) (Some (packet_events ?r)) pls")
      (auto simp: poll_def drain_test_events_def drain_packet_events_def assms t p after_lines_def)
qed

lemma after_lines_None:
  "after_lines pt pp r tls pls = None \<Longrightarrow> after_lines pt pp r (tls @ tls') (pls @ pls') = None"
  by (auto simp: after_lines_def split: option.splits prod.splits)

definition state_after ::
  "(string \<Rightarrow> test_event option option) \<Rightarrow> (string \<Rightarrow> packet_event option option) \<Rightarrow> run_result \<Rightarrow>
   bytes \<Rightarrow> bytes \<Rightarrow> stream_state option" where
  "state_after pt pp r c1 c2 =
     map_option (\<lambda>(r', told). \<lparr>st_result = r', report_offset = length (upto_newline c1),
         events_offset = length (upto_newline c2), told_tests = told\<rparr>)
       (after_lines pt pp r (text_lines (upto_newline c1)) (text_lines (upto_newline c2)))"

text \<open>A poll brings the state from what one version of the files holds to what a later one holds.\<close>

lemma poll_state_after:
  assumes "state_after pt pp r c1 c2 = Some st"
    "prefix c1 (content (report_file snap))" "prefix c2 (content (events_file snap))"
  shows "poll pt pp snap st =
    state_after pt pp r (content (report_file snap)) (content (events_file snap))"
proof -
  let ?f1 = "content (report_file snap)" and ?f2 = "content (events_file snap)"
  let ?n1 = "upto_newline (drop (length (upto_newline c1)) ?f1)"
  let ?n2 = "upto_newline (drop (length (upto_newline c2)) ?f2)"
  from assms(1) obtain r' told where
    a: "after_lines pt pp r (text_lines (upto_newline c1)) (text_lines (upto_newline c2)) = Some (r', told)"
    and st: "st = \<lparr>st_result = r', report_offset = length (upto_newline c1),
         events_offset = length (upto_newline c2), told_tests = told\<rparr>"
    by (auto simp: state_after_def)
  note f1 = read_new_lines_from [OF assms(2)]
  note f2 = read_new_lines_from [OF assms(3)]
  have "poll pt pp snap st =
    map_option (\<lambda>(r2, t2). \<lparr>st_result = r2, report_offset = length (upto_newline ?f1),
        events_offset = length (upto_newline ?f2), told_tests = told @ t2\<rparr>)
      (after_lines pt pp r' (text_lines ?n1) (text_lines ?n2))"
    using poll_after_lines [of snap st "text_lines ?n1" "length (upto_newline ?f1)"
        "text_lines ?n2" "length (upto_newline ?f2)" pt pp] f1 f2 by (simp add: st)
  moreover have "text_lines (upto_newline ?f1) = text_lines (upto_newline c1) @ text_lines ?n1"
    using f1 text_lines_append [OF upto_newline_ends, of c1 ?n1] by simp
  moreover have "text_lines (upto_newline ?f2) = text_lines (upto_newline c2) @ text_lines ?n2"
    using f2 text_lines_append [OF upto_newline_ends, of c2 ?n2] by simp
  ultimately show ?thesis
    by (cases "after_lines pt pp r' (text_lines ?n1) (text_lines ?n2)")
      (auto simp: state_after_def after_lines_append [OF a])
qed

lemma poll_state_None:
  assumes "state_after pt pp r c1 c2 = None" "prefix c1 d1" "prefix c2 d2"
  shows "state_after pt pp r d1 d2 = None"
proof -
  have step: "\<exists>x. text_lines (upto_newline d) = text_lines (upto_newline c) @ x" if "prefix c d" for c d
    using read_new_lines_from [of c "Some d"] that text_lines_append [OF upto_newline_ends, of c]
    by (auto simp: content_def)
  from step [OF assms(2)] step [OF assms(3)] assms(1) show ?thesis
    by (auto simp: state_after_def after_lines_None)
qed

fun latest :: "bytes \<Rightarrow> bytes option list \<Rightarrow> bytes" where
  "latest c [] = c"
| "latest c (f # fs) = latest (content f) fs"

lemma grows_latest: "grows c fs \<Longrightarrow> prefix c (latest c fs)"
  by (induction fs arbitrary: c) (auto intro: prefix_order.trans)

lemma poll_all_state_after:
  assumes "grows c1 (map report_file snaps)" "grows c2 (map events_file snaps)"
  shows "Option.bind (state_after pt pp r c1 c2) (poll_all pt pp snaps) =
    state_after pt pp r (latest c1 (map report_file snaps)) (latest c2 (map events_file snaps))"
  using assms
proof (induction snaps arbitrary: c1 c2)
  case Nil
  then show ?case by (cases "state_after pt pp r c1 c2") simp_all
next
  case (Cons s ss)
  then have p: "prefix c1 (content (report_file s))" "prefix c2 (content (events_file s))"
    "grows (content (report_file s)) (map report_file ss)"
    "grows (content (events_file s)) (map events_file ss)" by simp_all
  show ?case
  proof (cases "state_after pt pp r c1 c2")
    case None
    have "prefix c1 (latest c1 (map report_file (s # ss)))" "prefix c2 (latest c2 (map events_file (s # ss)))"
      using grows_latest Cons.prems by blast+
    with None show ?thesis by (simp add: poll_state_None)
  next
    case (Some st)
    from poll_state_after [OF this p(1,2)] Cons.IH [OF p(3,4)] Some show ?thesis
      by (cases "state_after pt pp r (content (report_file s)) (content (events_file s))") simp_all
  qed
qed

lemma latest_snoc [simp]: "latest c (fs @ [f]) = content f"
  by (induction fs arbitrary: c) simp_all

lemma grows_last: "grows c (fs @ [f]) \<Longrightarrow> grows [] [f]"
  by simp

lemma polls_collapse:
  assumes "grows [] (map report_file (snaps @ [final]))" "grows [] (map events_file (snaps @ [final]))"
  shows "poll_all pt pp (snaps @ [final]) (start_state r) = poll_all pt pp [final] (start_state r)"
proof -
  have start: "state_after pt pp r [] [] = Some (start_state r)"
    by (simp add: state_after_def start_state_def upto_newline_def text_lines_def splitlines_def)
  have "poll_all pt pp (snaps @ [final]) (start_state r) =
      state_after pt pp r (content (report_file final)) (content (events_file final))"
    using poll_all_state_after [OF assms, of pt pp r] start by simp
  moreover have "poll_all pt pp [final] (start_state r) =
      state_after pt pp r (content (report_file final)) (content (events_file final))"
    using poll_all_state_after [of "[]" "[final]" "[]" pt pp r] start by simp
  ultimately show ?thesis by simp
qed

lemma poll_all_append:
  "poll_all pt pp (ss @ ss') st = Option.bind (poll_all pt pp ss st) (poll_all pt pp ss')"
  by (induction ss arbitrary: st) (simp_all split: option.split)

text \<open>C3: progress is read completely and once. For files that only grow, the run's result, what is
  saved and what is raised do not depend on how often or at which moments the files were polled,
  nor on where a poll cut a line or a character: they are those of one read of the final files.\<close>

theorem polling_is_invisible:
  assumes "grows [] (map report_file (snaps @ [final]))" "grows [] (map events_file (snaps @ [final]))"
  shows "stream_run pt pp dumps fault now dir r snaps final en fs =
    stream_run pt pp dumps fault now dir r [] final en fs"
  using polls_collapse [OF assms, of pt pp r] by (simp only: stream_run_def append_Nil)

definition demo_line :: "string \<Rightarrow> test_event option option" where
  "demo_line s = Some (Some \<lparr>nodeid = s, outcome = PASSED, duration_s = 1, event_markers = [],
     message = None\<rparr>)"

definition demo_snap :: "bytes \<Rightarrow> snapshot" where
  "demo_snap bs = \<lparr>report_file = Some bs, events_file = None\<rparr>"

lemma polling_is_invisible_witness:
  "stream_run demo_line (\<lambda>_. Some None) (\<lambda>_. []) None demo_date ''run'' demo_run
     [demo_snap [97], demo_snap [97, 10, 98]] (demo_snap [97, 10, 98, 10, 99]) (Exited 0) (\<lambda>_. None) =
   (stream_run demo_line (\<lambda>_. Some None) (\<lambda>_. []) None demo_date ''run'' demo_run
     [] (demo_snap [97, 10, 98, 10, 99]) (Exited 0) (\<lambda>_. None) :: ((unit exn + run_result) \<times> files) option)"
  by (rule polling_is_invisible) (simp_all add: demo_snap_def content_def)



section \<open>One verdict per test\<close>

definition absorb :: "test_event list \<Rightarrow> test_event \<Rightarrow> test_event list" where
  "absorb ts ev = fst (upsert ev ts)"

lemma update_last_distinct:
  assumes "distinct (map nodeid ts)" "\<And>t. nodeid (f t) = nodeid t"
  shows "update_last (\<lambda>t. nodeid t = n) f ts = map (\<lambda>t. if nodeid t = n then f t else t) ts"
  using assms
proof (induction ts)
  case (Cons t ts)
  show ?case
  proof (cases "list_ex (\<lambda>t. nodeid t = n) ts")
    case True
    then have "nodeid t \<noteq> n" using Cons.prems by (auto simp: list_ex_iff)
    with True Cons show ?thesis by simp
  next
    case False
    then have "map (\<lambda>t. if nodeid t = n then f t else t) ts = ts"
      by (induction ts) (auto simp: list_ex_iff)
    with False show ?thesis by simp
  qed
qed simp

definition worst :: "string \<Rightarrow> test_event list \<Rightarrow> nat" where
  "worst n evs = foldl max 0 (map (\<lambda>e. severity (outcome e)) (filter (\<lambda>e. nodeid e = n) evs))"

lemma foldl_max: "foldl max (a :: nat) xs = max a (foldl max 0 xs)"
proof (induction xs arbitrary: a)
  case (Cons x xs)
  show ?case using Cons [of "max a x"] Cons [of x] by (simp add: max.assoc)
qed simp

lemma worst_snoc:
  "worst n (evs @ [e]) =
     (if nodeid e = n then max (worst n evs) (severity (outcome e)) else worst n evs)"
  by (simp add: worst_def)

text \<open>The list holds one entry per test that was reported, with the worst outcome reported.\<close>

definition verdicts_ok :: "test_event list \<Rightarrow> test_event list \<Rightarrow> bool" where
  "verdicts_ok evs ts \<longleftrightarrow>
     distinct (map nodeid ts) \<and> set (map nodeid ts) = set (map nodeid evs) \<and>
     list_all (\<lambda>t. severity (outcome t) = worst (nodeid t) evs) ts"

lemma find_rev_None: "find P (rev ts) = None \<longleftrightarrow> \<not> (\<exists>t \<in> set ts. P t)"
  by (auto simp: find_None_iff)

lemma absorb_ok:
  assumes "verdicts_ok evs ts"
  shows "verdicts_ok (evs @ [ev]) (absorb ts ev)"
proof (cases "find (\<lambda>t. nodeid t = nodeid ev) (rev ts)")
  case None
  then have new: "nodeid ev \<notin> set (map nodeid ts)" by (auto simp: find_rev_None)
  with assms have "nodeid ev \<notin> set (map nodeid evs)" by (simp add: verdicts_ok_def)
  then have "filter (\<lambda>e. nodeid e = nodeid ev) evs = []"
    by (simp add: filter_empty_conv) (metis imageI)
  then have "worst (nodeid ev) evs = 0" by (simp add: worst_def)
  moreover have "\<forall>t \<in> set ts. nodeid ev \<noteq> nodeid t" using new by force
  ultimately show ?thesis using None new assms
    by (auto simp: verdicts_ok_def absorb_def upsert_def worst_snoc list_all_iff)
next
  case (Some old)
  then have old: "old \<in> set ts" "nodeid old = nodeid ev"
    by (auto simp: find_Some_iff) (metis nth_mem set_rev length_rev)
  have dist: "distinct (map nodeid ts)" using assms by (simp add: verdicts_ok_def)
  have uniq: "t = old" if "t \<in> set ts" "nodeid t = nodeid ev" for t
    using dist old that by (auto simp: distinct_map inj_on_def)
  have w: "severity (outcome t) = worst (nodeid t) evs" if "t \<in> set ts" for t
    using assms that by (simp add: verdicts_ok_def list_all_iff)
  have ids: "set (map nodeid (evs @ [ev])) = set (map nodeid ts)"
    using assms imageI [OF old(1), of nodeid] old(2) by (auto simp: verdicts_ok_def)
  show ?thesis
  proof (cases "severity (outcome old) < severity (outcome ev)")
    case False
    then have "absorb ts ev = ts" using Some by (simp add: absorb_def upsert_def)
    moreover have "severity (outcome t) = worst (nodeid t) (evs @ [ev])" if "t \<in> set ts" for t
      using w [OF that] uniq [OF that] False by (auto simp: worst_snoc)
    ultimately show ?thesis using dist ids by (auto simp: verdicts_ok_def list_all_iff)
  next
    case True
    let ?f = "\<lambda>t. if nodeid t = nodeid ev then worsen ev t else t"
    have a: "absorb ts ev = map ?f ts"
      using Some True dist by (simp add: absorb_def upsert_def update_last_distinct worsen_def)
    have id: "nodeid (?f t) = nodeid t" for t by (simp add: worsen_def)
    have each: "severity (outcome (?f t)) = worst (nodeid (?f t)) (evs @ [ev])" if "t \<in> set ts" for t
      using w [OF that] uniq [OF that] True by (auto simp: worst_snoc worsen_def)
    have all: "list_all (\<lambda>t. severity (outcome t) = worst (nodeid t) (evs @ [ev])) (map ?f ts)"
      unfolding list_all_iff set_map by (rule ballI, erule imageE, simp only:, rule each)
    have "map nodeid (map ?f ts) = map nodeid ts" by (simp add: id)
    then show ?thesis unfolding a verdicts_ok_def using dist ids all by presburger
  qed
qed

text \<open>C10: each test is reported once, with its worst verdict. Whatever reports the phases of the tests
  produce, in whatever order and interleaving, the collected list has exactly one entry per
  reported test, and its outcome is the most severe of that test's reports.\<close>

theorem one_worst_verdict: "verdicts_ok evs (foldl absorb [] evs)"
proof (induction evs rule: rev_induct)
  case Nil
  show ?case by (simp add: verdicts_ok_def)
next
  case (snoc ev evs)
  then show ?case by (simp add: absorb_ok)
qed

end
