(* ===== verification/Metrics.thy ===== *)
theory Metrics
  imports Models
begin

text \<open>
  The live metrics buffer of \<open>src/plotting/metrics.py\<close>: packet events in, cumulative series out.
  The running totals are kept incrementally and the series in bounded queues; the main result is
  that a snapshot is what a recomputation from the whole history would give, cut to the window.
  Each method holds the lock for its whole body, so a history is a sequence of whole operations.
\<close>

section \<open>Bounded queues\<close>

text \<open>\<open>deque(maxlen=n)\<close>: appending to a full queue drops the oldest element.\<close>

definition window :: "nat \<Rightarrow> 'a list \<Rightarrow> 'a list" where
  "window n xs = drop (length xs - n) xs"

definition deque_append :: "nat \<Rightarrow> 'a list \<Rightarrow> 'a \<Rightarrow> 'a list" where
  "deque_append n q x = window n (q @ [x])"

lemma length_window [simp]: "length (window n xs) = min n (length xs)"
  by (auto simp: window_def)

lemma window_snoc: "deque_append n (window n xs) x = window n (xs @ [x])"
proof (cases "n \<le> length xs")
  case True
  then show ?thesis by (cases n) (auto simp: deque_append_def window_def Suc_diff_Suc)
qed (simp add: deque_append_def window_def)

lemma window_Nil [simp]: "window n [] = []"
  by (simp add: window_def)

lemma deque_append_Nil [simp]: "deque_append n [] x = window n [x]"
  by (simp add: deque_append_def)

section \<open>The buffer\<close>

record metrics_snapshot =
  elapsed_s :: "rat list"
  sent_cumulative :: "int list"
  received_cumulative :: "int list"
  bytes_sent_cumulative :: "int list"
  bytes_received_cumulative :: "int list"

record metrics_buffer =
  max_points :: nat
  start_time :: "rat option"
  sent_count :: int
  received_count :: int
  bytes_sent :: int
  bytes_received :: int
  elapsed_q :: "rat list"
  sent_q :: "int list"
  recv_q :: "int list"
  bytes_sent_q :: "int list"
  bytes_recv_q :: "int list"

definition default_max_points :: nat where "default_max_points = 100000"

definition new_metrics :: "nat \<Rightarrow> metrics_buffer" where
  "new_metrics n =
     \<lparr>max_points = n, start_time = None, sent_count = 0, received_count = 0, bytes_sent = 0,
      bytes_received = 0, elapsed_q = [], sent_q = [], recv_q = [], bytes_sent_q = [],
      bytes_recv_q = []\<rparr>"

definition set_start :: "packet_event \<Rightarrow> metrics_buffer \<Rightarrow> metrics_buffer" where
  "set_start ev b =
     (case start_time b of None \<Rightarrow> b\<lparr>start_time := Some (timestamp ev)\<rparr> | Some _ \<Rightarrow> b)"

definition count_event :: "packet_event \<Rightarrow> metrics_buffer \<Rightarrow> metrics_buffer" where
  "count_event ev b =
     (if direction ev = SENT
      then b\<lparr>sent_count := sent_count b + 1, bytes_sent := bytes_sent b + size_bytes ev\<rparr>
      else b\<lparr>received_count := received_count b + 1,
             bytes_received := bytes_received b + size_bytes ev\<rparr>)"

definition add_event :: "packet_event \<Rightarrow> metrics_buffer \<Rightarrow> metrics_buffer" where
  "add_event ev b0 =
     (let b = count_event ev (set_start ev b0); n = max_points b
      in b\<lparr>elapsed_q := deque_append n (elapsed_q b) (timestamp ev - the (start_time b)),
           sent_q := deque_append n (sent_q b) (sent_count b),
           recv_q := deque_append n (recv_q b) (received_count b),
           bytes_sent_q := deque_append n (bytes_sent_q b) (bytes_sent b),
           bytes_recv_q := deque_append n (bytes_recv_q b) (bytes_received b)\<rparr>)"

definition snapshot_of :: "metrics_buffer \<Rightarrow> metrics_snapshot" where
  "snapshot_of b =
     \<lparr>elapsed_s = elapsed_q b, sent_cumulative = sent_q b, received_cumulative = recv_q b,
      bytes_sent_cumulative = bytes_sent_q b, bytes_received_cumulative = bytes_recv_q b\<rparr>"

definition clear_metrics :: "metrics_buffer \<Rightarrow> metrics_buffer" where
  "clear_metrics b =
     b\<lparr>start_time := None, sent_count := 0, received_count := 0, bytes_sent := 0,
       bytes_received := 0, elapsed_q := [], sent_q := [], recv_q := [], bytes_sent_q := [],
       bytes_recv_q := []\<rparr>"

section \<open>The reference\<close>

text \<open>The series recomputed from a history: at each event the total over the events up to it.\<close>

definition running :: "(packet_event \<Rightarrow> int) \<Rightarrow> packet_event list \<Rightarrow> int list" where
  "running f evs = map (\<lambda>k. sum_list (map f (take (k + 1) evs))) [0 ..< length evs]"

definition weight :: "packet_direction \<Rightarrow> (packet_event \<Rightarrow> int) \<Rightarrow> packet_event \<Rightarrow> int" where
  "weight d f ev = (if direction ev = d then f ev else 0)"

definition reference :: "nat \<Rightarrow> packet_event list \<Rightarrow> metrics_snapshot" where
  "reference n evs =
     \<lparr>elapsed_s = window n (map (\<lambda>ev. timestamp ev - timestamp (hd evs)) evs),
      sent_cumulative = window n (running (weight SENT (\<lambda>_. 1)) evs),
      received_cumulative = window n (running (weight RECEIVED (\<lambda>_. 1)) evs),
      bytes_sent_cumulative = window n (running (weight SENT size_bytes) evs),
      bytes_received_cumulative = window n (running (weight RECEIVED size_bytes) evs)\<rparr>"

lemma running_snoc: "running f (evs @ [ev]) = running f evs @ [sum_list (map f evs) + f ev]"
  by (simp add: running_def)

lemma running_Nil [simp]: "running f [] = []"
  by (simp add: running_def)

lemma running_single [simp]: "running f [ev] = [f ev]"
  by (simp add: running_def)

text \<open>The operations a client performs, and the events since the last clear.\<close>

datatype metrics_op = Add packet_event | Clear

fun metrics_step :: "metrics_buffer \<Rightarrow> metrics_op \<Rightarrow> metrics_buffer" where
  "metrics_step b (Add ev) = add_event ev b"
| "metrics_step b Clear = clear_metrics b"

fun history :: "packet_event list \<Rightarrow> metrics_op \<Rightarrow> packet_event list" where
  "history evs (Add ev) = evs @ [ev]"
| "history evs Clear = []"

text \<open>What the buffer holds after a history.\<close>

definition holds :: "nat \<Rightarrow> packet_event list \<Rightarrow> metrics_buffer \<Rightarrow> bool" where
  "holds n evs b \<longleftrightarrow>
     max_points b = n \<and>
     start_time b = (if evs = [] then None else Some (timestamp (hd evs))) \<and>
     sent_count b = sum_list (map (weight SENT (\<lambda>_. 1)) evs) \<and>
     received_count b = sum_list (map (weight RECEIVED (\<lambda>_. 1)) evs) \<and>
     bytes_sent b = sum_list (map (weight SENT size_bytes) evs) \<and>
     bytes_received b = sum_list (map (weight RECEIVED size_bytes) evs) \<and>
     snapshot_of b = reference n evs"

lemma add_event_holds:
  assumes "holds n evs b"
  shows "holds n (evs @ [ev]) (add_event ev b)"
proof -
  have b: "elapsed_q b = window n (map (\<lambda>ev. timestamp ev - timestamp (hd evs)) evs)"
    "sent_q b = window n (running (weight SENT (\<lambda>_. 1)) evs)"
    "recv_q b = window n (running (weight RECEIVED (\<lambda>_. 1)) evs)"
    "bytes_sent_q b = window n (running (weight SENT size_bytes) evs)"
    "bytes_recv_q b = window n (running (weight RECEIVED size_bytes) evs)"
    using assms by (simp_all add: holds_def snapshot_of_def reference_def)
  show ?thesis
    using assms
    by (cases "evs = []"; cases "direction ev")
      (simp_all add: holds_def add_event_def count_event_def set_start_def snapshot_of_def b
        reference_def running_snoc weight_def Let_def flip: window_snoc)
qed

lemma metrics_step_holds: "holds n evs b \<Longrightarrow> holds n (history evs opn) (metrics_step b opn)"
  by (cases opn) (simp_all add: add_event_holds, simp add: holds_def clear_metrics_def
      snapshot_of_def reference_def)

lemma metrics_run_holds: "holds n evs b \<Longrightarrow> holds n (foldl history evs ops) (foldl metrics_step b ops)"
  by (induction ops arbitrary: evs b) (simp_all add: metrics_step_holds)

lemma new_metrics_holds: "holds n [] (new_metrics n)"
  by (simp add: holds_def new_metrics_def snapshot_of_def reference_def)

text \<open>C14: the incremental buffer equals recomputation. After any sequence of additions and clears a
  snapshot holds, for the latest events since the last clear and at most as many as the window,
  the elapsed time and the totals over that whole history up to each event.\<close>

theorem snapshot_is_recomputation:
  "snapshot_of (foldl metrics_step (new_metrics n) ops) = reference n (foldl history [] ops)"
  using metrics_run_holds [OF new_metrics_holds, of n ops] by (simp add: holds_def)

section \<open>The live plot\<close>

text \<open>\<open>src/plotting/realtime_plotter.py\<close>: what the two curves show; a timer tick pulls a snapshot, a
  reset empties the buffer and the curves.\<close>

type_synonym curve = "rat list \<times> int list"

record plot =
  plot_metrics :: metrics_buffer
  sent_curve :: curve
  recv_curve :: curve

definition flush_interval_ms :: nat where "flush_interval_ms = 40"

definition refresh_plot :: "plot \<Rightarrow> plot" where
  "refresh_plot p =
     (let snap = snapshot_of (plot_metrics p)
      in p\<lparr>sent_curve := (elapsed_s snap, sent_cumulative snap),
           recv_curve := (elapsed_s snap, received_cumulative snap)\<rparr>)"

definition reset_plot :: "plot \<Rightarrow> plot" where
  "reset_plot p =
     p\<lparr>plot_metrics := clear_metrics (plot_metrics p), sent_curve := ([], []), recv_curve := ([], [])\<rparr>"

text \<open>The points of a curve never outnumber the window, and every x has its y.\<close>

lemma curves_bounded:
  assumes "plot_metrics p = foldl metrics_step (new_metrics n) ops"
  shows "length (fst (sent_curve (refresh_plot p))) \<le> n \<and>
    length (snd (sent_curve (refresh_plot p))) = length (fst (sent_curve (refresh_plot p))) \<and>
    length (snd (recv_curve (refresh_plot p))) = length (fst (recv_curve (refresh_plot p)))"
proof -
  have "snapshot_of (plot_metrics p) = reference n (foldl history [] ops)"
    using metrics_run_holds [OF new_metrics_holds, of n ops] assms by (simp add: holds_def)
  then show ?thesis by (simp add: refresh_plot_def reference_def running_def)
qed

end
