(* ===== verification/Tables.thy ===== *)
theory Tables
  imports Prelude
begin

text \<open>
  Dictionaries the program builds once from a table: an index by a key (a dictionary comprehension,
  where a later entry replaces an earlier one) and groups by a key (\<open>setdefault(k, []).append(x)\<close>,
  keys in the order of their first entry). The locale \<open>keyed_table\<close> is what the lookups rely on: the
  key identifies the entry.
\<close>

definition index_by :: "('a \<Rightarrow> 'k) \<Rightarrow> 'a list \<Rightarrow> 'k \<Rightarrow> 'a option" where
  "index_by key xs = map_of (rev (map (\<lambda>x. (key x, x)) xs))"

fun add_to_group :: "'k \<Rightarrow> 'a \<Rightarrow> ('k \<times> 'a list) list \<Rightarrow> ('k \<times> 'a list) list" where
  "add_to_group k x [] = [(k, [x])]"
| "add_to_group k x ((k', ys) # gs) =
     (if k' = k then (k', ys @ [x]) # gs else (k', ys) # add_to_group k x gs)"

definition group_by :: "('a \<Rightarrow> 'k) \<Rightarrow> 'a list \<Rightarrow> ('k \<times> 'a list) list" where
  "group_by key xs = foldl (\<lambda>gs x. add_to_group (key x) x gs) [] xs"

section \<open>Lookup in an index\<close>

lemma index_by_Some: "index_by key xs k = Some x \<Longrightarrow> x \<in> set xs \<and> key x = k"
  unfolding index_by_def by (drule map_of_SomeD) auto

lemma index_by_None: "index_by key xs k = None \<longleftrightarrow> k \<notin> key ` set xs"
  by (simp add: index_by_def map_of_eq_None_iff image_image)

locale keyed_table =
  fixes key :: "'a \<Rightarrow> 'k" and table :: "'a list"
  assumes keys_distinct: "distinct (map key table)"
begin

lemma key_inj: "x \<in> set table \<Longrightarrow> y \<in> set table \<Longrightarrow> key x = key y \<Longrightarrow> x = y"
  using keys_distinct by (auto simp: distinct_map inj_on_def)

lemma index_iff: "index_by key table k = Some x \<longleftrightarrow> x \<in> set table \<and> key x = k"
proof
  assume "x \<in> set table \<and> key x = k"
  then obtain y where "index_by key table k = Some y"
    using index_by_None [of key table k] by (cases "index_by key table k") auto
  with index_by_Some [of key table k y] key_inj \<open>x \<in> set table \<and> key x = k\<close>
  show "index_by key table k = Some x" by auto
qed (rule index_by_Some)

lemma index_entry: "x \<in> set table \<Longrightarrow> index_by key table (key x) = Some x"
  by (simp add: index_iff)

end

section \<open>Groups\<close>

lemma add_to_group_keys:
  "map fst (add_to_group k x gs) = map fst gs @ (if k \<in> set (map fst gs) then [] else [k])"
  by (induction gs) (auto simp del: set_map)

lemma add_to_group_lookup:
  "map_of (add_to_group k x gs) k' =
     (if k' = k then Some ((case map_of gs k of None \<Rightarrow> [] | Some ys \<Rightarrow> ys) @ [x]) else map_of gs k')"
  by (induction gs) auto

lemma group_by_snoc: "group_by key (xs @ [x]) = add_to_group (key x) x (group_by key xs)"
  by (simp add: group_by_def)

lemma group_by_Nil [simp]: "group_by key [] = []"
  by (simp add: group_by_def)

lemma group_by_keys:
  "distinct (map fst (group_by key xs)) \<and> set (map fst (group_by key xs)) = key ` set xs"
proof (induction xs rule: rev_induct)
  case (snoc x xs)
  then show ?case by (auto simp: group_by_snoc add_to_group_keys simp del: set_map)
qed simp

text \<open>A group holds the entries with its key, in their order.\<close>

lemma group_by_lookup:
  "map_of (group_by key xs) k =
     (if k \<in> key ` set xs then Some (filter (\<lambda>x. key x = k) xs) else None)"
proof (induction xs rule: rev_induct)
  case (snoc x xs)
  have "filter (\<lambda>y. key y = k) xs = []" if "k \<notin> key ` set xs"
    using that by (auto simp: filter_empty_conv)
  with snoc show ?case by (auto simp: group_by_snoc add_to_group_lookup)
qed simp

end
