(* ===== verification/Catalog.thy ===== *)
theory Catalog
  imports Config Tables
begin

text \<open>
  \<open>src/catalog.py\<close>: what each test of the suite checks, the clause it maps to, the roles it runs in,
  and the lookups by node id and by file. The indices are built once from the table; the theorems
  say which entry each lookup finds.
\<close>

section \<open>Entries\<close>

datatype test_spec =
  TestSpec (spec_module: string) (spec_submodule: "string option") (spec_file: string)
    (spec_test: string) (spec_title: string) (description: string) (rfc: string)
    (spec_roles: "role list") (spec_markers: "string list")

definition spec_client :: "role list" where "spec_client = [Client]"
definition spec_server :: "role list" where "spec_server = [Server]"
definition spec_both :: "role list" where "spec_both = [Client, Server]"

definition rel_path :: "test_spec \<Rightarrow> string" where
  "rel_path s =
     join ''/'' ([''tests'', spec_module s] @
       (if truthy (spec_submodule s) then [the (spec_submodule s)] else []) @
       [spec_file s @ ''.py''])"

definition spec_nodeid :: "test_spec \<Rightarrow> string" where
  "spec_nodeid s = rel_path s @ ''::'' @ spec_test s"

definition role_labels :: "test_spec \<Rightarrow> string" where
  "role_labels s = join '', '' (map role_value (spec_roles s))"

section \<open>The table\<close>

definition catalog_ip :: "test_spec list" where
  "catalog_ip =
     [TestSpec ''ip'' None ''test_ip_header_validation''
        ''test_ttl_expiry_generates_icmp_time_exceeded''
        (''TTL expiry '' @ rarrow @ '' ICMP Time Exceeded'')
        (''Sends a datagram with TTL=1 and expects the hop that decrements it '' @
         ''to zero to discard it and return an ICMP Time Exceeded (type 11), rather '' @
         ''than forwarding it.'')
        (''RFC 791 '' @ sect @ ''3.2, RFC 792'') spec_client [''ip''],
      TestSpec ''ip'' None ''test_ip_header_validation''
        ''test_icmp_echo_round_trip_baseline''
        ''Baseline echo round-trip''
        (''Confirms a normally-formed packet with a correct checksum round-trips '' @
         ''(ICMP echo '' @ rarrow @
         '' reply) before the malformed-header tests run. A sanity baseline, not '' @
         ''an RFC edge case.'')
        ''RFC 792'' spec_client [''ip''],
      TestSpec ''ip'' None ''test_ip_fragmentation''
        ''test_fragmented_icmp_echo_reassembles_correctly''
        ''Fragment reassembly''
        (''Splits an oversized ICMP payload into multiple IP fragments and verifies '' @
         ''the DUT reassembles them before ICMP processing (proven by a valid '' @
         ''echo reply).'')
        (''RFC 791 '' @ sect @ ''3.2'') spec_client [''ip''],
      TestSpec ''ip'' None ''test_ip_fragmentation''
        ''test_overlapping_fragments_teardrop_do_not_crash_dut''
        ''Teardrop (overlapping fragments)''
        (''Sends two IP fragments with overlapping offsets (the Teardrop attack). '' @
         ''A hardened stack must discard the malformed pair rather than fault; '' @
         ''proven by a follow-up ping.'')
        (em_dash @ '' (vulnerability: Teardrop)'') spec_client [''ip'', ''vuln''],
      TestSpec ''ip'' None ''test_ip_malformed''
        ''test_oversized_reassembled_datagram_ping_of_death''
        ''Ping of Death (oversized reassembly)''
        (''Sends fragments whose reassembled size exceeds the 65535-byte IP maximum '' @
         ''and verifies the DUT rejects them instead of overflowing a buffer / '' @ ''crashing.'')
        (''RFC 791 (max datagram size) '' @ em_dash @ '' vulnerability'') spec_client [''ip'', ''vuln'', ''slow''],
      TestSpec ''ip'' None ''test_ip_malformed''
        ''test_invalid_ihl_is_discarded''
        ''Invalid IHL discard''
        (''Sends a packet whose IHL is below the 20-byte minimum header and verifies '' @
         ''it's discarded without wedging the DUT.'')
        (''RFC 791 '' @ sect @ ''3.1'') spec_client [''ip''],
      TestSpec ''ip'' None ''test_ip_checksum''
        ''test_bad_ip_checksum_is_discarded''
        ''Bad IP header checksum discard''
        (''Sends an IP packet with a deliberately wrong header checksum and verifies '' @
         ''the DUT silently discards it (no reply), per RFC 791's mandatory header '' @
         ''checksum.'')
        (''RFC 791 '' @ sect @ ''3.1 (Header Checksum)'') spec_client [''ip''],
      TestSpec ''ip'' None ''test_ip_options''
        ''test_ip_record_route_option_is_handled''
        ''IP Record Route option''
        (''Sends an echo carrying a Record Route IP option (larger IHL) and verifies '' @
         ''the DUT uses IHL to locate the payload and still replies '' @ em_dash @
         '' rather than assuming a 20-byte header.'')
        (''RFC 791 '' @ sect @ ''3.1 (Options)'') spec_client [''ip''],
      TestSpec ''ip'' None ''test_ip_options''
        ''test_ip_nop_option_padding_is_handled''
        ''IP NOP option padding''
        (''Sends an echo padded with several No-Operation IP options and verifies '' @
         ''it's processed normally.'')
        (''RFC 791 '' @ sect @ ''3.1 (Options)'') spec_client [''ip''],
      TestSpec ''ip'' None ''test_ip_options''
        ''test_ip_reserved_flag_bit_is_ignored''
        ''Reserved IP flag bit ignored''
        (''Sets the reserved high-order IP flag bit and verifies the DUT ignores '' @
         ''it (still replies) rather than dropping the datagram.'')
        (''RFC 791 '' @ sect @ ''3.1 (Flags) '' @ em_dash @ '' edge case'') spec_client [''ip'']]"

definition catalog_udp :: "test_spec list" where
  "catalog_udp =
     [TestSpec ''udp'' None ''test_udp_header_validation''
        ''test_udp_length_field_matches_payload''
        ''UDP length field''
        (''Local check that the builder sets the UDP length to 8 (header) + payload '' @
         ''bytes, per RFC 768's Length field definition.'')
        ''RFC 768'' spec_client [''udp''],
      TestSpec ''udp'' None ''test_udp_header_validation''
        ''test_udp_datagram_reaches_dut_with_correct_checksum''
        ''UDP checksum acceptance''
        (''Sends a correctly-checksummed datagram and expects a response (e.g. '' @
         ''ICMP port unreachable), proving it wasn't dropped during checksum validation.'')
        ''RFC 768 (Checksum)'' spec_client [''udp''],
      TestSpec ''udp'' None ''test_udp_header_validation''
        ''test_zero_checksum_datagram_is_accepted''
        ''UDP zero-checksum (optional) accepted''
        (''RFC 768 allows an all-zero checksum to mean 'no checksum computed'. '' @
         ''Sends such a datagram and verifies the DUT still accepts and processes '' @ ''it.'')
        ''RFC 768 (Checksum optional)'' spec_client [''udp''],
      TestSpec ''udp'' None ''test_udp_port_unreachable''
        ''test_closed_port_elicits_icmp_port_unreachable''
        (''Closed port '' @ rarrow @ '' ICMP Port Unreachable'')
        (''Sends a datagram to a port with no listener and expects ICMP Destination '' @
         ''Unreachable, code 3 (Port Unreachable).'')
        ''RFC 792'' spec_client [''udp''],
      TestSpec ''udp'' None ''test_udp_fuzzing''
        ''test_udp_survives_edge_case_payload_sizes''
        ''Payload-size robustness''
        (''Sends zero-fill payloads at boundary sizes (0, 1, 512, 1472, 65507 '' @
         ''bytes) and verifies the DUT stays responsive after each.'')
        (em_dash @ '' (robustness)'') spec_client [''udp'', ''slow''],
      TestSpec ''udp'' None ''test_udp_echo_server''
        ''test_dut_sends_udp_and_receives_echo''
        ''SERVER: echo a DUT-sent datagram''
        (''The suite acts as a UDP echo server: it waits for the DUT to send a '' @
         ''datagram to it, echoes the payload back, and validates the DUT actually '' @
         ''initiated the transfer.'')
        ''RFC 768'' spec_server [''udp''],
      TestSpec ''udp'' None ''test_udp_edge_cases''
        ''test_udp_length_below_minimum_is_discarded''
        ''UDP length below minimum discarded''
        (''Sends a datagram whose length field is below the 8-byte header minimum '' @
         ''and verifies the DUT discards it without crashing (a follow-up datagram '' @
         ''still gets a response).'')
        (''RFC 768 (Length) '' @ em_dash @ '' edge case'') spec_client [''udp''],
      TestSpec ''udp'' None ''test_udp_edge_cases''
        ''test_udp_source_port_zero_is_handled''
        ''UDP source port 0''
        (''Sends a datagram with source port 0 (valid, meaning 'no reply port') '' @
         ''and verifies the DUT still processes it without crashing.'')
        (''RFC 768 (Source Port) '' @ em_dash @ '' edge case'') spec_client [''udp'']]"

definition catalog_icmp :: "test_spec list" where
  "catalog_icmp =
     [TestSpec ''icmp'' None ''test_icmp_echo''
        ''test_echo_request_elicits_reply''
        (''CLIENT: Echo Request '' @ rarrow @ '' Reply'')
        (''The suite sends an ICMP Echo Request (type 8) to the DUT and expects '' @
         ''a matching Echo Reply (type 0) with the same id/seq and payload.'')
        ''RFC 792 (Echo/Echo Reply)'' spec_client [''icmp''],
      TestSpec ''icmp'' None ''test_icmp_echo''
        ''test_server_responds_to_dut_echo''
        ''SERVER: answer a DUT-initiated ping''
        (''The suite waits for the DUT to send it an Echo Request, replies with '' @
         ''an Echo Reply, and validates the DUT initiated the ping '' @ em_dash @
         '' exercising the DUT's ping-client path.'')
        ''RFC 792 (Echo/Echo Reply)'' spec_server [''icmp''],
      TestSpec ''icmp'' None ''test_icmp_errors''
        ''test_truncated_icmp_does_not_crash_dut''
        ''Truncated ICMP robustness''
        (''Sends a malformed/truncated ICMP message and verifies the DUT discards '' @
         ''it without crashing (proven by a follow-up echo still succeeding).'')
        (''RFC 792 '' @ em_dash @ '' robustness'') spec_client [''icmp'', ''vuln'']]"

definition catalog_syn :: "test_spec list" where
  "catalog_syn =
     [TestSpec ''tcp'' (Some ''syn'') ''test_three_way_handshake''
        ''test_syn_elicits_syn_ack''
        (''CLIENT: SYN '' @ rarrow @ '' SYN-ACK'')
        (''The suite sends a SYN to an open port and expects the DUT to answer '' @ ''SYN-ACK.'')
        (''RFC 9293 '' @ sect @ ''3.5'') spec_client [''tcp'', ''syn''],
      TestSpec ''tcp'' (Some ''syn'') ''test_three_way_handshake''
        ''test_full_handshake_completes_and_ack_is_accepted''
        ''CLIENT: full handshake to ESTABLISHED''
        (''Completes SYN '' @ rarrow @ '' SYN-ACK '' @ rarrow @
         '' ACK and confirms the connection reaches ESTABLISHED (no stray RST '' @
         ''on a follow-up segment).'')
        (''RFC 9293 '' @ sect @ ''3.5'') spec_client [''tcp'', ''syn''],
      TestSpec ''tcp'' (Some ''syn'') ''test_server_handshake''
        ''test_dut_completes_handshake_it_initiated''
        ''SERVER: accept a DUT-initiated connection''
        (''The suite listens as a TCP server: it waits for the DUT to send a SYN, '' @
         ''replies SYN-ACK, and validates the DUT completes the handshake with '' @
         ''a final ACK '' @ em_dash @ '' exercising the DUT's active-open (connect) path.'')
        (''RFC 9293 '' @ sect @ ''3.5'') spec_server [''tcp'', ''syn''],
      TestSpec ''tcp'' (Some ''syn'') ''test_tcp_options''
        ''test_syn_with_mss_option_is_accepted''
        ''MSS option handling''
        (''Sends a SYN carrying a Maximum Segment Size option and verifies the '' @
         ''DUT still establishes the connection (SYN-ACK), i.e. it parses TCP '' @
         ''options rather than rejecting an optioned SYN.'')
        (''RFC 9293 '' @ sect @ ''3.1, RFC 6691 (MSS)'') spec_client [''tcp'', ''syn''],
      TestSpec ''tcp'' (Some ''syn'') ''test_tcp_options''
        ''test_syn_with_window_scale_option_is_accepted''
        ''Window Scale option''
        (''Sends a SYN with a Window Scale option (kind 3) and verifies the DUT '' @
         ''accepts it (SYN-ACK), enabling windows beyond 64 KiB.'')
        (''RFC 7323 '' @ sect @ ''2'') spec_client [''tcp'', ''syn''],
      TestSpec ''tcp'' (Some ''syn'') ''test_tcp_options''
        ''test_syn_with_timestamp_option_is_accepted''
        ''Timestamps option''
        (''Sends a SYN with a TCP Timestamps option (kind 8) and verifies the '' @
         ''DUT accepts it.'')
        (''RFC 7323 '' @ sect @ ''3'') spec_client [''tcp'', ''syn''],
      TestSpec ''tcp'' (Some ''syn'') ''test_tcp_options''
        ''test_syn_with_sack_permitted_option_is_accepted''
        ''SACK-Permitted option''
        (''Sends a SYN with the SACK-Permitted option (kind 4) and verifies the '' @
         ''DUT accepts it.'')
        ''RFC 2018'' spec_client [''tcp'', ''syn''],
      TestSpec ''tcp'' (Some ''syn'') ''test_tcp_options''
        ''test_syn_with_combined_options_is_accepted''
        ''Combined options list''
        (''Sends a realistic SYN with MSS + SACK-permitted + Timestamps + NOP '' @
         ''padding + Window Scale together and verifies the DUT parses the whole '' @
         ''list and still establishes.'')
        (''RFC 9293 '' @ sect @ ''3.1, RFC 7323, RFC 2018'') spec_client [''tcp'', ''syn''],
      TestSpec ''tcp'' (Some ''syn'') ''test_tcp_options''
        ''test_syn_with_unknown_option_is_ignored''
        ''Unknown option ignored''
        (''Sends a SYN with an unrecognised option kind and verifies the DUT skips '' @
         ''it via its length field (still SYN-ACKs) rather than rejecting the '' @ ''segment.'')
        (''RFC 9293 '' @ sect @ ''3.1 '' @ em_dash @ '' edge case'') spec_client [''tcp'', ''syn''],
      TestSpec ''tcp'' (Some ''syn'') ''test_syn_flood''
        ''test_syn_flood_does_not_exhaust_connection_table''
        ''SYN flood resilience''
        (''Sends a burst of un-ACKed SYNs (half-open connections) then verifies '' @
         ''a legitimate handshake still completes '' @ em_dash @
         '' i.e. the backlog / SYN-cookie handling holds up.'')
        (em_dash @ '' (vulnerability: SYN flood)'') spec_client [''tcp'', ''syn'', ''vuln'', ''slow''],
      TestSpec ''tcp'' (Some ''syn'') ''test_sequence_prediction''
        ''test_isn_is_not_fixed_or_linearly_incrementing''
        ''ISN unpredictability''
        (''Samples several SYN-ACK ISNs and checks they are neither constant nor '' @
         ''incrementing by a fixed delta '' @ em_dash @
         '' the naive predictable-ISN vulnerability class.'')
        ''RFC 6528'' spec_client [''tcp'', ''syn''],
      TestSpec ''tcp'' (Some ''syn'') ''test_invalid_syn_flags''
        ''test_contradictory_flag_combination_does_not_establish_connection''
        ''Invalid flag combinations''
        (''Sends SYN+FIN, SYN+RST, NULL, and Xmas flag combinations and verifies '' @
         ''none of them are treated as a valid connection request (no bare SYN-ACK).'')
        (em_dash @ '' (hardening / scan resistance)'') spec_client [''tcp'', ''syn'']]"

definition catalog_termination :: "test_spec list" where
  "catalog_termination =
     [TestSpec ''tcp'' (Some ''state_machine'') ''test_connection_termination''
        ''test_fin_is_acknowledged''
        ''FIN acknowledgement''
        (''Sends a FIN on an ESTABLISHED connection and verifies the DUT ACKs '' @
         ''it (moving toward CLOSE-WAIT).'')
        (''RFC 9293 '' @ sect @ ''3.6'') spec_client [''tcp'', ''state_machine''],
      TestSpec ''tcp'' (Some ''state_machine'') ''test_rst_handling''
        ''test_ack_to_closed_port_elicits_rst''
        ''RST for closed-port segment''
        (''Sends a segment to a closed port and verifies the DUT answers with '' @ ''RST.'')
        (''RFC 9293 '' @ sect @ ''3.10.7.1'') spec_client [''tcp'', ''state_machine''],
      TestSpec ''tcp'' (Some ''state_machine'') ''test_rst_handling''
        ''test_established_connection_accepts_valid_rst''
        ''Valid RST aborts connection''
        (''Sends an in-window RST on an ESTABLISHED connection and verifies it's '' @
         ''aborted (follow-up traffic is no longer acknowledged normally).'')
        (''RFC 9293 '' @ sect @ ''3.5.2'') spec_client [''tcp'', ''state_machine''],
      TestSpec ''tcp'' (Some ''state_machine'') ''test_simultaneous_open_close''
        ''test_fin_before_peer_fin_is_still_acknowledged''
        ''Simultaneous-close ordering''
        (''Sends our FIN before observing the DUT's FIN and verifies it's still '' @ ''ACKed '' @
         em_dash @ '' the DUT doesn't require a specific close ordering.'')
        (''RFC 9293 '' @ sect @ ''3.5.3'') spec_client [''tcp'', ''state_machine''],
      TestSpec ''tcp'' (Some ''state_machine'') ''test_rst_edge_cases''
        ''test_out_of_window_rst_is_ignored''
        ''Out-of-window RST ignored''
        (''Sends a RST with a sequence number well outside the receive window '' @
         ''on an ESTABLISHED connection and verifies the DUT does NOT tear the '' @
         ''connection down '' @ em_dash @
         '' blind RST acceptance enables off-path reset attacks.'')
        (''RFC 5961 '' @ sect @ ''3 (also RFC 9293 '' @ sect @ ''3.10.7.1)'') spec_client [''tcp'', ''state_machine''],
      TestSpec ''tcp'' (Some ''state_machine'') ''test_established_segment_validation''
        ''test_in_window_data_is_cumulatively_acknowledged''
        (''In-window data '' @ rarrow @ '' cumulative ACK'')
        (''Delivers valid in-window data on an ESTABLISHED connection and verifies '' @
         ''the DUT's ACK advances to SEG.SEQ + SEG.LEN '' @ em_dash @
         '' the cumulative-acknowledgement rule.'')
        (''RFC 9293 '' @ sect @ ''3.10.7.4, '' @ sect @ ''3.8'') spec_client [''tcp'', ''state_machine''],
      TestSpec ''tcp'' (Some ''state_machine'') ''test_established_segment_validation''
        ''test_old_duplicate_data_is_acked_not_reset''
        (''Old duplicate segment '' @ rarrow @ '' ACK, not RST'')
        (''Sends a segment wholly to the left of RCV.NXT (already-received data) '' @
         ''and verifies the DUT drops it with an ACK rather than resetting '' @ em_dash @
         '' the normal retransmission-crossing-ACK case.'')
        (''RFC 9293 '' @ sect @ ''3.10.7.4 (step 1)'') spec_client [''tcp'', ''state_machine''],
      TestSpec ''tcp'' (Some ''state_machine'') ''test_established_segment_validation''
        ''test_future_out_of_window_data_does_not_break_connection''
        ''Future out-of-window data dropped''
        (''Sends data beyond the right window edge and verifies the DUT neither '' @
         ''delivers it nor resets '' @ em_dash @
         '' its ACK must still report the real RCV.NXT, not the bogus sequence.'')
        (''RFC 9293 '' @ sect @ ''3.10.7.4 (step 1)'') spec_client [''tcp'', ''state_machine''],
      TestSpec ''tcp'' (Some ''state_machine'') ''test_established_segment_validation''
        ''test_segment_with_ack_bit_off_is_silently_dropped''
        (''ACK bit off '' @ rarrow @ '' silent drop'')
        (''Sends a data segment with the ACK flag clear on an ESTABLISHED connection '' @
         ''and verifies the DUT drops it silently (no RST, connection intact), '' @ ''per the '' @
         sect @ ''3.10.7.4 ACK check.'')
        (''RFC 9293 '' @ sect @ ''3.10.7.4 (step 4)'') spec_client [''tcp'', ''state_machine''],
      TestSpec ''tcp'' (Some ''state_machine'') ''test_established_segment_validation''
        ''test_ack_for_unsent_data_does_not_reset''
        (''ACK for unsent data '' @ rarrow @ '' ACK, not RST'')
        (''Sends a segment acknowledging data the DUT never sent (SEG.ACK > SND.NXT) '' @
         ''and verifies the DUT answers with an ACK and drops it '' @ em_dash @
         '' a blind attacker must not reset this way.'')
        (''RFC 5961 '' @ sect @ ''5'') spec_client [''tcp'', ''state_machine''],
      TestSpec ''tcp'' (Some ''state_machine'') ''test_established_segment_validation''
        ''test_keepalive_probe_is_answered_with_current_ack''
        ''Keep-alive probe answered''
        (''Sends a keep-alive probe (SEG.SEQ = SND.NXT-1, no data) and verifies '' @
         ''the DUT answers with an ACK for RCV.NXT without treating the already-ACKed '' @
         ''byte as new data.'')
        (''RFC 1122 '' @ sect @ ''4.2.3.6'') spec_client [''tcp'', ''state_machine'']]"

definition catalog_segments :: "test_spec list" where
  "catalog_segments =
     [TestSpec ''tcp'' (Some ''state_machine'') ''test_challenge_ack''
        ''test_in_window_non_exact_rst_draws_challenge_ack_only''
        (''In-window non-exact RST '' @ rarrow @ '' challenge ACK'')
        (''Sends a RST inside the receive window but not exactly at RCV.NXT and '' @
         ''verifies the DUT does not tear the connection down '' @ em_dash @
         '' RFC 5961 requires a challenge ACK instead.'')
        (''RFC 5961 '' @ sect @ ''3'') spec_client [''tcp'', ''state_machine''],
      TestSpec ''tcp'' (Some ''state_machine'') ''test_challenge_ack''
        ''test_in_window_syn_draws_challenge_ack_not_reset''
        (''In-window SYN '' @ rarrow @ '' challenge ACK'')
        (''Sends a SYN on an ESTABLISHED connection and verifies the DUT does '' @
         ''not silently reset it '' @ em_dash @
         '' a DUT that answers with RST is vulnerable to a blind-SYN reset.'')
        (''RFC 5961 '' @ sect @ ''4'') spec_client [''tcp'', ''state_machine''],
      TestSpec ''tcp'' (Some ''state_machine'') ''test_challenge_ack''
        ''test_exact_rcv_nxt_syn_is_still_not_a_reset_trigger''
        ''Exact-RCV.NXT SYN is not a reset trigger''
        (''Sends a SYN whose sequence number is exactly RCV.NXT and verifies the '' @
         ''DUT still only challenges rather than tearing down without a challenge-ACK '' @
         ''confirmation.'')
        (''RFC 5961 '' @ sect @ ''4'') spec_client [''tcp'', ''state_machine''],
      TestSpec ''tcp'' (Some ''state_machine'') ''test_challenge_ack''
        ''test_ack_arriving_on_listen_port_elicits_rst''
        (''Bare ACK in LISTEN '' @ rarrow @ '' RST'')
        (''Sends a bare ACK to a listening port (no connection) and verifies the '' @
         ''DUT answers with <SEQ=SEG.ACK><CTL=RST>, per the LISTEN-state first '' @ ''check.'')
        (''RFC 9293 '' @ sect @ ''3.10.7.3'') spec_client [''tcp'', ''state_machine''],
      TestSpec ''tcp'' (Some ''state_machine'') ''test_challenge_ack''
        ''test_data_segment_to_listen_port_is_not_accepted''
        ''Data segment in LISTEN not accepted''
        (''Sends a segment with neither SYN nor ACK to a listening port and verifies '' @
         ''it never produces a SYN-ACK '' @ em_dash @
         '' the DUT must not accept data as a connection request.'')
        (''RFC 9293 '' @ sect @ ''3.10.7.3'') spec_client [''tcp'', ''state_machine''],
      TestSpec ''tcp'' (Some ''state_machine'') ''test_syn_received_state''
        ''test_duplicate_syn_in_syn_received_retransmits_same_syn_ack''
        ''Duplicate SYN in SYN-RECEIVED''
        (''Retransmits an identical SYN while the DUT is in SYN-RECEIVED and verifies '' @
         ''it resends the same SYN-ACK with the same ISN '' @ em_dash @
         '' a new ISN would break the real client's handshake.'')
        (''RFC 9293 '' @ sect @ ''3.10.7.4'') spec_client [''tcp'', ''state_machine''],
      TestSpec ''tcp'' (Some ''state_machine'') ''test_syn_received_state''
        ''test_rst_in_syn_received_aborts_half_open_connection''
        ''RST in SYN-RECEIVED aborts half-open''
        (''Sends a RST at RCV.NXT while the DUT is in SYN-RECEIVED and verifies '' @
         ''the TCB is deleted '' @ em_dash @
         '' the aborted handshake's final ACK afterwards is answered with RST.'')
        (''RFC 9293 '' @ sect @ ''3.10.7.4 (SYN-RECEIVED, RST check)'') spec_client [''tcp'', ''state_machine''],
      TestSpec ''tcp'' (Some ''state_machine'') ''test_syn_received_state''
        ''test_wrong_seq_ack_does_not_complete_handshake''
        ''Wrong final-ACK ack number rejected''
        (''Sends the handshake's final ACK with an ack number that does not acknowledge '' @
         ''the DUT's ISN and verifies the connection does not reach ESTABLISHED '' @
         ''(RST, no data carried).'')
        (''RFC 9293 '' @ sect @ ''3.10.7.4 (SYN-RECEIVED, ACK check)'') spec_client [''tcp'', ''state_machine''],
      TestSpec ''tcp'' (Some ''state_machine'') ''test_fin_close_transitions''
        ''test_out_of_window_fin_is_not_processed''
        ''Out-of-window FIN not processed''
        (''Sends a FIN whose sequence number is outside the receive window and '' @
         ''verifies the DUT does not acknowledge the phantom FIN's sequence or '' @
         ''move to CLOSE-WAIT on it.'')
        (''RFC 9293 '' @ sect @ ''3.10.7.4 (step 1)'') spec_client [''tcp'', ''state_machine''],
      TestSpec ''tcp'' (Some ''state_machine'') ''test_fin_close_transitions''
        ''test_retransmitted_fin_is_reacknowledged''
        ''Retransmitted FIN re-acknowledged''
        (''After the DUT ACKs our FIN, retransmits the identical FIN and verifies '' @
         ''it is ACKed again (FIN.SEQ+1) rather than drawing a RST '' @ em_dash @
         '' ACK-of-FIN is idempotent.'')
        (''RFC 9293 '' @ sect @ ''3.6'') spec_client [''tcp'', ''state_machine''],
      TestSpec ''tcp'' (Some ''state_machine'') ''test_fin_close_transitions''
        ''test_data_after_our_fin_is_dropped_not_reset''
        ''Data after our FIN dropped''
        (''Sends data past FIN.SEQ+1 (bytes outside our sequence space) after '' @
         ''our FIN and verifies the DUT drops it with an ACK rather than resetting '' @
         ''the connection.'')
        (''RFC 9293 '' @ sect @ ''3.10.7.4'') spec_client [''tcp'', ''state_machine''],
      TestSpec ''tcp'' (Some ''state_machine'') ''test_fin_close_transitions''
        ''test_close_wait_still_answers_bare_ack''
        ''CLOSE-WAIT still answers bare ACK''
        (''After our FIN moves the DUT to CLOSE-WAIT, sends a bare in-window ACK '' @
         ''and verifies the DUT does not reset '' @ em_dash @
         '' CLOSE-WAIT is a fully open half-connection.'')
        (''RFC 9293 '' @ sect @ ''3.6'') spec_client [''tcp'', ''state_machine'']]"

definition catalog_congestion :: "test_spec list" where
  "catalog_congestion =
     [TestSpec ''tcp'' (Some ''congestion'') ''test_window_scaling''
        ''test_syn_ack_window_matches_target_stack_profile''
        ''Advertised window vs. profile''
        (''Compares the DUT's advertised receive window against the selected target-stack '' @
         ''profile's reference range. Informational '' @ em_dash @
         '' a mismatch flags a stack-characteristic difference, not an RFC violation.'')
        (''RFC 9293 '' @ sect @ ''3.7.1 (informational)'') spec_client [''tcp'', ''congestion''],
      TestSpec ''tcp'' (Some ''congestion'') ''test_retransmission_timeout''
        ''test_unacked_syn_ack_is_retransmitted''
        ''SYN-ACK retransmission''
        (''Withholds the final ACK and verifies the DUT retransmits its SYN-ACK '' @
         ''per the RFC 6298 retransmission timer.'')
        ''RFC 6298'' spec_client [''tcp'', ''congestion'', ''slow''],
      TestSpec ''tcp'' (Some ''congestion'') ''test_slow_start''
        ''test_congestion_window_grows_across_initial_round_trips''
        ''Slow start (placeholder)''
        (''Placeholder '' @ em_dash @
         '' genuine cwnd-growth measurement needs a DUT-side data stream this '' @
         ''generic harness can't trigger. Skipped; see the module docstring.'')
        ''RFC 5681'' spec_client [''tcp'', ''congestion''],
      TestSpec ''tcp'' (Some ''congestion'') ''test_zero_window''
        ''test_zero_window_advertisement_does_not_break_connection''
        ''Zero window advertisement''
        (''Completes a handshake, advertises a zero receive window, and verifies '' @
         ''the DUT treats it as a legal flow-control state (no RST) '' @ em_dash @
         '' it must stop sending, not abort.'')
        (''RFC 9293 '' @ sect @ ''3.8.6'') spec_client [''tcp'', ''congestion''],
      TestSpec ''tcp'' (Some ''congestion'') ''test_zero_window''
        ''test_window_reopen_after_zero_is_accepted''
        ''Window reopen after zero''
        (''After advertising a zero window, sends a window update reopening it '' @
         ''and verifies the connection stays alive (no RST) '' @ em_dash @
         '' the DUT accepts window updates.'')
        (''RFC 9293 '' @ sect @ ''3.8.6.2'') spec_client [''tcp'', ''congestion''],
      TestSpec ''tcp'' (Some ''congestion'') ''test_zero_window''
        ''test_zero_window_persist_probe_from_dut''
        ''SERVER: zero-window persist probe''
        (''The suite accepts the DUT's connection but advertises a zero window '' @
         ''in its SYN-ACK; a DUT with data to send must emit a zero-window (persist) '' @
         ''probe rather than flooding or stalling. Requires the DUT to have data '' @
         ''queued to send.'')
        (''RFC 1122 '' @ sect @ ''4.2.2.17'') spec_server [''tcp'', ''congestion'', ''slow'']]"

definition catalog_proxy :: "test_spec list" where
  "catalog_proxy =
     [TestSpec ''proxy'' None ''test_proxy_relay''
        ''test_proxy_relays_payload_round_trip''
        ''Relay round-trip (both DUT legs)''
        (''Sends a unique payload through the proxy to the backend instance and '' @
         ''verifies the echo returns identical. Proves the DUT accepted the front '' @
         ''connection (its server side), dialled the origin (its client side), '' @
         ''and relayed faithfully both ways.'')
        (''RFC 9293 '' @ sect @ ''3.5, '' @ sect @ ''3.7'') spec_client [''proxy''],
      TestSpec ''proxy'' None ''test_proxy_relay''
        ''test_proxy_relay_is_eight_bit_clean''
        ''Octet-transparent relay''
        (''Relays every octet 0x00-0xFF plus embedded CRLF and a fake CONNECT '' @
         ''line, verifying the proxy forwards blindly instead of scanning or rewriting '' @
         ''an established tunnel.'')
        (''RFC 9110 '' @ sect @ ''9.3.6 (blind forwarding)'') spec_client [''proxy''],
      TestSpec ''proxy'' None ''test_proxy_relay''
        ''test_proxy_relays_payload_larger_than_one_segment''
        ''Multi-segment payload relay''
        (''Relays a 128 KiB payload, exercising the DUT's buffering and segmentation '' @
         ''across both legs; the byte stream must arrive intact and in order.'')
        (''RFC 9293 '' @ sect @ ''3.7'') spec_client [''proxy''],
      TestSpec ''proxy'' None ''test_proxy_relay''
        ''test_proxy_relays_successive_exchanges_on_one_connection''
        ''Successive exchanges on one connection''
        (''Runs several request/response exchanges over a single relayed connection '' @
         ''to confirm the DUT does not desynchronise or interleave the stream.'')
        (''RFC 9293 '' @ sect @ ''3.7'') spec_client [''proxy''],
      TestSpec ''proxy'' None ''test_proxy_lifecycle''
        ''test_client_half_close_propagates_and_returns_eof''
        ''Half-close propagation''
        (''Half-closes the client side and verifies the FIN reaches the origin '' @
         ''and the origin's close is relayed back as a clean EOF '' @ em_dash @
         '' the proxy must bridge shutdown across both legs.'')
        (''RFC 9293 '' @ sect @ ''3.6'') spec_client [''proxy''],
      TestSpec ''proxy'' None ''test_proxy_lifecycle''
        ''test_data_sent_before_close_is_fully_flushed''
        ''Flush before close''
        (''Writes a payload immediately before half-closing and verifies nothing '' @
         ''is truncated '' @ em_dash @
         '' a proxy that closes the origin leg without flushing silently loses '' @ ''data.'')
        (''RFC 9293 '' @ sect @ ''3.6'') spec_client [''proxy''],
      TestSpec ''proxy'' None ''test_proxy_http_connect''
        ''test_connect_request_establishes_tunnel_with_2xx''
        ''CONNECT establishes tunnel''
        (''Sends an authority-form CONNECT and requires a 2xx response, then confirms '' @
         ''the tunnel actually carries data. Exercises the DUT's server-side HTTP '' @
         ''proxy behaviour.'')
        (''RFC 9110 '' @ sect @ ''9.3.6, RFC 9112 '' @ sect @ ''3.2.3'') spec_client [''proxy''],
      TestSpec ''proxy'' None ''test_proxy_http_connect''
        ''test_2xx_connect_response_omits_framing_headers''
        ''No framing headers on 2xx CONNECT''
        (''A 2xx response to CONNECT must not carry Content-Length or Transfer-Encoding '' @
         em_dash @ '' the tunnel has no message body and framing headers would desynchronise '' @
         ''the stream.'')
        (''RFC 9110 '' @ sect @ ''9.3.6'') spec_client [''proxy''],
      TestSpec ''proxy'' None ''test_proxy_http_connect''
        ''test_connect_to_unreachable_origin_is_not_reported_as_success''
        ''Unreachable origin is not 2xx''
        (''Requests a tunnel to a closed origin port and verifies the proxy reports '' @
         ''an error status rather than falsely signalling an established tunnel.'')
        (''RFC 9110 '' @ sect @ ''9.3.6'') spec_client [''proxy''],
      TestSpec ''proxy'' None ''test_proxy_socks5''
        ''test_socks5_negotiation_and_connect_succeed''
        ''SOCKS5 negotiate + CONNECT''
        (''Runs the SOCKS5 greeting, method selection and CONNECT request, requiring '' @
         ''REP=0x00, then confirms the negotiated tunnel relays data.'')
        (''RFC 1928 '' @ sect @ ''3, '' @ sect @ ''4, '' @ sect @ ''6'') spec_client [''proxy''],
      TestSpec ''proxy'' None ''test_proxy_socks5''
        ''test_socks5_never_selects_an_unoffered_method''
        ''SOCKS5 selects an offered method''
        (''The server must choose one of the methods the client offered (or 0xFF); '' @
         ''selecting an unoffered method is non-conformant.'')
        (''RFC 1928 '' @ sect @ ''3'') spec_client [''proxy''],
      TestSpec ''proxy'' None ''test_proxy_socks5''
        ''test_socks5_connect_to_closed_origin_returns_failure_reply''
        ''SOCKS5 failure reply for closed origin''
        (''CONNECT to an origin that is not listening must be answered with a '' @
         ''non-zero REP drawn from the RFC-defined codes, never reported as success.'')
        (''RFC 1928 '' @ sect @ ''6'') spec_client [''proxy'']]"

definition catalog :: "test_spec list" where
  "catalog =
     catalog_ip @ catalog_udp @ catalog_icmp @ catalog_syn @ catalog_termination @
     catalog_segments @ catalog_congestion @ catalog_proxy"

section \<open>Lookups\<close>

definition spec_suffix :: "test_spec \<Rightarrow> string" where
  "spec_suffix s = spec_file s @ ''.py::'' @ spec_test s"

definition by_nodeid :: "string \<Rightarrow> test_spec option" where
  "by_nodeid = index_by spec_nodeid catalog"

definition by_path :: "string \<Rightarrow> test_spec list option" where
  "by_path = map_of (group_by rel_path catalog)"

definition by_path_and_test :: "string \<times> string \<Rightarrow> test_spec option" where
  "by_path_and_test = index_by (\<lambda>s. (rel_path s, spec_test s)) catalog"

definition by_suffix :: "string \<Rightarrow> test_spec option" where
  "by_suffix = index_by spec_suffix catalog"

text \<open>\<open>p.replace("\\", "/")\<close> and \<open>p.rsplit("/", 1)[-1]\<close>.\<close>

definition posix :: "string \<Rightarrow> string" where
  "posix p = map (\<lambda>c. if c = chr 92 then CHR ''/'' else c) p"

definition last_part :: "string \<Rightarrow> string" where
  "last_part p = last (split_on (CHR ''/'') p)"

definition specs_for_rel_path :: "string \<Rightarrow> test_spec list" where
  "specs_for_rel_path p = (case by_path (posix p) of None \<Rightarrow> [] | Some ss \<Rightarrow> ss)"

definition find_by_nodeid :: "string \<Rightarrow> test_spec option" where
  "find_by_nodeid n =
     (case by_nodeid (posix n) of
        Some s \<Rightarrow> Some s
      | None \<Rightarrow> by_suffix (last_part (posix n)))"

definition find_by_test :: "string \<Rightarrow> string \<Rightarrow> test_spec option" where
  "find_by_test p t = by_path_and_test (posix p, t)"

section \<open>What the lookups find\<close>

lemma split_on_last: "c \<notin> set q \<Longrightarrow> \<exists>r rs. split_on c (p @ c # q) = r # rs @ [q]"
proof (induction p)
  case Nil
  then show ?case by (intro exI [of _ "[]"]) simp
next
  case (Cons x p)
  then obtain r rs where r: "split_on c (p @ c # q) = r # rs @ [q]" by blast
  show ?case
  proof (cases "x = c")
    case True
    with r show ?thesis by (intro exI [of _ "[]"] exI [of _ "r # rs"]) simp
  next
    case False
    with r show ?thesis by (intro exI [of _ "x # r"] exI [of _ rs]) simp
  qed
qed

lemma last_part_append:
  assumes "CHR ''/'' \<notin> set q"
  shows "last_part (p @ CHR ''/'' # q) = q"
proof -
  obtain r rs where "split_on (CHR ''/'') (p @ CHR ''/'' # q) = r # rs @ [q]"
    using split_on_last [OF assms] by blast
  then show ?thesis by (simp add: last_part_def)
qed

lemmas catalog_defs = catalog_def catalog_ip_def catalog_udp_def catalog_icmp_def catalog_syn_def
  catalog_termination_def catalog_segments_def catalog_congestion_def catalog_proxy_def

text \<open>Tests of one file stand together, so keys need comparing only within a file.\<close>

fun tests_differ :: "(string \<times> string) list \<Rightarrow> bool" where
  "tests_differ [] \<longleftrightarrow> True"
| "tests_differ ((f, t) # ps) \<longleftrightarrow>
     t \<notin> set (map snd (takeWhile (\<lambda>p. fst p = f) ps)) \<and> tests_differ ps"

lemma remdups_adj_Cons_distinct:
  assumes "distinct (remdups_adj (f # fs))"
  shows "f \<notin> set (dropWhile (\<lambda>g. g = f) fs) \<and> distinct (remdups_adj fs)"
  using assms
proof (induction fs)
  case (Cons g fs)
  show ?case
  proof (cases "g = f")
    case True
    with Cons show ?thesis by simp
  next
    case False
    with Cons.prems have "f \<notin> set (remdups_adj (g # fs))" "distinct (remdups_adj (g # fs))" by auto
    with False show ?thesis by (simp only: remdups_adj_set dropWhile.simps if_False) simp
  qed
qed simp

lemma pairs_distinct:
  assumes "distinct (remdups_adj (map fst ps))" "tests_differ ps"
  shows "distinct ps"
  using assms
proof (induction ps)
  case (Cons p ps)
  obtain f t where p: "p = (f, t)" by (cases p)
  from Cons.prems(1) p have d: "f \<notin> set (dropWhile (\<lambda>g. g = f) (map fst ps))"
    "distinct (remdups_adj (map fst ps))"
    using remdups_adj_Cons_distinct [of f "map fst ps"] by simp_all
  from d(1) have d1: "f \<notin> fst ` set (dropWhile (\<lambda>p. fst p = f) ps)"
    by (simp add: dropWhile_map comp_def)
  have t: "t \<notin> snd ` set (takeWhile (\<lambda>p. fst p = f) ps)" using Cons.prems(2) p by simp
  have "(f, t) \<notin> set (takeWhile (\<lambda>p. fst p = f) ps) \<union> set (dropWhile (\<lambda>p. fst p = f) ps)"
    using d1 t image_eqI [of f fst "(f, t)"] image_eqI [of t snd "(f, t)"] by auto
  then have "(f, t) \<notin> set ps" by (simp add: set_append [symmetric] del: set_append)
  moreover have "distinct ps" using Cons.IH d(2) Cons.prems(2) p by simp
  ultimately show ?case using p by simp
qed simp

lemma catalog_files: "distinct (remdups_adj (map spec_file catalog))"
  by (simp add: catalog_defs)

lemma catalog_tests: "tests_differ (map (\<lambda>s. (spec_file s, spec_test s)) catalog)"
  by (simp add: catalog_defs)

definition plain_names :: "test_spec \<Rightarrow> bool" where
  "plain_names s \<longleftrightarrow>
     CHR ''/'' \<notin> set (spec_file s) \<and> CHR '':'' \<notin> set (spec_file s) \<and> CHR ''/'' \<notin> set (spec_test s) \<and>
     CHR '':'' \<notin> set (spec_test s)"

lemma catalog_plain: "list_all plain_names catalog"
  by (simp add: catalog_defs plain_names_def)

lemma plain: "s \<in> set catalog \<Longrightarrow> plain_names s"
  using catalog_plain by (simp add: list_all_iff)

lemma catalog_pairs: "distinct (map (\<lambda>s. (spec_file s, spec_test s)) catalog)"
  by (rule pairs_distinct) (simp_all add: catalog_files catalog_tests comp_def)

lemma suffix_pair:
  assumes "plain_names s" "plain_names s'" "spec_suffix s = spec_suffix s'"
  shows "spec_file s = spec_file s' \<and> spec_test s = spec_test s'"
proof -
  have stem: "takeWhile (\<lambda>c. c \<noteq> CHR '':'') (spec_suffix u) = spec_file u @ ''.py''" if "plain_names u" for u
  proof -
    have "takeWhile (\<lambda>c. c \<noteq> CHR '':'') ((spec_file u @ ''.py'') @ CHR '':'' # CHR '':'' # spec_test u) =
        spec_file u @ ''.py''"
      using that by (subst takeWhile_append2) (auto simp: plain_names_def)
    then show ?thesis by (simp add: spec_suffix_def)
  qed
  from stem [OF assms(1)] stem [OF assms(2)] assms(3) have "spec_file s = spec_file s'" by simp
  with assms(3) show ?thesis by (simp add: spec_suffix_def)
qed

lemma last_part_nodeid:
  assumes "plain_names s"
  shows "last_part (spec_nodeid s) = spec_suffix s"
proof -
  have "\<exists>pre. spec_nodeid s = pre @ CHR ''/'' # spec_suffix s"
    by (cases "truthy (spec_submodule s)")
      (auto simp: spec_nodeid_def rel_path_def spec_suffix_def)
  then obtain pre where "spec_nodeid s = pre @ CHR ''/'' # spec_suffix s" by blast
  moreover have "CHR ''/'' \<notin> set (spec_suffix s)"
    using assms by (auto simp: plain_names_def spec_suffix_def)
  ultimately show ?thesis by (simp add: last_part_append)
qed

text \<open>Each of the three keys identifies its entry.\<close>

interpretation suffixes: keyed_table spec_suffix catalog
proof
  have "inj_on spec_suffix (set catalog)"
    using catalog_pairs suffix_pair plain by (auto simp: distinct_map inj_on_def)
  then show "distinct (map spec_suffix catalog)"
    using catalog_pairs by (simp add: distinct_map)
qed

interpretation nodeids: keyed_table spec_nodeid catalog
proof
  have "inj_on spec_nodeid (set catalog)"
  proof (rule inj_onI)
    fix s s'
    assume "s \<in> set catalog" "s' \<in> set catalog" "spec_nodeid s = spec_nodeid s'"
    then show "s = s'"
      using last_part_nodeid [OF plain, of s] last_part_nodeid [OF plain, of s']
      by (intro suffixes.key_inj) simp_all
  qed
  then show "distinct (map spec_nodeid catalog)"
    using catalog_pairs by (simp add: distinct_map)
qed

interpretation places: keyed_table "\<lambda>s. (rel_path s, spec_test s)" catalog
proof
  have "inj_on (\<lambda>s. (rel_path s, spec_test s)) (set catalog)"
    by (rule inj_onI, rule nodeids.key_inj) (simp_all add: spec_nodeid_def)
  then show "distinct (map (\<lambda>s. (rel_path s, spec_test s)) catalog)"
    using catalog_pairs by (simp add: distinct_map)
qed

text \<open>C21: a test is found by its node id and nothing else is. The lookup yields an entry of the catalog
  exactly for the node ids that end in the entry's file and test name, whatever directories stand
  before it and whichever way the path separators lean, so every catalogued test is found by its
  own node id and by any absolute form of it.\<close>

theorem find_by_nodeid_iff:
  "find_by_nodeid n = Some s \<longleftrightarrow> s \<in> set catalog \<and> last_part (posix n) = spec_suffix s"
proof (cases "by_nodeid (posix n)")
  case None
  then have "find_by_nodeid n = index_by spec_suffix catalog (last_part (posix n))"
    by (simp add: find_by_nodeid_def by_suffix_def)
  then show ?thesis by (simp only: suffixes.index_iff eq_commute [of "spec_suffix s"])
next
  case (Some s')
  then have s': "s' \<in> set catalog" "spec_nodeid s' = posix n"
    by (simp_all add: by_nodeid_def nodeids.index_iff)
  have l: "last_part (posix n) = spec_suffix s'"
    using last_part_nodeid [OF plain [OF s'(1)]] s'(2) by simp
  from Some have f: "find_by_nodeid n = Some s'" by (simp add: find_by_nodeid_def)
  show ?thesis
  proof
    assume "find_by_nodeid n = Some s"
    with f l s' show "s \<in> set catalog \<and> last_part (posix n) = spec_suffix s" by simp
  next
    assume "s \<in> set catalog \<and> last_part (posix n) = spec_suffix s"
    with l s' have "s = s'" by (intro suffixes.key_inj) simp_all
    with f show "find_by_nodeid n = Some s" by simp
  qed
qed

lemma specs_of_file:
  "specs_for_rel_path p = filter (\<lambda>s. rel_path s = posix p) catalog"
proof (cases "posix p \<in> rel_path ` set catalog")
  case True
  then show ?thesis by (simp add: specs_for_rel_path_def by_path_def group_by_lookup)
next
  case False
  then have "filter (\<lambda>s. rel_path s = posix p) catalog = []" by (intro filter_False) force
  with False show ?thesis by (simp add: specs_for_rel_path_def by_path_def group_by_lookup)
qed

text \<open>Within a file a test has its own name.\<close>

lemma tests_of_file_distinct: "distinct (map spec_test (specs_for_rel_path p))"
proof -
  have inj: "inj_on (\<lambda>s. (rel_path s, spec_test s)) (set catalog)"
    using places.keys_distinct by (simp add: distinct_map)
  have "distinct catalog" using places.keys_distinct by (simp add: distinct_map)
  moreover have "inj_on spec_test (set (specs_for_rel_path p))"
    using inj by (auto simp: inj_on_def specs_of_file)
  ultimately show ?thesis by (simp add: distinct_map specs_of_file)
qed

text \<open>The picker shows each test of a file once, in the order of the catalog, and finds one test of
  a file by its name.\<close>

theorem file_lookups:
  "specs_for_rel_path p = filter (\<lambda>s. rel_path s = posix p) catalog \<and>
   (find_by_test p t = Some s \<longleftrightarrow> s \<in> set (specs_for_rel_path p) \<and> spec_test s = t)"
  by (auto simp: specs_of_file find_by_test_def by_path_and_test_def places.index_iff)

end
