(* ===== verification/Reporting.thy ===== *)
theory Reporting
  imports Artifacts Catalog Metrics "HOL-Library.Product_Lexorder" "HOL-Library.Multiset"
begin

text \<open>
  What the reports are built from: \<open>src/reporting/palette.py\<close>, \<open>src/reporting/formats.py\<close>,
  \<open>src/reporting/report_data.py\<close> and the data of the two charts of
  \<open>src/plotting/static_charts.py\<close> (their drawing is matplotlib).
\<close>

section \<open>Outcome styles\<close>

record outcome_style =
  css :: string
  fg :: string
  bg :: string
  mpl :: string

fun style_of :: "test_outcome \<Rightarrow> outcome_style" where
  "style_of PASSED = \<lparr>css = ''passed'', fg = ''#1a7f37'', bg = ''#e8f5e9'', mpl = ''tab:green''\<rparr>"
| "style_of FAILED = \<lparr>css = ''failed'', fg = ''#b71c1c'', bg = ''#ffebee'', mpl = ''tab:red''\<rparr>"
| "style_of ERROR = \<lparr>css = ''error'', fg = ''#8a1a9b'', bg = ''#f3e5f5'', mpl = ''tab:purple''\<rparr>"
| "style_of SKIPPED = \<lparr>css = ''skipped'', fg = ''#616161'', bg = ''#f5f5f5'', mpl = ''tab:gray''\<rparr>"

text \<open>The table's order, in which the style sheet is generated.\<close>

definition styled_outcomes :: "test_outcome list" where
  "styled_outcomes = [PASSED, FAILED, ERROR, SKIPPED]"

section \<open>Formats\<close>

datatype generator = Generate_pdf | Generate_html

record report_format =
  fmt_key :: string
  fmt_label :: string
  generate :: generator

definition no_report :: string where "no_report = ''none''"

definition formats :: "report_format list" where
  "formats =
     [\<lparr>fmt_key = ''pdf'', fmt_label = ''PDF'', generate = Generate_pdf\<rparr>,
      \<lparr>fmt_key = ''html'', fmt_label = ''HTML'', generate = Generate_html\<rparr>]"

definition format_by_key :: "string \<Rightarrow> report_format option" where
  "format_by_key = index_by fmt_key formats"

definition cli_choices :: "string list" where
  "cli_choices = map fmt_key formats @ [no_report]"

interpretation formats: keyed_table fmt_key formats
  by unfold_locales (simp add: formats_def)

text \<open>Every choice of the command line but the opt-out names a format.\<close>

lemma report_choice:
  "k \<in> set cli_choices \<longleftrightarrow> k = no_report \<or> format_by_key k \<noteq> None"
  "format_by_key no_report = None"
  by (auto simp: cli_choices_def format_by_key_def index_by_None formats_def no_report_def)

section \<open>Report texts\<close>

definition rfc_titles :: "(string \<times> string) list" where
  "rfc_titles =
     [(''RFC 768'', ''User Datagram Protocol (UDP)''),
      (''RFC 791'', ''Internet Protocol (IP)''),
      (''RFC 792'', ''Internet Control Message Protocol (ICMP)''),
      (''RFC 1122'', ''Requirements for Internet Hosts '' @ em_dash @ '' Communication Layers''),
      (''RFC 2018'', ''TCP Selective Acknowledgment (SACK) Options''),
      (''RFC 5681'', ''TCP Congestion Control''),
      (''RFC 5961'', ''Improving TCP's Robustness to Blind In-Window Attacks''),
      (''RFC 6298'', ''Computing TCP's Retransmission Timer''),
      (''RFC 6528'', ''Defending against Sequence Number Attacks''),
      (''RFC 6691'', ''TCP Options and Maximum Segment Size (MSS)''),
      (''RFC 7323'', ''TCP Extensions for High Performance''),
      (''RFC 9293'', ''Transmission Control Protocol (TCP)'')]"

definition purpose :: string where
  "purpose =
     ''Purpose: findings for a developer to fix the DUT's network stack. Failures '' @
     ''first, full results next, spec references in the appendix.''"

definition no_findings :: string where
  "no_findings =
     ''No failures or errors '' @ em_dash @
     '' every test that ran passed. See the full results below and the test catalog '' @
     ''in Appendix A.''"

definition catalog_intro :: string where
  "catalog_intro =
     ''Every test in the suite, what it checks, the RFC clause it maps to, and '' @
     ''which role(s) it runs in. Use this to map a finding to the spec and to '' @
     ''see what else is covered.''"

definition rfc_intro :: string where
  "rfc_intro =
     ''Specifications exercised by this suite '' @ em_dash @
     '' the reading list for interpreting the findings.''"

definition findings_intro :: "nat \<Rightarrow> string" where
  "findings_intro n =
     dec n @ '' test(s) failed or errored, listed most-severe first. Each names the RFC '' @
     ''clause it exercises, what it checks, and what the DUT actually did.''"

definition informational_note :: "string option \<Rightarrow> string" where
  "informational_note stack =
     ''Note: informational checks (e.g. advertised window size) compare the DUT against '' @
     ''the selected '' @ show_opt stack @ '' stack profile '' @ em_dash @
     '' a mismatch flags a behavioural difference, not necessarily an RFC violation.''"

definition reproduction_command :: "run_result \<Rightarrow> string" where
  "reproduction_command r =
     ''netstack-cli run '' @
     ''--iface <iface> --dut-ip '' @ show_opt (run_target_ip r) @ '' '' @
     ''--target-stack '' @ show_opt (run_target_stack r) @ '' --role client''"

section \<open>Findings\<close>

record finding =
  fd_event :: test_event
  fd_spec :: "test_spec option"

definition fd_rfc :: "finding \<Rightarrow> string" where
  "fd_rfc f = (case fd_spec f of Some s \<Rightarrow> rfc s | None \<Rightarrow> em_dash)"

definition fd_description :: "finding \<Rightarrow> string" where
  "fd_description f = (case fd_spec f of Some s \<Rightarrow> description s | None \<Rightarrow> ''(no catalog description)'')"

text \<open>\<open>nodeid.rsplit("::", 1)[-1]\<close>: what follows the last double colon.\<close>

fun after_colons :: "string \<Rightarrow> string option" where
  "after_colons [] = None"
| "after_colons (c # cs) =
     (case after_colons cs of
        Some t \<Rightarrow> Some t
      | None \<Rightarrow> if starts_with ''::'' (c # cs) then Some (drop 2 (c # cs)) else None)"

definition base_name :: "string \<Rightarrow> string" where
  "base_name n = (case after_colons n of Some t \<Rightarrow> t | None \<Rightarrow> n)"

definition fd_title :: "finding \<Rightarrow> string" where
  "fd_title f = (case fd_spec f of Some s \<Rightarrow> spec_title s | None \<Rightarrow> base_name (nodeid (fd_event f)))"

fun finding_severity :: "test_outcome \<Rightarrow> nat" where
  "finding_severity ERROR = 0"
| "finding_severity FAILED = 1"
| "finding_severity _ = 9"

definition is_problem :: "test_event \<Rightarrow> bool" where
  "is_problem t \<longleftrightarrow> outcome t = FAILED \<or> outcome t = ERROR"

definition finding_key :: "test_event \<Rightarrow> nat \<times> string" where
  "finding_key t = (finding_severity (outcome t), nodeid t)"

definition build_findings :: "run_result \<Rightarrow> finding list" where
  "build_findings r =
     map (\<lambda>t. \<lparr>fd_event = t, fd_spec = find_by_nodeid (nodeid t)\<rparr>)
       (sort_key finding_key (filter is_problem (tests r)))"


section \<open>The appendices\<close>

definition group_name :: "test_spec \<Rightarrow> string" where
  "group_name s =
     (if truthy (spec_submodule s) then spec_module s @ ''/'' @ the (spec_submodule s)
      else spec_module s)"

definition catalog_by_group :: "(string \<times> test_spec list) list" where
  "catalog_by_group = sorted_items (group_by group_name catalog)"

lemma mset_add_to_group:
  "mset (concat (map snd (add_to_group k x gs))) = mset (concat (map snd gs)) + {#x#}"
  by (induction gs) auto

lemma mset_group_by: "mset (concat (map snd (group_by key xs))) = mset xs"
  by (induction xs rule: rev_induct) (simp_all add: group_by_snoc mset_add_to_group)

lemma mset_concat_cong: "mset xs = mset ys \<Longrightarrow> mset (concat xs) = mset (concat ys)"
  by (simp add: mset_concat flip: sum_mset_sum_list)

text \<open>The appendix lists the whole catalog, each test once and under its own group. The groups are
  in strict alphabetical order and none is empty.\<close>

theorem catalog_appendix_complete:
  "mset (concat (map snd catalog_by_group)) = mset catalog \<and>
   sorted_wrt (<) (map fst catalog_by_group) \<and>
   list_all (\<lambda>(g, ss). ss = filter (\<lambda>s. group_name s = g) catalog \<and> ss \<noteq> []) catalog_by_group"
proof -
  let ?g = "group_by group_name catalog"
  have keys: "distinct (map fst ?g)" using group_by_keys by blast
  have m: "mset catalog_by_group = mset ?g" by (simp add: catalog_by_group_def sorted_items_def)
  have "mset (concat (map snd catalog_by_group)) = mset (concat (map snd ?g))"
    by (rule mset_concat_cong) (simp add: m)
  then have one: "mset (concat (map snd catalog_by_group)) = mset catalog" by (simp add: mset_group_by)
  have "distinct (map fst catalog_by_group)"
    using keys m by (metis mset_eq_imp_distinct_iff mset_map)
  moreover have "sorted (map fst catalog_by_group)"
    by (simp add: catalog_by_group_def sorted_items_def)
  ultimately have two: "sorted_wrt (<) (map fst catalog_by_group)" by (simp add: strict_sorted_iff)
  have "ss = filter (\<lambda>s. group_name s = g) catalog \<and> ss \<noteq> []" if "(g, ss) \<in> set catalog_by_group" for g ss
  proof -
    have "(g, ss) \<in> set ?g" using that m by (metis set_mset_mset)
    then have l: "map_of ?g g = Some ss" using keys by simp
    then have f: "g \<in> group_name ` set catalog" "ss = filter (\<lambda>s. group_name s = g) catalog"
      by (simp_all add: group_by_lookup split: if_splits)
    then show ?thesis by (auto simp: filter_empty_conv)
  qed
  with one two show ?thesis by (auto simp: list_all_iff)
qed

text \<open>\<open>re.findall(r"RFC\s*(\d+)", text)\<close>, for texts whose digits and spaces after the label are ASCII.\<close>

definition re_space :: "char \<Rightarrow> bool" where
  "re_space c \<longleftrightarrow> ord c \<in> {9, 10, 11, 12, 13, 28, 29, 30, 31, 32}"

function rfc_numbers :: "string \<Rightarrow> nat list" where
  "rfc_numbers [] = []"
| "rfc_numbers (c # cs) =
     (let after = dropWhile re_space (drop 3 (c # cs)); digits = takeWhile is_digit after
      in if starts_with ''RFC'' (c # cs) \<and> digits \<noteq> []
         then undec digits # rfc_numbers (dropWhile is_digit after)
         else rfc_numbers cs)"
  by pat_completeness auto
termination
proof (relation "measure length")
  fix c cs after digits
  assume "after = dropWhile re_space (drop 3 (c # cs))"
  then have "length (dropWhile is_digit after) \<le> length (drop 3 (c # cs))"
    using length_dropWhile_le le_trans by blast
  then show "(dropWhile is_digit after, c # cs) \<in> measure length" by simp
qed auto

definition title_of_rfc :: "string \<Rightarrow> string" where
  "title_of_rfc label = (case map_of rfc_titles label of Some t \<Rightarrow> t | None \<Rightarrow> [])"

definition referenced_rfcs :: "(string \<times> string) list" where
  "referenced_rfcs =
     map (\<lambda>n. (''RFC '' @ dec n, title_of_rfc (''RFC '' @ dec n)))
       (sort (remdups (concat (map (rfc_numbers \<circ> rfc) catalog))))"

text \<open>Evaluation of the scanner: it skips what is no label.\<close>

lemma rfc_skip: "c \<noteq> CHR ''R'' \<Longrightarrow> rfc_numbers (c # cs) = rfc_numbers cs"
  by (simp add: starts_with_def)

lemma rfc_skip_R: "c \<noteq> CHR ''F'' \<Longrightarrow> rfc_numbers (CHR ''R'' # c # cs) = rfc_numbers (c # cs)"
  by (subst rfc_numbers.simps) (simp add: starts_with_def del: rfc_numbers.simps)

lemma rfc_label:
  "dropWhile re_space cs = d # ds \<Longrightarrow> is_digit d \<Longrightarrow>
   rfc_numbers (CHR ''R'' # CHR ''F'' # CHR ''C'' # cs) =
     undec (d # takeWhile is_digit ds) # rfc_numbers (dropWhile is_digit ds)"
  by (subst rfc_numbers.simps) (simp add: starts_with_def Let_def del: rfc_numbers.simps)

lemma char_eval:
  "list_all (\<lambda>c. is_digit c \<and> \<not> re_space c) ''0123456789''"
  "list_all (\<lambda>c. \<not> is_digit c) ('' ,().-'' @ [chr 194, chr 226])"
  "re_space (CHR '' '')"
  by code_simp+

lemma digit_eval: "map digit_val ''0123456789'' = [0, 1, 2, 3, 4, 5, 6, 7, 8, 9]"
  by code_simp

lemma chr_eval:
  "chr 194 = CHR 0xC2" "chr 167 = CHR 0xA7" "chr 226 = CHR 0xE2" "chr 128 = CHR 0x80"
  "chr 148 = CHR 0x94"
  by code_simp+

lemma rfc_Nil: "rfc_numbers [] = []"
  by simp

lemmas rfc_eval = rfc_Nil rfc_skip rfc_skip_R rfc_label sect_def em_dash_def undec_def
  char_eval [simplified] digit_eval [simplified] chr_eval

lemma rfcs_ip:
  "concat (map (rfc_numbers \<circ> rfc) catalog_ip) =
     [791, 792, 792, 791, 791, 791, 791, 791, 791, 791]"
  by (simp add: catalog_ip_def rfc_eval del: rfc_numbers.simps(2))

lemma rfcs_udp:
  "concat (map (rfc_numbers \<circ> rfc) catalog_udp) =
     [768, 768, 768, 792, 768, 768, 768]"
  by (simp add: catalog_udp_def rfc_eval del: rfc_numbers.simps(2))

lemma rfcs_icmp:
  "concat (map (rfc_numbers \<circ> rfc) catalog_icmp) =
     [792, 792, 792]"
  by (simp add: catalog_icmp_def rfc_eval del: rfc_numbers.simps(2))

lemma rfcs_syn:
  "concat (map (rfc_numbers \<circ> rfc) catalog_syn) =
     [9293, 9293, 9293, 9293, 6691, 7323, 7323, 2018, 9293, 7323, 2018, 9293, 6528]"
  by (simp add: catalog_syn_def rfc_eval del: rfc_numbers.simps(2))

lemma rfcs_termination:
  "concat (map (rfc_numbers \<circ> rfc) catalog_termination) =
     [9293, 9293, 9293, 9293, 5961, 9293, 9293, 9293, 9293, 9293, 5961, 1122]"
  by (simp add: catalog_termination_def rfc_eval del: rfc_numbers.simps(2))

lemma rfcs_segments:
  "concat (map (rfc_numbers \<circ> rfc) catalog_segments) =
     [5961, 5961, 5961, 9293, 9293, 9293, 9293, 9293, 9293, 9293, 9293, 9293]"
  by (simp add: catalog_segments_def rfc_eval del: rfc_numbers.simps(2))

lemma rfcs_congestion:
  "concat (map (rfc_numbers \<circ> rfc) catalog_congestion) =
     [9293, 6298, 5681, 9293, 9293, 1122]"
  by (simp add: catalog_congestion_def rfc_eval del: rfc_numbers.simps(2))

lemma rfcs_proxy:
  "concat (map (rfc_numbers \<circ> rfc) catalog_proxy) =
     [9293, 9110, 9293, 9293, 9293, 9293, 9110, 9112, 9110, 9110, 1928, 1928, 1928]"
  by (simp add: catalog_proxy_def rfc_eval del: rfc_numbers.simps(2))

text \<open>The reading list is every document the catalog refers to, in the order of their numbers, but
  three of them have no title in the table.\<close>

theorem reading_list:
  "map fst referenced_rfcs =
     [''RFC 768'', ''RFC 791'', ''RFC 792'', ''RFC 1122'', ''RFC 1928'', ''RFC 2018'', ''RFC 5681'',
      ''RFC 5961'', ''RFC 6298'', ''RFC 6528'', ''RFC 6691'', ''RFC 7323'', ''RFC 9110'',
      ''RFC 9112'', ''RFC 9293''] \<and>
   map fst (filter (\<lambda>(label, title). title = []) referenced_rfcs) =
     [''RFC 1928'', ''RFC 9110'', ''RFC 9112'']"
proof -
  let ?ls = "[''RFC 768'', ''RFC 791'', ''RFC 792'', ''RFC 1122'', ''RFC 1928'', ''RFC 2018'', ''RFC 5681'',
      ''RFC 5961'', ''RFC 6298'', ''RFC 6528'', ''RFC 6691'', ''RFC 7323'', ''RFC 9110'',
      ''RFC 9112'', ''RFC 9293'']"
  let ?ns = "[768, 791, 792, 1122, 1928, 2018, 5681, 5961, 6298, 6528, 6691, 7323, 9110, 9112, 9293]"
  have "sort (remdups (concat (map (rfc_numbers \<circ> rfc) catalog))) = ?ns"
    by (simp add: catalog_def rfcs_ip rfcs_udp rfcs_icmp rfcs_syn rfcs_termination rfcs_segments rfcs_congestion rfcs_proxy)
  moreover have "map (\<lambda>n. ''RFC '' @ dec n) ?ns = ?ls" by code_simp
  moreover have "map (\<lambda>n. (''RFC '' @ dec n, title_of_rfc (''RFC '' @ dec n))) ns =
      map (\<lambda>l. (l, title_of_rfc l)) (map (\<lambda>n. ''RFC '' @ dec n) ns)" for ns
    by simp
  ultimately have r: "referenced_rfcs = map (\<lambda>l. (l, title_of_rfc l)) ?ls"
    by (simp only: referenced_rfcs_def)
  have f: "map fst (filter (\<lambda>(l, t). t = []) (map (\<lambda>l. (l, title_of_rfc l)) ls)) =
      filter (\<lambda>l. title_of_rfc l = []) ls" for ls
    by (simp add: filter_map comp_def)
  have "filter (\<lambda>l. title_of_rfc l = []) ?ls = [''RFC 1928'', ''RFC 9110'', ''RFC 9112'']"
    by (simp add: title_of_rfc_def rfc_titles_def)
  then show ?thesis unfolding r f by simp
qed

section \<open>Charts\<close>

definition chart_dpi :: nat where "chart_dpi = 150"

text \<open>The series of the timeline: the events by time, through the accumulator of the live plot.\<close>

definition timeline_series :: "run_result \<Rightarrow> metrics_snapshot" where
  "timeline_series r =
     snapshot_of (foldl (\<lambda>b ev. add_event ev b) (new_metrics default_max_points)
       (sort_key timestamp (packet_events r)))"

definition timeline_title :: "run_result \<Rightarrow> string" where
  "timeline_title r = ''Packet timeline '' @ em_dash @ '' run '' @ run_id r"

text \<open>The bars of the summary: label, height, colour.\<close>

definition summary_bars :: "run_result \<Rightarrow> (string \<times> int \<times> string) list" where
  "summary_bars r =
     [(''Passed'', int (passed r), mpl (style_of PASSED)),
      (''Failed'', int (failed r), mpl (style_of FAILED)),
      (''Skipped/Error'', max (int (total r) - int (passed r) - int (failed r)) 0,
       mpl (style_of SKIPPED))]"

lemma foldl_add_events: "foldl (\<lambda>b ev. add_event ev b) b evs = foldl metrics_step b (map Add evs)"
  by (induction evs arbitrary: b) simp_all

lemma history_adds: "foldl history evs (map Add evs') = evs @ evs'"
  by (induction evs' arbitrary: evs) simp_all

text \<open>The report's timeline is that of the live plot fed with the events in the order of their time.\<close>

lemma timeline_is_reference:
  "timeline_series r = reference default_max_points (sort_key timestamp (packet_events r))"
  using metrics_run_holds [OF new_metrics_holds, of default_max_points
      "map Add (sort_key timestamp (packet_events r))"]
  by (simp add: timeline_series_def foldl_add_events holds_def history_adds)

end
