(* ===== verification/Profiles.thy ===== *)
theory Profiles
  imports Errors Tables
begin

text \<open>
  \<open>src/target_profiles\<close>: the reference values of the stacks a device may claim to be, and their
  lookup by the name given on the command line.
\<close>

datatype confidence = Strict | Informational

fun confidence_value :: "confidence \<Rightarrow> string" where
  "confidence_value Strict = ''strict''"
| "confidence_value Informational = ''informational''"

record range_field =
  low :: rat
  high :: rat
  confidence_tag :: confidence

definition informational :: "rat \<Rightarrow> rat \<Rightarrow> range_field" where
  "informational l h = \<lparr>low = l, high = h, confidence_tag = Informational\<rparr>"

definition contains_value :: "range_field \<Rightarrow> rat \<Rightarrow> bool" where
  "contains_value r v \<longleftrightarrow> low r \<le> v \<and> v \<le> high r"

record target_profile =
  profile_name :: string
  profile_source :: string
  default_ttl_range :: range_field
  tcp_initial_window :: range_field
  frag_reassembly_timeout_s :: range_field
  syn_ack_retries :: range_field

definition linux_profile :: target_profile where
  "linux_profile =
     \<lparr>profile_name = ''linux'',
      profile_source =
        ''Default TTL (net.ipv4.ip_default_ttl=64), fragment reassembly timeout '' @
        ''(net.ipv4.ipfrag_time=30s), and initial TCP window (tcp_rmem/tcp_wmem '' @
        ''defaults, autotuned) as shipped by mainline Linux kernels. tcp_syn_retries '' @
        ''default is 6 (kernel counts an initial send + 6 retries).'',
      default_ttl_range = informational 60 64,
      tcp_initial_window = informational 14600 65535,
      frag_reassembly_timeout_s = informational 25 35,
      syn_ack_retries = informational 4 6\<rparr>"

definition windows_profile :: target_profile where
  "windows_profile =
     \<lparr>profile_name = ''windows'',
      profile_source =
        ''Default TTL of 128 as shipped since Windows 2000/XP through current '' @
        ''Windows Server/desktop releases. IP fragment reassembly timeout historically '' @
        ''~60s (varies by version). Initial TCP receive window auto-tuned since '' @
        ''Vista, commonly 65535+ with window scaling. SYN-ACK retransmission defaults '' @
        ''to 2 retries (TcpMaxConnectResponseRetransmissions) unless registry-tuned.'',
      default_ttl_range = informational 125 128,
      tcp_initial_window = informational 8192 65535,
      frag_reassembly_timeout_s = informational 45 75,
      syn_ack_retries = informational 2 3\<rparr>"

section \<open>The registry\<close>

definition profiles :: "target_profile list" where
  "profiles = [linux_profile, windows_profile]"

definition profile_by_name :: "string \<Rightarrow> target_profile option" where
  "profile_by_name = index_by profile_name profiles"

definition list_profiles :: "string list" where
  "list_profiles = sorted_texts (map profile_name profiles)"

text \<open>\<open>name.lower()\<close>: no character beyond ASCII has a lower case inside a profile's name.\<close>

definition get_profile :: "string \<Rightarrow> 'd exn + target_profile" where
  "get_profile name =
     (case profile_by_name (map lower_char name) of
        Some p \<Rightarrow> Inr p
      | None \<Rightarrow> raise_exc ConfigurationError
          (''Unknown target stack '' @ py_repr name @ ''. Valid options: '' @ join '', '' list_profiles))"

interpretation profiles: keyed_table profile_name profiles
  by unfold_locales (simp add: profiles_def linux_profile_def windows_profile_def)

text \<open>What an option check on \<open>list_profiles\<close> lets through, the registry has.\<close>

lemma listed_profile:
  assumes "name \<in> set list_profiles"
  shows "\<exists>p. get_profile name = Inr p \<and> profile_name p = name"
proof -
  from assms have "name \<in> {''linux'', ''windows''}"
    by (simp add: list_profiles_def sorted_texts_def profiles_def linux_profile_def windows_profile_def)
  moreover have "map lower_char ''linux'' = ''linux''" "map lower_char ''windows'' = ''windows''"
    by code_simp+
  ultimately have l: "map lower_char name = name" by auto
  obtain p where "p \<in> set profiles" "profile_name p = name"
    using assms by (auto simp: list_profiles_def sorted_texts_def)
  then have "profile_by_name name = Some p"
    by (simp add: profile_by_name_def profiles.index_iff)
  with l \<open>profile_name p = name\<close> show ?thesis by (simp add: get_profile_def)
qed

end
