(* ===== verification/CommandLine.thy ===== *)
theory CommandLine
  imports Runner Profiles Proxy
begin

text \<open>
  The options of a run: \<open>src/cli/options.py\<close>, which declares those that the command line and pytest
  share, and the rest of pytest's from \<open>conftest.py\<close>. \<open>parse_args\<close> is how pytest's parser (the
  library's \<open>argparse\<close>) reads arguments of the form \<open>--flag=value\<close>, the one the runner emits: the
  value is converted and checked against the choices, the last one wins, \<open>append\<close> collects,
  \<open>store_true\<close> takes no value. Flags of other plugins and positional arguments are not ours.
\<close>

section \<open>Shared options\<close>

datatype value_type = Word | Integer

datatype shared_option =
  SharedOption (opt_name: string) (opt_help: string) (opt_type: "value_type option")
    (opt_default: pyval) (opt_choices: "string list option")

text \<open>\<open>name.lstrip("-").replace("-", "_")\<close>.\<close>

definition dest :: "shared_option \<Rightarrow> string" where
  "dest opt =
     map (\<lambda>c. if c = CHR ''-'' then CHR ''_'' else c) (dropWhile (\<lambda>c. c = CHR ''-'') (opt_name opt))"

definition shared_options ::
  "string list \<Rightarrow> string list \<Rightarrow> string list \<Rightarrow> string list \<Rightarrow> int \<Rightarrow> shared_option list" where
  "shared_options role_choices payload_modes proxy_modes proxy_legs dflt_port =
     [SharedOption ''--role''
         (''Which side the suite plays: client (initiator) or server (responder). '' @
          ''Tests not marked for the selected role are skipped.'')
         None (PStr ''client'') (Some role_choices),
      SharedOption ''--dut-mac''
         ''DUT MAC address.''
         None PNone None,
      SharedOption ''--dut-port''
         (''DUT port that port-specific tests target. Omit it and a random ephemeral '' @
          ''port is chosen once for the whole run.'')
         (Some Integer) PNone None,
      SharedOption ''--dut-source-port''
         (''Optional fixed local source port for tests that honor it (default: '' @ ''per-test).'')
         (Some Integer) PNone None,
      SharedOption ''--payload-mode''
         ''L7 payload content for tests that carry one.''
         None (PStr ''random'') (Some payload_modes),
      SharedOption ''--payload-size''
         ''L7 payload size in bytes.''
         (Some Integer) (PInt 64) None,
      SharedOption ''--proxy-mode''
         (''Enable the proxy-DUT tests and select how the client reaches the origin: '' @
          ''transparent (inline DUT), http-connect (RFC 9110/9112), socks5 (RFC '' @
          ''1928). Requires a second app instance running `proxy-serve` as the '' @ ''backend.'')
         None PNone (Some proxy_modes),
      SharedOption ''--proxy-leg''
         (''Point the ORDINARY endpoint suites (ip/udp/icmp/tcp) at one leg of '' @
          ''a proxy DUT: 'front' probes its client-facing stack (implies --role '' @
          ''client, and retargets to --proxy-host/--proxy-port); 'back' observes '' @
          ''the stack it dials origins with (implies --role server, and needs '' @
          ''--proxy-mode + --backend-host so traffic can be induced through the '' @ ''front).'')
         None PNone (Some proxy_legs),
      SharedOption ''--proxy-host''
         ''Proxy DUT front address (explicit modes).''
         None PNone None,
      SharedOption ''--proxy-port''
         ''Proxy DUT front port (explicit modes).''
         (Some Integer) PNone None,
      SharedOption ''--backend-host''
         (''Origin/backend address the DUT must reach '' @ em_dash @
          '' where the backend instance (`netstack-cli proxy-serve`) listens.'')
         None PNone None,
      SharedOption ''--backend-port''
         ''Backend instance listen port.''
         (Some Integer) (PInt dflt_port) None]"

section \<open>Registration\<close>

datatype opt_action = Store | Append | StoreTrue

datatype pytest_option =
  PytestOption (p_name: string) (p_help: string) (p_action: opt_action) (p_type: value_type)
    (p_default: pyval) (p_choices: "string list option")

definition pytest_kwargs :: "shared_option \<Rightarrow> pytest_option" where
  "pytest_kwargs opt =
     PytestOption (opt_name opt) (opt_help opt) Store
       (case opt_choices opt of
          Some (c # cs) \<Rightarrow> Word
        | _ \<Rightarrow> (case opt_type opt of None \<Rightarrow> Word | Some t \<Rightarrow> t))
       (opt_default opt)
       (case opt_choices opt of Some (c # cs) \<Rightarrow> Some (c # cs) | _ \<Rightarrow> None)"

definition register_pytest_options :: "pytest_option list \<Rightarrow> shared_option list \<Rightarrow> pytest_option list" where
  "register_pytest_options grp opts = grp @ map pytest_kwargs opts"

text \<open>A click parameter: its name, help, default and the choices or type it converts with. A
  decorator puts its parameter in front of those applied before it.\<close>

datatype click_param =
  ClickParam (c_name: string) (c_help: string) (c_type: value_type) (c_default: pyval)
    (c_choices: "string list option")

definition click_kwargs :: "shared_option \<Rightarrow> click_param" where
  "click_kwargs opt =
     ClickParam (opt_name opt) (opt_help opt)
       (case opt_choices opt of
          Some (c # cs) \<Rightarrow> Word
        | _ \<Rightarrow> (case opt_type opt of None \<Rightarrow> Word | Some t \<Rightarrow> t))
       (opt_default opt)
       (case opt_choices opt of Some (c # cs) \<Rightarrow> Some (c # cs) | _ \<Rightarrow> None)"

definition click_options :: "shared_option list \<Rightarrow> click_param list \<Rightarrow> click_param list" where
  "click_options opts fn = foldl (\<lambda>ps opt. click_kwargs opt # ps) fn (rev opts)"

definition run_options :: "shared_option list" where
  "run_options =
     shared_options (map role_value [Client, Server])
       (map payload_mode_value [Zeros, Ones, Random, Custom])
       (map mode_value [Transparent, HttpConnect, Socks5]) (map leg_value [Front, Back])
       default_backend_port"

definition local_options :: "pytest_option list" where
  "local_options =
     [PytestOption ''--target-stack''
         ''Behavioral profile to assert stack-characteristic checks against.''
         Store Word PNone (Some list_profiles),
      PytestOption ''--dut-ip''
         ''DUT IP address.''
         Store Word PNone None,
      PytestOption ''--dut-iface''
         ''Local Ethernet interface facing the DUT.''
         Store Word PNone None,
      PytestOption ''--payload-text''
         ''Custom payload as text (payload-mode=custom).''
         Store Word PNone None,
      PytestOption ''--payload-hex''
         ''Custom payload as hex (payload-mode=custom).''
         Store Word PNone None,
      PytestOption ''--payload-file''
         ''Custom payload loaded from a file (payload-mode=custom).''
         Store Word PNone None,
      PytestOption ''--live-events-log''
         ''Path to append live PacketEvent JSON lines to, for GUI real-time plotting.''
         Store Word PNone None,
      PytestOption ''--capture-pcap''
         ''Path to write the full run's pcap capture to.''
         Store Word PNone None,
      PytestOption ''--debug-log''
         (''Enable debug mode: write a tshark-style per-packet debug log to this '' @ ''path.'')
         Store Word PNone None,
      PytestOption ''--allowed-targets''
         (''CIDR range(s) authorized for vuln-marked tests. May be given multiple '' @ ''times.'')
         Append Word (PList []) None,
      PytestOption ''--confirm-vuln-tests''
         ''Explicit confirmation required to run vuln-marked tests.''
         StoreTrue Word (PBool False) None]"

definition pytest_addoption :: "pytest_option list" where
  "pytest_addoption = register_pytest_options [] run_options @ local_options"

text \<open>Both surfaces offer the same options, in the order of their declaration, with the same text,
  default, type and choices.\<close>

lemma click_options_order: "click_options opts fn = map click_kwargs opts @ fn"
  by (induction opts) (simp_all add: click_options_def)

section \<open>Reading the arguments\<close>

type_synonym option_values = "string \<Rightarrow> pyval"

definition option_of :: "string \<Rightarrow> pytest_option option" where
  "option_of flag = find (\<lambda>opt. p_name opt = flag) pytest_addoption"

definition default_values :: option_values where
  "default_values flag = (case option_of flag of None \<Rightarrow> PNone | Some opt \<Rightarrow> p_default opt)"

definition read_value :: "pytest_option \<Rightarrow> string \<Rightarrow> pyval option" where
  "read_value opt s =
     (case p_choices opt of
        Some cs \<Rightarrow> if s \<in> set cs then Some (PStr s) else None
      | None \<Rightarrow>
          (case p_type opt of Word \<Rightarrow> Some (PStr s) | Integer \<Rightarrow> map_option PInt (py_int s)))"

definition append_value :: "pyval \<Rightarrow> pyval \<Rightarrow> pyval" where
  "append_value vs v = (case vs of PList xs \<Rightarrow> PList (xs @ [v]) | _ \<Rightarrow> PList [v])"

definition take_flag :: "string \<times> string option \<Rightarrow> option_values \<Rightarrow> option_values option" where
  "take_flag fv vals =
     (case option_of (fst fv) of
        None \<Rightarrow> Some vals
      | Some opt \<Rightarrow>
          (case (p_action opt, snd fv) of
             (StoreTrue, None) \<Rightarrow> Some (vals(fst fv := PBool True))
           | (Store, Some s) \<Rightarrow> map_option (\<lambda>v. vals(fst fv := v)) (read_value opt s)
           | (Append, Some s) \<Rightarrow>
               map_option (\<lambda>v. vals(fst fv := append_value (vals (fst fv)) v)) (read_value opt s)
           | _ \<Rightarrow> None))"

definition split_flag :: "string \<Rightarrow> string \<times> string option" where
  "split_flag a =
     (case partition_at (CHR ''='') a of (flag, has, v) \<Rightarrow> (flag, if has then Some v else None))"

text \<open>The flags among the arguments: \<open>-k\<close>, \<open>-m\<close> and \<open>-p\<close> take the next argument.\<close>

fun long_flags :: "string list \<Rightarrow> (string \<times> string option) list" where
  "long_flags [] = []"
| "long_flags (a # as) =
     (if starts_with ''--'' a then split_flag a # long_flags as
      else if a \<in> {''-k'', ''-m'', ''-p''} then (case as of [] \<Rightarrow> [] | b # bs \<Rightarrow> long_flags bs)
      else long_flags as)"

fun take_flags :: "(string \<times> string option) list \<Rightarrow> option_values \<Rightarrow> option_values option" where
  "take_flags [] vals = Some vals"
| "take_flags (fv # fvs) vals = (case take_flag fv vals of None \<Rightarrow> None | Some v \<Rightarrow> take_flags fvs v)"

definition parse_args :: "string list \<Rightarrow> option_values option" where
  "parse_args args = take_flags (long_flags args) default_values"

section \<open>Texts of integers\<close>

text \<open>The interpreter converts integers of at most 4300 digits to and from text.\<close>

definition printable_int :: "int \<Rightarrow> bool" where
  "printable_int i \<longleftrightarrow> length (dec (nat \<bar>i\<bar>)) \<le> 4300"

lemma digits_value_dec: "length (dec n) \<le> 4300 \<Longrightarrow> digits_value (dec n) = Some n"
proof -
  assume l: "length (dec n) \<le> 4300"
  have "\<not> is_digit (CHR ''_'')" by code_simp
  then have "CHR ''_'' \<notin> set (dec n)" by (rule dec_no_char)
  then show ?thesis using l dec_digits [of n] by (simp add: digits_value_def)
qed

lemma latin_strip_plain:
  "list_all (\<lambda>c. \<not> latin_space c) s \<Longrightarrow> latin_strip s = s"
proof -
  assume a: "list_all (\<lambda>c. \<not> latin_space c) s"
  have "dropWhile latin_space t = t" if "list_all (\<lambda>c. \<not> latin_space c) t" for t
    using that by (cases t) simp_all
  from this [OF a] this [of "rev s"] a show ?thesis by (simp add: latin_strip_def)
qed

lemma digit_no_space: "is_digit c \<Longrightarrow> \<not> latin_space c"
  by (auto simp: is_digit_def latin_space_def)

lemma py_int_idec:
  assumes "printable_int i"
  shows "py_int (idec i) = Some i"
proof -
  have d: "list_all (\<lambda>c. \<not> latin_space c) (dec n)" for n
    using dec_digits [of n] digit_no_space by (auto simp: list_all_iff)
  have m: "\<not> latin_space (CHR ''-'')" "\<not> is_digit (CHR ''-'')" "\<not> is_digit (CHR ''+'')" by code_simp+
  show ?thesis
  proof (cases "i < 0")
    case True
    with assms have "digits_value (dec (nat (- i))) = Some (nat (- i))"
      by (intro digits_value_dec) (simp add: printable_int_def)
    moreover have "latin_strip (idec i) = idec i"
      using True d m by (intro latin_strip_plain) (simp add: idec_def)
    ultimately show ?thesis using True by (simp add: py_int_def idec_def)
  next
    case False
    with assms have v: "digits_value (dec (nat i)) = Some (nat i)"
      by (intro digits_value_dec) (simp add: printable_int_def)
    obtain c cs where c: "dec (nat i) = c # cs" by (cases "dec (nat i)") auto
    then have "is_digit c" using dec_digits [of "nat i"] by simp
    with m have "c \<noteq> CHR ''-''" "c \<noteq> CHR ''+''" by auto
    moreover have "latin_strip (idec i) = idec i"
      using False d by (intro latin_strip_plain) (simp add: idec_def)
    ultimately show ?thesis using False v c by (simp add: py_int_def idec_def)
  qed
qed

text \<open>What \<open>int(text)\<close> reads can be printed again, and so can a port.\<close>

lemma undec_bound: "list_all is_digit s \<Longrightarrow> undec s < 10 ^ length s"
proof (induction s rule: rev_induct)
  case (snoc c s)
  then have "undec s < 10 ^ length s" "digit_val c < 10" by (auto simp: is_digit_def digit_val_def)
  then show ?case by simp
qed simp

lemma digits_value_short:
  assumes "digits_value s = Some n"
  shows "length (dec n) \<le> 4300"
proof -
  let ?ds = "concat (split_on (CHR ''_'') s)"
  from assms have d: "list_all (\<lambda>p. p \<noteq> [] \<and> list_all is_digit p) (split_on (CHR ''_'') s)"
    "length ?ds \<le> 4300" "n = undec ?ds"
    by (auto simp: digits_value_def Let_def split: if_splits)
  have "list_all is_digit ?ds" using d(1) by (auto simp: list_all_iff)
  then have "n < 10 ^ length ?ds" using d(3) by (simp add: undec_bound)
  moreover have "0 < length ?ds" using d(1) by (cases "split_on (CHR ''_'') s") auto
  ultimately show ?thesis using length_dec d(2) order_trans by blast
qed

lemma py_int_printable: "py_int s = Some i \<Longrightarrow> printable_int i"
  using digits_value_short
  by (auto simp: py_int_def printable_int_def split: list.splits if_splits)

definition port_range :: "int \<Rightarrow> bool" where
  "port_range p \<longleftrightarrow> 0 \<le> p \<and> p \<le> 65535"

lemma port_printable: "port_range p \<Longrightarrow> printable_int p"
proof -
  assume "port_range p"
  then have "nat \<bar>p\<bar> < 10 ^ 5" by (simp add: port_range_def nat_less_iff)
  then have "length (dec (nat \<bar>p\<bar>)) \<le> 5" by (intro length_dec) simp_all
  then show ?thesis by (simp add: printable_int_def)
qed

lemma random_port_range: "randbelow 16384 < 16384 \<Longrightarrow> port_range (random_ephemeral_port randbelow)"
  by (simp add: random_ephemeral_port_def ephemeral_low_def ephemeral_high_def port_range_def)

section \<open>The flags of a run\<close>

definition opt_flag :: "string \<Rightarrow> string option \<Rightarrow> (string \<times> string option) list" where
  "opt_flag flag v = (case v of None \<Rightarrow> [] | Some s \<Rightarrow> [(flag, Some s)])"

lemma opt_flag_simps: "opt_flag flag None = []" "opt_flag flag (Some s) = [(flag, Some s)]"
  by (simp_all add: opt_flag_def)

definition plain_flag :: "string \<Rightarrow> bool" where
  "plain_flag flag \<longleftrightarrow> starts_with ''--'' flag \<and> CHR ''='' \<notin> set flag"

lemma long_flags_flag:
  "plain_flag flag \<Longrightarrow> long_flags ((flag @ CHR ''='' # v) # as) = (flag, Some v) # long_flags as"
  by (auto simp: plain_flag_def starts_with_iff split_flag_def partition_at_found)

lemma long_flags_emit:
  "list_all (\<lambda>(flag, v). plain_flag flag) fs \<Longrightarrow>
   long_flags (emit_flags fs @ as) = concat (map (\<lambda>(flag, v). opt_flag flag v) fs) @ long_flags as"
proof (induction fs)
  case (Cons p fs)
  obtain flag v where p: "p = (flag, v)" by (cases p)
  show ?case
  proof (cases v)
    case None
    with Cons p show ?thesis by (simp add: emit_flags_def opt_flag_def)
  next
    case (Some s)
    with p have "emit_flags (p # fs) = (flag @ CHR ''='' # s) # emit_flags fs"
      by (simp add: emit_flags_def)
    with Cons p Some show ?thesis
      by (simp add: long_flags_flag opt_flag_simps del: long_flags.simps)
  qed
qed (simp add: emit_flags_def)

lemma long_flags_words:
  "list_all (\<lambda>t. \<not> starts_with ''-'' t) ts \<Longrightarrow> long_flags (ts @ as) = long_flags as"
proof (induction ts)
  case (Cons t ts)
  then have "\<not> starts_with ''--'' t" "t \<notin> {''-k'', ''-m'', ''-p''}"
    by (auto simp: starts_with_iff)
  with Cons show ?case by simp
qed simp

end
