(* ===== verification/Session.thy ===== *)
theory Session
  imports CommandLine Interface Recorder Host
begin

text \<open>
  \<open>conftest.py\<close>: the fixtures that turn the options of a pytest session into the configuration the
  tests run with, the collection hook, the safety gate and the interface that is opened once. The
  last section is the composition with the runner: what a front end asked for is what the child
  process reads back from its command line. \<open>src/gui/app.py\<close> decides what the process is.
\<close>

section \<open>Options as values\<close>

text \<open>\<open>config.getoption(flag)\<close> of an option that holds a text, an integer or a list of texts.\<close>

definition opt_text :: "option_values \<Rightarrow> string \<Rightarrow> string option" where
  "opt_text vals flag = get_str (vals flag)"

definition opt_int :: "option_values \<Rightarrow> string \<Rightarrow> int option" where
  "opt_int vals flag = get_int (vals flag)"

definition opt_words :: "option_values \<Rightarrow> string \<Rightarrow> string list" where
  "opt_words vals flag = (case get_strs (vals flag) of Some ss \<Rightarrow> ss | None \<Rightarrow> [])"

definition enum_value :: "string \<Rightarrow> (string \<Rightarrow> 'a option) \<Rightarrow> string option \<Rightarrow> 'd exn + 'a" where
  "enum_value cls conv v =
     (case Option.bind v conv of
        Some x \<Rightarrow> Inr x
      | None \<Rightarrow> raise_exc ValueError (show_none v @ '' is not a valid '' @ cls))"

definition selected_proxy_leg :: "option_values \<Rightarrow> 'd exn + proxy_leg option" where
  "selected_proxy_leg vals =
     (if truthy (opt_text vals ''--proxy-leg'')
      then rbind (enum_value ''ProxyLeg'' leg_of (opt_text vals ''--proxy-leg'')) (\<lambda>l. Inr (Some l))
      else Inr None)"

definition effective_role :: "option_values \<Rightarrow> 'd exn + role" where
  "effective_role vals =
     rbind (selected_proxy_leg vals) (\<lambda>leg.
     rbind (enum_value ''Role'' role_of (opt_text vals ''--role'')) (\<lambda>r.
       Inr (resolve_role leg r)))"

text \<open>The hook: each collected item with the reason it is skipped for, if any.\<close>

definition pytest_collection_modifyitems ::
  "option_values \<Rightarrow> item list \<Rightarrow> 'd exn + (item \<times> string option) list" where
  "pytest_collection_modifyitems vals items =
     rbind (effective_role vals) (\<lambda>r.
       Inr (map (\<lambda>it. (it, skip_reason it (role_value r) (opt_text vals ''--proxy-mode''))) items))"

section \<open>Configuration fixtures\<close>

definition pytest_fail :: "string \<Rightarrow> 'd exn + 'a" where
  "pytest_fail m = raise_exc PytestFail m"

definition dut_config_fixture :: "(nat \<Rightarrow> nat) \<Rightarrow> option_values \<Rightarrow> 'd exn + dut_config" where
  "dut_config_fixture randbelow vals =
     rbind (selected_proxy_leg vals) (\<lambda>leg.
       case resolve_leg_target leg (opt_text vals ''--dut-ip'') (opt_int vals ''--dut-port'')
              (opt_text vals ''--proxy-host'') (opt_int vals ''--proxy-port'') of
         (ip, port) \<Rightarrow>
           rbind (effective_role vals) (\<lambda>r.
             let config =
                   dut_config_defaults\<lparr>interface := opt_text vals ''--dut-iface'', target_ip := ip,
                     target_stack := opt_text vals ''--target-stack'',
                     target_mac := opt_text vals ''--dut-mac'',
                     target_port := Some (case port of Some p \<Rightarrow> p | None \<Rightarrow> random_ephemeral_port randbelow),
                     source_port := opt_int vals ''--dut-source-port'',
                     allowed_targets := opt_words vals ''--allowed-targets'',
                     dut_role := r, dut_leg := leg\<rparr>;
                 missing = missing_required True config
             in if missing \<noteq> [] then
                  pytest_fail (''This test requires a DUT target, missing: '' @ join '', '' missing @
                    ''. (Running tests_internal/ alone needs none of these.)'')
                else Inr config))"

definition selected_role :: "option_values \<Rightarrow> 'd exn + role" where
  "selected_role vals = effective_role vals"

definition mode_of :: "string \<Rightarrow> proxy_mode option" where
  "mode_of s = find (\<lambda>m. mode_value m = s) [Transparent, HttpConnect, Socks5]"

definition proxy_config_fixture :: "option_values \<Rightarrow> 'd exn + proxy_config" where
  "proxy_config_fixture vals =
     (let raw_mode = opt_text vals ''--proxy-mode''; host = opt_text vals ''--backend-host''
      in if \<not> truthy raw_mode then
           pytest_fail (''--proxy-mode is required for proxy tests ('' @
             join ''|'' (map mode_value [Transparent, HttpConnect, Socks5]) @
             ''); see docs/proxy_testing.md.'')
         else if \<not> truthy host then
           pytest_fail (''--backend-host is required for proxy tests: the origin address the DUT must '' @
             ''reach, i.e. where the backend instance (`netstack-cli proxy-serve`) listens.'')
         else case rbind (enum_value ''ProxyMode'' mode_of raw_mode) (\<lambda>m.
                post_init \<lparr>mode = m, backend_host = the host,
                  backend_port = (case opt_int vals ''--backend-port'' of Some p \<Rightarrow> p | None \<Rightarrow> 0),
                  proxy_host = opt_text vals ''--proxy-host'',
                  proxy_port = opt_int vals ''--proxy-port'', proxy_timeout = 5,
                  username = None, password = None\<rparr>) of
             Inl e \<Rightarrow>
               (if is_a (exc e) NetstackError \<or> is_a (exc e) ValueError
                then pytest_fail (msg e) else Inl e)
           | Inr c \<Rightarrow> Inr c)"

definition target_profile_fixture :: "dut_config \<Rightarrow> 'd exn + target_profile" where
  "target_profile_fixture c = get_profile (show_opt (target_stack c))"

definition confirm_vuln_fixture :: "option_values \<Rightarrow> bool" where
  "confirm_vuln_fixture vals = py_true (vals ''--confirm-vuln-tests'')"

text \<open>The autouse gate, for an item with these markers.\<close>

definition enforce_vuln_authorization ::
  "(nat \<Rightarrow> nat) \<Rightarrow> option_values \<Rightarrow> item \<Rightarrow> 'd exn + unit" where
  "enforce_vuln_authorization randbelow vals it =
     (if \<not> has_marker it ''vuln'' then Inr ()
      else rbind (dut_config_fixture randbelow vals) (\<lambda>c.
        enforce_vuln_test_authorization c (confirm_vuln_fixture vals)))"

definition payload_mode_of :: "string \<Rightarrow> payload_mode option" where
  "payload_mode_of s = find (\<lambda>m. payload_mode_value m = s) [Zeros, Ones, Random, Custom]"

record payload_settings =
  ps_mode :: payload_mode
  ps_size :: int
  ps_custom :: "bytes option"

definition payload_settings_fixture ::
  "(string \<Rightarrow> string + bytes) \<Rightarrow> option_values \<Rightarrow> 'd exn + payload_settings" where
  "payload_settings_fixture read_bytes vals =
     rbind (enum_value ''PayloadMode'' payload_mode_of (opt_text vals ''--payload-mode'')) (\<lambda>m.
     rbind (if m = Custom
            then rbind (resolve_custom_source read_bytes (opt_text vals ''--payload-text'')
                   (opt_text vals ''--payload-hex'') (opt_text vals ''--payload-file'')) (\<lambda>custom.
                 if custom = None then raise_exc PytestUsageError
                   ''--payload-mode=custom requires one of --payload-text, --payload-hex, --payload-file''
                 else Inr custom)
            else Inr None) (\<lambda>custom.
       Inr \<lparr>ps_mode = m,
            ps_size = (case opt_int vals ''--payload-size'' of Some n \<Rightarrow> n | None \<Rightarrow> 0),
            ps_custom = custom\<rparr>))"

section \<open>The interface of the session\<close>

text \<open>
  What the fixture opens: the interface, the event log, the guard. \<open>get_if_addr\<close> gives the
  interface's address or raises; \<open>open_log\<close> is the \<open>OSError\<close> of opening the event log.
\<close>

record 'p session =
  ses_nic :: "'p nic"
  ses_writer :: "event_log option"
  ses_writer_path :: "string option"
  ses_guard :: "rst_guard option"

definition new_event_log :: event_log where
  "new_event_log = \<lparr>log_text = [], log_closed = False\<rparr>"

definition open_interface ::
  "host \<Rightarrow> (string option \<Rightarrow> 'd exn + string) \<Rightarrow> (string \<Rightarrow> string option) \<Rightarrow> debug_log option \<Rightarrow>
   option_values \<Rightarrow> dut_config \<Rightarrow> 'd exn + 'p session" where
  "open_interface h get_if_addr open_log logger vals c =
     rbind (require_elevation h) (\<lambda>_.
       let live = opt_text vals ''--live-events-log''; capture = opt_text vals ''--capture-pcap''
       in rbind (if \<not> truthy live then Inr None
                 else case open_log (the live) of
                        Some m \<Rightarrow> raise_exc OSError m
                      | None \<Rightarrow> Inr (Some new_event_log)) (\<lambda>writer.
          rbind (get_if_addr (interface c)) (\<lambda>addr.
            Inr \<lparr>ses_nic = (new_nic (show_opt (interface c)) (if truthy capture then capture else None))
                     \<lparr>nic_debug := logger, sinks := (if writer = None then [] else [\<lambda>_. None])\<rparr>,
                 ses_writer = writer,
                 ses_writer_path = (if truthy live then live else None),
                 ses_guard = start_for_host h addr\<rparr>)))"

definition close_interface :: "'p session \<Rightarrow> 'p session" where
  "close_interface s =
     s\<lparr>ses_nic := nic_close (ses_nic s), ses_writer := map_option close_log (ses_writer s),
       ses_guard := map_option stop_guard (ses_guard s)\<rparr>"

text \<open>The boundary lines of the debug log.\<close>

definition boundary_logstart :: "string \<Rightarrow> debug_log \<Rightarrow> ('d exn + unit) \<times> debug_log" where
  "boundary_logstart n dl = log_event (''>>> START '' @ n) dl"

definition boundary_logreport ::
  "string \<Rightarrow> string \<Rightarrow> string \<Rightarrow> debug_log \<Rightarrow> ('d exn + unit) \<times> debug_log" where
  "boundary_logreport phase n oc dl =
     (if phase \<in> {''setup'', ''call'', ''teardown''}
      then log_event (''    '' @ pad_right 8 (CHR '' '') phase @ '' '' @ n @ '' -> '' @ oc) dl
      else (Inr (), dl))"

definition boundary_logfinish :: "string \<Rightarrow> debug_log \<Rightarrow> ('d exn + unit) \<times> debug_log" where
  "boundary_logfinish n dl = log_event (''<<< END   '' @ n) dl"

text \<open>\<open>pytest_configure\<close> and \<open>pytest_unconfigure\<close>: the logger on \<open>config\<close>.\<close>

definition pytest_configure :: "(string \<times> rat) list \<Rightarrow> option_values \<Rightarrow> debug_log option" where
  "pytest_configure clock vals =
     (if truthy (opt_text vals ''--debug-log'') then Some (new_debug_log clock) else None)"

definition pytest_unconfigure :: "debug_log option \<Rightarrow> debug_log option \<times> debug_log option" where
  "pytest_unconfigure logger = (None, map_option dl_close logger)"

section \<open>What the process is\<close>

text \<open>\<open>main\<close> of \<open>src/gui/app.py\<close>, up to the window: the worker with pytest's arguments, the copy that
  steps aside, or the window, with a warning or without.\<close>

datatype app_start =
    PytestWorker "string list"
  | StepAside
  | OpenWindow bool

definition app_main :: "string list \<Rightarrow> elevation_result \<Rightarrow> app_start" where
  "app_main args elev =
     (if 1 < length args \<and> args ! 1 = pytest_sentinel then PytestWorker (drop 2 args)
      else if elev = RELAUNCHED then StepAside
      else OpenWindow (elev = DECLINED))"

text \<open>The arguments pytest is given: by the worker of a frozen build, or by \<open>python -m pytest\<close>.\<close>

definition pytest_argv :: "layout \<Rightarrow> string list \<Rightarrow> string list" where
  "pytest_argv l cmd =
     (if is_frozen l then (case app_main cmd UNSUPPORTED of PytestWorker as \<Rightarrow> as | _ \<Rightarrow> [])
      else drop 3 cmd)"

lemma frozen_worker:
  "is_frozen l \<Longrightarrow> app_main (launcher l @ as) r = PytestWorker ([''-p'', ''pytest_reportlog.plugin''] @ as)"
  by (simp add: app_main_def launcher_def)

end
