(* ===== verification/Child.thy ===== *)
theory Child
  imports Session
begin

text \<open>
  The composition of the front end, the runner and the child's \<open>conftest.py\<close>: the request becomes a
  command line (\<open>build_pytest_args\<close>), the child parses it and its fixtures build the configuration
  again. The theorems say that nothing is lost or changed on the way, and what cannot be sent.
\<close>

section \<open>The flags on the command line\<close>

declare long_flags.simps [simp del]

definition run_flags :: "run_request \<Rightarrow> string \<Rightarrow> (string \<times> string option) list" where
  "run_flags rq run_dir =
     [(''--report-log'', Some (report_log_path run_dir)),
      (''--target-stack'', Some (show_opt (target_stack (rq_config rq)))),
      (''--role'', Some (role_value (request_role rq))),
      (''--dut-ip'', Some (show_opt (target_ip (rq_config rq)))),
      (''--dut-iface'', Some (show_opt (interface (rq_config rq)))),
      (''--payload-mode'', Some (payload_mode_value (rq_payload_mode rq))),
      (''--payload-size'', Some (idec (payload_size rq))),
      (''--live-events-log'', Some (packet_events_path run_dir)),
      (''--capture-pcap'', Some (capture_file run_dir))] @
     concat (map (\<lambda>(flag, v). opt_flag flag v) (optional_flags rq)) @
     (if confirm_vuln_tests rq then [(''--confirm-vuln-tests'', None)] else []) @
     map (\<lambda>cidr. (''--allowed-targets'', Some cidr)) (allowed_targets (rq_config rq)) @
     (if debug rq then [(''--debug-log'', Some (debug_log_path run_dir))] else []) @
     (if truthy (rq_proxy_mode rq) \<or> truthy (request_leg rq)
      then concat (map (\<lambda>(flag, v). opt_flag flag v) (topology_flags rq)) else [])"

definition plain_targets :: "run_request \<Rightarrow> bool" where
  "plain_targets rq \<longleftrightarrow> list_all (\<lambda>t. \<not> starts_with ''-'' t) (targets rq)"

lemma plain_flags:
  "list_all (\<lambda>(flag, v). plain_flag flag) (optional_flags rq)"
  "list_all (\<lambda>(flag, v). plain_flag flag) (topology_flags rq)"
  by (simp_all add: optional_flags_def topology_flags_def plain_flag_def starts_with_def)

lemma long_flags_eq: "plain_flag flag \<Longrightarrow> long_flags ((flag @ ''='' @ v) # as) = (flag, Some v) # long_flags as"
  using long_flags_flag [of flag v as] by simp

lemma long_flags_allowed:
  "long_flags (map (\<lambda>cidr. ''--allowed-targets='' @ cidr) cs @ as) =
     map (\<lambda>cidr. (''--allowed-targets'', Some cidr)) cs @ long_flags as"
proof (induction cs)
  case (Cons c cs)
  have "plain_flag ''--allowed-targets''" by (simp add: plain_flag_def starts_with_def)
  from long_flags_flag [OF this, of c] Cons show ?case by simp
qed simp

lemma test_targets_plain:
  assumes "plain_targets rq"
  shows "list_all (\<lambda>t. \<not> starts_with ''-'' t) (test_targets rq)"
proof (cases "targets rq = []")
  case True
  have "\<exists>s. join ''/'' (map the (filter truthy [Some ''tests'', rq_module rq, submodule rq])) = CHR ''t'' # s"
    by (cases "truthy (rq_module rq)"; cases "truthy (submodule rq)") simp_all
  with True show ?thesis by (auto simp: test_targets_def starts_with_iff)
qed (use assms in \<open>simp add: test_targets_def plain_targets_def\<close>)

lemma long_flags_taking:
  "a \<in> {''-k'', ''-m'', ''-p''} \<Longrightarrow> long_flags (a # b # as) = long_flags as"
  by (auto simp: starts_with_def long_flags.simps)

lemma long_flags_verbose: "long_flags (''-v'' # as) = long_flags as"
  by (simp add: starts_with_def long_flags.simps)

lemma long_flags_confirm:
  "long_flags (''--confirm-vuln-tests'' # as) = (''--confirm-vuln-tests'', None) # long_flags as"
  by (simp add: starts_with_def split_flag_def long_flags.simps)

lemma flags_of_command_line:
  assumes "plain_targets rq"
  shows "long_flags (pytest_argv l (build_pytest_args l rq dir)) = run_flags rq dir"
proof -
  have argv: "long_flags (pytest_argv l (launcher l @ as)) = long_flags as" for as
  proof (cases "is_frozen l")
    case True
    then have "pytest_argv l (launcher l @ as) = ''-p'' # ''pytest_reportlog.plugin'' # as"
      by (simp add: pytest_argv_def frozen_worker)
    then show ?thesis by (simp add: long_flags_taking)
  qed (simp add: pytest_argv_def launcher_def)
  have p: "plain_flag ''--report-log''" "plain_flag ''--target-stack''" "plain_flag ''--role''"
    "plain_flag ''--dut-ip''" "plain_flag ''--dut-iface''" "plain_flag ''--payload-mode''"
    "plain_flag ''--payload-size''" "plain_flag ''--live-events-log''" "plain_flag ''--capture-pcap''"
    "plain_flag ''--debug-log''"
    by (simp_all add: plain_flag_def starts_with_def)
  have k: "long_flags ((if b then [''-k'', x] else []) @ as) = long_flags as"
    "long_flags ((if b then [''-m'', x] else []) @ as) = long_flags as" for b x as
    by (simp_all add: long_flags_taking)
  have c: "long_flags ((if b then [''--confirm-vuln-tests''] else []) @ as) =
      (if b then [(''--confirm-vuln-tests'', None)] else []) @ long_flags as" for b as
    by (simp add: long_flags_confirm)
  have d: "long_flags ((if b then [''--debug-log='' @ x] else []) @ as) =
      (if b then [(''--debug-log'', Some x)] else []) @ long_flags as" for b x as
    using long_flags_eq [OF p(10), of x as] by (simp)
  have t: "long_flags (if b then emit_flags (topology_flags rq) else []) =
      (if b then concat (map (\<lambda>(flag, v). opt_flag flag v) (topology_flags rq)) else [])" for b
    using long_flags_emit [OF plain_flags(2), of rq "[]"] by (simp add: long_flags.simps(1))
  note eqs = p(1-9) [THEN long_flags_eq, simplified]
  show ?thesis
    unfolding build_pytest_args_def argv long_flags_words [OF test_targets_plain [OF assms]]
    by (simp add: eqs long_flags_verbose long_flags_emit [OF plain_flags(1)] k c d t
        long_flags_allowed run_flags_def)
qed

section \<open>What each flag does\<close>

definition opt_kind :: "string \<Rightarrow> (opt_action \<times> value_type \<times> string list option) option" where
  "opt_kind flag = map_option (\<lambda>opt. (p_action opt, p_type opt, p_choices opt)) (option_of flag)"

lemma kinds:
  "map opt_kind [''--report-log'', ''--target-stack'', ''--role'', ''--dut-ip'', ''--dut-iface'',
     ''--payload-mode'', ''--payload-size'', ''--live-events-log'', ''--capture-pcap''] =
   [None, Some (Store, Word, Some [''linux'', ''windows'']),
    Some (Store, Word, Some [''client'', ''server'']), Some (Store, Word, None),
    Some (Store, Word, None), Some (Store, Word, Some [''zeros'', ''ones'', ''random'', ''custom'']),
    Some (Store, Integer, None), Some (Store, Word, None), Some (Store, Word, None)]"
  "map opt_kind [''--dut-mac'', ''--dut-port'', ''--dut-source-port'', ''--proxy-mode'', ''--proxy-leg'',
     ''--proxy-host'', ''--proxy-port'', ''--backend-host'', ''--backend-port''] =
   [Some (Store, Word, None), Some (Store, Integer, None), Some (Store, Integer, None),
    Some (Store, Word, Some [''transparent'', ''http-connect'', ''socks5'']),
    Some (Store, Word, Some [''front'', ''back'']), Some (Store, Word, None),
    Some (Store, Integer, None), Some (Store, Word, None), Some (Store, Integer, None)]"
  "map opt_kind [''--confirm-vuln-tests'', ''--allowed-targets'', ''--debug-log''] =
   [Some (StoreTrue, Word, None), Some (Append, Word, None), Some (Store, Word, None)]"
  by code_simp+

lemma defaults:
  "map default_values [''--role'', ''--dut-mac'', ''--dut-port'', ''--dut-source-port'', ''--payload-mode'',
     ''--payload-size'', ''--proxy-mode'', ''--proxy-leg'', ''--proxy-host'', ''--proxy-port'',
     ''--backend-host'', ''--backend-port''] =
   [PStr ''client'', PNone, PNone, PNone, PStr ''random'', PInt 64, PNone, PNone, PNone, PNone, PNone,
    PInt 9099]"
  "map default_values [''--target-stack'', ''--dut-ip'', ''--dut-iface'', ''--payload-text'',
     ''--payload-hex'', ''--payload-file'', ''--allowed-targets'', ''--confirm-vuln-tests''] =
   [PNone, PNone, PNone, PNone, PNone, PNone, PList [], PBool False]"
  by code_simp+

lemma take_flag_kind:
  "take_flag (flag, v) vals =
     (case opt_kind flag of
        None \<Rightarrow> Some vals
      | Some (act, ty, cs) \<Rightarrow>
          (case (act, v) of
             (StoreTrue, None) \<Rightarrow> Some (vals(flag := PBool True))
           | (Store, Some s) \<Rightarrow>
               map_option (\<lambda>x. vals(flag := x)) (read_value (PytestOption [] [] act ty PNone cs) s)
           | (Append, Some s) \<Rightarrow>
               map_option (\<lambda>x. vals(flag := append_value (vals flag) x))
                 (read_value (PytestOption [] [] act ty PNone cs) s)
           | _ \<Rightarrow> None))"
  by (auto simp: take_flag_def opt_kind_def read_value_def split: option.splits opt_action.splits)

lemma take_word:
  "opt_kind flag = Some (Store, Word, None) \<Longrightarrow> take_flag (flag, Some s) vals = Some (vals(flag := PStr s))"
  by (simp add: take_flag_kind read_value_def)

lemma take_choice:
  "opt_kind flag = Some (Store, Word, Some cs) \<Longrightarrow> s \<in> set cs \<Longrightarrow>
   take_flag (flag, Some s) vals = Some (vals(flag := PStr s))"
  by (simp add: take_flag_kind read_value_def)

lemma take_number:
  "opt_kind flag = Some (Store, Integer, None) \<Longrightarrow> printable_int i \<Longrightarrow>
   take_flag (flag, Some (idec i)) vals = Some (vals(flag := PInt i))"
  by (simp add: take_flag_kind read_value_def py_int_idec)

lemma take_allowed:
  "vals ''--allowed-targets'' = PList xs \<Longrightarrow>
   take_flags (map (\<lambda>c. (''--allowed-targets'', Some c)) cs @ fvs) vals =
     take_flags fvs (vals(''--allowed-targets'' := PList (xs @ map PStr cs)))"
proof (induction cs arbitrary: xs vals)
  case (Cons c cs)
  have "take_flag (''--allowed-targets'', Some c) vals =
      Some (vals(''--allowed-targets'' := PList (xs @ [PStr c])))"
    using Cons.prems kinds(3) by (simp add: take_flag_kind read_value_def append_value_def)
  moreover from Cons.IH [of "vals(''--allowed-targets'' := PList (xs @ [PStr c]))" "xs @ [PStr c]",
      OF fun_upd_same]
  have "take_flags (map (\<lambda>c. (''--allowed-targets'', Some c)) cs @ fvs)
      (vals(''--allowed-targets'' := PList (xs @ [PStr c]))) =
    take_flags fvs (vals(''--allowed-targets'' := PList (xs @ map PStr (c # cs))))"
    by (simp only: fun_upd_upd append_assoc append.simps list.map)
  ultimately show ?case by (simp only: list.map append.simps take_flags.simps option.case)
qed (simp add: fun_upd_idem)

definition set_opt :: "string \<Rightarrow> ('a \<Rightarrow> pyval) \<Rightarrow> 'a option \<Rightarrow> option_values \<Rightarrow> option_values" where
  "set_opt flag f v vals = (case v of None \<Rightarrow> vals | Some x \<Rightarrow> vals(flag := f x))"

lemma set_opt_apply:
  "set_opt flag f v vals g =
     (if g = flag then (case v of None \<Rightarrow> vals flag | Some x \<Rightarrow> f x) else vals g)"
  by (simp add: set_opt_def split: option.split)

lemma take_opt:
  assumes "\<And>x vals. v = Some x \<Longrightarrow> take_flag (flag, Some (h x)) vals = Some (vals(flag := f x))"
  shows "take_flags (opt_flag flag (map_option h v) @ fvs) vals = take_flags fvs (set_opt flag f v vals)"
  using assms by (cases v) (simp_all add: opt_flag_def set_opt_def)

section \<open>Nothing is lost\<close>

text \<open>
  A request a front end makes: complete, with the leg already resolved into role and target, and
  with values the options' own choices admit.
\<close>

definition sendable :: "run_request \<Rightarrow> bool" where
  "sendable rq \<longleftrightarrow>
     (let c = rq_config rq
      in plain_targets rq \<and> truthy (target_ip c) \<and> truthy (interface c) \<and>
         target_stack c \<in> Some ` set list_profiles \<and>
         target_mac c \<noteq> Some [] \<and> dut_timeout c = 2 \<and>
         resolve_role (dut_leg c) (dut_role c) = dut_role c \<and>
         target_port c \<noteq> None \<and>
         list_all (\<lambda>p. case p of None \<Rightarrow> True | Some i \<Rightarrow> printable_int i)
           [target_port c, source_port c, Some (payload_size rq), rq_proxy_port rq, rq_backend_port rq] \<and>
         (truthy (rq_proxy_mode rq) \<longrightarrow> mode_of (the (rq_proxy_mode rq)) \<noteq> None) \<and>
         (dut_leg c = Some Front \<and> truthy (rq_proxy_host rq) \<longrightarrow> target_ip c = rq_proxy_host rq))"

text \<open>The values the child's parser arrives at.\<close>

definition child_values :: "run_request \<Rightarrow> string \<Rightarrow> option_values" where
  "child_values rq run_dir =
     (let c = rq_config rq;
          more = truthy (rq_proxy_mode rq) \<or> truthy (request_leg rq);
          base = default_values
            (''--target-stack'' := PStr (show_opt (target_stack c)),
             ''--role'' := PStr (role_value (dut_role c)),
             ''--dut-ip'' := PStr (show_opt (target_ip c)),
             ''--dut-iface'' := PStr (show_opt (interface c)),
             ''--payload-mode'' := PStr (payload_mode_value (rq_payload_mode rq)),
             ''--payload-size'' := PInt (payload_size rq),
             ''--live-events-log'' := PStr (packet_events_path run_dir),
             ''--capture-pcap'' := PStr (capture_file run_dir));
          opts = set_opt ''--proxy-leg'' PStr (or_none (request_leg rq))
            (set_opt ''--proxy-mode'' PStr (or_none (rq_proxy_mode rq))
            (set_opt ''--dut-source-port'' PInt (source_port c)
            (set_opt ''--dut-port'' PInt (target_port c)
            (set_opt ''--dut-mac'' PStr (or_none (target_mac c)) base))));
          conf = (if confirm_vuln_tests rq then opts(''--confirm-vuln-tests'' := PBool True) else opts);
          allowed = conf(''--allowed-targets'' := PList (map PStr (allowed_targets c)));
          dbg = (if debug rq then allowed(''--debug-log'' := PStr (debug_log_path run_dir)) else allowed)
      in set_opt ''--backend-port'' PInt (if more then rq_backend_port rq else None)
           (set_opt ''--backend-host'' PStr (if more then or_none (rq_backend_host rq) else None)
           (set_opt ''--proxy-port'' PInt (if more then rq_proxy_port rq else None)
           (set_opt ''--proxy-host'' PStr (if more then or_none (rq_proxy_host rq) else None) dbg))))"

lemma opt_ident: "opt_flag flag v = opt_flag flag (map_option (\<lambda>s. s) v)"
  by (simp add: option.map_ident)

lemma take_words:
  "opt_kind flag = Some (Store, Word, None) \<Longrightarrow>
   take_flags (opt_flag flag v @ fvs) vals = take_flags fvs (set_opt flag PStr v vals)"
  by (subst opt_ident, rule take_opt) (rule take_word)

lemma take_choices:
  "opt_kind flag = Some (Store, Word, Some cs) \<Longrightarrow> (\<And>s. v = Some s \<Longrightarrow> s \<in> set cs) \<Longrightarrow>
   take_flags (opt_flag flag v @ fvs) vals = take_flags fvs (set_opt flag PStr v vals)"
  by (subst opt_ident, rule take_opt) (simp add: take_choice)

lemma take_numbers:
  "opt_kind flag = Some (Store, Integer, None) \<Longrightarrow> (\<And>i. v = Some i \<Longrightarrow> printable_int i) \<Longrightarrow>
   take_flags (opt_flag flag (map_option idec v) @ fvs) vals = take_flags fvs (set_opt flag PInt v vals)"
  by (rule take_opt) (simp add: take_number)

lemma gated_topology:
  "(if b then concat (map (\<lambda>(flag, v). opt_flag flag v) (topology_flags rq)) else []) =
     opt_flag ''--proxy-host'' (if b then or_none (rq_proxy_host rq) else None) @
     opt_flag ''--proxy-port'' (map_option idec (if b then rq_proxy_port rq else None)) @
     opt_flag ''--backend-host'' (if b then or_none (rq_backend_host rq) else None) @
     opt_flag ''--backend-port'' (map_option idec (if b then rq_backend_port rq else None))"
  by (simp add: topology_flags_def opt_flag_def)

lemma mode_of_choice:
  "mode_of s \<noteq> None \<Longrightarrow> s \<in> set [''transparent'', ''http-connect'', ''socks5'']"
  by (auto simp: mode_of_def split: if_splits)

lemma child_parses:
  assumes "sendable rq"
  shows "parse_args (pytest_argv l (build_pytest_args l rq dir)) = Some (child_values rq dir)"
proof -
  let ?c = "rq_config rq"
  let ?more = "truthy (rq_proxy_mode rq) \<or> truthy (request_leg rq)"
  from assms have stack: "show_opt (target_stack ?c) \<in> set list_profiles"
    and ints: "\<And>i. target_port ?c = Some i \<Longrightarrow> printable_int i"
      "\<And>i. source_port ?c = Some i \<Longrightarrow> printable_int i" "printable_int (payload_size rq)"
      "\<And>i. (if b then rq_proxy_port rq else None) = Some i \<Longrightarrow> printable_int i"
      "\<And>i. (if b then rq_backend_port rq else None) = Some i \<Longrightarrow> printable_int i" for b
    by (auto simp: sendable_def Let_def show_opt_def split: if_splits)
  have mode: "s \<in> set [''transparent'', ''http-connect'', ''socks5'']" if "or_none (rq_proxy_mode rq) = Some s" for s
    using that assms by (intro mode_of_choice) (auto simp: sendable_def Let_def or_none_def split: if_splits)
  have leg: "s \<in> set [''front'', ''back'']" if some: "or_none (request_leg rq) = Some s" for s
  proof -
    obtain a where "s = leg_value a"
      using some by (auto simp: or_none_def request_leg_def split: if_splits)
    then show ?thesis by (cases a) simp_all
  qed
  have profs: "list_profiles = [''linux'', ''windows'']" by code_simp
  note k = kinds [simplified]
  have r: "role_value r \<in> set [''client'', ''server'']" for r by (cases r) simp_all
  have pm: "payload_mode_value m \<in> set [''zeros'', ''ones'', ''random'', ''custom'']" for m
    by (cases m) simp_all
  have t0: "take_flag (''--report-log'', v) vals = Some vals" for v vals
    using k(1) by (simp add: take_flag_kind)
  have t1: "take_flag (''--target-stack'', Some (show_opt (target_stack ?c))) vals =
      Some (vals(''--target-stack'' := PStr (show_opt (target_stack ?c))))" for vals
    using k(1) stack profs by (intro take_choice) simp_all
  have t2: "take_flag (''--role'', Some (role_value x)) vals = Some (vals(''--role'' := PStr (role_value x)))"
    "take_flag (''--payload-mode'', Some (payload_mode_value m)) vals =
      Some (vals(''--payload-mode'' := PStr (payload_mode_value m)))" for x m vals
    using k(1) r pm by (auto intro!: take_choice)
  have t3: "take_flag (''--payload-size'', Some (idec (payload_size rq))) vals =
      Some (vals(''--payload-size'' := PInt (payload_size rq)))" for vals
    using k(1) ints(3) by (intro take_number) simp_all
  have t4: "take_flag (''--dut-ip'', Some s) vals = Some (vals(''--dut-ip'' := PStr s))"
    "take_flag (''--dut-iface'', Some s) vals = Some (vals(''--dut-iface'' := PStr s))"
    "take_flag (''--live-events-log'', Some s) vals = Some (vals(''--live-events-log'' := PStr s))"
    "take_flag (''--capture-pcap'', Some s) vals = Some (vals(''--capture-pcap'' := PStr s))"
    "take_flag (''--debug-log'', Some s) vals = Some (vals(''--debug-log'' := PStr s))" for s vals
    using k by (auto intro!: take_word)
  have t5: "take_flags ((if b then [(''--confirm-vuln-tests'', None)] else []) @ fvs) vals =
      take_flags fvs (if b then vals(''--confirm-vuln-tests'' := PBool True) else vals)" for b fvs vals
    using k(3) by (simp add: take_flag_kind)
  have t6: "take_flags ((if b then [(''--debug-log'', Some s)] else []) @ fvs) vals =
      take_flags fvs (if b then vals(''--debug-log'' := PStr s) else vals)" for b s fvs vals
    by (simp add: t4)
  have o: "take_flags (concat (map (\<lambda>(flag, v). opt_flag flag v) (optional_flags rq)) @ fvs) vals =
      take_flags fvs (set_opt ''--proxy-leg'' PStr (or_none (request_leg rq))
        (set_opt ''--proxy-mode'' PStr (or_none (rq_proxy_mode rq))
        (set_opt ''--dut-source-port'' PInt (source_port ?c)
        (set_opt ''--dut-port'' PInt (target_port ?c)
        (set_opt ''--dut-mac'' PStr (or_none (target_mac ?c)) vals)))))" for fvs vals
    using k(2) ints(1,2) mode leg
    by (simp add: optional_flags_def take_words take_choices take_numbers)
  have tp: "take_flags (if b then concat (map (\<lambda>(flag, v). opt_flag flag v) (topology_flags rq)) else []) vals =
      Some (set_opt ''--backend-port'' PInt (if b then rq_backend_port rq else None)
           (set_opt ''--backend-host'' PStr (if b then or_none (rq_backend_host rq) else None)
           (set_opt ''--proxy-port'' PInt (if b then rq_proxy_port rq else None)
           (set_opt ''--proxy-host'' PStr (if b then or_none (rq_proxy_host rq) else None) vals))))" for b vals
    unfolding gated_topology
    using k(2) ints(4,5) take_numbers [of "''--backend-port''" "if b then rq_backend_port rq else None" "[]"]
    by (simp add: take_words take_numbers)
  have plain: "plain_targets rq" and role: "request_role rq = dut_role ?c"
    using assms by (simp_all add: sendable_def request_role_def Let_def)
  have none: "default_values ''--allowed-targets'' = PList []" using defaults(2) by simp
  have ta: "take_flags (map (\<lambda>c. (''--allowed-targets'', Some c)) cs @ fvs) vals =
      take_flags fvs (vals(''--allowed-targets'' := PList (map PStr cs)))"
    if "vals ''--allowed-targets'' = PList []" for cs fvs vals
    using take_allowed [of vals "[]" cs fvs] that by simp
  show ?thesis
    unfolding parse_args_def flags_of_command_line [OF plain] run_flags_def role
    by (simp only: append.simps append_assoc take_flags.simps option.case t0 t1 t2 t3 t4 o t5)
      (simp add: ta t6 tp set_opt_apply none child_values_def Let_def)
qed

text \<open>What the child's options hold.\<close>

lemma child_lookups:
  assumes "sendable rq"
  shows "opt_text (child_values rq dir) ''--proxy-leg'' = map_option leg_value (dut_leg (rq_config rq))"
    "opt_text (child_values rq dir) ''--role'' = Some (role_value (dut_role (rq_config rq)))"
    "opt_text (child_values rq dir) ''--dut-ip'' = target_ip (rq_config rq)"
    "opt_text (child_values rq dir) ''--dut-iface'' = interface (rq_config rq)"
    "opt_text (child_values rq dir) ''--target-stack'' = target_stack (rq_config rq)"
    "opt_text (child_values rq dir) ''--dut-mac'' = target_mac (rq_config rq)"
    "opt_int (child_values rq dir) ''--dut-port'' = target_port (rq_config rq)"
    "opt_int (child_values rq dir) ''--dut-source-port'' = source_port (rq_config rq)"
    "opt_words (child_values rq dir) ''--allowed-targets'' = allowed_targets (rq_config rq)"
    "child_values rq dir ''--confirm-vuln-tests'' = PBool (confirm_vuln_tests rq)"
    "opt_text (child_values rq dir) ''--live-events-log'' = Some (packet_events_path dir)"
    "opt_text (child_values rq dir) ''--proxy-mode'' = or_none (rq_proxy_mode rq)"
    "opt_text (child_values rq dir) ''--payload-mode'' = Some (payload_mode_value (rq_payload_mode rq))"
    "opt_int (child_values rq dir) ''--payload-size'' = Some (payload_size rq)"
    "opt_text (child_values rq dir) ''--payload-text'' = None"
    "opt_text (child_values rq dir) ''--payload-hex'' = None"
    "opt_text (child_values rq dir) ''--payload-file'' = None"
    "dut_leg (rq_config rq) = Some Front \<Longrightarrow>
       opt_text (child_values rq dir) ''--proxy-host'' = or_none (rq_proxy_host rq)"
proof -
  let ?c = "rq_config rq"
  note d = defaults [simplified]
  have leg: "or_none (request_leg rq) = map_option leg_value (dut_leg ?c)"
    by (cases "dut_leg ?c") (simp_all add: or_none_def request_leg_def)
  have texts: "target_ip ?c = Some (show_opt (target_ip ?c))" "interface ?c = Some (show_opt (interface ?c))"
    "target_stack ?c = Some (show_opt (target_stack ?c))" "or_none (target_mac ?c) = target_mac ?c"
    using assms by (auto simp: sendable_def Let_def show_opt_def or_none_def truthy_def)
  have o: "get_str (case v of None \<Rightarrow> PNone | Some x \<Rightarrow> PStr x) = v"
    "get_int (case w of None \<Rightarrow> PNone | Some x \<Rightarrow> PInt x) = w" for v w
    by (simp_all split: option.split)
  note vals = child_values_def Let_def set_opt_apply d o opt_text_def opt_int_def opt_words_def leg
  show "opt_text (child_values rq dir) ''--proxy-leg'' = map_option leg_value (dut_leg ?c)"
    "opt_text (child_values rq dir) ''--role'' = Some (role_value (dut_role ?c))"
    by (simp_all add: vals cong: option.case_cong) (simp split: option.split)
  show "opt_text (child_values rq dir) ''--dut-ip'' = target_ip ?c"
    "opt_text (child_values rq dir) ''--dut-iface'' = interface ?c"
    "opt_text (child_values rq dir) ''--target-stack'' = target_stack ?c"
    "opt_text (child_values rq dir) ''--dut-mac'' = target_mac ?c"
    using texts by (simp_all add: vals cong: option.case_cong)
  show "opt_int (child_values rq dir) ''--dut-port'' = target_port ?c"
    "opt_int (child_values rq dir) ''--dut-source-port'' = source_port ?c"
    "opt_words (child_values rq dir) ''--allowed-targets'' = allowed_targets ?c"
    "child_values rq dir ''--confirm-vuln-tests'' = PBool (confirm_vuln_tests rq)"
    "opt_text (child_values rq dir) ''--live-events-log'' = Some (packet_events_path dir)"
    "opt_text (child_values rq dir) ''--proxy-mode'' = or_none (rq_proxy_mode rq)"
    by (simp_all add: vals cong: option.case_cong)
  show "opt_text (child_values rq dir) ''--payload-mode'' = Some (payload_mode_value (rq_payload_mode rq))"
    "opt_int (child_values rq dir) ''--payload-size'' = Some (payload_size rq)"
    "opt_text (child_values rq dir) ''--payload-text'' = None"
    "opt_text (child_values rq dir) ''--payload-hex'' = None"
    "opt_text (child_values rq dir) ''--payload-file'' = None"
    by (simp_all add: vals cong: option.case_cong)
  show "opt_text (child_values rq dir) ''--proxy-host'' = or_none (rq_proxy_host rq)"
    if "dut_leg ?c = Some Front"
    using that by (simp add: vals request_leg_def cong: option.case_cong)
qed

lemma child_leg:
  assumes "sendable rq"
  shows "selected_proxy_leg (child_values rq dir) = Inr (dut_leg (rq_config rq))"
  by (cases "dut_leg (rq_config rq)")
    (simp_all add: selected_proxy_leg_def child_lookups [OF assms] enum_value_def)

lemma child_role:
  assumes "sendable rq"
  shows "effective_role (child_values rq dir) = Inr (dut_role (rq_config rq))"
  using assms
  by (simp add: effective_role_def child_leg child_lookups enum_value_def)
    (simp add: sendable_def Let_def)

lemma child_config:
  assumes "sendable rq"
  shows "dut_config_fixture rnd (child_values rq dir) = Inr (rq_config rq)"
proof -
  let ?c = "rq_config rq"
  obtain p where p: "target_port ?c = Some p" using assms by (auto simp: sendable_def Let_def)
  have target: "resolve_leg_target (dut_leg ?c) (target_ip ?c) (target_port ?c)
      (opt_text (child_values rq dir) ''--proxy-host'') pp = (target_ip ?c, target_port ?c)" for pp
  proof (cases "dut_leg ?c = Some Front")
    case True
    with assms have "truthy (rq_proxy_host rq) \<Longrightarrow> target_ip ?c = rq_proxy_host rq"
      by (simp add: sendable_def Let_def)
    then show ?thesis
      by (auto simp: resolve_leg_target_def True child_lookups(18) [OF assms True] or_none_def p)
  qed (simp add: resolve_leg_target_def)
  have c: "dut_config_defaults\<lparr>interface := interface ?c, target_ip := target_ip ?c,
      target_stack := target_stack ?c, target_mac := target_mac ?c, target_port := Some p,
      source_port := source_port ?c, allowed_targets := allowed_targets ?c,
      dut_role := dut_role ?c, dut_leg := dut_leg ?c\<rparr> = ?c"
    using assms p by (simp add: sendable_def Let_def dut_config_defaults_def)
  have "[] \<notin> set list_profiles" by code_simp
  moreover have "target_stack ?c \<in> Some ` set list_profiles" "truthy (target_ip ?c)" "truthy (interface ?c)"
    using assms by (simp_all add: sendable_def Let_def)
  ultimately have "truthy (target_stack ?c)" "truthy (target_ip ?c)" "truthy (interface ?c)"
    by auto
  then have "missing_required True ?c = []" by (simp add: missing_required_def required_fields_def)
  with c show ?thesis
    by (simp add: dut_config_fixture_def child_leg [OF assms] child_role [OF assms]
        child_lookups [OF assms] target [unfolded p] p Let_def)
qed


definition demo_request :: "payload_mode \<Rightarrow> run_request" where
  "demo_request m =
     \<lparr>rq_config = \<lparr>interface = Some ''eth0'', target_ip = Some ''10.0.0.5'', target_stack = Some ''linux'',
        target_mac = None, target_port = Some 50000, source_port = None, dut_timeout = 2,
        dut_role = Client, dut_leg = Some Front, allowed_targets = [''10.0.0.0/8'']\<rparr>,
      rq_module = Some ''tcp'', submodule = None, test_name = None, targets = [], rq_markers = [],
      rq_payload_mode = m, payload_size = 64, confirm_vuln_tests = True, debug = False,
      rq_proxy_mode = Some ''socks5'', rq_proxy_host = Some ''10.0.0.5'', rq_proxy_port = Some 1080,
      rq_backend_host = Some ''10.0.0.9'', rq_backend_port = Some 9099\<rparr>"

definition demo_layout :: layout where
  "demo_layout = \<lparr>frozen_build = False, meipass = [], source_root = ''/s'', sys_executable = ''py'',
     executable_dir = ''/e''\<rparr>"

lemma demo_sendable: "sendable (demo_request m)"
proof -
  have "printable_int 50000" "printable_int 64" "printable_int 1080" "printable_int 9099"
    "''linux'' \<in> set list_profiles" "mode_of ''socks5'' \<noteq> None"
    by code_simp+
  then show ?thesis
    by (simp add: sendable_def demo_request_def plain_targets_def resolve_role_def)
qed




text \<open>C38: a custom payload cannot be sent. The runner has no flag for its source, so for every request
  with the custom mode, which the options of the command line admit, the child's payload fixture is a usage error; every
  other mode arrives with its size.\<close>

theorem custom_payload_never_arrives:
  assumes "sendable rq"
  shows "case parse_args (pytest_argv l (build_pytest_args l rq dir)) of
      None \<Rightarrow> False
    | Some vals \<Rightarrow>
        (case (payload_settings_fixture rb vals :: 'd exn + payload_settings) of
           Inr s \<Rightarrow> rq_payload_mode rq \<noteq> Custom \<and>
             s = \<lparr>ps_mode = rq_payload_mode rq, ps_size = payload_size rq, ps_custom = None\<rparr>
         | Inl e \<Rightarrow> rq_payload_mode rq = Custom \<and> exc e = PytestUsageError)"
proof -
  have "payload_mode_of (payload_mode_value m) = Some m" for m
    by (cases m) (simp_all add: payload_mode_of_def)
  then show ?thesis
    by (auto simp: child_parses [OF assms] payload_settings_fixture_def child_lookups [OF assms]
        enum_value_def resolve_custom_source_def)
qed

lemma custom_payload_never_arrives_witness:
  "\<exists>vals. parse_args (pytest_argv demo_layout
       (build_pytest_args demo_layout (demo_request Custom) ''run'')) = Some vals \<and>
     (\<exists>e. payload_settings_fixture (\<lambda>_. Inl []) vals = (Inl e :: unit exn + payload_settings) \<and>
          exc e = PytestUsageError)"
proof -
  have "rq_payload_mode (demo_request Custom) = Custom" by (simp add: demo_request_def)
  with custom_payload_never_arrives [OF demo_sendable [of Custom], where 'd = unit and l = demo_layout and
      dir = "''run''" and rb = "\<lambda>_. Inl []"]
  show ?thesis by (auto split: option.splits sum.splits)
qed

end
