(* ===== verification/Cli.thy ===== *)
theory Cli
  imports Session Reporting Backend
begin

text \<open>
  The commands of \<open>src/cli/main.py\<close>. A command's effect is what it prints, line by line on the two
  streams, and how it ends: with an exit status or with an exception that leaves it. Parsing the
  command line is in the theory \<open>Click\<close>; the parameters are the values it passes. What they call is the
  model of the other theories.
\<close>

section \<open>The console\<close>

datatype line = Out string | Err string

datatype 'd command_end = Exit int | Raised "'d exn"

type_synonym 'd command = "'d command_end \<times> line list"

text \<open>\<open>NetstackCLI.invoke\<close>: an error of the package becomes a line and its own exit status; any other
  exception passes.\<close>

definition invoke :: "'d command \<Rightarrow> 'd command" where
  "invoke cmd =
     (case cmd of
        (Raised e, ls) \<Rightarrow>
          (case exit_code (exc e) of
             Some n \<Rightarrow> (Exit n, ls @ [Err (render ''Error'' e)])
           | None \<Rightarrow> (Raised e, ls))
      | (Exit n, ls) \<Rightarrow> (Exit n, ls))"

section \<open>Options of the commands\<close>

definition test_modules :: "string list" where
  "test_modules = sorted_texts (remdups (map spec_module catalog))"

definition test_submodules :: "string list" where
  "test_submodules =
     sorted_texts (remdups (map (\<lambda>s. the (spec_submodule s))
       (filter (\<lambda>s. truthy (spec_submodule s)) catalog)))"

fun validate_cidrs :: "string list \<Rightarrow> 'd exn + string list" where
  "validate_cidrs [] = Inr []"
| "validate_cidrs (cidr # cidrs) =
     (case ip_network cidr of
        None \<Rightarrow> raise_exc ClickBadParameter
          (py_repr cidr @ '' is not a valid CIDR range: '' @ no_ip_network cidr)
      | Some net \<Rightarrow> rbind (validate_cidrs cidrs) (\<lambda>cs. Inr (cidr # cs)))"

definition resolve_topology ::
  "(nat \<Rightarrow> nat) \<Rightarrow> string option \<Rightarrow> string \<Rightarrow> string \<Rightarrow> int option \<Rightarrow> string option \<Rightarrow> string option \<Rightarrow>
   int option \<Rightarrow> string option \<Rightarrow>
   ('d exn + proxy_leg option \<times> role \<times> string option \<times> int) \<times> line list" where
  "resolve_topology randbelow proxy_leg configured_role ip port pmode phost pport borigin =
     (case rbind (if truthy proxy_leg then rbind (enum_value ''ProxyLeg'' leg_of proxy_leg) (\<lambda>l. Inr (Some l))
                  else Inr None) (\<lambda>leg.
           rbind (enum_value ''Role'' role_of (Some configured_role)) (\<lambda>r.
             Inr (leg, resolve_role leg r))) of
        Inl e \<Rightarrow> (Inl e, [])
      | Inr (leg, r) \<Rightarrow>
          (let said = (case leg of
                 Some l \<Rightarrow> [Out (''Proxy leg ' '' @ leg_value l @ '' ' selected '' @ em_dash @
                                '' running as '' @ role_value r @ ''.'')]
               | None \<Rightarrow> [])
           in case resolve_leg_target leg (Some ip) port phost pport of
                (tip, tport) \<Rightarrow>
                  (case back_leg_requirement_error leg pmode borigin ''--proxy-mode'' ''--backend-host'' of
                     Some m \<Rightarrow> (raise_exc ClickUsageError m, said)
                   | None \<Rightarrow>
                       (case tport of
                          Some p \<Rightarrow> (Inr (leg, r, tip, p), said)
                        | None \<Rightarrow>
                            (let p = random_ephemeral_port randbelow
                             in (Inr (leg, r, tip, p),
                                 said @ [Out (''No --dut-port given '' @ em_dash @
                                   '' using random destination port '' @ idec p @ '' for this run.'')]))))))"

section \<open>After the run\<close>

text \<open>Writing a report in the format chosen, as the text of its path or the exception raised.\<close>

type_synonym 'd report_writer = "generator \<Rightarrow> run_result \<Rightarrow> string \<Rightarrow> 'd exn + string"

definition write_report ::
  "'d report_writer \<Rightarrow> run_result \<Rightarrow> string \<Rightarrow> report_format \<Rightarrow> ('d exn + unit) \<times> line list" where
  "write_report gen r dir fmt =
     (case gen (generate fmt) r (report_path dir (fmt_key fmt)) of
        Inr path \<Rightarrow> (Inr (), [Out (fmt_label fmt @ '' report: '' @ path)])
      | Inl e \<Rightarrow>
          (if is_a (exc e) PyException then
             (Inr (),
              [Err (''Could not write the '' @ fmt_label fmt @ '' report: '' @ msg e @ nl @
                 ''The run itself completed '' @ em_dash @ '' its data is in '' @ results_path dir @ '', '' @
                 ''and the report can be regenerated from it without re-testing.'')])
           else (Inl e, [])))"

definition emit_results ::
  "'d report_writer \<Rightarrow> run_result \<Rightarrow> string \<Rightarrow> string \<Rightarrow> bool \<Rightarrow> ('d exn + int) \<times> line list" where
  "emit_results gen r dir report dbg =
     (if errored r then
        (Inr (case pytest_returncode r of Some n \<Rightarrow> (if n = 0 then 2 else n) | None \<Rightarrow> 2),
         [Err (nl @ ''pytest exited with code '' @
            (case pytest_returncode r of None \<Rightarrow> ''None'' | Some n \<Rightarrow> idec n) @ '' '' @
            ''(collection/usage error or no tests). See '' @ pytest_output_path dir)])
      else
        (let counts = Out (nl @ counts_summary r) #
               (if total r = 0 then
                  [Err (''No tests ran. Check your --module/--submodule/--test selection and '' @
                     ''the target configuration. Raw output: '' @ pytest_output_path dir)]
                else []) @
               (if dbg then [Out (''Debug log: '' @ debug_log_path dir)] else []);
             status = (if 0 < failed r \<or> 0 < errors r then 1 else 0)
         in case format_by_key report of
              None \<Rightarrow> (Inr status, counts)
            | Some fmt \<Rightarrow>
                (case write_report gen r dir fmt of
                   (Inl e, ls) \<Rightarrow> (Inl e, counts @ ls)
                 | (Inr _, ls) \<Rightarrow> (Inr status, counts @ ls))))"

section \<open>run\<close>

text \<open>The command's parameters, as click passes them.\<close>

record run_params =
  a_module :: "string option"
  a_submodule :: "string option"
  a_test :: "string option"
  a_markers :: "string list"
  a_iface :: string
  a_dut_ip :: string
  a_dut_mac :: "string option"
  a_dut_port :: "int option"
  a_source_port :: "int option"
  a_stack :: string
  a_role :: string
  a_payload_mode :: string
  a_payload_size :: int
  a_allowed :: "string list"
  a_confirm :: bool
  a_debug :: bool
  a_proxy_mode :: "string option"
  a_proxy_leg :: "string option"
  a_proxy_host :: "string option"
  a_proxy_port :: "int option"
  a_backend_host :: "string option"
  a_backend_port :: int
  a_report :: string
  a_skip_preflight :: bool

definition run_config ::
  "run_params \<Rightarrow> proxy_leg option \<times> role \<times> string option \<times> int \<Rightarrow> dut_config" where
  "run_config a topo =
     (case topo of (leg, r, tip, tport) \<Rightarrow>
        dut_config_defaults\<lparr>interface := Some (a_iface a), target_ip := tip,
          target_stack := Some (a_stack a), target_mac := a_dut_mac a, target_port := Some tport,
          source_port := a_source_port a, allowed_targets := a_allowed a, dut_role := r,
          dut_leg := leg\<rparr>)"

definition run_request_of :: "run_params \<Rightarrow> dut_config \<Rightarrow> payload_mode \<Rightarrow> run_request" where
  "run_request_of a c m =
     \<lparr>rq_config = c, rq_module = a_module a, submodule = a_submodule a, test_name = a_test a,
      targets = [], rq_markers = a_markers a, rq_payload_mode = m, payload_size = a_payload_size a,
      confirm_vuln_tests = a_confirm a, debug = a_debug a, rq_proxy_mode = a_proxy_mode a,
      rq_proxy_host = a_proxy_host a, rq_proxy_port = a_proxy_port a,
      rq_backend_host = a_backend_host a, rq_backend_port = Some (a_backend_port a)\<rparr>"

text \<open>The preflight of a configuration: \<open>run_preflight\<close> on this host.\<close>

definition preflight_lines :: "preflight_result \<Rightarrow> line list" where
  "preflight_lines r = map (\<lambda>m. Out (''  '' @ m)) (render_lines r)"

text \<open>A test's line has the default label width. The outer \<open>None\<close> is a report line whose values
  have types no field declares.\<close>

definition run_suite ::
  "'d report_writer \<Rightarrow> 'd world \<Rightarrow> run_params \<Rightarrow> run_request \<Rightarrow> files \<Rightarrow>
   ('d command \<times> files) option" where
  "run_suite gen w a rq fs =
     (case run_tests w rq fs of
        None \<Rightarrow> None
      | Some (res, told, fs') \<Rightarrow>
          (let seen = map (\<lambda>t. Out (summary_line 7 t)) told
           in Some (case res of
                Inl e \<Rightarrow>
                  (if exc e = KeyboardInterrupt then
                     (Exit 130, seen @
                       [Err (nl @ ''Interrupted '' @ em_dash @ '' the test runner was stopped. Partial '' @
                          ''results were saved under reports/ and can still be reported on.'')])
                   else (Raised e, seen))
              | Inr r \<Rightarrow>
                  (case emit_results gen r (path_join ''reports'' (run_id r)) (a_report a) (a_debug a) of
                     (Inl e, ls) \<Rightarrow> (Raised e, seen @ ls)
                   | (Inr n, ls) \<Rightarrow> (Exit n, seen @ ls)), fs')))"

definition run_command ::
  "(nat \<Rightarrow> nat) \<Rightarrow> (dut_config \<Rightarrow> 'd exn + preflight_result) \<Rightarrow> 'd report_writer \<Rightarrow> 'd world \<Rightarrow>
   run_params \<Rightarrow> files \<Rightarrow> ('d command \<times> files) option" where
  "run_command randbelow preflight gen w a fs =
     (case resolve_topology randbelow (a_proxy_leg a) (a_role a) (a_dut_ip a) (a_dut_port a)
             (a_proxy_mode a) (a_proxy_host a) (a_proxy_port a) (a_backend_host a) of
        (Inl e, ls) \<Rightarrow> Some ((Raised e, ls), fs)
      | (Inr topo, ls) \<Rightarrow>
          (let c = run_config a topo
           in case (if a_skip_preflight a then Inr None
                    else case preflight c of Inl e \<Rightarrow> Inl e | Inr p \<Rightarrow> Inr (Some p)) of
                Inl e \<Rightarrow> Some ((Raised e, ls @ [Out (''Preflight connectivity check'' @ ellipsis)]), fs)
              | Inr pre \<Rightarrow>
                  (let ls1 = ls @ (case pre of
                         None \<Rightarrow> []
                       | Some p \<Rightarrow> Out (''Preflight connectivity check'' @ ellipsis) # preflight_lines p)
                   in if (case pre of None \<Rightarrow> False | Some p \<Rightarrow> \<not> ok p)
                      then Some ((Exit 2,
                        ls1 @ [Err (''Preflight failed '' @ em_dash @
                          '' aborting before running any tests.'')]), fs)
                      else case enum_value ''PayloadMode'' payload_mode_of (Some (a_payload_mode a)) of
                        Inl e \<Rightarrow> Some ((Raised e, ls1), fs)
                      | Inr m \<Rightarrow>
                          map_option (\<lambda>((en, out), fs'). ((en, ls1 @ out), fs'))
                            (run_suite gen w a (run_request_of a c m) fs))))"

section \<open>send\<close>

record send_params =
  s_proto :: string
  s_iface :: string
  s_src_ip :: string
  s_dst_ip :: string
  s_src_port :: int
  s_dst_port :: int
  s_src_mac :: string
  s_dst_mac :: string
  s_ttl :: int
  s_flags :: string
  s_mode :: string
  s_size :: int
  s_text :: "string option"
  s_hex :: "string option"
  s_file :: "string option"
  s_capture :: "string option"

definition proto_of :: "string \<Rightarrow> proto option" where
  "proto_of s = find (\<lambda>p. proto_value p = s) [TCP, UDP]"

definition send_spec ::
  "(string \<Rightarrow> string + bytes) \<Rightarrow> send_params \<Rightarrow> unit exn + custom_spec" where
  "send_spec read_bytes a =
     rbind (enum_value ''PayloadMode'' payload_mode_of (Some (s_mode a))) (\<lambda>m.
     rbind (if m = Custom
            then rbind (resolve_custom_source read_bytes (s_text a) (s_hex a) (s_file a)) (\<lambda>custom.
                 if custom = None then raise_exc ClickUsageError
                   ''--payload-mode=custom requires --payload, --payload-hex, or --payload-file''
                 else Inr custom)
            else Inr None) (\<lambda>custom.
     rbind (enum_value ''Proto'' proto_of (Some (s_proto a))) (\<lambda>pr.
       Inr \<lparr>c_proto = pr, c_src_ip = s_src_ip a, c_dst_ip = s_dst_ip a, c_src_port = s_src_port a,
            c_dst_port = s_dst_port a, c_src_mac = s_src_mac a, c_dst_mac = s_dst_mac a,
            c_ttl = s_ttl a, c_tcp_flags = s_flags a, c_payload_mode = m, c_payload_size = s_size a,
            c_custom_payload = custom\<rparr>)))"

text \<open>\<open>replies\<close> and \<open>stamps\<close> are what the interface meets; the result is the command and the interface.\<close>

definition send_command ::
  "'p scapy \<Rightarrow> (nat \<Rightarrow> bytes) \<Rightarrow> (string \<Rightarrow> string + bytes) \<Rightarrow> frame list \<Rightarrow>
   (string + 'p option) list \<Rightarrow> rat list \<Rightarrow> send_params \<Rightarrow> unit command \<times> 'p nic option" where
  "send_command S urandom read_bytes stack replies stamps a =
     (case send_spec read_bytes a of
        Inl e \<Rightarrow> ((Raised e, []), None)
      | Inr spec \<Rightarrow>
          (case send_custom_packet S urandom stack spec
                  ((new_nic (s_iface a) (if truthy (s_capture a) then s_capture a else None))
                     \<lparr>reply_script := replies, nic_times := stamps\<rparr>) of
             (Inl e, n) \<Rightarrow> ((Raised e, []), Some n)
           | (Inr None, n) \<Rightarrow> ((Exit 1, [Err ''No reply received within timeout.'']), Some n)
           | (Inr (Some reply), n) \<Rightarrow> ((Exit 0, [Out (sc_summary S reply)]), Some n)))"

section \<open>record\<close>

record record_params =
  r_iface :: string
  r_output :: string
  r_dut_ip :: "string option"
  r_filter :: "string option"
  r_count :: int
  r_duration :: "rat option"

definition effective_filter :: "record_params \<Rightarrow> string option" where
  "effective_filter a =
     (case r_filter a of Some f \<Rightarrow> Some f | None \<Rightarrow> build_host_filter (r_dut_ip a))"

definition bounded_capture :: "record_params \<Rightarrow> bool" where
  "bounded_capture a \<longleftrightarrow> r_count a \<noteq> 0 \<or> (case r_duration a of Some d \<Rightarrow> d \<noteq> 0 | None \<Rightarrow> False)"

text \<open>
  \<open>fault\<close> is what the sniffer's start leaves behind, \<open>packets\<close> the frames it handles, and
  \<open>interrupted\<close> says whether Ctrl+C ended the wait; an unbounded wait ends in no other way.
\<close>

definition record_command ::
  "'p scapy \<Rightarrow> string option \<Rightarrow> 'p list \<Rightarrow> bool \<Rightarrow> record_params \<Rightarrow> 'd command \<times> 'p recorder" where
  "record_command S fault packets interrupted a =
     (let flt = effective_filter a;
          r0 = rec_subscribe (\<lambda>_. False) (new_recorder (r_iface a) flt);
          r1 = foldl (\<lambda>r p. handle p r) (rec_start fault r0) packets;
          head = Out (''Recording on '' @ r_iface a @ '' -> '' @ r_output a @
            (if truthy flt then '' (filter: '' @ the flt @ '')'' else '' (no filter)''));
          seen = map (\<lambda>p. Out (sc_summary S p)) packets;
          stopping = Out (nl @ ''Stopping'' @ ellipsis)
      in case (if bounded_capture a \<and> \<not> interrupted
               then (case rec_join r1 of (x, r2) \<Rightarrow> (x, [head] @ seen, r2))
               else (Inr (), [head] @
                 (if bounded_capture a then [] else [Out ''Press Ctrl+C to stop.'']) @ seen @ [stopping], r1)) of
           (Inl e, ls, r2) \<Rightarrow> ((Raised e, ls), r2)
         | (Inr _, ls, r2) \<Rightarrow>
             (case rec_stop r2 of
                (Inl e, r3) \<Rightarrow> ((Raised e, ls), r3)
              | (Inr written, r3) \<Rightarrow>
                  ((Exit 0, ls @ [Out (''Wrote '' @ dec written @ '' packet(s) to '' @ r_output a)]), r3)))"

section \<open>proxy-serve\<close>

text \<open>
  \<open>es\<close> is what the backend's threads do while the command waits, \<open>ended\<close> what ends the wait. The
  outer \<open>None\<close> is a sequence of events that cannot happen.
\<close>

definition serve_command ::
  "(start_call \<Rightarrow> string option) \<Rightarrow> int \<Rightarrow> bevent list \<Rightarrow> 'd exn \<Rightarrow> string \<Rightarrow> int \<Rightarrow> bool \<Rightarrow>
   ('d command \<times> backend) option" where
  "serve_command fault chosen es ended listen_host listen_port udp =
     (case start fault chosen (new_backend listen_host listen_port udp) of
        (Inl e, b) \<Rightarrow> Some ((Raised (retype e), map Out (emitted b)), b)
      | (Inr _, b) \<Rightarrow>
          (case brun es b of
             None \<Rightarrow> None
           | Some b1 \<Rightarrow>
               (let ls = map Out (emitted b) @
                      [Out ''Waiting for the proxy DUT to connect. Press Ctrl+C to stop.''] @
                      map Out (drop (length (emitted b)) (emitted b1)) @
                      (if exc ended = KeyboardInterrupt then [Out (nl @ ''Stopping'' @ ellipsis)] else []);
                    st = stats b1; b2 = stop b1;
                    ls2 = ls @ map Out (drop (length (emitted b1)) (emitted b2)) @ [Out (stats_summary st)]
                in if tcp_connections st = 0 \<and> udp_datagrams st = 0
                   then Some ((Exit 1, ls2 @
                     [Err (''No connections were received '' @ em_dash @
                        '' the DUT never dialled this backend. '' @
                        ''Check the proxy's upstream/origin configuration and routing.'')]), b2)
                   else Some ((if exc ended = KeyboardInterrupt then Exit 0 else Raised ended, ls2), b2))))"

section \<open>Properties\<close>

text \<open>C13: the exit status of a run is its verdict. When pytest itself failed the status is pytest's; else
  it is 1 exactly if a test failed or errored and 0 otherwise; a report that cannot be written does
  not change it, and no run pytest could not make sense of counts as a pass.\<close>

theorem exit_status_is_the_verdict:
  "case emit_results gen r dir report dbg of
     (Inr n, ls) \<Rightarrow>
       (errored r \<and> pytest_returncode r = Some n \<and> 2 \<le> n \<or>
        \<not> errored r \<and> n = (if list_ex is_problem (tests r) then 1 else 0))
   | (Inl e, ls) \<Rightarrow> \<not> errored r \<and> \<not> is_a (exc e) PyException"
proof -
  have p: "list_ex is_problem (tests r) \<longleftrightarrow> 0 < failed r \<or> 0 < errors r"
    by (auto simp: list_ex_iff is_problem_def failed_def errors_def count_outcome_def filter_empty_conv)
  show ?thesis
    by (auto simp: emit_results_def write_report_def p errored_def Let_def
        split: option.splits sum.splits prod.splits if_splits)
qed

end
