(* ===== verification/TestTree.thy ===== *)
theory TestTree
  imports Catalog
begin

text \<open>
  \<open>src/gui/test_tree_widget.py\<close>: the picker's tree of modules, submodules, files and tests, built
  from the listing of \<open>tests/\<close> and the catalog; the cascade of check marks; and the queries that turn
  the marks into what is run. A click names its item by the path of child indices from the root.
  Every sequence of clicks leaves the marks consistent, what is ticked is a set of leaves on which a
  click acts in the obvious way, and the targets handed to pytest are exactly the ticked leaves.
  \<open>src/gui/test_details_panel.py\<close> shows the selected test.
\<close>

section \<open>Items\<close>

datatype check_state = Checked | Unchecked | PartiallyChecked

datatype tree_item =
  Item (it_label: string) (it_target: string) (it_spec: "test_spec option") (it_check: check_state)
    (it_children: "tree_item list")

definition make_item :: "string \<Rightarrow> string \<Rightarrow> tree_item list \<Rightarrow> tree_item" where
  "make_item label target cs = Item label target None Unchecked cs"

section \<open>Building the tree\<close>

text \<open>The listing of a directory: its entries with their names.\<close>

datatype entry = Dir (entry_name: string) (entries: "entry list") | File (entry_name: string)

definition hidden :: "string \<Rightarrow> bool" where
  "hidden n = starts_with ''_'' n"

definition is_test_file :: "string \<Rightarrow> bool" where
  "is_test_file n \<longleftrightarrow> starts_with ''test_'' n \<and> drop (length n - 3) n = ''.py''"

definition stem :: "string \<Rightarrow> string" where
  "stem n = take (length n - 3) n"

definition add_test_children :: "string \<Rightarrow> tree_item list" where
  "add_test_children rel =
     map (\<lambda>s. Item (spec_test s) (rel @ ''::'' @ spec_test s) (Some s) Unchecked [])
       (specs_for_rel_path rel)"

definition by_name :: "entry list \<Rightarrow> entry list" where
  "by_name es = sort_key entry_name es"

lemma set_by_name [simp]: "set (by_name es) = set es"
  by (simp add: by_name_def)

lemma size_entry_list [termination_simp]: "e \<in> set es \<Longrightarrow> size e < Suc (size_list size es)"
  by (induction es) auto

text \<open>\<open>here\<close> is the directory's path below the project root; the target of a directory names the module
  and the directory.\<close>

function populate_dir :: "string \<Rightarrow> string \<Rightarrow> entry \<Rightarrow> tree_item list" where
  "populate_dir m here (Dir n es) =
     (if hidden n then []
      else [make_item n (''tests/'' @ m @ ''/'' @ n)
              (concat (map (populate_dir m (here @ ''/'' @ n)) (by_name es)))])"
| "populate_dir m here (File n) =
     (if is_test_file n
      then [make_item (stem n) (here @ ''/'' @ n) (add_test_children (here @ ''/'' @ n))] else [])"
  by pat_completeness auto
termination by (relation "measure (\<lambda>(m, here, e). size e)") (auto simp: size_entry_list)

fun populate_module :: "entry \<Rightarrow> tree_item list" where
  "populate_module (Dir n es) =
     (if hidden n then []
      else [make_item n (''tests/'' @ n)
              (concat (map (populate_dir n (''tests/'' @ n)) (by_name es)))])"
| "populate_module (File n) = []"

text \<open>\<open>None\<close>: there is no \<open>tests\<close> directory.\<close>

definition populate :: "entry list option \<Rightarrow> tree_item list" where
  "populate listing =
     (case listing of None \<Rightarrow> [] | Some es \<Rightarrow> concat (map populate_module (by_name es)))"

section \<open>The cascade\<close>

text \<open>\<open>mark\<close> is \<open>setCheckState\<close> on an item followed by the descent to its children.\<close>

fun mark :: "check_state \<Rightarrow> tree_item \<Rightarrow> tree_item" where
  "mark c (Item l t sp c' cs) = Item l t sp c (map (mark c) cs)"

definition set_descendants :: "check_state \<Rightarrow> tree_item \<Rightarrow> tree_item" where
  "set_descendants c it =
     Item (it_label it) (it_target it) (it_spec it) (it_check it) (map (mark c) (it_children it))"

definition rolled_up :: "check_state list \<Rightarrow> check_state" where
  "rolled_up states =
     (if list_all (\<lambda>s. s = Checked) states then Checked
      else if list_all (\<lambda>s. s = Unchecked) states then Unchecked
      else PartiallyChecked)"

definition refresh :: "tree_item \<Rightarrow> tree_item" where
  "refresh it =
     Item (it_label it) (it_target it) (it_spec it) (rolled_up (map it_check (it_children it)))
       (it_children it)"

definition set_check :: "check_state \<Rightarrow> tree_item \<Rightarrow> tree_item" where
  "set_check c it = Item (it_label it) (it_target it) (it_spec it) c (it_children it)"

text \<open>\<open>changed\<close> is what \<open>_on_item_changed\<close> does inside the item that holds the changed one: the descent at
  the item, then each ancestor recomputed from its children, the innermost first.\<close>

fun changed :: "nat list \<Rightarrow> tree_item \<Rightarrow> tree_item" where
  "changed [] it = (if it_check it = PartiallyChecked then it else set_descendants (it_check it) it)"
| "changed (i # p) (Item l t sp c cs) =
     (if i < length cs then refresh (Item l t sp c (cs[i := changed p (cs ! i)]))
      else Item l t sp c cs)"

fun set_check_at :: "nat list \<Rightarrow> check_state \<Rightarrow> tree_item \<Rightarrow> tree_item" where
  "set_check_at [] c it = set_check c it"
| "set_check_at (i # p) c (Item l t sp c' cs) =
     (if i < length cs then Item l t sp c' (cs[i := set_check_at p c (cs ! i)])
      else Item l t sp c' cs)"

text \<open>On the whole tree: nothing happens for another column than the first.\<close>

fun on_item_changed :: "nat list \<Rightarrow> nat \<Rightarrow> tree_item list \<Rightarrow> tree_item list" where
  "on_item_changed [] column f = f"
| "on_item_changed (i # p) column f =
     (if column \<noteq> 0 \<or> length f \<le> i then f else f[i := changed p (f ! i)])"

text \<open>A click sets the item's own state, and Qt reports the change.\<close>

fun click :: "nat list \<Rightarrow> bool \<Rightarrow> tree_item list \<Rightarrow> tree_item list" where
  "click [] ticked f = f"
| "click (i # p) ticked f =
     (if length f \<le> i then f
      else on_item_changed (i # p) 0
        (f[i := set_check_at p (if ticked then Checked else Unchecked) (f ! i)]))"

section \<open>Queries\<close>

fun walk_targets :: "bool \<Rightarrow> tree_item \<Rightarrow> string list" where
  "walk_targets parent_checked (Item l t sp c cs) =
     (if c = Checked \<and> \<not> parent_checked then [t]
      else concat (map (walk_targets (c = Checked)) cs))"

definition checked_targets :: "tree_item list \<Rightarrow> string list" where
  "checked_targets f = concat (map (walk_targets False) f)"

definition spec_of :: "tree_item option \<Rightarrow> test_spec option" where
  "spec_of it = (case it of None \<Rightarrow> None | Some x \<Rightarrow> it_spec x)"

fun walk_specs :: "tree_item \<Rightarrow> test_spec list" where
  "walk_specs (Item l t sp c cs) =
     (if c = Checked then (case sp of None \<Rightarrow> [] | Some s \<Rightarrow> [s]) else []) @
     concat (map walk_specs cs)"

definition checked_specs :: "tree_item list \<Rightarrow> test_spec list" where
  "checked_specs f = concat (map walk_specs f)"

section \<open>Consistent marks\<close>

text \<open>An item with children is marked as they are together; one without is marked or not.\<close>

fun consistent :: "tree_item \<Rightarrow> bool" where
  "consistent (Item l t sp c cs) \<longleftrightarrow>
     (if cs = [] then c \<noteq> PartiallyChecked else c = rolled_up (map it_check cs)) \<and>
     list_all consistent cs"

section \<open>Clicks in one descent\<close>

text \<open>What setting a mark and the cascade do together.\<close>

fun ticked_at :: "nat list \<Rightarrow> check_state \<Rightarrow> tree_item \<Rightarrow> tree_item" where
  "ticked_at [] c it = mark c it"
| "ticked_at (i # p) c (Item l t sp c' cs) =
     (if i < length cs then refresh (Item l t sp c' (cs[i := ticked_at p c (cs ! i)]))
      else Item l t sp c' cs)"

definition tick :: "bool \<Rightarrow> check_state" where
  "tick b = (if b then Checked else Unchecked)"

lemma tick_neq [simp]: "tick b \<noteq> PartiallyChecked" "tick b = Checked \<longleftrightarrow> b" "tick b = Unchecked \<longleftrightarrow> \<not> b"
  by (simp_all add: tick_def)

lemma changed_set_check:
  "c \<noteq> PartiallyChecked \<Longrightarrow> changed p (set_check_at p c it) = ticked_at p c it"
proof (induction p arbitrary: it)
  case Nil
  then show ?case by (cases it) (simp add: set_check_def set_descendants_def)
next
  case (Cons i p)
  then show ?case by (cases it) (simp add: refresh_def)
qed

lemma click_ticked_at:
  "click p b f = (case p of [] \<Rightarrow> f | i # q \<Rightarrow> if i < length f then f[i := ticked_at q (tick b) (f ! i)] else f)"
  by (cases p) (simp_all add: changed_set_check flip: tick_def)

section \<open>Every click keeps the marks consistent\<close>

lemma rolled_up_eq:
  "ss \<noteq> [] \<Longrightarrow> list_all (\<lambda>s. s = c) ss \<Longrightarrow> c \<noteq> PartiallyChecked \<Longrightarrow> rolled_up ss = c"
  by (cases ss; cases c) (auto simp: rolled_up_def)

lemma it_check_mark [simp]: "it_check (mark c it) = c"
  by (cases it) simp

lemma consistent_mark: "c \<noteq> PartiallyChecked \<Longrightarrow> consistent (mark c it)"
proof (induction c it rule: mark.induct)
  case (1 c l t sp c' cs)
  then show ?case
    by (auto simp: list_all_iff intro!: rolled_up_eq [symmetric])
qed

lemma consistent_refresh:
  "cs \<noteq> [] \<Longrightarrow> list_all consistent cs \<Longrightarrow> consistent (refresh (Item l t sp c cs))"
  by (simp add: refresh_def)

lemma list_all_update: "list_all P xs \<Longrightarrow> P x \<Longrightarrow> list_all P (xs[i := x])"
  by (auto simp: list_all_iff dest!: set_update_subset_insert [THEN subsetD])

lemma consistent_ticked_at:
  "c \<noteq> PartiallyChecked \<Longrightarrow> consistent it \<Longrightarrow> consistent (ticked_at p c it)"
proof (induction p c it rule: ticked_at.induct)
  case (1 c it)
  then show ?case by (simp add: consistent_mark)
next
  case (2 i p c l t sp c' cs)
  show ?case
  proof (cases "i < length cs")
    case True
    with 2 have "consistent (ticked_at p c (cs ! i))" by (auto simp: list_all_length)
    with 2 True have "list_all consistent (cs[i := ticked_at p c (cs ! i)])"
      by (auto intro: list_all_update)
    with True show ?thesis by (auto intro: consistent_refresh simp del: consistent.simps)
  qed (use 2 in simp)
qed

lemma consistent_click: "list_all consistent f \<Longrightarrow> list_all consistent (click p b f)"
  by (cases p) (auto simp: click_ticked_at list_all_length nth_list_update consistent_ticked_at)

text \<open>Before any click nothing is marked.\<close>

fun unmarked :: "tree_item \<Rightarrow> bool" where
  "unmarked (Item l t sp c cs) \<longleftrightarrow> c = Unchecked \<and> list_all unmarked cs"

lemma unmarked_check: "unmarked it \<Longrightarrow> it_check it = Unchecked"
  by (cases it) simp

lemma unmarked_consistent: "unmarked it \<Longrightarrow> consistent it"
proof (induction it)
  case (Item l t sp c cs)
  have "list_all (\<lambda>s. s = Unchecked) (map it_check cs)"
    using Item.prems by (auto simp: list_all_iff intro: unmarked_check)
  then have "cs \<noteq> [] \<Longrightarrow> rolled_up (map it_check cs) = Unchecked" by (auto intro: rolled_up_eq)
  with Item show ?case by (auto simp: list_all_iff)
qed

lemma unmarked_populate_dir: "list_all unmarked (populate_dir m here e)"
proof (induction m here e rule: populate_dir.induct)
  case (1 m here n es)
  then show ?case by (auto simp: make_item_def list_all_iff)
qed (auto simp: make_item_def add_test_children_def list_all_iff)

lemma unmarked_populate: "list_all unmarked (populate es)"
proof -
  have "list_all unmarked (populate_module e)" for e
    by (cases e) (use unmarked_populate_dir in \<open>auto simp: make_item_def list_all_iff\<close>)
  then show ?thesis by (auto simp: populate_def list_all_iff split: option.splits)
qed

section \<open>What is ticked\<close>

text \<open>
  The abstract picker: the leaves, named by their paths, each ticked or not. A click ticks or unticks
  the leaves below an item, so a leaf is what the last click on it or above it said.
\<close>

definition select :: "nat list \<Rightarrow> bool \<Rightarrow> (nat list \<times> bool) list \<Rightarrow> (nat list \<times> bool) list" where
  "select p b ls = map (\<lambda>(q, c). (q, if p \<noteq> [] \<and> prefix p q then b else c)) ls"

fun last_word :: "nat list \<Rightarrow> (nat list \<times> bool) list \<Rightarrow> bool \<Rightarrow> bool" where
  "last_word q [] b = b"
| "last_word q ((p, c) # cs) b = last_word q cs (if p \<noteq> [] \<and> prefix p q then c else b)"

locale picker =
  fixes act :: "nat list \<Rightarrow> bool \<Rightarrow> 'v \<Rightarrow> 'v"
    and shown :: "'v \<Rightarrow> (nat list \<times> bool) list"
  assumes shown_act: "shown (act p b v) = select p b (shown v)"
begin

lemma shown_acts:
  "shown (foldl (\<lambda>v (p, b). act p b v) v cs) = map (\<lambda>(q, b). (q, last_word q cs b)) (shown v)"
proof (induction cs arbitrary: v)
  case (Cons c cs)
  show ?case
  proof (cases c)
    case (Pair p b)
    with Cons [of "act p b v"] show ?thesis by (auto simp: shown_act select_def)
  qed
qed (simp add: case_prod_beta)

end

fun number :: "nat \<Rightarrow> (nat list \<times> bool) list list \<Rightarrow> (nat list \<times> bool) list" where
  "number n [] = []"
| "number n (x # xs) = map (\<lambda>(p, b). (n # p, b)) x @ number (Suc n) xs"

fun leaves :: "tree_item \<Rightarrow> (nat list \<times> bool) list" where
  "leaves (Item l t sp c cs) = (if cs = [] then [([], c = Checked)] else number 0 (map leaves cs))"

definition all_leaves :: "tree_item list \<Rightarrow> (nat list \<times> bool) list" where
  "all_leaves f = number 0 (map leaves f)"

text \<open>\<open>below\<close> is \<open>select\<close> with a path that may be empty: the item itself.\<close>

definition below :: "nat list \<Rightarrow> bool \<Rightarrow> (nat list \<times> bool) list \<Rightarrow> (nat list \<times> bool) list" where
  "below p b ls = map (\<lambda>(q, c). (q, if prefix p q then b else c)) ls"

lemma below_Nil [simp]: "below p b [] = []"
  by (simp add: below_def)

lemma below_append [simp]: "below p b (xs @ ys) = below p b xs @ below p b ys"
  by (simp add: below_def)

lemma below_elsewhere: "m < n \<Longrightarrow> below (m # p) b (number n xs) = number n xs"
  by (induction xs arbitrary: n) (auto simp: below_def)

lemma below_here: "below (n # p) b (map (\<lambda>(p, b). (n # p, b)) x) = map (\<lambda>(p, b). (n # p, b)) (below p b x)"
  by (simp add: below_def case_prod_beta comp_def)

lemma below_other: "m \<noteq> n \<Longrightarrow> below (m # p) b (map (\<lambda>(p, b). (n # p, b)) x) = map (\<lambda>(p, b). (n # p, b)) x"
  by (simp add: below_def case_prod_beta comp_def)

lemma number_update:
  "number n (if i < length xs then xs[i := below p b (xs ! i)] else xs) = below ((n + i) # p) b (number n xs)"
proof (induction xs arbitrary: n i)
  case (Cons x xs)
  show ?case
  proof (cases i)
    case 0
    then show ?thesis by (simp add: below_here below_elsewhere)
  next
    case (Suc j)
    with Cons [of "Suc n" j] show ?thesis by (simp add: below_other split: if_splits)
  qed
qed simp

lemma below_all_number: "below [] b (number n xs) = number n (map (below [] b) xs)"
  by (induction xs arbitrary: n) (simp_all add: below_def case_prod_beta comp_def)

lemma leaves_mark: "c \<noteq> PartiallyChecked \<Longrightarrow> leaves (mark c it) = below [] (c = Checked) (leaves it)"
proof (induction c it rule: mark.induct)
  case (1 c l t sp c' cs)
  then have "map (\<lambda>x. leaves (mark c x)) cs = map (\<lambda>x. below [] (c = Checked) (leaves x)) cs" by simp
  then show ?case by (simp add: below_all_number comp_def) (simp add: below_def cong: map_cong)
qed

lemma leaves_refresh: "cs \<noteq> [] \<Longrightarrow> leaves (refresh (Item l t sp c cs)) = number 0 (map leaves cs)"
  by (simp add: refresh_def)

lemma map_update_at: "i < length xs \<Longrightarrow> map f (xs[i := y]) = (map f xs)[i := f y]"
  by (simp add: map_update)

lemma leaves_ticked_at:
  "c \<noteq> PartiallyChecked \<Longrightarrow> leaves (ticked_at p c it) = below p (c = Checked) (leaves it)"
proof (induction p c it rule: ticked_at.induct)
  case (1 c it)
  then show ?case by (simp add: leaves_mark)
next
  case (2 i p c l t sp c' cs)
  show ?case
  proof (cases "i < length cs")
    case True
    then have "cs \<noteq> []" by auto
    with 2 True number_update [of 0 i "map leaves cs" p "c = Checked"] show ?thesis
      by (simp add: leaves_refresh map_update del: leaves.simps) (simp add: map_update)
  next
    case False
    then show ?thesis
      using number_update [of 0 i "map leaves cs" p "c = Checked"] by (auto simp: below_def)
  qed
qed

interpretation tree: picker click all_leaves
proof
  fix p b and f :: "tree_item list"
  show "all_leaves (click p b f) = select p b (all_leaves f)"
  proof (cases p)
    case Nil
    then show ?thesis by (simp add: click_ticked_at select_def case_prod_beta)
  next
    case (Cons i q)
    then have "select p b (all_leaves f) = below (i # q) b (all_leaves f)"
      by (simp add: select_def below_def)
    with Cons number_update [of 0 i "map leaves f" q b] show ?thesis
      by (simp add: click_ticked_at all_leaves_def map_update leaves_ticked_at split: if_splits)
  qed
qed

text \<open>C18: the cascade implements a selection of leaves. Whatever the tree and the clicks, each leaf ends
  as the last click on it or on an item above it left it, and as it was if there was none.\<close>

theorem last_click_wins:
  "all_leaves (foldl (\<lambda>f (p, b). click p b f) f clicks) =
     map (\<lambda>(q, b). (q, last_word q clicks b)) (all_leaves f)"
  by (rule tree.shown_acts)

section \<open>What is run\<close>

text \<open>A target given to pytest stands for itself and everything below it.\<close>

definition covers :: "string \<Rightarrow> string \<Rightarrow> bool" where
  "covers t n \<longleftrightarrow> n = t \<or> starts_with (t @ ''/'') n \<or> starts_with (t @ ''::'') n"

fun leaf_targets :: "tree_item \<Rightarrow> (string \<times> bool) list" where
  "leaf_targets (Item l t sp c cs) =
     (if cs = [] then [(t, c = Checked)] else concat (map leaf_targets cs))"

text \<open>Names without separators, and items whose children have the names of their targets below theirs.\<close>

definition plain_name :: "string \<Rightarrow> bool" where
  "plain_name n \<longleftrightarrow> CHR ''/'' \<notin> set n \<and> CHR '':'' \<notin> set n"

definition siblings :: "string \<Rightarrow> string list \<Rightarrow> bool" where
  "siblings t ts \<longleftrightarrow>
     (\<exists>sep ns. sep \<in> {''/'', ''::''} \<and> ts = map (\<lambda>n. t @ sep @ n) ns \<and> distinct ns \<and> list_all plain_name ns)"

fun placed :: "tree_item \<Rightarrow> bool" where
  "placed (Item l t sp c cs) \<longleftrightarrow> siblings t (map it_target cs) \<and> list_all placed cs"

lemma covers_refl [simp]: "covers t t"
  by (simp add: covers_def)

lemma covers_trans: "covers a b \<Longrightarrow> covers b c \<Longrightarrow> covers a c"
  by (auto simp: covers_def starts_with_iff)

lemma covers_append: "covers t x \<longleftrightarrow> x = t \<or> (\<exists>y. x = t @ CHR ''/'' # y) \<or> (\<exists>y. x = t @ CHR '':'' # CHR '':'' # y)"
  by (auto simp: covers_def starts_with_iff)

definition first_name :: "string \<Rightarrow> string" where
  "first_name s = takeWhile (\<lambda>c. c \<noteq> CHR ''/'' \<and> c \<noteq> CHR '':'') s"

lemma first_name_plain:
  "plain_name n \<Longrightarrow> first_name n = n"
  "plain_name n \<Longrightarrow> first_name (n @ CHR ''/'' # y) = n"
  "plain_name n \<Longrightarrow> first_name (n @ CHR '':'' # y) = n"
  by (induction n) (auto simp: first_name_def plain_name_def)

lemma covered_name:
  "covers (t @ sep @ n) x \<Longrightarrow> plain_name n \<Longrightarrow> \<exists>y. x = t @ sep @ y \<and> first_name y = n"
  by (auto simp: covers_append first_name_plain)

lemma siblings_below: "siblings t ts \<Longrightarrow> u \<in> set ts \<Longrightarrow> covers t u"
  by (auto simp: siblings_def covers_append)

lemma siblings_distinct: "siblings t ts \<Longrightarrow> distinct ts"
  by (auto simp: siblings_def distinct_map inj_on_def)

lemma siblings_apart:
  assumes "siblings t ts" "u \<in> set ts" "v \<in> set ts" "covers u x" "covers v x"
  shows "u = v"
proof -
  from assms(1) obtain sep ns where ts: "ts = map (\<lambda>n. t @ sep @ n) ns" "list_all plain_name ns"
    by (auto simp: siblings_def)
  with assms obtain m n where "u = t @ sep @ m" "v = t @ sep @ n" "plain_name m" "plain_name n"
    by (auto simp: list_all_iff)
  with assms covered_name show ?thesis by blast
qed

lemma children_apart:
  assumes "siblings t (map it_target cs)" "d \<in> set cs" "e \<in> set cs"
    "covers (it_target d) x" "covers (it_target e) x"
  shows "d = e"
proof -
  have "it_target d = it_target e" using assms siblings_apart by (metis image_eqI list.set_map)
  with siblings_distinct [OF assms(1)] assms show ?thesis by (auto simp: distinct_map inj_on_def)
qed

lemma leaves_covered: "placed it \<Longrightarrow> (n, b) \<in> set (leaf_targets it) \<Longrightarrow> covers (it_target it) n"
proof (induction it)
  case (Item l t sp c cs)
  show ?case
  proof (cases "cs = []")
    case False
    with Item.prems obtain d where d: "d \<in> set cs" "(n, b) \<in> set (leaf_targets d)" by auto
    with Item have "covers (it_target d) n" by (auto simp: list_all_iff)
    moreover have "covers t (it_target d)"
      using Item.prems d siblings_below by auto
    ultimately show ?thesis by (auto intro: covers_trans)
  qed (use Item.prems in simp)
qed

lemma targets_covered: "placed it \<Longrightarrow> u \<in> set (walk_targets b it) \<Longrightarrow> covers (it_target it) u"
proof (induction b it rule: walk_targets.induct)
  case (1 b l t sp c cs)
  show ?case
  proof (cases "c = Checked \<and> \<not> b")
    case False
    with 1(3) obtain d where d: "d \<in> set cs" "u \<in> set (walk_targets (c = Checked) d)"
      by (auto split: if_splits)
    with 1 False have "covers (it_target d) u" by (auto simp: list_all_iff)
    moreover have "covers t (it_target d)"
      using 1(2) d siblings_below by auto
    ultimately show ?thesis by (auto intro: covers_trans)
  qed (use 1(3) in simp)
qed

lemma checked_leaves:
  "consistent it \<Longrightarrow> it_check it = Checked \<Longrightarrow> (n, b) \<in> set (leaf_targets it) \<Longrightarrow> b"
proof (induction it)
  case (Item l t sp c cs)
  show ?case
  proof (cases "cs = []")
    case False
    with Item.prems have "rolled_up (map it_check cs) = Checked" by simp
    then have "list_all (\<lambda>d. it_check d = Checked) cs"
      by (auto simp: rolled_up_def list_all_iff split: if_splits)
    with Item False show ?thesis by (auto simp: list_all_iff)
  qed (use Item.prems in simp)
qed

text \<open>Among siblings a leaf is covered only by targets of its own branch.\<close>

lemma branch_targets:
  assumes "siblings t (map it_target cs)" "list_all placed cs" "d \<in> set cs"
    "(n, b) \<in> set (leaf_targets d)"
  shows "list_ex (\<lambda>u. covers u n) (concat (map (walk_targets p) cs)) \<longleftrightarrow>
    list_ex (\<lambda>u. covers u n) (walk_targets p d)"
proof -
  have d: "covers (it_target d) n" using assms leaves_covered by (auto simp: list_all_iff)
  have "e = d" if "e \<in> set cs" "u \<in> set (walk_targets p e)" "covers u n" for e u
  proof -
    have "covers (it_target e) n"
      using that assms(2) targets_covered covers_trans by (meson list_all_iff)
    then show ?thesis using children_apart [OF assms(1)] that assms(3) d by blast
  qed
  with assms(3) show ?thesis by (auto simp: list_ex_iff)
qed

lemma leaf_ticked_iff:
  "placed it \<Longrightarrow> consistent it \<Longrightarrow> (n, b) \<in> set (leaf_targets it) \<Longrightarrow>
   b \<longleftrightarrow> list_ex (\<lambda>u. covers u n) (walk_targets False it)"
proof (induction it)
  case (Item l t sp c cs)
  show ?case
  proof (cases "c = Checked")
    case True
    with Item.prems checked_leaves [of "Item l t sp c cs" n b] leaves_covered [of "Item l t sp c cs" n b]
    show ?thesis by (simp del: leaf_targets.simps)
  next
    case False
    show ?thesis
    proof (cases "cs = []")
      case False
      with Item.prems obtain d where d: "d \<in> set cs" "(n, b) \<in> set (leaf_targets d)" by auto
      with Item have "b \<longleftrightarrow> list_ex (\<lambda>u. covers u n) (walk_targets False d)"
        by (auto simp: list_all_iff simp del: leaf_targets.simps)
      with branch_targets [of t cs d n b False] d Item.prems \<open>c \<noteq> Checked\<close> show ?thesis by simp
    qed (use Item.prems False in simp)
  qed
qed

text \<open>Clicks leave everything but the marks as it is.\<close>

lemma it_target_mark [simp]: "it_target (mark c it) = it_target it"
  by (cases it) simp

lemma placed_mark [simp]: "placed (mark c it) = placed it"
proof (induction c it rule: mark.induct)
  case (1 c l t sp c' cs)
  then show ?case by (auto simp: list_all_iff comp_def)
qed

lemma mark_mark [simp]: "mark d (mark c it) = mark d it"
  by (induction c it rule: mark.induct) simp

lemma mark_ticked_at [simp]: "mark d (ticked_at p c it) = mark d it"
proof (induction p c it rule: ticked_at.induct)
  case (2 i p c l t sp c' cs)
  then show ?case
    by (auto simp: refresh_def map_update list_update_same_conv)
qed simp

lemma marks_only: "map (mark d) (click p b f) = map (mark d) f"
  by (auto simp: click_ticked_at map_update list_update_same_conv split: list.splits)

lemma placed_ticked_at: "placed (ticked_at p c it) = placed it" "it_target (ticked_at p c it) = it_target it"
  using placed_mark [of Unchecked "ticked_at p c it"] placed_mark [of Unchecked it]
    it_target_mark [of Unchecked "ticked_at p c it"] it_target_mark [of Unchecked it]
  by simp_all

text \<open>The listings the tree is built from: plain and distinct names, no directory below a submodule.\<close>

fun tidy :: "nat \<Rightarrow> entry \<Rightarrow> bool" where
  "tidy k (File n) \<longleftrightarrow> plain_name n"
| "tidy k (Dir n es) \<longleftrightarrow>
     hidden n \<or> plain_name n \<and> 0 < k \<and> distinct (map entry_name es) \<and> list_all (tidy (k - 1)) es"

definition tidy_listing :: "entry list option \<Rightarrow> bool" where
  "tidy_listing listing \<longleftrightarrow>
     (case listing of None \<Rightarrow> True | Some es \<Rightarrow> distinct (map entry_name es) \<and> list_all (tidy 2) es)"

fun shown_entry :: "entry \<Rightarrow> bool" where
  "shown_entry (Dir n es) \<longleftrightarrow> \<not> hidden n"
| "shown_entry (File n) \<longleftrightarrow> is_test_file n"

lemma distinct_by_name: "distinct (map entry_name es) \<Longrightarrow> distinct (map entry_name (by_name es))"
  by (simp add: by_name_def distinct_map)

lemma placed_file: "placed (make_item l rel (add_test_children rel))"
proof -
  let ?ss = "specs_for_rel_path rel"
  have "map it_target (add_test_children rel) = map (\<lambda>n. rel @ ''::'' @ n) (map spec_test ?ss)"
    by (simp add: add_test_children_def comp_def)
  moreover have "list_all plain_name (map spec_test ?ss)"
    using plain by (auto simp: specs_of_file list_all_iff plain_name_def plain_names_def)
  ultimately have "siblings rel (map it_target (add_test_children rel))"
    unfolding siblings_def using tests_of_file_distinct
    by (intro exI [of _ "''::''"] exI [of _ "map spec_test ?ss"]) simp
  moreover have "list_all placed (add_test_children rel)"
    by (auto simp: add_test_children_def list_all_iff siblings_def)
  ultimately show ?thesis by (simp add: make_item_def)
qed

lemma siblings_named:
  assumes "\<And>e. e \<in> set es \<Longrightarrow>
      map it_target (p e) = (if shown_entry e then [here @ ''/'' @ entry_name e] else [])"
    "distinct (map entry_name es)" "\<And>e. e \<in> set es \<Longrightarrow> shown_entry e \<Longrightarrow> plain_name (entry_name e)"
  shows "siblings here (map it_target (concat (map p es)))"
proof -
  have "map it_target (concat (map p es)) = map (\<lambda>n. here @ ''/'' @ n) (map entry_name (filter shown_entry es))"
    using assms(1) by (induction es) simp_all
  moreover have "distinct (map entry_name (filter shown_entry es))"
    using assms(2) by (simp add: distinct_map_filter)
  moreover have "list_all plain_name (map entry_name (filter shown_entry es))"
    using assms(3) by (auto simp: list_all_iff)
  ultimately show ?thesis unfolding siblings_def by (intro exI [of _ "''/''"]) blast
qed

lemma tidy_plain: "tidy k e \<Longrightarrow> shown_entry e \<Longrightarrow> plain_name (entry_name e)"
  by (cases e) auto

lemma populate_dir_placed:
  "tidy k e \<Longrightarrow> k \<le> 1 \<Longrightarrow> (k = 1 \<longrightarrow> here = ''tests/'' @ m) \<Longrightarrow>
   list_all placed (populate_dir m here e) \<and>
   map it_target (populate_dir m here e) = (if shown_entry e then [here @ ''/'' @ entry_name e] else [])"
proof (induction m here e arbitrary: k rule: populate_dir.induct)
  case (1 m here n es)
  show ?case
  proof (cases "hidden n")
    case False
    with 1 have k: "k = 1" "here = ''tests/'' @ m" and es: "distinct (map entry_name es)" "list_all (tidy 0) es"
      by (cases k; simp)+
    let ?p = "populate_dir m (here @ ''/'' @ n)"
    have ih: "list_all placed (?p e) \<and>
        map it_target (?p e) = (if shown_entry e then [(here @ ''/'' @ n) @ ''/'' @ entry_name e] else [])"
      if "e \<in> set (by_name es)" for e
      using 1(1) [of e 0] False that es by (auto simp: list_all_iff)
    have "siblings (here @ ''/'' @ n) (map it_target (concat (map ?p (by_name es))))"
      using ih es tidy_plain [of 0] by (intro siblings_named distinct_by_name) (auto simp: list_all_iff)
    moreover have "list_all placed (concat (map ?p (by_name es)))"
      using ih by (auto simp: list_all_iff)
    ultimately show ?thesis using False k by (simp add: make_item_def)
  qed simp
next
  case (2 m here n)
  show ?case using placed_file [of "stem n" "here @ ''/'' @ n"] by (simp add: make_item_def)
qed

lemma populate_placed:
  assumes "tidy_listing listing"
  shows "siblings ''tests'' (map it_target (populate listing)) \<and> list_all placed (populate listing)"
proof (cases listing)
  case None
  then show ?thesis by (auto simp: populate_def siblings_def)
next
  case (Some es)
  with assms have es: "distinct (map entry_name es)" "list_all (tidy 2) es" by (simp_all add: tidy_listing_def)
  have m: "list_all placed (populate_module e) \<and> map it_target (populate_module e) =
      (if shown_entry e \<and> (\<exists>n es. e = Dir n es) then [''tests'' @ ''/'' @ entry_name e] else [])"
    if "e \<in> set es" for e
  proof (cases e)
    case (Dir n fs)
    show ?thesis
    proof (cases "hidden n")
      case False
      let ?p = "populate_dir n (''tests/'' @ n)"
      from that es Dir False have fs: "distinct (map entry_name fs)" "list_all (tidy 1) fs"
        by (auto simp: list_all_iff)
      have ih: "list_all placed (?p e) \<and>
          map it_target (?p e) = (if shown_entry e then [(''tests/'' @ n) @ ''/'' @ entry_name e] else [])"
        if "e \<in> set (by_name fs)" for e
        using populate_dir_placed [of 1 e "''tests/'' @ n" n] that fs by (auto simp: list_all_iff)
      have "siblings (''tests/'' @ n) (map it_target (concat (map ?p (by_name fs))))"
        using ih fs tidy_plain [of 1] by (intro siblings_named distinct_by_name) (auto simp: list_all_iff)
      moreover have "list_all placed (concat (map ?p (by_name fs)))"
        using ih by (auto simp: list_all_iff)
      ultimately show ?thesis using Dir False by (simp add: make_item_def)
    qed (simp add: Dir)
  qed simp
  let ?dirs = "filter (\<lambda>e. \<exists>n es. e = Dir n es) (by_name es)"
  have "populate listing = concat (map populate_module ?dirs)"
  proof -
    have "concat (map populate_module xs) = concat (map populate_module (filter (\<lambda>e. \<exists>n es. e = Dir n es) xs))" for xs
    proof (induction xs)
      case (Cons x xs)
      then show ?case by (cases x) simp_all
    qed simp
    then show ?thesis by (simp add: populate_def Some)
  qed
  moreover have "siblings ''tests'' (map it_target (concat (map populate_module ?dirs)))"
    using m es tidy_plain [of 2] distinct_by_name [OF es(1)]
    by (intro siblings_named) (auto simp: list_all_iff distinct_map_filter)
  moreover have "list_all placed (concat (map populate_module ?dirs))"
    using m by (auto simp: list_all_iff)
  ultimately show ?thesis by simp
qed

text \<open>No target is inside another.\<close>

definition no_overlap :: "string list \<Rightarrow> bool" where
  "no_overlap us \<longleftrightarrow> sorted_wrt (\<lambda>u v. \<not> covers u v \<and> \<not> covers v u) us"

lemma siblings_tl:
  assumes "siblings t (x # xs)"
  shows "siblings t xs"
proof -
  from assms obtain sep ns where s: "sep \<in> {''/'', ''::''}"
    "x # xs = map (\<lambda>n. t @ sep @ n) ns" "distinct ns" "list_all plain_name ns"
    unfolding siblings_def by (elim exE conjE) rule
  obtain n ms where ns: "ns = n # ms" using s(2) by (cases ns) simp_all
  from s(2-) have "xs = map (\<lambda>n. t @ sep @ n) ms" "distinct ms" "list_all plain_name ms"
    unfolding ns by (simp_all only: list.map list.inject distinct.simps list.pred_inject)
  with s(1) show ?thesis unfolding siblings_def by blast
qed

lemma no_overlap_branches:
  assumes "siblings t (map it_target cs)" "list_all placed cs" "list_all (\<lambda>d. no_overlap (walk_targets p d)) cs"
  shows "no_overlap (concat (map (walk_targets p) cs))"
  using assms
proof (induction cs)
  case (Cons d cs)
  have "\<not> covers u v \<and> \<not> covers v u"
    if e: "e \<in> set cs" "v \<in> set (walk_targets p e)" and u: "u \<in> set (walk_targets p d)" for e u v
  proof -
    have below: "covers (it_target d) u" "covers (it_target e) v"
      using Cons.prems e u targets_covered by (auto simp: list_all_iff)
    have "d \<noteq> e" using siblings_distinct [OF Cons.prems(1)] e by auto
    with children_apart [OF Cons.prems(1), of d e] below e covers_trans show ?thesis
      by (metis list.set_intros)
  qed
  with Cons siblings_tl [of t] show ?case by (auto simp: no_overlap_def sorted_wrt_append)
qed (simp add: no_overlap_def)

lemma no_overlap_walk: "placed it \<Longrightarrow> no_overlap (walk_targets b it)"
proof (induction b it rule: walk_targets.induct)
  case (1 b l t sp c cs)
  show ?case
  proof (cases "c = Checked \<and> \<not> b")
    case True
    then show ?thesis by (simp add: no_overlap_def)
  next
    case False
    with 1 have "list_all (\<lambda>d. no_overlap (walk_targets (c = Checked) d)) cs" by (auto simp: list_all_iff)
    with 1(2) False no_overlap_branches [of t cs "c = Checked"] show ?thesis by auto
  qed
qed

lemma placed_clicks:
  "siblings t (map it_target f) \<and> list_all placed f \<Longrightarrow>
   siblings t (map it_target (foldl (\<lambda>f (p, b). click p b f) f cs)) \<and>
   list_all placed (foldl (\<lambda>f (p, b). click p b f) f cs)"
proof (induction cs arbitrary: f)
  case (Cons c cs)
  obtain p b where c: "c = (p, b)" by (cases c)
  have "map it_target (click p b f) = map it_target f"
    using arg_cong [OF marks_only [of Unchecked p b f], of "map it_target"] by (simp add: comp_def)
  moreover have "list_all id (map placed (click p b f)) = list_all id (map placed f)"
    using arg_cong [OF marks_only [of Unchecked p b f], of "map placed"] by (simp add: comp_def)
  then have "list_all placed (click p b f) = list_all placed f" by (simp add: list.pred_map comp_def)
  ultimately show ?case using Cons c by simp
qed simp

definition clicked :: "entry list option \<Rightarrow> (nat list \<times> bool) list \<Rightarrow> tree_item list" where
  "clicked listing clicks = foldl (\<lambda>f (p, b). click p b f) (populate listing) clicks"

lemma clicked_consistent: "list_all consistent (clicked listing clicks)"
proof (induction clicks rule: rev_induct)
  case Nil
  show ?case using unmarked_populate [of listing]
    by (auto simp: clicked_def list_all_iff intro: unmarked_consistent)
next
  case (snoc c cs)
  then show ?case by (cases c) (simp add: clicked_def consistent_click)
qed


text \<open>C15: what is ticked is what is run. For a tidy listing and any clicks, a leaf of the tree is ticked
  exactly if one of the targets handed to pytest is the leaf's or a directory or file above it, and
  no target is given twice or inside another.\<close>

theorem ticked_is_run:
  assumes "tidy_listing listing"
  shows "let f = clicked listing clicks; ts = checked_targets f in
    list_all (\<lambda>(n, ticked). ticked \<longleftrightarrow> list_ex (\<lambda>t. covers t n) ts) (concat (map leaf_targets f)) \<and>
    no_overlap ts"
proof -
  let ?f = "clicked listing clicks"
  have p: "siblings ''tests'' (map it_target ?f)" "list_all placed ?f"
    using placed_clicks [OF populate_placed [OF assms], of clicks] by (simp_all add: clicked_def)
  have "b \<longleftrightarrow> list_ex (\<lambda>t. covers t n) (checked_targets ?f)"
    if d: "d \<in> set ?f" "(n, b) \<in> set (leaf_targets d)" for d n b
    using branch_targets [OF p d, of False] leaf_ticked_iff [of d n b] p(2) clicked_consistent d
    by (simp add: checked_targets_def list_all_iff)
  moreover have "no_overlap (checked_targets ?f)"
    unfolding checked_targets_def
    using p no_overlap_walk by (intro no_overlap_branches) (auto simp: list_all_iff)
  ultimately show ?thesis by (auto simp: Let_def list_all_iff)
qed

definition demo_listing :: "entry list option" where
  "demo_listing = Some [Dir ''udp'' [File ''test_udp_checksum.py'', File ''conftest.py''],
     Dir ''tcp'' [File ''__init__.py'', Dir ''__pycache__'' [], Dir ''syn'' [File ''test_syn_flood.py'']]]"

lemma ticked_is_run_witness:
  "\<exists>f. f = clicked demo_listing [([0, 0], True), ([1], True), ([0, 0, 0], False)] \<and>
     list_all (\<lambda>(n, ticked). ticked \<longleftrightarrow> list_ex (\<lambda>t. covers t n) (checked_targets f))
       (concat (map leaf_targets f))"
proof -
  have "tidy_listing demo_listing"
    by (simp add: demo_listing_def tidy_listing_def plain_name_def hidden_def starts_with_def)
  from ticked_is_run [OF this] show ?thesis by (simp add: Let_def)
qed

section \<open>The details of the selected test\<close>

text \<open>\<open>TestDetailsPanel.show_spec\<close>: the title, the text of each chip with whether it is visible, and the
  description.\<close>

record details_panel =
  d_title :: string
  d_chips :: "(string \<times> bool) list"
  d_description :: string

definition chip_slots :: nat where "chip_slots = 3"

definition details_placeholder :: string where
  "details_placeholder = ''Select a test in the tree to see what it checks and its RFC connection.''"

definition set_chips :: "string list \<Rightarrow> (string \<times> bool) list" where
  "set_chips texts =
     map (\<lambda>s. (s, s \<noteq> [])) (take chip_slots (texts @ replicate chip_slots []))"

definition show_spec :: "test_spec option \<Rightarrow> details_panel" where
  "show_spec sp =
     (case sp of
        None \<Rightarrow> \<lparr>d_title = ''Test details'', d_chips = set_chips [], d_description = details_placeholder\<rparr>
      | Some s \<Rightarrow>
          \<lparr>d_title = spec_title s,
           d_chips = set_chips ([rfc s, ''roles: '' @ role_labels s] @
             (if spec_markers s \<noteq> [] then [''markers: '' @ join '', '' (spec_markers s)] else [])),
           d_description = description s @ nl @ nl @ spec_nodeid s\<rparr>)"

end
