(* ===== verification/RunController.thy ===== *)
theory RunController
  imports Runner
begin

text \<open>
  \<open>src/gui/run_controller.py\<close>: the same run as the command line's, driven by the callbacks of an event
  loop instead of a loop of its own. A callback returns the signals it emits, the controller and the
  files; what the process wrote is what its two files hold at each tick and at the end. The theorems
  say that however the callbacks fall, the window is given what \<open>stream_run\<close> computes, and that every
  run ends.
\<close>

section \<open>The controller\<close>

datatype 'd signal =
    TestSignal test_event
  | PacketSignal packet_event
  | OutputLine string
  | FinishedSignal run_result
  | FailedSignal string
  | SaveFailedSignal string
  | StoppedSignal
  | SlotRaised "'d exn"

text \<open>\<open>SlotRaised\<close> is an exception that leaves the slot. \<open>rc_running\<close>: whether there is a process, and
  whether it runs; \<open>rc_timer\<close>: whether the poll timer is active.\<close>

record controller =
  rc_running :: "bool option"
  rc_timer :: bool
  rc_result :: "run_result option"
  rc_dir :: "string option"
  rc_report_offset :: nat
  rc_events_offset :: nat
  rc_stopping :: bool

definition new_controller :: controller where
  "new_controller =
     \<lparr>rc_running = None, rc_timer = False, rc_result = None, rc_dir = None, rc_report_offset = 0,
      rc_events_offset = 0, rc_stopping = False\<rparr>"

text \<open>\<open>start\<close>: the signals, the process started, if it got that far, and the controller.\<close>

definition start_run ::
  "'d world \<Rightarrow> run_request \<Rightarrow> controller \<Rightarrow> 'd signal list \<times> string list option \<times> controller" where
  "start_run w rq c =
     (case new_run_dir (w_layout w) (w_started w) (w_hex6 w) (w_mkdir w) of
        Inl e \<Rightarrow> ([FailedSignal (msg (e :: 'd exn))], None, c)
      | Inr (rid, dir) \<Rightarrow>
          ([], Some (build_pytest_args (w_layout w) rq dir),
           c\<lparr>rc_dir := Some dir, rc_report_offset := 0, rc_events_offset := 0, rc_stopping := False,
             rc_result := Some (new_run_result rid (w_started w) (w_system w) rq),
             rc_running := Some True, rc_timer := True\<rparr>))"

definition stop_run :: "controller \<Rightarrow> controller" where
  "stop_run c =
     (if rc_running c = Some True then c\<lparr>rc_stopping := True\<rparr> else c\<lparr>rc_timer := False\<rparr>)"

definition drain :: "'d world \<Rightarrow> snapshot \<Rightarrow> controller \<Rightarrow> ('d signal list \<times> controller) option" where
  "drain w snap c =
     (case (rc_dir c, rc_result c) of
        (Some _, Some r) \<Rightarrow>
          (case drain_test_events (parse_test w) (report_file snap) (rc_report_offset c) r of
             None \<Rightarrow> None
           | Some (ro, r1, seen) \<Rightarrow>
               (case drain_packet_events (parse_packet w) (events_file snap) (rc_events_offset c) r1 of
                  None \<Rightarrow> None
                | Some (eo, r2) \<Rightarrow>
                    Some (map TestSignal seen @
                        map PacketSignal (drop (length (packet_events r1)) (packet_events r2)),
                      c\<lparr>rc_result := Some r2, rc_report_offset := ro, rc_events_offset := eo\<rparr>)))
      | _ \<Rightarrow> Some ([], c))"

text \<open>\<open>_finalize\<close>: the run's result is stamped before it is saved, and stays so if saving fails.\<close>

definition finalize ::
  "'d world \<Rightarrow> int option \<Rightarrow> controller \<Rightarrow> files \<Rightarrow>
   'd signal list \<times> ('d exn + run_result) \<times> controller \<times> files" where
  "finalize w returncode c fs =
     (case (rc_result c, rc_dir c) of
        (Some r, Some dir) \<Rightarrow>
          (let stamped = r\<lparr>pytest_returncode := returncode, finished_at := Some (w_ended w)\<rparr>;
               c' = c\<lparr>rc_result := Some stamped\<rparr>
           in case (finalize_run (w_dumps w) (w_save w) (w_ended w) r dir returncode fs
                      :: ('d exn + run_result) \<times> files) of
                (Inr res, fs') \<Rightarrow> ([], Inr res, c', fs')
              | (Inl e, fs') \<Rightarrow>
                  (if is_a (exc e) RunArtifactError then ([SaveFailedSignal (msg e)], Inr stamped, c', fs')
                   else ([], Inl e, c', fs')))
      | _ \<Rightarrow>
          ([], raise_exc RunArtifactError ''There is no run to finalize; start() was never called.'',
           c, fs))"

definition report_finished ::
  "'d world \<Rightarrow> int option \<Rightarrow> controller \<Rightarrow> files \<Rightarrow> 'd signal list \<times> controller \<times> files" where
  "report_finished w returncode c fs =
     (case finalize w returncode c fs of
        (sigs, Inr r, c', fs') \<Rightarrow> (sigs @ [FinishedSignal r], c', fs')
      | (sigs, Inl e, c', fs') \<Rightarrow> (sigs @ [SlotRaised e], c', fs'))"

datatype process_error = FailedToStart | OtherError
datatype exit_status = NormalExit | CrashExit

definition on_error ::
  "'d world \<Rightarrow> process_error \<Rightarrow> string \<Rightarrow> controller \<Rightarrow> files \<Rightarrow> 'd signal list \<times> controller \<times> files" where
  "on_error w err error_string c fs =
     (if err \<noteq> FailedToStart then ([], c, fs)
      else
        (let c1 = c\<lparr>rc_timer := False\<rparr>;
             reason = (if rc_running c = None then ''unknown error'' else error_string);
             sig = FailedSignal (''Could not start the test runner: '' @ reason @ ''. Check that the Python '' @
               ''interpreter and the test tree are reachable from the project directory.'')
         in if rc_result c1 \<noteq> None \<and> rc_dir c1 \<noteq> None
            then (case report_finished w None c1 fs of (sigs, c2, fs') \<Rightarrow> (sig # sigs, c2, fs'))
            else ([sig], c1, fs)))"

definition on_output :: "bytes \<Rightarrow> controller \<Rightarrow> 'd signal list" where
  "on_output chunk c =
     (if rc_running c = None then [] else map OutputLine (splitlines (decode_replace chunk)))"

definition on_finished ::
  "'d world \<Rightarrow> int \<Rightarrow> exit_status \<Rightarrow> snapshot \<Rightarrow> controller \<Rightarrow> files \<Rightarrow>
   ('d signal list \<times> controller \<times> files) option" where
  "on_finished w code st snap c fs =
     (case drain w snap (c\<lparr>rc_timer := False\<rparr>) of
        None \<Rightarrow> None
      | Some (sigs, c1) \<Rightarrow>
          (let stopped = rc_stopping c1 \<or> st = CrashExit; c2 = c1\<lparr>rc_stopping := False\<rparr>
           in case report_finished w (if stopped then None else Some code) c2 fs of
                (sigs', c3, fs') \<Rightarrow>
                  Some (sigs @ (if stopped then [StoppedSignal] else []) @ sigs', c3, fs')))"

section \<open>The event loop\<close>

text \<open>What the event loop delivers. The timer ticks only while it is active; a process that failed to
  start or finished no longer runs when that is reported.\<close>

datatype gui_event =
    Tick snapshot
  | Output bytes
  | StopPressed
  | ErrorOccurred process_error string
  | ProcessFinished int exit_status snapshot

fun deliver ::
  "'d world \<Rightarrow> gui_event \<Rightarrow> controller \<times> files \<Rightarrow> ('d signal list \<times> controller \<times> files) option" where
  "deliver w (Tick snap) (c, fs) =
     (if rc_timer c then map_option (\<lambda>(sigs, c'). (sigs, c', fs)) (drain w snap c) else Some ([], c, fs))"
| "deliver w (Output chunk) (c, fs) = Some (on_output chunk c, c, fs)"
| "deliver w StopPressed (c, fs) = Some ([], stop_run c, fs)"
| "deliver w (ErrorOccurred err s) (c, fs) =
     Some (on_error w err s (if err = FailedToStart then c\<lparr>rc_running := map_option (\<lambda>_. False) (rc_running c)\<rparr> else c) fs)"
| "deliver w (ProcessFinished code st snap) (c, fs) =
     on_finished w code st snap (c\<lparr>rc_running := map_option (\<lambda>_. False) (rc_running c)\<rparr>) fs"

fun play ::
  "'d world \<Rightarrow> gui_event list \<Rightarrow> controller \<times> files \<Rightarrow> ('d signal list \<times> controller \<times> files) option" where
  "play w [] s = Some ([], s)"
| "play w (ev # evs) s =
     (case deliver w ev s of
        None \<Rightarrow> None
      | Some (sigs, s') \<Rightarrow> map_option (\<lambda>(sigs', s''). (sigs @ sigs', s'')) (play w evs s'))"

text \<open>What the window is told.\<close>

definition tests_told :: "'d signal list \<Rightarrow> test_event list" where
  "tests_told sigs = concat (map (\<lambda>s. case s of TestSignal t \<Rightarrow> [t] | _ \<Rightarrow> []) sigs)"

definition packets_told :: "'d signal list \<Rightarrow> packet_event list" where
  "packets_told sigs = concat (map (\<lambda>s. case s of PacketSignal p \<Rightarrow> [p] | _ \<Rightarrow> []) sigs)"

definition results_told :: "'d signal list \<Rightarrow> run_result list" where
  "results_told sigs = concat (map (\<lambda>s. case s of FinishedSignal r \<Rightarrow> [r] | _ \<Rightarrow> []) sigs)"

definition saves_failed :: "'d signal list \<Rightarrow> string list" where
  "saves_failed sigs = concat (map (\<lambda>s. case s of SaveFailedSignal m \<Rightarrow> [m] | _ \<Rightarrow> []) sigs)"

lemma told_append [simp]:
  "tests_told (s @ t) = tests_told s @ tests_told t" "packets_told (s @ t) = packets_told s @ packets_told t"
  "results_told (s @ t) = results_told s @ results_told t" "saves_failed (s @ t) = saves_failed s @ saves_failed t"
  by (simp_all add: tests_told_def packets_told_def results_told_def saves_failed_def)

lemma told_Cons [simp]:
  "tests_told (x # s) = (case x of TestSignal t \<Rightarrow> [t] | _ \<Rightarrow> []) @ tests_told s"
  "packets_told (x # s) = (case x of PacketSignal p \<Rightarrow> [p] | _ \<Rightarrow> []) @ packets_told s"
  "results_told (x # s) = (case x of FinishedSignal r \<Rightarrow> [r] | _ \<Rightarrow> []) @ results_told s"
  "saves_failed (x # s) = (case x of SaveFailedSignal m \<Rightarrow> [m] | _ \<Rightarrow> []) @ saves_failed s"
  by (simp_all add: tests_told_def packets_told_def results_told_def saves_failed_def)

lemma told_Nil [simp]: "tests_told [] = []" "packets_told [] = []" "results_told [] = []" "saves_failed [] = []"
  by (simp_all add: tests_told_def packets_told_def results_told_def saves_failed_def)

lemma told_maps [simp]:
  "tests_told (map TestSignal ts) = ts" "packets_told (map TestSignal ts) = []"
  "results_told (map TestSignal ts) = []" "saves_failed (map TestSignal ts) = []"
  "tests_told (map PacketSignal ps) = []" "packets_told (map PacketSignal ps) = ps"
  "results_told (map PacketSignal ps) = []" "saves_failed (map PacketSignal ps) = []"
  "tests_told (map OutputLine ls) = []" "packets_told (map OutputLine ls) = []"
  "results_told (map OutputLine ls) = []" "saves_failed (map OutputLine ls) = []"
  by (induction ts; induction ps; induction ls; simp)+

section \<open>One tick is one poll\<close>

text \<open>The fields of the controller that are the state of \<open>stream_run\<close>'s loop.\<close>

definition at_state :: "stream_state \<Rightarrow> controller \<Rightarrow> controller" where
  "at_state st c =
     c\<lparr>rc_result := Some (st_result st), rc_report_offset := report_offset st,
       rc_events_offset := events_offset st\<rparr>"

lemma at_state_fields [simp]:
  "rc_running (at_state st c) = rc_running c" "rc_timer (at_state st c) = rc_timer c"
  "rc_dir (at_state st c) = rc_dir c" "rc_stopping (at_state st c) = rc_stopping c"
  "rc_result (at_state st c) = Some (st_result st)"
  "at_state st' (at_state st c) = at_state st' c"
  "(at_state st c)\<lparr>rc_timer := b\<rparr> = at_state st (c\<lparr>rc_timer := b\<rparr>)"
  "(at_state st c)\<lparr>rc_stopping := b\<rparr> = at_state st (c\<lparr>rc_stopping := b\<rparr>)"
  "(at_state st c)\<lparr>rc_running := x\<rparr> = at_state st (c\<lparr>rc_running := x\<rparr>)"
  by (simp_all add: at_state_def)

text \<open>What a poll adds to a state is what the window is told.\<close>

definition adds :: "stream_state \<Rightarrow> 'd signal list \<Rightarrow> stream_state \<Rightarrow> bool" where
  "adds st sigs st' \<longleftrightarrow>
     told_tests st' = told_tests st @ tests_told sigs \<and>
     packet_events (st_result st') = packet_events (st_result st) @ packets_told sigs \<and>
     results_told sigs = [] \<and> saves_failed sigs = []"

lemma adds_trans: "adds st s1 st1 \<Longrightarrow> adds st1 s2 st2 \<Longrightarrow> adds st (s1 @ s2) st2"
  by (simp add: adds_def)

lemma adds_nothing: "adds st [] st" "adds st (map OutputLine ls) st"
  by (simp_all add: adds_def)

lemma test_lines_packets:
  "foldl (test_line pt) (Some (r, seen)) ls = Some (r', seen') \<Longrightarrow> packet_events r' = packet_events r"
  using foldl_test_line [of pt r seen "Some (tests r, [])" ls]
  by (cases "foldl (test_step pt) (Some (tests r, [])) ls") auto

lemma foldl_packet_None: "foldl (packet_line pp) None ls = None"
  by (induction ls) (simp_all add: packet_line_def)

lemma packet_lines_append:
  "foldl (packet_line pp) (Some r) ls = Some r' \<Longrightarrow> \<exists>es. packet_events r' = packet_events r @ es"
proof (induction ls arbitrary: r)
  case (Cons l ls)
  then obtain r1 where r1: "packet_line pp (Some r) l = Some r1"
    by (cases "packet_line pp (Some r) l") (auto simp: foldl_packet_None)
  with Cons obtain es where "packet_events r' = packet_events r1 @ es" by auto
  moreover have "\<exists>es. packet_events r1 = packet_events r @ es"
    using r1 by (auto simp: packet_line_def split: option.splits)
  ultimately show ?case by auto
qed simp

lemma drain_is_poll:
  assumes "rc_dir c = Some dir"
  shows "case drain w snap (at_state st c) of
      None \<Rightarrow> poll (parse_test w) (parse_packet w) snap st = None
    | Some (sigs, c') \<Rightarrow>
        (\<exists>st'. poll (parse_test w) (parse_packet w) snap st = Some st' \<and> c' = at_state st' c \<and> adds st sigs st')"
proof (cases "drain_test_events (parse_test w) (report_file snap) (report_offset st) (st_result st)")
  case None
  with assms show ?thesis by (simp add: drain_def poll_def at_state_def)
next
  case (Some x)
  then obtain ro r1 seen where t: "drain_test_events (parse_test w) (report_file snap) (report_offset st)
      (st_result st) = Some (ro, r1, seen)" by (cases x) auto
  then have r1: "packet_events r1 = packet_events (st_result st)"
    by (auto simp: drain_test_events_def split: prod.splits dest!: test_lines_packets)
  show ?thesis
  proof (cases "drain_packet_events (parse_packet w) (events_file snap) (events_offset st) r1")
    case None
    with assms t show ?thesis by (simp add: drain_def poll_def at_state_def)
  next
    case (Some y)
    then obtain eo r2 where p: "drain_packet_events (parse_packet w) (events_file snap) (events_offset st)
        r1 = Some (eo, r2)" by (cases y) auto
    then obtain es where "packet_events r2 = packet_events r1 @ es"
      by (auto simp: drain_packet_events_def split: prod.splits dest!: packet_lines_append)
    with assms t p r1 show ?thesis by (simp add: drain_def poll_def at_state_def adds_def)
  qed
qed

section \<open>A run, whatever the order of the callbacks\<close>

text \<open>The callbacks while the process runs, and the contents of the files they see.\<close>

fun during :: "gui_event \<Rightarrow> bool" where
  "during (ProcessFinished code st snap) = False"
| "during (ErrorOccurred err s) \<longleftrightarrow> err \<noteq> FailedToStart"
| "during _ = True"

definition seen_by :: "gui_event list \<Rightarrow> snapshot list" where
  "seen_by evs = concat (map (\<lambda>ev. case ev of Tick snap \<Rightarrow> [snap] | ProcessFinished _ _ snap \<Rightarrow> [snap] | _ \<Rightarrow> []) evs)"

lemma seen_by_simps [simp]:
  "seen_by [] = []" "seen_by (Tick snap # evs) = snap # seen_by evs"
  "seen_by (Output chunk # evs) = seen_by evs" "seen_by (StopPressed # evs) = seen_by evs"
  "seen_by (ErrorOccurred err s # evs) = seen_by evs"
  "seen_by (ProcessFinished code st snap # evs) = snap # seen_by evs"
  "seen_by (evs @ evs') = seen_by evs @ seen_by evs'"
  by (simp_all add: seen_by_def)

definition grown_from :: "bytes \<Rightarrow> bytes \<Rightarrow> snapshot list \<Rightarrow> bool" where
  "grown_from c1 c2 snaps \<longleftrightarrow> grows c1 (map report_file snaps) \<and> grows c2 (map events_file snaps)"

definition stopped_in :: "gui_event list \<Rightarrow> bool" where
  "stopped_in evs \<longleftrightarrow> StopPressed \<in> set evs"

lemma stopped_in_simps [simp]:
  "\<not> stopped_in []" "stopped_in (Tick snap # evs) = stopped_in evs"
  "stopped_in (Output chunk # evs) = stopped_in evs" "stopped_in (StopPressed # evs)"
  "stopped_in (ErrorOccurred err s # evs) = stopped_in evs"
  by (auto simp: stopped_in_def)

text \<open>A running controller in a state of the loop follows the loop, tick by tick.\<close>

lemma play_during:
  assumes "list_all during evs" "rc_running c = Some True" "rc_timer c" "rc_dir c = Some dir"
  shows "case play w evs (at_state st c, fs) of
      None \<Rightarrow> poll_all (parse_test w) (parse_packet w) (seen_by evs) st = None
    | Some (sigs, c', fs') \<Rightarrow>
        (\<exists>st'. poll_all (parse_test w) (parse_packet w) (seen_by evs) st = Some st' \<and>
          adds st sigs st' \<and> fs' = fs \<and>
          c' = at_state st' (c\<lparr>rc_stopping := rc_stopping c \<or> stopped_in evs\<rparr>))"
  using assms
proof (induction evs arbitrary: st c)
  case Nil
  then show ?case by (simp add: adds_nothing)
next
  case (Cons ev evs)
  show ?case
  proof (cases ev)
    case (Tick snap)
    show ?thesis
    proof (cases "drain w snap (at_state st c)")
      case None
      with drain_is_poll [OF Cons.prems(4), of w snap st] Tick Cons.prems show ?thesis by simp
    next
      case (Some x)
      obtain sigs c1 where x: "x = (sigs, c1)" by (cases x)
      with drain_is_poll [OF Cons.prems(4), of w snap st] Some obtain st1 where
        st1: "poll (parse_test w) (parse_packet w) snap st = Some st1" "c1 = at_state st1 c" "adds st sigs st1"
        by auto
      from Cons.IH [of c st1] Cons.prems Tick Some x st1 show ?thesis
        by (auto split: option.splits intro: adds_trans [OF st1(3)])
    qed
  next
    case (Output chunk)
    from Cons.IH [of c st] Cons.prems Output show ?thesis
      by (auto simp: on_output_def split: option.splits intro: adds_trans [OF adds_nothing(2)])
  next
    case StopPressed
    from Cons.IH [of "c\<lparr>rc_stopping := True\<rparr>" st] Cons.prems StopPressed show ?thesis
      by (auto simp: stop_run_def split: option.splits)
  next
    case (ErrorOccurred err s)
    from Cons.IH [of c st] Cons.prems ErrorOccurred show ?thesis
      by (auto simp: on_error_def split: option.splits)
  qed (use Cons.prems in simp)
qed

lemma play_append:
  fixes w :: "'d world"
  shows "play w (evs @ evs') s =
     (case play w evs s of
        None \<Rightarrow> None
      | Some (sigs, s') \<Rightarrow> map_option (\<lambda>(sigs', s''). (sigs @ sigs', s'')) (play w evs' s'))"
proof (induction evs arbitrary: s)
  case Nil
  show ?case by (cases "play w evs' s") auto
next
  case (Cons ev evs)
  have pair: "map_option (\<lambda>(sigs', y). (a @ sigs', y)) (map_option (\<lambda>(sigs', y). (b @ sigs', y)) z) =
      map_option (\<lambda>(sigs', y). (a @ b @ sigs', y)) z" for a b :: "'d signal list" and z :: "('d signal list \<times> controller \<times> files) option"
    by (cases z) auto
  show ?case by (auto simp: Cons pair split: option.splits)
qed

lemma start_run_state:
  fixes w :: "'d world"
  assumes "start_run w rq c0 = (sigs, Some args, c)"
  obtains rid dir where "new_run_dir (w_layout w) (w_started w) (w_hex6 w) (w_mkdir w) = (Inr (rid, dir) :: 'd exn + string \<times> string)"
    "c = at_state (start_state (new_run_result rid (w_started w) (w_system w) rq)) c"
    "rc_running c = Some True" "rc_timer c" "rc_dir c = Some dir" "\<not> rc_stopping c"
    "args = build_pytest_args (w_layout w) rq dir" "sigs = []"
    "rc_result c = Some (new_run_result rid (w_started w) (w_system w) rq)"
proof -
  from assms obtain rid dir where
    d: "new_run_dir (w_layout w) (w_started w) (w_hex6 w) (w_mkdir w) = (Inr (rid, dir) :: 'd exn + string \<times> string)"
    by (auto simp: start_run_def split: sum.splits prod.splits)
  with assms show ?thesis
    by (intro that [of rid dir]) (auto simp: start_run_def at_state_def start_state_def)
qed

text \<open>How the process ended, as the command line's loop sees it.\<close>

definition ending_of :: "gui_event list \<Rightarrow> int \<Rightarrow> exit_status \<Rightarrow> ending" where
  "ending_of evs code st =
     (if stopped_in evs \<or> st = CrashExit then Interrupted KeyboardInterrupt None else Exited code)"

definition stamped :: "'d world \<Rightarrow> ending \<Rightarrow> run_result \<Rightarrow> run_result" where
  "stamped w en r =
     r\<lparr>pytest_returncode := (case en of Exited rc \<Rightarrow> Some rc | Interrupted c rc \<Rightarrow> rc),
       finished_at := Some (w_ended w)\<rparr>"

text \<open>The outcome of \<open>stream_run\<close> is what the window is told: the result, or why there is no saved one.\<close>

definition agrees :: "'d signal list \<Rightarrow> 'd exn + run_result \<Rightarrow> bool" where
  "agrees sigs out \<longleftrightarrow>
     (case out of
        Inr r \<Rightarrow> results_told sigs = [r] \<and> saves_failed sigs = [] \<and> StoppedSignal \<notin> set sigs
      | Inl e \<Rightarrow>
          exc e = RunArtifactError \<and> saves_failed sigs = [msg e] \<or>
          exc e = KeyboardInterrupt \<and> saves_failed sigs = [] \<and> StoppedSignal \<in> set sigs)"

lemma adds_no_stop: "drain w snap c = Some (sigs, c') \<Longrightarrow> StoppedSignal \<notin> set sigs"
  by (auto simp: drain_def split: option.splits prod.splits)

lemma play_no_stop:
  "list_all during evs \<Longrightarrow> rc_running c = Some True \<Longrightarrow> rc_timer c \<Longrightarrow> rc_dir c = Some dir \<Longrightarrow>
   play w evs (at_state st c, fs) = Some (sigs, s') \<Longrightarrow> StoppedSignal \<notin> set sigs"
proof (induction evs arbitrary: st c sigs)
  case (Cons ev evs)
  show ?case
  proof (cases ev)
    case (Tick snap)
    with Cons.prems obtain s1 c1 s2 where s: "drain w snap (at_state st c) = Some (s1, c1)"
      "play w evs (c1, fs) = Some (s2, s')" "sigs = s1 @ s2"
      by (auto split: option.splits)
    with drain_is_poll [OF Cons.prems(4), of w snap st] obtain st1 where "c1 = at_state st1 c" by auto
    with Cons.IH [of c st1 s2] Cons.prems s adds_no_stop [OF s(1)] show ?thesis by auto
  next
    case (Output chunk)
    with Cons.prems obtain s2 where "play w evs (at_state st c, fs) = Some (s2, s')"
      "sigs = on_output chunk (at_state st c) @ s2"
      by (auto split: option.splits)
    with Cons.IH [of c st s2] Cons.prems show ?thesis by (auto simp: on_output_def)
  next
    case StopPressed
    with Cons.IH [of "c\<lparr>rc_stopping := True\<rparr>" st sigs] Cons.prems show ?thesis
      by (auto simp: stop_run_def)
  next
    case (ErrorOccurred err s)
    with Cons.IH [of c st sigs] Cons.prems show ?thesis by (auto simp: on_error_def)
  qed (use Cons.prems in simp)
qed simp

text \<open>What is reported at the end is stamped, and saved unless that fails.\<close>

lemma report_finished_stamped:
  fixes w :: "'d world"
  assumes "rc_dir c = Some dir"
    "r = (st_result s)\<lparr>pytest_returncode := rcode, finished_at := Some (w_ended w)\<rparr>"
  shows "report_finished w rcode (at_state s c) fs =
    (case (save (w_dumps w) (w_save w) dir r fs :: ('d exn + unit) \<times> files) of
       (out, gs) \<Rightarrow>
         ((case out of Inl e \<Rightarrow> [SaveFailedSignal (msg e)] | Inr _ \<Rightarrow> []) @ [FinishedSignal r],
          (at_state s c)\<lparr>rc_result := Some r\<rparr>, gs))"
  using assms
  by (auto simp: report_finished_def finalize_def finalize_run_def save_def Let_def split: option.splits)

text \<open>The last callback: the final drain is the final poll, and what is then reported is stamped with
  the ending.\<close>

lemma finish_reports:
  fixes w :: "'d world"
  assumes "rc_dir c = Some dir" "rc_stopping c = stopped_in evs"
  shows "case on_finished w code st final (at_state s c) fs of
      None \<Rightarrow> poll (parse_test w) (parse_packet w) final s = None
    | Some (sigs, c', fs') \<Rightarrow>
        (\<exists>s' out. poll (parse_test w) (parse_packet w) final s = Some s' \<and>
          told_tests s' = told_tests s @ tests_told sigs \<and>
          packet_events (st_result s') = packet_events (st_result s) @ packets_told sigs \<and>
          results_told sigs = [stamped w (ending_of evs code st) (st_result s')] \<and>
          (StoppedSignal \<in> set sigs \<longleftrightarrow> stopped_in evs \<or> st = CrashExit) \<and>
          \<not> rc_timer c' \<and> \<not> rc_stopping c' \<and> rc_running c' = rc_running c \<and>
          (save (w_dumps w) (w_save w) dir (stamped w (ending_of evs code st) (st_result s')) fs
            :: ('d exn + unit) \<times> files) = (out, fs') \<and>
          saves_failed sigs = (case out of Inl e \<Rightarrow> [msg e] | Inr _ \<Rightarrow> []))"
proof (cases "drain w final (at_state s (c\<lparr>rc_timer := False\<rparr>))")
  case None
  with drain_is_poll [of "c\<lparr>rc_timer := False\<rparr>" dir w final s] assms show ?thesis
    by (simp add: on_finished_def)
next
  case (Some x)
  obtain dsigs c1 where x: "x = (dsigs, c1)" by (cases x)
  with drain_is_poll [of "c\<lparr>rc_timer := False\<rparr>" dir w final s] assms Some obtain s' where
    s': "poll (parse_test w) (parse_packet w) final s = Some s'"
      "c1 = at_state s' (c\<lparr>rc_timer := False\<rparr>)" "adds s dsigs s'"
    by auto
  have none: "results_told dsigs = []" "saves_failed dsigs = []" "StoppedSignal \<notin> set dsigs"
    using s'(3) Some x adds_no_stop by (simp_all add: adds_def)
  define stopped where "stopped \<longleftrightarrow> stopped_in evs \<or> st = CrashExit"
  define rcode where "rcode = (if stopped then None else Some code)"
  let ?r = "stamped w (ending_of evs code st) (st_result s')"
  obtain out gs where sv: "(save (w_dumps w) (w_save w) dir ?r fs :: ('d exn + unit) \<times> files) = (out, gs)"
    by fastforce
  have r: "?r = (st_result s')\<lparr>pytest_returncode := rcode, finished_at := Some (w_ended w)\<rparr>"
    by (simp add: stamped_def ending_of_def rcode_def stopped_def)
  let ?c = "c\<lparr>rc_timer := False, rc_stopping := False\<rparr>"
  have "report_finished w rcode (at_state s' ?c) fs =
      ((case out of Inl e \<Rightarrow> [SaveFailedSignal (msg e)] | Inr _ \<Rightarrow> []) @ [FinishedSignal ?r],
       (at_state s' ?c)\<lparr>rc_result := Some ?r\<rparr>, gs)"
    using report_finished_stamped [where c = ?c and dir = dir and r = ?r and s = s' and rcode = rcode and w = w and fs = fs]
      assms(1) r sv by simp
  then have "on_finished w code st final (at_state s c) fs =
      Some (dsigs @ (if stopped then [StoppedSignal] else []) @
          (case out of Inl e \<Rightarrow> [SaveFailedSignal (msg e)] | Inr _ \<Rightarrow> []) @ [FinishedSignal ?r],
        (at_state s' ?c)\<lparr>rc_result := Some ?r\<rparr>, gs)"
    using Some x s'(2) assms(2) by (simp add: on_finished_def rcode_def stopped_def)
  then show ?thesis
    using s' none sv by (auto simp: stopped_def adds_def split: sum.splits)
qed

text \<open>The callbacks of one run and the loop of \<open>stream_run\<close>, from the state that \<open>start\<close> leaves.\<close>

definition told_as :: "'d world \<Rightarrow> run_result \<Rightarrow> ending \<Rightarrow> snapshot \<Rightarrow> 'd signal list \<Rightarrow> bool" where
  "told_as w r0 en final sigs \<longleftrightarrow>
     (case poll (parse_test w) (parse_packet w) final (start_state r0) of
        None \<Rightarrow> False
      | Some s \<Rightarrow>
          results_told sigs = [stamped w en (st_result s)] \<and> tests_told sigs = told_tests s \<and>
          packets_told sigs = packet_events (st_result s))"

lemma run_agrees:
  fixes w :: "'d world"
  assumes "c = at_state (start_state r0) c" "rc_running c = Some True" "rc_timer c"
    "rc_dir c = Some dir" "\<not> rc_stopping c" "list_all during evs"
    "grown_from [] [] (seen_by evs @ [final])" "packet_events r0 = []"
  shows "case (play w (evs @ [ProcessFinished code st final]) (c, fs),
      stream_run (parse_test w) (parse_packet w) (w_dumps w) (w_save w) (w_ended w) dir r0 []
        final (ending_of evs code st) fs) of
    (None, None) \<Rightarrow> True
  | (Some (sigs, c', fs'), Some (out, gs)) \<Rightarrow>
      fs' = gs \<and> agrees sigs out \<and> told_as w r0 (ending_of evs code st) final sigs
  | _ \<Rightarrow> False"
proof -
  let ?s0 = "start_state r0"
  let ?pt = "parse_test w" and ?pp = "parse_packet w"
  note c = assms(1-5)
  have collapse: "poll_all ?pt ?pp (seen_by evs @ [final]) ?s0 = poll_all ?pt ?pp [final] ?s0"
    using assms(7) by (intro polls_collapse) (simp_all add: grown_from_def)
  have one: "poll_all ?pt ?pp [final] ?s0 = poll ?pt ?pp final ?s0" by (simp split: option.split)
  note during = play_during [OF assms(6) c(2-4), of w ?s0 fs]
  show ?thesis
  proof (cases "play w evs (at_state ?s0 c, fs)")
    case None
    then have "poll_all ?pt ?pp (seen_by evs) ?s0 = None" using during by simp
    then have "poll ?pt ?pp final ?s0 = None" using collapse one by (simp add: poll_all_append)
    with None c(1) show ?thesis by (simp add: play_append stream_run_def)
  next
    case (Some x)
    obtain sigs1 c1 fs1 where x: "x = (sigs1, c1, fs1)" by (cases x)
    with during Some obtain s1 where s1: "poll_all ?pt ?pp (seen_by evs) ?s0 = Some s1" "adds ?s0 sigs1 s1"
      "fs1 = fs" "c1 = at_state s1 (c\<lparr>rc_stopping := stopped_in evs\<rparr>)"
      using c(5) by auto
    have polls: "poll ?pt ?pp final ?s0 = poll ?pt ?pp final s1"
      using collapse one s1(1) by (simp add: poll_all_append split: option.splits)
    let ?c = "c\<lparr>rc_stopping := stopped_in evs, rc_running := Some False\<rparr>"
    have deliver: "play w [ProcessFinished code st final] (c1, fs1) =
        map_option (\<lambda>(sigs, s). (sigs @ [], s)) (on_finished w code st final (at_state s1 ?c) fs)"
      using s1 c(2) by (simp split: option.splits)
    note finish = finish_reports [where c = ?c and dir = dir and evs = evs and w = w and code = code and st = st and final = final and s = s1 and fs = fs]
    show ?thesis
    proof (cases "on_finished w code st final (at_state s1 ?c) fs")
      case None
      then have "poll ?pt ?pp final s1 = None" using finish c(4) by simp
      with None deliver Some x c(1) polls show ?thesis by (simp add: play_append stream_run_def)
    next
      case (Some y)
      obtain sigs2 c2 gs where y: "y = (sigs2, c2, gs)" by (cases y)
      have "rc_dir ?c = Some dir" "rc_stopping ?c = stopped_in evs" using c(4) by simp_all
      from finish [OF this] have "\<exists>s' out. poll ?pt ?pp final s1 = Some s' \<and>
          told_tests s' = told_tests s1 @ tests_told sigs2 \<and>
          packet_events (st_result s') = packet_events (st_result s1) @ packets_told sigs2 \<and>
          results_told sigs2 = [stamped w (ending_of evs code st) (st_result s')] \<and>
          (StoppedSignal \<in> set sigs2 \<longleftrightarrow> stopped_in evs \<or> st = CrashExit) \<and>
          (save (w_dumps w) (w_save w) dir (stamped w (ending_of evs code st) (st_result s')) fs
            :: ('d exn + unit) \<times> files) = (out, gs) \<and>
          saves_failed sigs2 = (case out of Inl e \<Rightarrow> [msg e] | Inr _ \<Rightarrow> [])"
        unfolding Some y by simp blast
      then obtain s' out where
        s': "poll ?pt ?pp final s1 = Some s'" "told_tests s' = told_tests s1 @ tests_told sigs2"
          "packet_events (st_result s') = packet_events (st_result s1) @ packets_told sigs2"
          "results_told sigs2 = [stamped w (ending_of evs code st) (st_result s')]"
          "StoppedSignal \<in> set sigs2 \<longleftrightarrow> stopped_in evs \<or> st = CrashExit" and
        saved: "(save (w_dumps w) (w_save w) dir (stamped w (ending_of evs code st) (st_result s')) fs
            :: ('d exn + unit) \<times> files) = (out, gs)"
          "saves_failed sigs2 = (case out of Inl e \<Rightarrow> [msg e] | Inr _ \<Rightarrow> [])"
        by blast
      have p: "play w (evs @ [ProcessFinished code st final]) (c, fs) = Some (sigs1 @ sigs2, c2, gs)"
        using \<open>play w evs (at_state ?s0 c, fs) = Some x\<close> x deliver Some y c(1) by (simp add: play_append)
      have told: "tests_told sigs1 @ tests_told sigs2 = told_tests s'"
        "packets_told sigs1 @ packets_told sigs2 = packet_events (st_result s')"
        "results_told sigs1 = []" "saves_failed sigs1 = []"
        using s1(2) s'(2,3) by (simp_all add: adds_def start_state_def assms(8))
      have nostop: "StoppedSignal \<notin> set sigs1"
        using play_no_stop [OF assms(6) c(2-4)] \<open>play w evs (at_state ?s0 c, fs) = Some x\<close> x by blast
      have stream: "stream_run ?pt ?pp (w_dumps w) (w_save w) (w_ended w) dir r0 [] final
          (ending_of evs code st) fs =
        Some (case out of Inl e \<Rightarrow> Inl e
          | Inr _ \<Rightarrow> (case ending_of evs code st of
              Exited rc \<Rightarrow> Inr (stamped w (ending_of evs code st) (st_result s'))
            | Interrupted k rc \<Rightarrow> raise_exc k ''''), gs)"
        using saved(1) s'(1) polls
        by (auto simp: stream_run_def finalize_run_def stamped_def Let_def split: sum.splits ending.split)
      have err: "exc e = RunArtifactError" if "out = Inl e" for e
        using saved(1) that by (auto simp: save_def split: option.splits)
      show ?thesis
        using p stream told nostop s' saved(2) polls err
        by (auto simp: agrees_def told_as_def ending_of_def split: sum.splits if_splits)
    qed
  qed
qed


text \<open>A world whose process writes lines that are no reports.\<close>

definition quiet_world :: "unit world" where
  "quiet_world =
     \<lparr>w_layout = \<lparr>frozen_build = False, meipass = [], source_root = ''/s'', sys_executable = ''py'',
        executable_dir = ''/e''\<rparr>,
      w_started = demo_date, w_ended = demo_date, w_hex6 = ''0a1b2c'', w_system = ''Linux'',
      w_mkdir = (\<lambda>_. None), w_open_output = (\<lambda>_. None), w_save = None,
      w_child = (\<lambda>_. Inr ([], \<lparr>report_file = None, events_file = None\<rparr>, Exited 0)),
      w_loads = (\<lambda>_. None), w_dumps = (\<lambda>_. ''R''), w_pystr = (\<lambda>_. []), w_markers = None\<rparr>"

definition small_request :: run_request where
  "small_request =
     \<lparr>rq_config = dut_config_defaults\<lparr>target_ip := Some ''10.0.0.5''\<rparr>, rq_module = Some ''tcp'',
      submodule = None, test_name = None, targets = [], rq_markers = [], rq_payload_mode = Zeros,
      payload_size = 4, confirm_vuln_tests = False, debug = False, rq_proxy_mode = None,
      rq_proxy_host = None, rq_proxy_port = None, rq_backend_host = None, rq_backend_port = None\<rparr>"

lemma quiet_start:
  "\<exists>args c. start_run quiet_world small_request new_controller = ([], Some args, c)"
  by (simp add: start_run_def new_run_dir_def quiet_world_def Let_def)


definition ends :: "gui_event \<Rightarrow> bool" where
  "ends ev \<longleftrightarrow>
     (case ev of ProcessFinished _ _ _ \<Rightarrow> True | ErrorOccurred err _ \<Rightarrow> err = FailedToStart | _ \<Rightarrow> False)"

text \<open>The lines of the process are of the declared types.\<close>

definition typed_lines :: "'d world \<Rightarrow> bool" where
  "typed_lines w \<longleftrightarrow> (\<forall>l. parse_test w l \<noteq> None) \<and> (\<forall>l. parse_packet w l \<noteq> None)"

lemma steps_total:
  "(\<And>l. pt l \<noteq> None) \<Longrightarrow> foldl (test_step pt) (Some x) ls \<noteq> None"
  "(\<And>l. pp l \<noteq> None) \<Longrightarrow> foldl (packet_step pp) (Some es) ls \<noteq> None"
proof -
  assume t: "\<And>l. pt l \<noteq> None"
  have "test_step pt (Some x) l \<noteq> None" for x l
    using t [of l] by (auto simp: test_step_def split: prod.splits option.splits)
  then show "foldl (test_step pt) (Some x) ls \<noteq> None"
    by (induction ls arbitrary: x) (simp, metis foldl_Cons not_None_eq)
next
  assume p: "\<And>l. pp l \<noteq> None"
  have "packet_step pp (Some es) l \<noteq> None" for es l
    using p [of l] by (auto simp: packet_step_def split: option.splits)
  then show "foldl (packet_step pp) (Some es) ls \<noteq> None"
    by (induction ls arbitrary: es) (simp, metis foldl_Cons not_None_eq)
qed

lemma poll_total:
  assumes "typed_lines w"
  shows "poll (parse_test w) (parse_packet w) snap st \<noteq> None"
proof -
  obtain tls ro where t: "read_new_lines (report_file snap) (report_offset st) = (tls, ro)" by fastforce
  obtain pls eo where p: "read_new_lines (events_file snap) (events_offset st) = (pls, eo)" by fastforce
  from assms have "foldl (test_step (parse_test w)) (Some (tests (st_result st), [])) tls \<noteq> None"
    "foldl (packet_step (parse_packet w)) (Some (packet_events (st_result st))) pls \<noteq> None"
    by (simp_all add: typed_lines_def steps_total)
  then have "after_lines (parse_test w) (parse_packet w) (st_result st) tls pls \<noteq> None"
    by (auto simp: after_lines_def)
  then show ?thesis using poll_after_lines [OF t p] by simp
qed

lemma poll_all_total: "typed_lines w \<Longrightarrow> poll_all (parse_test w) (parse_packet w) snaps st \<noteq> None"
  by (induction snaps arbitrary: st) (auto split: option.split dest: poll_total)

lemma play_during_total:
  assumes "typed_lines w" "list_all during evs" "rc_running c = Some True" "rc_timer c" "rc_dir c = Some dir"
  obtains sigs st' where "play w evs (at_state st c, fs) =
      Some (sigs, at_state st' (c\<lparr>rc_stopping := rc_stopping c \<or> stopped_in evs\<rparr>), fs)" "results_told sigs = []"
  using play_during [OF assms(2-5), of w st fs] poll_all_total [OF assms(1), of "seen_by evs" st]
  by (auto simp: adds_def split: option.splits prod.splits)

text \<open>A run always ends, and once. If what the process writes is of the declared types, then whatever
  came before, the end of the process, also its failure to start, leaves the window with exactly one
  result, the timer off and no process running.\<close>

lemma every_run_ends:
  fixes w :: "'d world"
  assumes "typed_lines w" "start_run w rq c0 = (sigs0, Some args, c)" "list_all during evs" "ends ev"
  shows "\<exists>sigs c' fs'. play w (evs @ [ev]) (c, fs) = Some (sigs, c', fs') \<and>
    length (results_told sigs) = 1 \<and> \<not> rc_timer c' \<and> rc_running c' = Some False"
proof -
  from start_run_state [OF assms(2)] obtain r0 dir where
    c: "c = at_state (start_state r0) c" "rc_running c = Some True" "rc_timer c" "rc_dir c = Some dir"
      "\<not> rc_stopping c" by metis
  obtain sigs1 s1 where
    p: "play w evs (c, fs) = Some (sigs1, at_state s1 (c\<lparr>rc_stopping := stopped_in evs\<rparr>), fs)"
      "results_told sigs1 = []"
    using play_during_total [OF assms(1,3) c(2-4), of "start_state r0" fs] c(1,5) by auto
  let ?c = "c\<lparr>rc_stopping := stopped_in evs, rc_running := Some False\<rparr>"
  show ?thesis
  proof (cases ev)
    case (ProcessFinished code st final)
    have "rc_dir ?c = Some dir" "rc_stopping ?c = stopped_in evs" using c(4) by simp_all
    from finish_reports [OF this, where w = w and code = code and st = st and final = final and s = s1 and fs = fs] poll_total [OF assms(1), of final s1]
    obtain sigs2 c2 fs2 where "on_finished w code st final (at_state s1 ?c) fs = Some (sigs2, c2, fs2)"
      "length (results_told sigs2) = 1" "\<not> rc_timer c2" "rc_running c2 = Some False"
      by (auto split: option.splits)
    with p c(2) ProcessFinished show ?thesis by (simp add: play_append)
  next
    case (ErrorOccurred err reason)
    with assms(4) have err: "err = FailedToStart" by (simp add: ends_def)
    let ?d = "?c\<lparr>rc_timer := False\<rparr>"
    have "rc_dir ?d = Some dir" using c(4) by simp
    from report_finished_stamped [OF this refl, where w = w and s = s1 and rcode = None and fs = fs]
    have "\<exists>sigs2 c2 fs2. on_error w err reason (at_state s1 ?c) fs = (sigs2, c2, fs2) \<and>
        length (results_told sigs2) = 1 \<and> \<not> rc_timer c2 \<and> rc_running c2 = Some False"
      using c(4) by (auto simp: on_error_def err split: sum.splits prod.splits)
    with p c(2) ErrorOccurred err show ?thesis by (auto simp: play_append)
  qed (use assms(4) in \<open>simp_all add: ends_def\<close>)
qed

lemma quiet_typed: "typed_lines quiet_world"
  by (simp add: typed_lines_def quiet_world_def parse_test_def parse_packet_def
      parse_report_log_line_def parse_packet_line_def)

end
