(* ===== verification/Tokens.thy ===== *)
theory Tokens
  imports PyText Models
begin

text \<open>
  \<open>src/design_tokens.py\<close>: the colours, spacing and type shared by the window, the live plot and the
  HTML report, and the palette as CSS custom properties.
\<close>

text \<open>An apostrophe in a text.\<close>

definition sq :: string where "sq = [chr 39]"

section \<open>Surfaces and ink\<close>

definition canvas_colour :: string where "canvas_colour = ''#10141b''"
definition surface :: string where "surface = ''#171d26''"
definition surface_raised :: string where "surface_raised = ''#1e2632''"
definition surface_sunken :: string where "surface_sunken = ''#0c1016''"
definition border :: string where "border = ''#2b3644''"
definition border_strong :: string where "border_strong = ''#3a4756''"
definition text_ink :: string where "text_ink = ''#e3e9f2''"
definition text_muted :: string where "text_muted = ''#95a3b8''"
definition text_faint :: string where "text_faint = ''#6a798e''"
definition accent :: string where "accent = ''#38bdf8''"
definition accent_hover :: string where "accent_hover = ''#62cdfb''"
definition accent_pressed :: string where "accent_pressed = ''#0ea5e9''"
definition accent_soft :: string where "accent_soft = ''#16324a''"
definition accent_ink :: string where "accent_ink = ''#04141f''"

section \<open>Meaning\<close>

definition success :: string where "success = ''#4ade80''"
definition danger :: string where "danger = ''#f87171''"
definition danger_hover :: string where "danger_hover = ''#fb8f8f''"
definition warning :: string where "warning = ''#fbbf24''"
definition info_ink :: string where "info_ink = ''#c084fc''"
definition neutral :: string where "neutral = ''#94a3b8''"

definition outcome_ink :: "(string \<times> string) list" where
  "outcome_ink =
     [(''passed'', success), (''failed'', danger), (''error'', info_ink), (''skipped'', neutral)]"

definition plot_pens :: "(string \<times> string) list" where
  "plot_pens =
     [(''background'', surface_sunken), (''foreground'', text_muted), (''grid'', border),
      (''sent'', accent), (''received'', ''#f0a4d8'')]"

definition radius :: int where "radius = 7"
definition radius_small :: int where "radius_small = 4"
definition space :: int where "space = 8"

definition font_ui :: string where
  "font_ui =
     dq @ ''Segoe UI'' @ dq @ '', Inter, Ubuntu, '' @ dq @ ''Noto Sans'' @ dq @ '', '' @ dq @ ''DejaVu Sans'' @ dq @
     '', sans-serif''"

definition font_mono :: string where
  "font_mono =
     dq @ ''Cascadia Mono'' @ dq @ '', '' @ dq @ ''JetBrains Mono'' @ dq @ '', '' @ dq @ ''SF Mono'' @ dq @
     '', Consolas, '' @ dq @ ''DejaVu Sans Mono'' @ dq @ '', monospace''"

definition font_size_pt :: int where "font_size_pt = 10"
definition font_size_small_pt :: int where "font_size_small_pt = 9"

definition css_variables :: string where
  "css_variables =
     join nl (map (\<lambda>(n, v). ''  --'' @ n @ '': '' @ v @ '';'')
       [(''accent'', accent_pressed), (''accent-soft'', ''#e6f4fb''), (''radius'', idec radius @ ''px''),
        (''radius-small'', idec radius_small @ ''px''), (''font-ui'', font_ui), (''font-mono'', font_mono)])"

text \<open>Every outcome has an ink of its own.\<close>

lemma outcome_inks:
  "map_of outcome_ink (outcome_value x) \<noteq> None"
  "map_of outcome_ink (outcome_value x) = map_of outcome_ink (outcome_value y) \<longleftrightarrow> x = y"
  by (cases x; simp add: outcome_ink_def success_def danger_def info_ink_def neutral_def)
    (cases x; cases y; simp add: outcome_ink_def success_def danger_def info_ink_def neutral_def)

end
