(* ===== verification/Panels.thy ===== *)
theory Panels
  imports Tokens Cli Metrics
begin

text \<open>
  The panels of the window: \<open>src/gui/log_panel.py\<close>, \<open>src/gui/report_panel.py\<close>,
  \<open>src/gui/proxy_panel.py\<close> and \<open>src/gui/custom_packet_panel.py\<close>. A panel is the text and state its
  widgets show; a button's slot is a function on it. What the widgets look like is not modelled.
\<close>

section \<open>The log\<close>

text \<open>The blocks of the document, each with the ink its text was written in. A new document is one empty
  block, and inserting a text of several lines makes a block of each.\<close>

type_synonym log_panel = "(string \<times> string option) list"

definition max_blocks :: nat where "max_blocks = 10000"

definition empty_log :: log_panel where "empty_log = [([], None)]"

definition append_inked :: "string \<Rightarrow> string option \<Rightarrow> log_panel \<Rightarrow> log_panel" where
  "append_inked text colour blocks =
     (let new = map (\<lambda>l. (l, colour)) (split_on (chr 10) text)
      in window max_blocks (if 1 < length blocks \<or> fst (hd blocks) \<noteq> [] then blocks @ new else new))"

definition append_line :: "string \<Rightarrow> log_panel \<Rightarrow> log_panel" where
  "append_line text blocks =
     append_inked text (if starts_with ''  '' text then Some text_muted else None) blocks"

definition append_test_event :: "test_event \<Rightarrow> log_panel \<Rightarrow> log_panel" where
  "append_test_event t blocks =
     append_inked (summary_line 5 t) (map_of outcome_ink (outcome_value (outcome t))) blocks"

definition clear_log :: "log_panel \<Rightarrow> log_panel" where
  "clear_log blocks = empty_log"

definition log_lines :: "string list \<Rightarrow> log_panel \<Rightarrow> log_panel" where
  "log_lines ls blocks = foldl (\<lambda>b l. append_line l b) blocks ls"

lemma append_inked_bounded: "length (append_inked text colour blocks) \<le> max_blocks"
  by (simp add: append_inked_def Let_def window_def)

section \<open>The report footer\<close>

record report_panel =
  rp_result :: "run_result option"
  rp_enabled :: bool
  rp_status :: "string \<times> string"

definition new_report_panel :: report_panel where
  "new_report_panel =
     \<lparr>rp_result = None, rp_enabled = False, rp_status = (''No completed run yet.'', ''idle'')\<rparr>"

definition code_text :: "int option \<Rightarrow> string" where
  "code_text c = (case c of None \<Rightarrow> ''None'' | Some n \<Rightarrow> idec n)"

definition set_result :: "run_result \<Rightarrow> report_panel \<Rightarrow> report_panel" where
  "set_result r p =
     (let summary =
            (if errored r then
               ''pytest exited with code '' @ code_text (pytest_returncode r) @
               '' (collection/usage error or no tests) '' @ em_dash @ '' see the Log tab.''
             else if total r = 0 then
               ''no tests ran '' @ em_dash @ '' check the test selection and configuration.''
             else counts_summary r @ ''.'')
      in p\<lparr>rp_result := Some r, rp_enabled := True,
           rp_status := (''Run '' @ run_id r @ '': '' @ summary,
             if errored r \<or> failed r \<noteq> 0 \<or> errors r \<noteq> 0 \<or> total r = 0 then ''bad'' else ''ok'')\<rparr>)"

text \<open>\<open>_export\<close>: \<open>chosen\<close> is the path the dialog returns. The result is the text of the warning box, if
  one is shown, and the panel; an exception that is no \<open>Exception\<close> leaves the slot.\<close>

definition export_report ::
  "'d report_writer \<Rightarrow> report_format \<Rightarrow> string \<Rightarrow> report_panel \<Rightarrow> ('d exn + string option) \<times> report_panel" where
  "export_report gen fmt chosen p =
     (case rp_result p of
        None \<Rightarrow> (Inr None, p)
      | Some r \<Rightarrow>
          (if chosen = [] then (Inr None, p)
           else case gen (generate fmt) r chosen of
             Inr path \<Rightarrow> (Inr None, p\<lparr>rp_status := (fmt_label fmt @ '' written to '' @ path, ''ok'')\<rparr>)
           | Inl e \<Rightarrow>
               (if is_a (exc e) PyException then
                  (Inr (Some (msg e @ nl @ nl @ ''The run's data is unaffected '' @ em_dash @
                     '' try a different location.'')),
                   p\<lparr>rp_status := (''Could not write the '' @ fmt_label fmt @ '' report: '' @ msg e, ''bad'')\<rparr>)
                else (Inl e, p))))"

definition default_export_path :: "layout \<Rightarrow> run_result \<Rightarrow> report_format \<Rightarrow> string" where
  "default_export_path l r fmt = report_path (path_join (reports_dir l) (run_id r)) (fmt_key fmt)"

section \<open>The proxy backend\<close>

record proxy_panel =
  pp_backend :: "backend option"
  pp_log :: "string list"
  pp_status :: "string \<times> string"
  pp_stats :: string
  pp_can_start :: bool
  pp_can_stop :: bool
  pp_timer :: bool

text \<open>The log keeps its last 2000 blocks.\<close>

definition panel_says :: "string list \<Rightarrow> proxy_panel \<Rightarrow> proxy_panel" where
  "panel_says ls p = p\<lparr>pp_log := window 2000 (pp_log p @ ls)\<rparr>"

definition new_proxy_panel :: proxy_panel where
  "new_proxy_panel =
     \<lparr>pp_backend = None, pp_log = [], pp_status = (''Stopped.'', ''idle''), pp_stats = em_dash,
      pp_can_start = True, pp_can_stop = False, pp_timer = False\<rparr>"

text \<open>\<open>host_text\<close>, \<open>port\<close> and \<open>udp\<close> are the fields; the backend's own messages go to the panel's log.\<close>

definition panel_start ::
  "(start_call \<Rightarrow> string option) \<Rightarrow> int \<Rightarrow> string \<Rightarrow> int \<Rightarrow> bool \<Rightarrow> proxy_panel \<Rightarrow> proxy_panel" where
  "panel_start fault chosen host_text port udp p =
     (if pp_backend p \<noteq> None then p
      else
        (let stripped = strip host_text;
             b0 = new_backend (if stripped = [] then ''0.0.0.0'' else stripped) port udp
         in case start fault chosen b0 of
              (Inl e, b) \<Rightarrow>
                (panel_says (emitted b @ [''Failed to start: '' @ msg e]) p)\<lparr>
                  pp_status := (''Failed to start: '' @ msg e, ''bad'')\<rparr>
            | (Inr _, b) \<Rightarrow>
                (panel_says (emitted b) p)\<lparr>pp_backend := Some b,
                  pp_status := (''Listening on '' @ bhost b @ '':'' @ idec (bound_port b) @ '' '' @ em_dash @
                    '' waiting for the proxy DUT.'', ''ok''),
                  pp_can_start := False, pp_can_stop := True, pp_timer := True\<rparr>))"

definition panel_stop :: "proxy_panel \<Rightarrow> proxy_panel" where
  "panel_stop p =
     (case pp_backend p of
        None \<Rightarrow> p
      | Some b \<Rightarrow>
          (let b' = stop b
           in (panel_says (drop (length (emitted b)) (emitted b') @ [stats_summary (stats b')]) p)\<lparr>
                pp_backend := None, pp_timer := False, pp_status := (''Stopped.'', ''idle''), pp_can_start := True,
                pp_can_stop := False\<rparr>))"

definition panel_refresh :: "proxy_panel \<Rightarrow> proxy_panel" where
  "panel_refresh p =
     (case pp_backend p of
        None \<Rightarrow> p
      | Some b \<Rightarrow>
          (let p1 = p\<lparr>pp_stats := stats_summary (stats b)\<rparr>
           in if is_serving b then p1
              else p1\<lparr>pp_status := (''Not accepting '' @ em_dash @
                     '' the backend's serving thread ended. See the log below; '' @
                     ''restart it before running proxy tests.'', ''bad'')\<rparr>))"

text \<open>Between two slots the backend's threads take steps; what they emit is logged.\<close>

definition panel_serve :: "bevent list \<Rightarrow> proxy_panel \<Rightarrow> proxy_panel option" where
  "panel_serve es p =
     (case pp_backend p of
        None \<Rightarrow> (if es = [] then Some p else None)
      | Some b \<Rightarrow>
          map_option (\<lambda>b'. (panel_says (drop (length (emitted b)) (emitted b')) p)\<lparr>pp_backend := Some b'\<rparr>)
            (brun es b))"

definition panel_shutdown :: "proxy_panel \<Rightarrow> proxy_panel" where
  "panel_shutdown p = panel_stop p"

text \<open>What a session does with the panel, in any order: buttons, the refresh timer, and steps of the
  backend's threads, which only a running backend can take.\<close>

datatype panel_event =
    PanelStart "start_call \<Rightarrow> string option" int string int bool
  | PanelStop
  | PanelTick
  | PanelThreads "bevent list"

fun panel_step :: "panel_event \<Rightarrow> proxy_panel \<Rightarrow> proxy_panel option" where
  "panel_step (PanelStart fault chosen h port udp) p = Some (panel_start fault chosen h port udp p)"
| "panel_step PanelStop p = Some (panel_stop p)"
| "panel_step PanelTick p = Some (panel_refresh p)"
| "panel_step (PanelThreads es) p = panel_serve es p"

fun panel_play :: "panel_event list \<Rightarrow> proxy_panel \<Rightarrow> proxy_panel option" where
  "panel_play [] p = Some p"
| "panel_play (e # es) p = Option.bind (panel_step e p) (panel_play es)"

definition panel_consistent :: "proxy_panel \<Rightarrow> bool" where
  "panel_consistent p \<longleftrightarrow>
     (pp_backend p = None \<longleftrightarrow> pp_can_start p) \<and> (pp_can_start p \<longleftrightarrow> \<not> pp_can_stop p) \<and>
     (pp_timer p \<longleftrightarrow> pp_can_stop p) \<and> (pp_can_start p \<longrightarrow> snd (pp_status p) \<noteq> ''ok'')"

lemma panel_step_consistent:
  "panel_consistent p \<Longrightarrow> panel_step e p = Some p' \<Longrightarrow> panel_consistent p'"
  by (cases e)
    (auto simp: panel_consistent_def panel_says_def panel_start_def panel_stop_def panel_refresh_def panel_serve_def Let_def
      split: prod.splits sum.splits option.splits if_splits)

text \<open>The panel never lies about what it can do. After any sequence of presses, ticks and steps of the
  threads, Start is available exactly when no backend is held, Stop and the refresh timer exactly when
  one is, and a panel without a backend never shows the ink of success; closing the window then lets
  the backend go.\<close>

theorem panel_stays_consistent:
  assumes "panel_play es new_proxy_panel = Some p"
  shows "panel_consistent p \<and> pp_backend (panel_shutdown p) = None \<and> pp_can_start (panel_shutdown p)"
proof -
  have "panel_consistent q \<Longrightarrow> panel_play es q = Some p \<Longrightarrow> panel_consistent p" for q
  proof (induction es arbitrary: q)
    case (Cons e es)
    then show ?case using panel_step_consistent by (auto split: bind_splits)
  qed simp
  moreover have "panel_consistent new_proxy_panel" by (simp add: panel_consistent_def new_proxy_panel_def)
  ultimately have "panel_consistent p" using assms by blast
  moreover have "pp_backend (panel_stop p) = None" by (simp add: panel_stop_def Let_def split: option.split)
  moreover have "panel_consistent (panel_stop p)"
    using panel_step_consistent [OF \<open>panel_consistent p\<close>, of PanelStop] by simp
  ultimately show ?thesis by (simp add: panel_shutdown_def panel_consistent_def)
qed

lemma panel_stays_consistent_witness:
  "\<exists>p. panel_play [PanelStart (\<lambda>_. None) 9099 [] 9099 True, PanelTick, PanelStop] new_proxy_panel = Some p \<and>
     panel_consistent p \<and> pp_backend (panel_shutdown p) = None"
proof -
  obtain p where "panel_play [PanelStart (\<lambda>_. None) 9099 [] 9099 True, PanelTick, PanelStop] new_proxy_panel = Some p"
    by simp
  then show ?thesis using panel_stays_consistent by blast
qed

section \<open>A custom packet\<close>

text \<open>The fields of the form. The radio buttons are the mode of the one that is checked.\<close>

record packet_form =
  k_proto :: proto
  k_iface :: string
  k_src_ip :: string
  k_dst_ip :: string
  k_src_port :: int
  k_dst_port :: int
  k_src_mac :: string
  k_dst_mac :: string
  k_ttl :: int
  k_flags :: string
  k_mode :: payload_mode
  k_size :: int
  k_text :: string
  k_hex :: string
  k_file :: string

definition new_packet_form :: packet_form where
  "new_packet_form =
     \<lparr>k_proto = hd [TCP, UDP], k_iface = [], k_src_ip = [], k_dst_ip = [], k_src_port = 12345, k_dst_port = 80,
      k_src_mac = [], k_dst_mac = [], k_ttl = 64, k_flags = ''S'', k_mode = Random, k_size = 64, k_text = [],
      k_hex = [], k_file = []\<rparr>"

definition resolve_custom_payload :: "(string \<Rightarrow> string + bytes) \<Rightarrow> packet_form \<Rightarrow> 'd exn + bytes" where
  "resolve_custom_payload read_bytes f =
     rbind (resolve_custom_source read_bytes (Some (k_text f)) (Some (k_hex f)) (Some (k_file f))) (\<lambda>custom.
       case custom of
         None \<Rightarrow> raise_exc ValueError ''Custom payload mode requires text, hex, or a file.''
       | Some bs \<Rightarrow> Inr bs)"

definition form_spec :: "(string \<Rightarrow> string + bytes) \<Rightarrow> packet_form \<Rightarrow> 'd exn + custom_spec" where
  "form_spec read_bytes f =
     rbind (if k_mode f = Custom then rbind (resolve_custom_payload read_bytes f) (\<lambda>bs. Inr (Some bs))
            else Inr None) (\<lambda>custom.
       Inr \<lparr>c_proto = k_proto f, c_src_ip = k_src_ip f, c_dst_ip = k_dst_ip f, c_src_port = k_src_port f,
            c_dst_port = k_dst_port f, c_src_mac = k_src_mac f, c_dst_mac = k_dst_mac f, c_ttl = k_ttl f,
            c_tcp_flags = k_flags f, c_payload_mode = k_mode f, c_payload_size = k_size f,
            c_custom_payload = custom\<rparr>)"

text \<open>Which half of the payload box is shown, and a file chosen in the dialog.\<close>

definition on_mode_changed :: "packet_form \<Rightarrow> nat" where
  "on_mode_changed f = (if k_mode f = Custom then 1 else 0)"

definition browse_file :: "string \<Rightarrow> packet_form \<Rightarrow> packet_form" where
  "browse_file path f = (if path \<noteq> [] then f\<lparr>k_file := path\<rparr> else f)"

text \<open>\<open>_on_send\<close>: what the reply view shows and the interface that was used. An exception that is no
  \<open>Exception\<close> leaves the slot.\<close>

definition on_send_packet ::
  "'p scapy \<Rightarrow> (nat \<Rightarrow> bytes) \<Rightarrow> (string \<Rightarrow> string + bytes) \<Rightarrow> frame list \<Rightarrow>
   (string + 'p option) list \<Rightarrow> rat list \<Rightarrow> packet_form \<Rightarrow> (unit exn + string) \<times> 'p nic option" where
  "on_send_packet S urandom read_bytes stack replies stamps f =
     (case (case form_spec read_bytes f of
              Inl e \<Rightarrow> (Inl e, None)
            | Inr spec \<Rightarrow>
                (case send_custom_packet S urandom stack spec
                        ((new_nic (k_iface f) None)\<lparr>reply_script := replies, nic_times := stamps\<rparr>) of
                   (out, n) \<Rightarrow> (out, Some n))) of
        (Inr (Some reply), n) \<Rightarrow> (Inr (sc_summary S reply), n)
      | (Inr None, n) \<Rightarrow> (Inr ''No reply received within timeout.'', n)
      | (Inl e, n) \<Rightarrow>
          (if is_a (exc e) NetstackError then (Inr (render ''Error'' e), n)
           else if is_a (exc e) PyException then
             (Inr (class_name (exc e) @ '': '' @ msg e @ nl @ nl @ ''The details were written to the log.''), n)
           else (Inl e, n)))"

end
