(* ===== verification/MainWindow.thy ===== *)
theory MainWindow
  imports Panels TestTree RunController Child
begin

text \<open>
  The rules of \<open>src/gui/main_window.py\<close>: how the fields of the form become a configuration and a
  request, what stands between a press of Run and the start of a run, and how the end of a run is
  told. The window's state is what its widgets show; building the widgets is not modelled.
\<close>

section \<open>Fields\<close>

text \<open>\<open>s.rpartition(c)\<close>.\<close>

definition rpartition_at :: "char \<Rightarrow> string \<Rightarrow> string \<times> bool \<times> string" where
  "rpartition_at c s =
     (case partition_at c (rev s) of
        (a, True, b) \<Rightarrow> (rev b, True, rev a)
      | (a, False, b) \<Rightarrow> ([], False, s))"

definition nonempty :: "string \<Rightarrow> string option" where
  "nonempty s = (if s = [] then None else Some s)"

definition host_and_port :: "string \<Rightarrow> string \<Rightarrow> string \<Rightarrow> 'd exn + string option \<times> int option" where
  "host_and_port v h p =
     (if p = [] then Inr (nonempty h, None)
      else case py_int p of
        Some n \<Rightarrow> Inr (nonempty h, Some n)
      | None \<Rightarrow> raise_exc ConfigurationError
          (py_repr v @ '' is not a valid host:port '' @ em_dash @ '' '' @ py_repr p @
           '' is not a port number.''))"

definition split_host_port :: "string \<Rightarrow> 'd exn + string option \<times> int option" where
  "split_host_port text =
     (let v = strip text
      in if v = [] then Inr (None, None)
         else if starts_with ''['' v then
           (case partition_at (CHR '']'') v of
              (h, _, rest) \<Rightarrow>
                host_and_port v (dropWhile (\<lambda>c. c = CHR ''['') h) (dropWhile (\<lambda>c. c = CHR '':'') rest))
         else
           (case rpartition_at (CHR '':'') v of
              (h, _, p) \<Rightarrow> if h = [] then Inr (Some v, None) else host_and_port v h p))"

text \<open>The form: the texts of its fields, the values of its spin boxes and the data of its boxes.\<close>

record form =
  f_interface :: string
  f_target_ip :: string
  f_target_mac :: string
  f_src_port :: int
  f_dst_port :: int
  f_target_stack :: string
  f_role :: string
  f_allowed :: string
  f_confirm :: bool
  f_debug :: bool
  f_proxy_mode :: "string option"
  f_proxy_front :: string
  f_proxy_backend :: string
  f_proxy_leg :: "string option"

definition nonzero :: "int \<Rightarrow> int option" where
  "nonzero n = (if n = 0 then None else Some n)"

text \<open>The port chosen once for the session is the second component.\<close>

definition resolved_dst_port :: "(nat \<Rightarrow> nat) \<Rightarrow> form \<Rightarrow> int option \<Rightarrow> int \<times> int option" where
  "resolved_dst_port randbelow f session_port =
     (if f_dst_port f \<noteq> 0 then (f_dst_port f, session_port)
      else case session_port of
        Some p \<Rightarrow> (p, session_port)
      | None \<Rightarrow> (let p = random_ephemeral_port randbelow in (p, Some p)))"

definition selected_leg :: "form \<Rightarrow> 'd exn + proxy_leg option" where
  "selected_leg f =
     (if truthy (f_proxy_leg f)
      then rbind (enum_value ''ProxyLeg'' leg_of (f_proxy_leg f)) (\<lambda>l. Inr (Some l)) else Inr None)"

definition allowed_ranges :: "string \<Rightarrow> string list" where
  "allowed_ranges s = filter (\<lambda>x. x \<noteq> []) (map strip (split_on (CHR '','') s))"

definition form_config :: "form \<Rightarrow> proxy_leg option \<Rightarrow> role \<Rightarrow> string option \<Rightarrow> int \<Rightarrow> dut_config" where
  "form_config f leg r tip port =
     dut_config_defaults\<lparr>interface := Some (f_interface f), target_ip := tip,
       target_stack := Some (f_target_stack f), target_mac := nonempty (f_target_mac f),
       target_port := Some port, source_port := nonzero (f_src_port f),
       allowed_targets := allowed_ranges (f_allowed f), dut_role := r, dut_leg := leg\<rparr>"

definition current_dut_config ::
  "(nat \<Rightarrow> nat) \<Rightarrow> form \<Rightarrow> int option \<Rightarrow> ('d exn + dut_config) \<times> int option" where
  "current_dut_config randbelow f session_port =
     (case rbind (selected_leg f) (\<lambda>leg.
           rbind (enum_value ''Role'' role_of (Some (f_role f))) (\<lambda>r.
           rbind (split_host_port (f_proxy_front f)) (\<lambda>front. Inr (leg, resolve_role leg r, front)))) of
        Inl e \<Rightarrow> (Inl e, session_port)
      | Inr (leg, r, fhost, fport) \<Rightarrow>
          (case resolve_leg_target leg (Some (f_target_ip f)) (nonzero (f_dst_port f)) fhost fport of
             (tip, tport) \<Rightarrow>
               (case (case tport of
                        Some p \<Rightarrow> (p, session_port)
                      | None \<Rightarrow> resolved_dst_port randbelow f session_port) of
                  (port, session') \<Rightarrow> (Inr (form_config f leg r tip port), session'))))"

definition build_run_request :: "form \<Rightarrow> tree_item list \<Rightarrow> dut_config \<Rightarrow> 'd exn + run_request" where
  "build_run_request f tree c =
     rbind (split_host_port (f_proxy_front f)) (\<lambda>(phost, pport).
     rbind (split_host_port (f_proxy_backend f)) (\<lambda>(backhost, backport).
       Inr \<lparr>rq_config = c, rq_module = None, submodule = None, test_name = None,
            targets = checked_targets tree, rq_markers = [], rq_payload_mode = Random, payload_size = 64,
            confirm_vuln_tests = f_confirm f, debug = f_debug f, rq_proxy_mode = f_proxy_mode f,
            rq_proxy_host = phost, rq_proxy_port = pport, rq_backend_host = backhost,
            rq_backend_port = backport\<rparr>))"

section \<open>The window\<close>

record main_window =
  win_plot :: plot
  win_session_port :: "int option"
  win_launch_failed :: bool
  win_stopped :: bool
  win_log :: log_panel
  win_status :: "string \<times> string"
  win_running :: bool
  win_report :: report_panel

definition say :: "string list \<Rightarrow> main_window \<Rightarrow> main_window" where
  "say ls w = w\<lparr>win_log := log_lines ls (win_log w)\<rparr>"

definition set_status :: "string \<Rightarrow> string \<Rightarrow> main_window \<Rightarrow> main_window" where
  "set_status text state w = w\<lparr>win_status := (text, state)\<rparr>"

definition set_running :: "bool \<Rightarrow> main_window \<Rightarrow> main_window" where
  "set_running b w = w\<lparr>win_running := b\<rparr>"

definition on_tree_selection :: "tree_item option \<Rightarrow> details_panel" where
  "on_tree_selection item = show_spec (spec_of item)"

text \<open>The lines said, and whether the run may proceed.\<close>

definition validate_topology :: "form \<Rightarrow> dut_config \<Rightarrow> string list \<times> ('d exn + bool)" where
  "validate_topology f c =
     (let said = (case dut_leg c of
            None \<Rightarrow> []
          | Some l \<Rightarrow> [''Proxy leg '' @ [chr 39] @ leg_value l @ [chr 39] @ '' '' @ em_dash @
              '' running the selected tests as '' @ role_value (dut_role c) @ '' against '' @
              show_opt (target_ip c) @ '':'' @ code_text (target_port c) @ ''.''])
      in case split_host_port (f_proxy_backend f) of
           Inl e \<Rightarrow> (said, Inl e)
         | Inr (backhost, _) \<Rightarrow>
             (case back_leg_requirement_error (dut_leg c) (f_proxy_mode f) backhost
                     ''a Proxy mode'' ''a Proxy backend address'' of
                Some m \<Rightarrow> (said @ [m @ '' Not starting the run.''], Inr False)
              | None \<Rightarrow>
                  (said @ (if f_dst_port f = 0 \<and> dut_leg c \<noteq> Some Front then
                     [''Destination port left on '' @ [chr 39] @ ''random'' @ [chr 39] @ '' '' @ em_dash @
                      '' using '' @ code_text (target_port c) @ '' for this session.'']
                   else []), Inr True)))"

definition preflight_report :: "preflight_result \<Rightarrow> string list" where
  "preflight_report p =
     map (\<lambda>l. ''  '' @ l) (render_lines p) @
     (if ok p then [] else [''Preflight failed '' @ em_dash @ '' not starting the run.''])"

definition role_mismatches :: "tree_item list \<Rightarrow> dut_config \<Rightarrow> string list" where
  "role_mismatches tree c =
     map (\<lambda>s. ''Note: '' @ [chr 39] @ spec_test s @ [chr 39] @ '' applies to role(s) ['' @ role_labels s @
           ''] but the Role is '' @ [chr 39] @ role_value (dut_role c) @ [chr 39] @ '' '' @ em_dash @
           '' it will be SKIPPED. Change the Role selector to run it.'')
       (filter (\<lambda>s. dut_role c \<notin> set (spec_roles s)) (checked_specs tree))"

definition or_dash :: "string option \<Rightarrow> string" where
  "or_dash s = (if truthy s then the s else ''-'')"

definition port_or_dash :: "int option \<Rightarrow> string" where
  "port_or_dash p = (case p of None \<Rightarrow> ''-'' | Some n \<Rightarrow> if n = 0 then ''-'' else idec n)"

definition starting_lines :: "run_request \<Rightarrow> string \<Rightarrow> string list" where
  "starting_lines rq selection =
     (''Starting run (role='' @ role_value (dut_role (rq_config rq)) @ '', selection: '' @ selection @ '')'' @
      ellipsis) #
     (if truthy (rq_proxy_mode rq) then
        [''Proxy mode '' @ the (rq_proxy_mode rq) @ '': '' @
         ''front='' @ or_dash (rq_proxy_host rq) @ '':'' @ port_or_dash (rq_proxy_port rq) @ '', '' @
         ''backend='' @ or_dash (rq_backend_host rq) @ '':'' @ port_or_dash (rq_backend_port rq) @
         '' (the backend instance must be running).'']
      else [])"

text \<open>\<open>_on_run_clicked\<close>: the request handed to the controller, if the run starts. A configuration error
  is said in the log; any other exception leaves the slot. \<open>preflight\<close> is \<open>run_preflight\<close> on this
  host.\<close>

definition not_started :: "'d exn \<Rightarrow> main_window \<Rightarrow> ('d exn + run_request option) \<times> main_window" where
  "not_started e w =
     (if is_a (exc e) ConfigurationError
      then (Inr None, say [render ''Error'' e @ '' Not starting the run.''] w) else (Inl e, w))"

definition cleared :: "main_window \<Rightarrow> main_window" where
  "cleared w =
     set_status (''Preflight'' @ ellipsis) ''idle''
       (w\<lparr>win_plot := reset_plot ((win_plot w)\<lparr>plot_metrics := clear_metrics (plot_metrics (win_plot w))\<rparr>),
          win_log := clear_log (win_log w), win_launch_failed := False, win_stopped := False\<rparr>)"

definition launch :: "run_request \<Rightarrow> main_window \<Rightarrow> main_window" where
  "launch rq w =
     (let selection = (if targets rq \<noteq> [] then join '', '' (targets rq) else ''all tests'')
      in set_running True (set_status (''Running '' @ em_dash @ '' '' @ selection) ''idle''
           (say (starting_lines rq selection) w)))"

definition after_preflight ::
  "form \<Rightarrow> tree_item list \<Rightarrow> dut_config \<Rightarrow> main_window \<Rightarrow> ('d exn + run_request option) \<times> main_window" where
  "after_preflight f tree c w =
     (let w1 = say (role_mismatches tree c) w
      in case build_run_request f tree c of
           Inl e \<Rightarrow> not_started e w1
         | Inr rq \<Rightarrow> (Inr (Some rq), launch rq w1))"

definition on_run_clicked ::
  "(nat \<Rightarrow> nat) \<Rightarrow> (dut_config \<Rightarrow> 'd exn + preflight_result) \<Rightarrow> form \<Rightarrow> tree_item list \<Rightarrow> main_window \<Rightarrow>
   ('d exn + run_request option) \<times> main_window" where
  "on_run_clicked randbelow preflight f tree w =
     (let w0 = cleared w
      in case current_dut_config randbelow f (win_session_port w0) of
           (Inl e, sp) \<Rightarrow> not_started e (w0\<lparr>win_session_port := sp\<rparr>)
         | (Inr c, sp) \<Rightarrow>
             (case validate_topology f c of
                (said, proceed) \<Rightarrow>
                  (let w1 = say said (w0\<lparr>win_session_port := sp\<rparr>)
                   in case proceed of
                        Inl e \<Rightarrow> not_started e w1
                      | Inr False \<Rightarrow> (Inr None, w1)
                      | Inr True \<Rightarrow>
                          (let w2 = say [''Preflight connectivity check'' @ ellipsis] w1
                           in case preflight c of
                                Inl e \<Rightarrow> not_started e w2
                              | Inr p \<Rightarrow>
                                  (let w3 = say (preflight_report p) w2
                                   in if ok p then after_preflight f tree c w3 else (Inr None, w3))))))"

text \<open>The window as it is built: an idle pill, Run available, nothing to export. \<open>names\<close> are the working
  interfaces, none when they cannot be enumerated; the boxes stand on their first entry.\<close>

definition new_main_window :: main_window where
  "new_main_window =
     \<lparr>win_plot = \<lparr>plot_metrics = new_metrics default_max_points, sent_curve = ([], []), recv_curve = ([], [])\<rparr>,
      win_session_port = None, win_launch_failed = False, win_stopped = False, win_log = empty_log,
      win_status = (''Idle '' @ em_dash @ '' configure the DUT, pick tests, run'', ''idle''),
      win_running = False, win_report = new_report_panel\<rparr>"

definition list_interface_names :: "'d exn + string list \<Rightarrow> 'd exn + string list" where
  "list_interface_names working =
     (case working of
        Inr names \<Rightarrow> Inr names
      | Inl e \<Rightarrow> if is_a (exc e) PyException then Inr [] else Inl e)"

definition initial_form :: "string list \<Rightarrow> form" where
  "initial_form names =
     \<lparr>f_interface = (if names = [] then [] else hd names), f_target_ip = [], f_target_mac = [],
      f_src_port = 0, f_dst_port = 0, f_target_stack = hd list_profiles,
      f_role = hd (map role_value [Client, Server]), f_allowed = [], f_confirm = False, f_debug = False,
      f_proxy_mode = hd (None # map (Some \<circ> mode_value) [Transparent, HttpConnect, Socks5]),
      f_proxy_front = [], f_proxy_backend = [],
      f_proxy_leg = hd (None # map (Some \<circ> leg_value) [Front, Back])\<rparr>"

definition close_event :: "proxy_panel \<Rightarrow> proxy_panel" where
  "close_event p = panel_shutdown p"

section \<open>What the run tells\<close>

definition on_test_event :: "test_event \<Rightarrow> main_window \<Rightarrow> main_window" where
  "on_test_event t w = w\<lparr>win_log := append_test_event t (win_log w)\<rparr>"

definition on_packet_event :: "packet_event \<Rightarrow> main_window \<Rightarrow> main_window" where
  "on_packet_event p w =
     w\<lparr>win_plot := (win_plot w)\<lparr>plot_metrics := add_event p (plot_metrics (win_plot w))\<rparr>\<rparr>"

definition on_output_line :: "string \<Rightarrow> main_window \<Rightarrow> main_window" where
  "on_output_line l w = say [l] w"

definition on_launch_failed :: "string \<Rightarrow> main_window \<Rightarrow> main_window" where
  "on_launch_failed m w =
     say [m, ''No tests were run.'']
       (set_status ''Could not start the run'' ''bad'' (set_running False (w\<lparr>win_launch_failed := True\<rparr>)))"

definition on_save_failed :: "string \<Rightarrow> main_window \<Rightarrow> main_window" where
  "on_save_failed m w =
     say [m, ''The results below are from this session only '' @ em_dash @ '' export a report now '' @
       ''if you need to keep them.''] w"

definition on_stopped :: "main_window \<Rightarrow> main_window" where
  "on_stopped w = w\<lparr>win_stopped := True\<rparr>"

text \<open>The text and the ink of the pill for a run that has finished.\<close>

definition pill :: "run_result \<Rightarrow> bool \<Rightarrow> bool \<Rightarrow> string \<times> string" where
  "pill r was_stopped launch_failed =
     (if launch_failed then (''Could not start the run'', ''bad'')
      else if was_stopped then (''Stopped '' @ em_dash @ '' '' @ counts_summary r, ''idle'')
      else if errored r then
        (''pytest exited '' @ code_text (pytest_returncode r) @ '' '' @ em_dash @ '' see the Log'', ''bad'')
      else if total r = 0 then (''No tests ran'', ''bad'')
      else if failed r \<noteq> 0 \<or> errors r \<noteq> 0 then
        (dec (failed r) @ '' failed, '' @ dec (errors r) @ '' errored of '' @ dec (total r), ''bad'')
      else (''All '' @ dec (total r) @ '' selected tests passed'', ''ok''))"

definition finished_lines :: "run_result \<Rightarrow> bool \<Rightarrow> string list" where
  "finished_lines r was_stopped =
     (if was_stopped then
        [''Run stopped '' @ em_dash @ '' '' @ counts_summary r @ '' before the stop. '' @
         ''The tests that did not run are not failures.'']
      else if errored r then
        [''pytest exited with code '' @ code_text (pytest_returncode r) @ '' '' @
         ''(collection/usage error or no tests) '' @ em_dash @ '' see '' @
         ''reports/'' @ run_id r @ ''/'' @ pytest_output_name]
      else if total r = 0 then
        [''Run finished but no tests ran '' @ em_dash @ '' check the test selection and configuration.'']
      else
        (''Run finished: '' @ counts_summary r @ ''.'') #
        (if skipped r \<noteq> 0 \<and> passed r = 0 \<and> failed r = 0 \<and> errors r = 0 then
           [''Everything selected was skipped '' @ em_dash @ '' see the SKIP reason(s) above '' @
            ''(often a role mismatch: switch the Role selector).'']
         else []))"

definition on_run_finished :: "run_result \<Rightarrow> main_window \<Rightarrow> main_window" where
  "on_run_finished r w =
     (case pill r (win_stopped w) (win_launch_failed w) of
        (text, state) \<Rightarrow>
          (let w1 = set_status text state (set_running False (w\<lparr>win_report := set_result r (win_report w)\<rparr>))
           in if win_launch_failed w then w1 else say (finished_lines r (win_stopped w)) w1))"

text \<open>The connections of the controller's signals.\<close>

fun on_signal :: "'d signal \<Rightarrow> main_window \<Rightarrow> main_window" where
  "on_signal (TestSignal t) w = on_test_event t w"
| "on_signal (PacketSignal p) w = on_packet_event p w"
| "on_signal (OutputLine l) w = on_output_line l w"
| "on_signal (FinishedSignal r) w = on_run_finished r w"
| "on_signal (FailedSignal m) w = on_launch_failed m w"
| "on_signal (SaveFailedSignal m) w = on_save_failed m w"
| "on_signal StoppedSignal w = on_stopped w"
| "on_signal (SlotRaised e) w = w"

definition show_signals :: "'d signal list \<Rightarrow> main_window \<Rightarrow> main_window" where
  "show_signals sigs w = foldl (\<lambda>w s. on_signal s w) w sigs"

section \<open>From the form to the child process\<close>

lemma split_port_printable: "split_host_port s = Inr (h, Some p) \<Longrightarrow> printable_int p"
  by (auto simp: split_host_port_def host_and_port_def Let_def split: if_splits prod.splits option.splits
      dest: py_int_printable)

text \<open>What the widgets themselves guarantee: the boxes offer the program's own values, the spin boxes the
  range of a port, and a session's port came from the generator.\<close>

definition offered :: "(nat \<Rightarrow> nat) \<Rightarrow> form \<Rightarrow> int option \<Rightarrow> bool" where
  "offered randbelow f session_port \<longleftrightarrow>
     f_target_stack f \<in> set list_profiles \<and> port_range (f_src_port f) \<and> port_range (f_dst_port f) \<and>
     (case session_port of None \<Rightarrow> True | Some p \<Rightarrow> port_range p) \<and>
     (case f_proxy_mode f of None \<Rightarrow> True | Some m \<Rightarrow> mode_of m \<noteq> None) \<and>
     list_all (\<lambda>n. randbelow n < n) [16384]"

text \<open>The form as it opens is such a form.\<close>

lemma initial_offered: "list_all (\<lambda>n. randbelow n < n) [16384] \<Longrightarrow> offered randbelow (initial_form names) None"
proof -
  have "hd list_profiles \<in> set list_profiles" by code_simp
  then show "list_all (\<lambda>n. randbelow n < n) [16384] \<Longrightarrow> offered randbelow (initial_form names) None"
    by (simp add: offered_def initial_form_def port_range_def)
qed

lemma resolved_port:
  assumes "offered randbelow f sp" "resolved_dst_port randbelow f sp = (p, sp')"
  shows "port_range p"
  using assms random_port_range [of randbelow]
  by (auto simp: resolved_dst_port_def offered_def Let_def split: if_splits option.splits)

text \<open>The configuration the form gives, as far as the child's options need it.\<close>

lemma current_config:
  assumes "offered randbelow f sp" "current_dut_config randbelow f sp = (Inr c :: 'd exn + dut_config, sp')"
  shows "interface c = Some (f_interface f) \<and> target_stack c = Some (f_target_stack f) \<and>
    target_mac c = nonempty (f_target_mac f) \<and> dut_timeout c = 2 \<and> source_port c = nonzero (f_src_port f) \<and>
    allowed_targets c = allowed_ranges (f_allowed f) \<and>
    resolve_role (dut_leg c) (dut_role c) = dut_role c \<and>
    (\<exists>p. target_port c = Some p \<and> printable_int p) \<and>
    (\<exists>h q. split_host_port (f_proxy_front f) = (Inr (h, q) :: 'd exn + string option \<times> int option) \<and>
       (dut_leg c = Some Front \<and> truthy h \<longrightarrow> target_ip c = h))"
proof -
  from assms(2) obtain leg r h q tip tport port where
    l: "split_host_port (f_proxy_front f) = (Inr (h, q) :: 'd exn + string option \<times> int option)" and
    t: "resolve_leg_target leg (Some (f_target_ip f)) (nonzero (f_dst_port f)) h q = (tip, tport)" and
    p: "(case tport of Some p \<Rightarrow> (p, sp) | None \<Rightarrow> resolved_dst_port randbelow f sp) = (port, sp')" and
    c: "c = form_config f leg (resolve_role leg r) tip port"
    by (auto simp: current_dut_config_def rbind_def split: sum.splits prod.splits)
  have pp: "printable_int port"
  proof (cases tport)
    case None
    with p resolved_port [OF assms(1)] port_printable show ?thesis by simp
  next
    case (Some x)
    with p t show ?thesis
      using split_port_printable [OF l [THEN trans]] assms(1) l
      by (auto simp: resolve_leg_target_def nonzero_def offered_def intro: port_printable
          dest: split_port_printable split: if_splits option.splits)
  qed
  have role: "resolve_role leg (resolve_role leg r) = resolve_role leg r"
    by (simp add: resolve_role_def split: option.split)
  from c t p pp role l show ?thesis
    by (auto simp: form_config_def dut_config_defaults_def resolve_leg_target_def split: if_splits)
qed

text \<open>What a started run went through.\<close>

lemma started_run:
  assumes "on_run_clicked randbelow preflight f tree w = (Inr (Some rq) :: 'd exn + run_request option, w')"
  shows "\<exists>c sp p. current_dut_config randbelow f (win_session_port w) = (Inr c :: 'd exn + dut_config, sp) \<and>
    preflight c = Inr p \<and> ok p \<and> build_run_request f tree c = (Inr rq :: 'd exn + run_request)"
  using assms
  by (auto simp: on_run_clicked_def not_started_def after_preflight_def cleared_def set_status_def Let_def
      split: prod.splits sum.splits bool.splits if_splits)

lemma request_fields:
  assumes "build_run_request f tree c = (Inr rq :: 'd exn + run_request)"
  shows "\<exists>h q b z. split_host_port (f_proxy_front f) = (Inr (h, q) :: 'd exn + string option \<times> int option) \<and>
    split_host_port (f_proxy_backend f) = (Inr (b, z) :: 'd exn + string option \<times> int option) \<and>
    rq_config rq = c \<and> targets rq = checked_targets tree \<and> payload_size rq = 64 \<and>
    rq_proxy_mode rq = f_proxy_mode f \<and> rq_proxy_host rq = h \<and> rq_proxy_port rq = q \<and>
    rq_backend_host rq = b \<and> rq_backend_port rq = z \<and> confirm_vuln_tests rq = f_confirm f"
  using assms by (auto simp: build_run_request_def result_simps)

lemma preflight_complete:
  "run_preflight h frepr probe c tmo = Inr p \<Longrightarrow> ok p \<Longrightarrow> missing_required False c = []"
  by (auto simp: run_preflight_def Let_def split: if_splits)

lemma complete_fields: "missing_required k c = [] \<Longrightarrow> truthy (target_ip c) \<and> truthy (interface c)"
  by (auto simp: missing_required_def required_fields_def split: if_splits)

lemma small_printable: "printable_int 64"
  by (rule port_printable) (simp add: port_range_def)

lemma window_sendable:
  assumes "on_run_clicked randbelow (\<lambda>c. run_preflight h frepr (probe c) c tmo) f tree w = (Inr (Some rq), w')"
    "offered randbelow f (win_session_port w)" "list_all (\<lambda>t. \<not> starts_with ''-'' t) (checked_targets tree)"
  shows "sendable rq"
proof -
  from started_run [OF assms(1)] obtain c sp p where
    c: "current_dut_config randbelow f (win_session_port w) = (Inr c :: unit exn + dut_config, sp)"
      "run_preflight h frepr (probe c) c tmo = Inr p" "ok p"
      "build_run_request f tree c = (Inr rq :: unit exn + run_request)"
    by blast
  from request_fields [OF c(4)] obtain a q b z where
    split: "split_host_port (f_proxy_front f) = (Inr (a, q) :: unit exn + string option \<times> int option)"
      "split_host_port (f_proxy_backend f) = (Inr (b, z) :: unit exn + string option \<times> int option)" and
    rq: "rq_config rq = c" "targets rq = checked_targets tree" "payload_size rq = 64"
      "rq_proxy_mode rq = f_proxy_mode f" "rq_proxy_host rq = a" "rq_proxy_port rq = q"
      "rq_backend_host rq = b" "rq_backend_port rq = z"
    by blast
  note config = current_config [OF assms(2) c(1)]
  have full: "truthy (target_ip c)" "truthy (interface c)"
    using complete_fields preflight_complete [OF c(2,3)] by blast+
  have ports: "case q of None \<Rightarrow> True | Some i \<Rightarrow> printable_int i" "case z of None \<Rightarrow> True | Some i \<Rightarrow> printable_int i"
    using split split_port_printable by (auto split: option.split)
  have src: "case source_port c of None \<Rightarrow> True | Some i \<Rightarrow> printable_int i"
    using config assms(2) by (auto simp: nonzero_def offered_def port_printable)
  have mac: "target_mac c \<noteq> Some []" using config by (auto simp: nonempty_def)
  have stack: "target_stack c \<in> Some ` set list_profiles" using config assms(2) by (auto simp: offered_def)
  have mode: "truthy (f_proxy_mode f) \<longrightarrow> mode_of (the (f_proxy_mode f)) \<noteq> None"
    using assms(2) by (auto simp: offered_def split: option.splits)
  show ?thesis
    using config full ports src mac stack mode rq split assms(3) small_printable
    by (auto simp: sendable_def plain_targets_def Let_def)
qed

text \<open>The picker's targets are paths below \<open>tests\<close>.\<close>

lemma targets_are_paths:
  assumes "tidy_listing listing" "t \<in> set (checked_targets (clicked listing clicks))"
  shows "\<not> starts_with ''-'' t"
proof -
  have p: "siblings ''tests'' (map it_target (clicked listing clicks))" "list_all placed (clicked listing clicks)"
    using placed_clicks [OF populate_placed [OF assms(1)], of clicks] by (simp_all add: clicked_def)
  from assms(2) obtain d where d: "d \<in> set (clicked listing clicks)" "t \<in> set (walk_targets False d)"
    by (auto simp: checked_targets_def)
  then have "covers (it_target d) t" using targets_covered p(2) by (auto simp: list_all_iff)
  moreover have "covers ''tests'' (it_target d)" using siblings_below p(1) d(1) by auto
  ultimately have "covers ''tests'' t" using covers_trans by blast
  then show ?thesis by (auto simp: covers_append starts_with_def)
qed


definition demo_form :: form where
  "demo_form =
     \<lparr>f_interface = ''eth0'', f_target_ip = ''10.0.0.5'', f_target_mac = [], f_src_port = 0, f_dst_port = 80,
      f_target_stack = ''linux'', f_role = ''client'', f_allowed = [], f_confirm = False, f_debug = False,
      f_proxy_mode = None, f_proxy_front = [], f_proxy_backend = [], f_proxy_leg = None\<rparr>"

definition root_host :: host where
  "root_host =
     \<lparr>system = ''Linux'', admin = None, euid = 0, getcap = None, interpreter = ''py'', executable = ''py'',
      frozen = False, argv = [], cwd = ''/s'', shell_execute = (\<lambda>_ _ _. 0)\<rparr>"

lemma demo_split: "split_host_port [] = Inr (None, None)"
  by (simp add: split_host_port_def strip_def uchars.simps)

lemma demo_started:
  "\<exists>rq w'. on_run_clicked (\<lambda>_. 0) (\<lambda>c. run_preflight root_host (\<lambda>_. []) NoReply c 1) demo_form tree new_main_window =
     (Inr (Some rq), w')"
  by (simp add: on_run_clicked_def current_dut_config_def demo_form_def selected_leg_def enum_value_def
      role_of_def demo_split new_main_window_def cleared_def set_status_def Let_def resolve_leg_target_def nonzero_def
      validate_topology_def form_config_def dut_config_defaults_def back_leg_requirement_error_def
      run_preflight_def missing_required_def required_fields_def require_elevation_def is_elevated_def
      root_host_def after_preflight_def build_run_request_def)


section \<open>Addresses\<close>

lemma partition_at_none: "c \<notin> set s \<Longrightarrow> partition_at c s = (s, False, [])"
  by (induction s) auto

lemma rpartition_at_last: "c \<notin> set q \<Longrightarrow> rpartition_at c (p @ c # q) = (p, True, q)"
  by (simp add: rpartition_at_def partition_at_found)

lemma idec_no_colon: "CHR '':'' \<notin> set (idec p)"
proof -
  have "CHR '':'' \<notin> set (dec n)" for n by (rule dec_no_char) code_simp
  then show ?thesis by (simp add: idec_def)
qed

text \<open>An address typed as the program prints it is read back: for a host without brackets or
  surrounding blanks and a port that has at most 4300 digits, the field reads the host and the port,
  also for an IPv6 host, which is printed in brackets.\<close>

theorem split_format_authority:
  assumes "h \<noteq> []" "CHR ''['' \<notin> set h" "CHR '']'' \<notin> set h" "printable_int p"
    "strip (format_authority h p) = format_authority h p"
  shows "split_host_port (format_authority h p) = Inr (Some h, Some p)"
proof (cases "CHR '':'' \<in> set h")
  case True
  have no: "\<not> starts_with ''['' h" using assms(2) by (cases h) (auto simp: starts_with_def)
  have "partition_at (CHR '']'') ((CHR ''['' # h) @ CHR '']'' # (CHR '':'' # idec p)) =
      (CHR ''['' # h, True, CHR '':'' # idec p)"
    using assms(3) by (intro partition_at_found) simp
  moreover have "dropWhile (\<lambda>c. c = CHR ''['') (CHR ''['' # h) = h"
    using assms(1,2) by (cases h) auto
  moreover have "dropWhile (\<lambda>c. c = CHR '':'') (CHR '':'' # idec p) = idec p"
    using idec_no_colon [of p] by (cases "idec p") auto
  moreover have "idec p \<noteq> []" by (simp add: idec_def)
  moreover from this have "\<exists>x \<in> set (idec p). x \<noteq> CHR '':''"
    using idec_no_colon [of p] by (cases "idec p") auto
  ultimately show ?thesis
    using True no assms py_int_idec
    by (simp add: split_host_port_def format_authority_def host_and_port_def nonempty_def starts_with_def)
next
  case False
  have "idec p \<noteq> []" by (simp add: idec_def)
  moreover have "\<not> starts_with ''['' (h @ CHR '':'' # idec p)"
    using assms(1,2) by (cases h) (auto simp: starts_with_def)
  ultimately show ?thesis
    using False assms py_int_idec rpartition_at_last [OF idec_no_colon, of h p]
    by (simp add: split_host_port_def format_authority_def host_and_port_def nonempty_def)
qed

lemma split_format_authority_witness:
  "split_host_port (format_authority ''fe80::1'' 9099) = (Inr (Some ''fe80::1'', Some 9099) :: unit exn + _)"
proof (rule split_format_authority)
  show "strip (format_authority ''fe80::1'' 9099) = format_authority ''fe80::1'' 9099" by code_simp
  show "printable_int 9099" by code_simp
qed simp_all

text \<open>The prefix is lost when the host is missing: the whole field becomes the host.\<close>

lemma portless_host: "split_host_port '':9099'' = (Inr (Some '':9099'', None) :: unit exn + _)"
  by code_simp

section \<open>The end of a run\<close>

text \<open>C39: a run in which nothing passed is shown as passed. If every test of a run was skipped, and
  there is one, the pill of the window says that all selected tests passed, in the ink of success.\<close>

theorem all_skipped_reads_as_passed:
  assumes "tests r \<noteq> []" "list_all (\<lambda>t. outcome t = SKIPPED) (tests r)" "\<not> errored r"
  shows "passed r = 0 \<and>
    pill r False False = (''All '' @ dec (length (tests r)) @ '' selected tests passed'', ''ok'')"
proof -
  have "count_outcome x r = 0" if "x \<noteq> SKIPPED" for x
    using assms(2) that by (auto simp: count_outcome_def filter_empty_conv list_all_iff)
  then have "passed r = 0" "failed r = 0" "errors r = 0"
    by (simp_all add: passed_def failed_def errors_def)
  then show ?thesis using assms by (simp add: pill_def total_def)
qed

lemma all_skipped_reads_as_passed_witness:
  "\<exists>r. passed r = 0 \<and> pill r False False = (''All 1 selected tests passed'', ''ok'')"
proof -
  let ?r = "demo_run\<lparr>tests := [\<lparr>nodeid = ''t::a'', outcome = SKIPPED, duration_s = 0, event_markers = [],
      message = None\<rparr>], pytest_returncode := Some 0\<rparr>"
  have "dec 1 = ''1''" by code_simp
  moreover have "tests ?r \<noteq> []" "list_all (\<lambda>t. outcome t = SKIPPED) (tests ?r)" "\<not> errored ?r"
    by (simp_all add: errored_def)
  ultimately show ?thesis using all_skipped_reads_as_passed [of ?r] by (intro exI [of _ ?r]) simp
qed

lemma on_signal_report:
  "results_told [x] = [] \<Longrightarrow> win_report (on_signal x w) = win_report w"
  "\<not> win_running w \<Longrightarrow> \<not> win_running (on_signal x w)"
  by (cases x; simp add: on_test_event_def on_packet_event_def on_output_line_def on_launch_failed_def
      on_save_failed_def on_stopped_def on_run_finished_def say_def set_status_def set_running_def
      Let_def split: prod.split)+

lemma show_signals_Cons [simp]: "show_signals (x # sigs) w = show_signals sigs (on_signal x w)"
  by (simp add: show_signals_def)

lemma show_signals_quiet:
  "results_told sigs = [] \<Longrightarrow> win_report (show_signals sigs w) = win_report w"
  "\<not> win_running w \<Longrightarrow> \<not> win_running (show_signals sigs w)"
proof (induction sigs arbitrary: w)
  case (Cons x sigs)
  {
    case 1
    then have "results_told [x] = []" "results_told sigs = []" by (auto split: signal.splits)
    with Cons.IH(1) on_signal_report(1) show ?case by simp
  next
    case 2
    with Cons.IH(2) [of "on_signal x w"] on_signal_report(2) [of w x] show ?case by simp
  }
qed (simp_all add: show_signals_def)

lemma finished_shown:
  "\<not> win_running (on_run_finished r w) \<and> rp_result (win_report (on_run_finished r w)) = Some r \<and>
   rp_enabled (win_report (on_run_finished r w))"
  by (simp add: on_run_finished_def set_running_def set_status_def say_def set_result_def Let_def
      split: prod.split)

lemma one_result_shown:
  "results_told sigs = [r] \<Longrightarrow>
   \<not> win_running (show_signals sigs w) \<and> rp_result (win_report (show_signals sigs w)) = Some r \<and>
   rp_enabled (win_report (show_signals sigs w))"
proof (induction sigs arbitrary: w)
  case (Cons x sigs)
  show ?case
  proof (cases "results_told [x] = []")
    case True
    then have "results_told (x # sigs) = results_told sigs" by (auto split: signal.splits)
    with Cons show ?thesis by simp
  next
    case False
    then obtain r' where x: "x = FinishedSignal r'" by (auto split: signal.splits)
    with Cons.prems have "r' = r" "results_told sigs = []" by auto
    with x finished_shown show_signals_quiet show ?thesis by (metis show_signals_Cons on_signal.simps(4))
  qed
qed simp



end
