(* ===== verification/Click.thy ===== *)
theory Click
  imports Cli Child
begin

text \<open>
  The command line of \<open>src/cli/main.py\<close> before a command runs: the options its decorators declare, in the
  order of the decorators, and the arguments a command function receives. \<open>click_values\<close> is click's
  documented reading of occurrences of options: an unknown option, a value that does not convert or
  is no choice, or a missing required option rejects the command line. The theorem joins this end
  to the other: what is typed is what the child process tests with.
\<close>

section \<open>Declarations\<close>

datatype click_type = Text | Whole | Real | OneOf "string list" | FilePath

record click_option =
  co_flags :: "string list"
  co_dest :: string
  co_type :: click_type
  co_default :: pyval
  co_required :: bool
  co_multiple :: bool
  co_switch :: bool
  co_help :: "string option"

text \<open>A parameter's name is that of its long flag unless the decorator gives one.\<close>

definition dest_of :: "string \<Rightarrow> string" where
  "dest_of flag =
     map (\<lambda>c. if c = CHR ''-'' then CHR ''_'' else c) (dropWhile (\<lambda>c. c = CHR ''-'') flag)"

definition option_decl :: "string \<Rightarrow> click_type \<Rightarrow> pyval \<Rightarrow> click_option" where
  "option_decl flag t d =
     \<lparr>co_flags = [flag], co_dest = dest_of flag, co_type = t, co_default = d, co_required = False,
      co_multiple = False, co_switch = False, co_help = None\<rparr>"

definition required_decl :: "string \<Rightarrow> click_type \<Rightarrow> click_option" where
  "required_decl flag t = (option_decl flag t PNone)\<lparr>co_required := True\<rparr>"

definition switch_decl :: "string \<Rightarrow> click_option" where
  "switch_decl flag = (option_decl flag Text (PBool False))\<lparr>co_switch := True\<rparr>"

definition with_help :: "string \<Rightarrow> click_option \<Rightarrow> click_option" where
  "with_help h opt = opt\<lparr>co_help := Some h\<rparr>"

definition of_shared :: "click_param \<Rightarrow> click_option" where
  "of_shared p =
     with_help (c_help p) (option_decl (c_name p)
       (case c_choices p of
          Some cs \<Rightarrow> OneOf cs
        | None \<Rightarrow> (case c_type p of Word \<Rightarrow> Text | Integer \<Rightarrow> Whole)) (c_default p))"

definition verbose_option :: click_option where
  "verbose_option =
     with_help (''DEBUG-level application logging. Distinct from `run --debug`, which '' @
       ''writes the per-packet tshark-style trace for a run.'')
       ((switch_decl ''--verbose'')\<lparr>co_flags := [''-v'', ''--verbose'']\<rparr>)"

definition run_click_options :: "click_option list" where
  "run_click_options =
     [option_decl ''--module'' (OneOf test_modules) PNone,
      option_decl ''--submodule'' (OneOf test_submodules) PNone,
      with_help ''Substring match against test node IDs (-k).''
        ((option_decl ''--test'' Text PNone)\<lparr>co_dest := ''test_name''\<rparr>),
      with_help ''Extra pytest marker expression term(s).''
        ((option_decl ''--marker'' Text (PList []))\<lparr>co_dest := ''markers'', co_multiple := True\<rparr>),
      with_help ''Local Ethernet interface facing the DUT.'' (required_decl ''--iface'' Text),
      required_decl ''--dut-ip'' Text,
      required_decl ''--target-stack'' (OneOf list_profiles)] @
     map of_shared (click_options run_options []) @
     [with_help ''CIDR authorized for vuln-marked tests.''
        ((option_decl ''--allowed-target'' Text (PList []))\<lparr>co_dest := ''allowed_targets'', co_multiple := True\<rparr>),
      switch_decl ''--confirm-vuln-tests'',
      with_help ''Write a tshark-style per-packet debug log to reports/<run_id>/debug.log.''
        (switch_decl ''--debug''),
      option_decl ''--report'' (OneOf cli_choices) (PStr ''pdf''),
      with_help ''Skip the pre-run connectivity check (config, privileges, ARP probe of the DUT).''
        (switch_decl ''--skip-preflight'')]"

definition send_click_options :: "click_option list" where
  "send_click_options =
     [required_decl ''--proto'' (OneOf (map proto_value [TCP, UDP])),
      required_decl ''--iface'' Text,
      required_decl ''--src-ip'' Text,
      required_decl ''--dst-ip'' Text,
      required_decl ''--src-port'' Whole,
      required_decl ''--dst-port'' Whole,
      required_decl ''--src-mac'' Text,
      required_decl ''--dst-mac'' Text,
      option_decl ''--ttl'' Whole (PInt 64),
      option_decl ''--tcp-flags'' Text (PStr ''S''),
      option_decl ''--payload-mode'' (OneOf (map payload_mode_value [Zeros, Ones, Random, Custom]))
        (PStr ''random''),
      option_decl ''--payload-size'' Whole (PInt 64),
      with_help ''Custom payload as text.'' ((option_decl ''--payload'' Text PNone)\<lparr>co_dest := ''payload_text''\<rparr>),
      with_help ''Custom payload as hex.'' (option_decl ''--payload-hex'' Text PNone),
      with_help ''Custom payload loaded from a file.'' (option_decl ''--payload-file'' Text PNone),
      option_decl ''--timeout'' Real (PFloat 2),
      (option_decl ''--capture'' FilePath PNone)\<lparr>co_dest := ''capture_path''\<rparr>]"

definition record_click_options :: "click_option list" where
  "record_click_options =
     [with_help ''Local Ethernet interface to record from.'' (required_decl ''--iface'' Text),
      with_help ''Output .pcap file path.'' ((required_decl ''--out'' FilePath)\<lparr>co_dest := ''output''\<rparr>),
      with_help (''Restrict capture to the conversation with this host (the app's traffic to it '' @
        ''and the associated transmission back). Omit to capture everything the interface sees.'')
        (option_decl ''--dut-ip'' Text PNone),
      with_help ''Explicit BPF filter, overriding the --dut-ip-derived one (e.g. 'tcp port 80').''
        ((option_decl ''--filter'' Text PNone)\<lparr>co_dest := ''bpf_filter''\<rparr>),
      with_help ''Stop after N packets (0 = unbounded, until Ctrl+C).'' (option_decl ''--count'' Whole (PInt 0)),
      with_help ''Stop after this many seconds (default: until Ctrl+C).'' (option_decl ''--duration'' Real PNone)]"

definition serve_click_options :: "click_option list" where
  "serve_click_options =
     [with_help ''Address to listen on (the origin the DUT dials).''
        (option_decl ''--listen-host'' Text (PStr ''0.0.0.0'')),
      with_help ''Port to listen on.'' (option_decl ''--listen-port'' Whole (PInt default_backend_port)),
      with_help ''Also run a UDP echo responder on the same port.''
        ((switch_decl ''--udp'')\<lparr>co_flags := [''--udp'', ''--no-udp'']\<rparr>)]"

section \<open>Reading\<close>

text \<open>\<open>given\<close> are the options on the command line in order, a switch without a value; \<open>to_real\<close> is
  \<open>float(text)\<close>.\<close>

definition convert :: "(string \<Rightarrow> rat option) \<Rightarrow> click_type \<Rightarrow> string \<Rightarrow> pyval option" where
  "convert to_real t s =
     (case t of
        Text \<Rightarrow> Some (PStr s)
      | FilePath \<Rightarrow> Some (PStr s)
      | Whole \<Rightarrow> map_option PInt (py_int s)
      | Real \<Rightarrow> map_option PFloat (to_real s)
      | OneOf cs \<Rightarrow> if s \<in> set cs then Some (PStr s) else None)"

definition converted :: "(string \<Rightarrow> rat option) \<Rightarrow> click_type \<Rightarrow> string option \<Rightarrow> pyval option" where
  "converted to_real t v = Option.bind v (convert to_real t)"

definition read_option ::
  "(string \<Rightarrow> rat option) \<Rightarrow> (string \<times> string option) list \<Rightarrow> click_option \<Rightarrow> pyval option" where
  "read_option to_real given opt =
     (let here = filter (\<lambda>g. fst g \<in> set (co_flags opt)) given
      in if co_switch opt then
           (if list_ex (\<lambda>g. snd g \<noteq> None) here then None
            else if here = [] then Some (co_default opt)
            else Some (PBool (\<not> starts_with ''--no-'' (fst (last here)))))
         else if co_multiple opt then
           map_option PList (collect_opt (map (\<lambda>g. converted to_real (co_type opt) (snd g)) here))
         else if here = [] then (if co_required opt then None else Some (co_default opt))
         else if list_ex (\<lambda>g. snd g = None) here then None
         else converted to_real (co_type opt) (snd (last here)))"

text \<open>The callback of \<open>--allowed-target\<close> runs on the value it reads.\<close>

definition checked :: "click_option \<Rightarrow> pyval \<Rightarrow> pyval option" where
  "checked opt v =
     (if co_dest opt = ''allowed_targets'' then
        (case get_strs v of
           None \<Rightarrow> None
         | Some cidrs \<Rightarrow> (case (validate_cidrs cidrs :: unit exn + string list) of
              Inl e \<Rightarrow> None | Inr cs \<Rightarrow> Some (PList (map PStr cs))))
      else Some v)"

fun click_values ::
  "(string \<Rightarrow> rat option) \<Rightarrow> click_option list \<Rightarrow> (string \<times> string option) list \<Rightarrow> (string \<Rightarrow> pyval) option" where
  "click_values to_real [] given = Some (\<lambda>_. PNone)"
| "click_values to_real (opt # opts) given =
     (case Option.bind (read_option to_real given opt) (checked opt) of
        None \<Rightarrow> None
      | Some v \<Rightarrow> map_option (\<lambda>vals. vals(co_dest opt := v)) (click_values to_real opts given))"

definition click_parse ::
  "(string \<Rightarrow> rat option) \<Rightarrow> click_option list \<Rightarrow> (string \<times> string option) list \<Rightarrow> (string \<Rightarrow> pyval) option" where
  "click_parse to_real opts given =
     (if list_all (\<lambda>g. list_ex (\<lambda>opt. fst g \<in> set (co_flags opt)) opts) given
      then click_values to_real opts given else None)"

text \<open>What the function of each command is called with.\<close>

definition the_text :: "(string \<Rightarrow> pyval) \<Rightarrow> string \<Rightarrow> string" where
  "the_text vals n = (case get_str (vals n) of Some s \<Rightarrow> s | None \<Rightarrow> [])"

definition the_int :: "(string \<Rightarrow> pyval) \<Rightarrow> string \<Rightarrow> int" where
  "the_int vals n = (case get_int (vals n) of Some i \<Rightarrow> i | None \<Rightarrow> 0)"

definition the_texts :: "(string \<Rightarrow> pyval) \<Rightarrow> string \<Rightarrow> string list" where
  "the_texts vals n = (case get_strs (vals n) of Some ss \<Rightarrow> ss | None \<Rightarrow> [])"

definition run_arguments :: "(string \<Rightarrow> pyval) \<Rightarrow> run_params" where
  "run_arguments vals =
     \<lparr>a_module = get_str (vals ''module''), a_submodule = get_str (vals ''submodule''),
      a_test = get_str (vals ''test_name''), a_markers = the_texts vals ''markers'',
      a_iface = the_text vals ''iface'', a_dut_ip = the_text vals ''dut_ip'',
      a_dut_mac = get_str (vals ''dut_mac''), a_dut_port = get_int (vals ''dut_port''),
      a_source_port = get_int (vals ''dut_source_port''), a_stack = the_text vals ''target_stack'',
      a_role = the_text vals ''role'', a_payload_mode = the_text vals ''payload_mode'',
      a_payload_size = the_int vals ''payload_size'', a_allowed = the_texts vals ''allowed_targets'',
      a_confirm = py_true (vals ''confirm_vuln_tests''), a_debug = py_true (vals ''debug''),
      a_proxy_mode = get_str (vals ''proxy_mode''), a_proxy_leg = get_str (vals ''proxy_leg''),
      a_proxy_host = get_str (vals ''proxy_host''), a_proxy_port = get_int (vals ''proxy_port''),
      a_backend_host = get_str (vals ''backend_host''), a_backend_port = the_int vals ''backend_port'',
      a_report = the_text vals ''report'', a_skip_preflight = py_true (vals ''skip_preflight'')\<rparr>"

definition send_arguments :: "(string \<Rightarrow> pyval) \<Rightarrow> send_params" where
  "send_arguments vals =
     \<lparr>s_proto = the_text vals ''proto'', s_iface = the_text vals ''iface'', s_src_ip = the_text vals ''src_ip'',
      s_dst_ip = the_text vals ''dst_ip'', s_src_port = the_int vals ''src_port'',
      s_dst_port = the_int vals ''dst_port'', s_src_mac = the_text vals ''src_mac'',
      s_dst_mac = the_text vals ''dst_mac'', s_ttl = the_int vals ''ttl'', s_flags = the_text vals ''tcp_flags'',
      s_mode = the_text vals ''payload_mode'', s_size = the_int vals ''payload_size'',
      s_text = get_str (vals ''payload_text''), s_hex = get_str (vals ''payload_hex''),
      s_file = get_str (vals ''payload_file''), s_capture = get_str (vals ''capture_path'')\<rparr>"

definition record_arguments :: "(string \<Rightarrow> pyval) \<Rightarrow> record_params" where
  "record_arguments vals =
     \<lparr>r_iface = the_text vals ''iface'', r_output = the_text vals ''output'', r_dut_ip = get_str (vals ''dut_ip''),
      r_filter = get_str (vals ''bpf_filter''), r_count = the_int vals ''count'',
      r_duration = get_float (vals ''duration'')\<rparr>"

section \<open>From the command line to the child process\<close>

lemma single_read:
  "read_option to_real given opt = Some v \<Longrightarrow> \<not> co_switch opt \<Longrightarrow> \<not> co_multiple opt \<Longrightarrow>
   v = co_default opt \<and> \<not> co_required opt \<or> (\<exists>s. convert to_real (co_type opt) s = Some v)"
  by (auto simp: read_option_def Let_def converted_def split: if_splits bind_splits)

lemma click_values_of:
  assumes "click_values to_real opts given = Some vals" "distinct (map co_dest opts)" "opt \<in> set opts"
  shows "Option.bind (read_option to_real given opt) (checked opt) = Some (vals (co_dest opt))"
  using assms
proof (induction opts arbitrary: vals)
  case (Cons o' opts)
  then obtain v vals' where v: "Option.bind (read_option to_real given o') (checked o') = Some v"
    "click_values to_real opts given = Some vals'" "vals = vals'(co_dest o' := v)"
    by (auto split: option.splits)
  show ?case
  proof (cases "opt = o'")
    case False
    with Cons.prems have m: "opt \<in> set opts" by simp
    then have "co_dest opt \<in> co_dest ` set opts" by simp
    then have "co_dest opt \<noteq> co_dest o'" using Cons.prems(2) by auto
    with Cons.IH [OF v(2) _ m] Cons.prems(2) v(3) show ?thesis by simp
  qed (simp add: v)
qed simp

lemma shared_names:
  "map opt_name run_options =
     [''--role'', ''--dut-mac'', ''--dut-port'', ''--dut-source-port'', ''--payload-mode'', ''--payload-size'',
      ''--proxy-mode'', ''--proxy-leg'', ''--proxy-host'', ''--proxy-port'', ''--backend-host'', ''--backend-port'']"
  by (simp add: run_options_def shared_options_def)

lemma of_shared_dest: "co_dest (of_shared (click_kwargs opt)) = dest_of (opt_name opt)"
  by (simp add: of_shared_def with_help_def option_decl_def click_kwargs_def)

lemma run_dests: "distinct (map co_dest run_click_options)"
proof -
  have "map co_dest (map of_shared (click_options run_options [])) = map dest_of (map opt_name run_options)"
    by (simp add: click_options_order of_shared_dest)
  then show ?thesis
    unfolding run_click_options_def map_append shared_names
    by (simp add: with_help_def required_decl_def switch_decl_def option_decl_def dest_of_def)
qed

text \<open>The shared options that carry numbers and choices, as click sees them.\<close>

lemma shared_declared:
  "\<exists>h. with_help h (option_decl ''--dut-port'' Whole PNone) \<in> set run_click_options"
  "\<exists>h. with_help h (option_decl ''--dut-source-port'' Whole PNone) \<in> set run_click_options"
  "\<exists>h. with_help h (option_decl ''--proxy-port'' Whole PNone) \<in> set run_click_options"
  "\<exists>h. with_help h (option_decl ''--payload-size'' Whole (PInt 64)) \<in> set run_click_options"
  "\<exists>h. with_help h (option_decl ''--backend-port'' Whole (PInt default_backend_port)) \<in> set run_click_options"
  "\<exists>h. with_help h (option_decl ''--proxy-mode''
      (OneOf (map mode_value [Transparent, HttpConnect, Socks5])) PNone) \<in> set run_click_options"
  "required_decl ''--target-stack'' (OneOf list_profiles) \<in> set run_click_options"
  by (auto simp: run_click_options_def click_options_order run_options_def shared_options_def of_shared_def
      click_kwargs_def)

lemma run_value:
  assumes "click_parse to_real run_click_options given = Some vals" "opt \<in> set run_click_options"
    "\<not> co_switch opt" "\<not> co_multiple opt" "co_dest opt \<noteq> ''allowed_targets''"
  shows "vals (co_dest opt) = co_default opt \<and> \<not> co_required opt \<or>
    (\<exists>s. convert to_real (co_type opt) s = Some (vals (co_dest opt)))"
proof -
  have "Option.bind (read_option to_real given opt) (checked opt) = Some (vals (co_dest opt))"
    using assms(1,2) click_values_of run_dests by (fastforce simp: click_parse_def split: if_splits)
  then have "read_option to_real given opt = Some (vals (co_dest opt))"
    using assms(5) by (auto simp: checked_def split: bind_splits)
  then show ?thesis using single_read assms(3,4) by blast
qed

lemma run_numbers:
  assumes "click_parse to_real run_click_options given = Some vals"
  shows "case get_int (vals ''dut_port'') of None \<Rightarrow> True | Some i \<Rightarrow> printable_int i"
    "case get_int (vals ''dut_source_port'') of None \<Rightarrow> True | Some i \<Rightarrow> printable_int i"
    "case get_int (vals ''proxy_port'') of None \<Rightarrow> True | Some i \<Rightarrow> printable_int i"
    "printable_int (the_int vals ''payload_size'')" "printable_int (the_int vals ''backend_port'')"
proof -
  have d: "dest_of ''--dut-port'' = ''dut_port''" "dest_of ''--dut-source-port'' = ''dut_source_port''"
    "dest_of ''--proxy-port'' = ''proxy_port''" "dest_of ''--payload-size'' = ''payload_size''"
    "dest_of ''--backend-port'' = ''backend_port''"
    by (simp_all add: dest_of_def)
  have c: "printable_int 64" "printable_int 9099" by code_simp+
  have whole: "vals n = d \<or> (\<exists>i. vals n = PInt i \<and> printable_int i)"
    if "\<exists>h. with_help h (option_decl flag Whole d) \<in> set run_click_options" "dest_of flag = n"
      "n \<noteq> ''allowed_targets''" for flag n d
  proof -
    from that(1) obtain h where "with_help h (option_decl flag Whole d) \<in> set run_click_options" by blast
    from run_value [OF assms this] that(2,3) show ?thesis
      by (auto simp: with_help_def option_decl_def convert_def py_int_printable dest!: sym [of "PInt _"])
  qed
  show "case get_int (vals ''dut_port'') of None \<Rightarrow> True | Some i \<Rightarrow> printable_int i"
    using whole [OF shared_declared(1) d(1)] by auto
  show "case get_int (vals ''dut_source_port'') of None \<Rightarrow> True | Some i \<Rightarrow> printable_int i"
    using whole [OF shared_declared(2) d(2)] by auto
  show "case get_int (vals ''proxy_port'') of None \<Rightarrow> True | Some i \<Rightarrow> printable_int i"
    using whole [OF shared_declared(3) d(3)] by auto
  show "printable_int (the_int vals ''payload_size'')"
    using whole [OF shared_declared(4) d(4)] c by (auto simp: the_int_def)
  show "printable_int (the_int vals ''backend_port'')"
    using whole [OF shared_declared(5) d(5)] c by (auto simp: the_int_def default_backend_port_def)
qed

lemma run_choices:
  assumes "click_parse to_real run_click_options given = Some vals"
  shows "the_text vals ''target_stack'' \<in> set list_profiles"
    "truthy (get_str (vals ''proxy_mode'')) \<longrightarrow> mode_of (the (get_str (vals ''proxy_mode''))) \<noteq> None"
proof -
  have d: "dest_of ''--target-stack'' = ''target_stack''" "dest_of ''--proxy-mode'' = ''proxy_mode''"
    by (simp_all add: dest_of_def)
  show "the_text vals ''target_stack'' \<in> set list_profiles"
    using run_value [OF assms shared_declared(7)]
    by (auto simp: required_decl_def option_decl_def convert_def the_text_def d split: if_splits
        dest!: sym [of "PStr _"])
  obtain h where "with_help h (option_decl ''--proxy-mode''
      (OneOf (map mode_value [Transparent, HttpConnect, Socks5])) PNone) \<in> set run_click_options"
    using shared_declared(6) by blast
  from run_value [OF assms this]
  show "truthy (get_str (vals ''proxy_mode'')) \<longrightarrow> mode_of (the (get_str (vals ''proxy_mode''))) \<noteq> None"
    by (auto simp: with_help_def option_decl_def convert_def d mode_of_def split: if_splits
        dest!: sym [of "PStr _"])
qed

lemma validated:
  "(validate_cidrs cs :: 'd exn + string list) = Inr ds \<Longrightarrow> ds = cs \<and> list_all (\<lambda>c. ip_network c \<noteq> None) cs"
proof (induction cs arbitrary: ds)
  case (Cons c cs)
  then show ?case by (auto simp: rbind_Inr_iff split: option.splits)
qed simp

lemma run_allowed:
  assumes "click_parse to_real run_click_options given = Some vals"
  shows "list_all (\<lambda>c. ip_network c \<noteq> None) (the_texts vals ''allowed_targets'')"
proof -
  let ?opt = "with_help ''CIDR authorized for vuln-marked tests.''
        ((option_decl ''--allowed-target'' Text (PList []))\<lparr>co_dest := ''allowed_targets'', co_multiple := True\<rparr>)"
  have "?opt \<in> set run_click_options" by (simp add: run_click_options_def)
  then have "Option.bind (read_option to_real given ?opt) (checked ?opt) = Some (vals (co_dest ?opt))"
    using assms click_values_of run_dests by (fastforce simp: click_parse_def split: if_splits)
  then obtain v where "checked ?opt v = Some (vals ''allowed_targets'')"
    by (auto simp: with_help_def split: bind_splits)
  then obtain cs where "(validate_cidrs cs :: unit exn + string list) = Inr (the_texts vals ''allowed_targets'')"
    by (auto simp: checked_def with_help_def the_texts_def split: option.splits sum.splits dest!: sym [of "PList _"])
  then show ?thesis using validated by blast
qed

lemma resolved_topology:
  assumes "resolve_topology randbelow pleg crole ip port pmode phost pport borigin =
      (Inr (leg, r, tip, p) :: 'd exn + _, ls)"
    "randbelow 16384 < 16384"
    "case port of None \<Rightarrow> True | Some i \<Rightarrow> printable_int i" "case pport of None \<Rightarrow> True | Some i \<Rightarrow> printable_int i"
  shows "resolve_role leg r = r \<and> printable_int p \<and> (leg = Some Front \<and> truthy phost \<longrightarrow> tip = phost)"
proof -
  have rand: "printable_int (random_ephemeral_port randbelow)"
    using assms(2) by (intro port_printable random_port_range)
  obtain l0 r0 where e: "rbind (if truthy pleg then rbind (enum_value ''ProxyLeg'' leg_of pleg) (\<lambda>l. Inr (Some l))
        else Inr None) (\<lambda>leg. rbind (enum_value ''Role'' role_of (Some crole)) (\<lambda>r. Inr (leg, resolve_role leg r))) =
      (Inr (l0, resolve_role l0 r0) :: 'd exn + _)"
    using assms(1) by (auto simp: resolve_topology_def rbind_Inr_iff simp del: rbind_simps split: sum.splits)
  obtain tip' tport where t': "resolve_leg_target l0 (Some ip) port phost pport = (tip', tport)" by fastforce
  have r: "r = resolve_role leg r0"
    and t: "tip = fst (resolve_leg_target leg (Some ip) port phost pport)"
      "p = (case snd (resolve_leg_target leg (Some ip) port phost pport) of
         Some q \<Rightarrow> q | None \<Rightarrow> random_ephemeral_port randbelow)"
    using assms(1) t' by (auto simp: resolve_topology_def e Let_def split: option.splits)
  have "printable_int p"
    using t(2) assms(3,4) rand by (auto simp: resolve_leg_target_def split: option.splits if_splits)
  then show ?thesis using r t(1) by (auto simp: resolve_leg_target_def resolve_role_def split: option.splits)
qed

lemma command_line_sendable:
  assumes "click_parse to_real run_click_options given = Some vals"
    "resolve_topology randbelow (a_proxy_leg (run_arguments vals)) (a_role (run_arguments vals))
       (a_dut_ip (run_arguments vals)) (a_dut_port (run_arguments vals)) (a_proxy_mode (run_arguments vals))
       (a_proxy_host (run_arguments vals)) (a_proxy_port (run_arguments vals)) (a_backend_host (run_arguments vals)) =
     (Inr topo :: 'd exn + _, ls)"
    "randbelow 16384 < 16384" "a_iface (run_arguments vals) \<noteq> []" "a_dut_mac (run_arguments vals) \<noteq> Some []"
    "truthy (target_ip (run_config (run_arguments vals) topo))"
  shows "sendable (run_request_of (run_arguments vals) (run_config (run_arguments vals) topo) m)"
proof -
  obtain leg r tip p where topo: "topo = (leg, r, tip, p)" by (cases topo)
  have "resolve_role leg r = r \<and> printable_int p \<and>
      (leg = Some Front \<and> truthy (get_str (vals ''proxy_host'')) \<longrightarrow> tip = get_str (vals ''proxy_host''))"
    using resolved_topology [OF assms(2) [unfolded topo] assms(3)] run_numbers [OF assms(1)]
    by (simp add: run_arguments_def)
  then show ?thesis
    using assms(4,5,6) run_numbers [OF assms(1)] run_choices [OF assms(1)]
    by (simp add: sendable_def Let_def run_request_of_def run_config_def topo run_arguments_def plain_targets_def
        dut_config_defaults_def)
qed


definition typed_options :: "(string \<times> string option) list" where
  "typed_options =
     [(''--iface'', Some ''eth0''), (''--dut-ip'', Some ''10.0.0.5''), (''--target-stack'', Some ''linux''),
      (''--dut-port'', Some ''80''), (''--allowed-target'', Some ''10.0.0.0/24''), (''--confirm-vuln-tests'', None)]"

lemma typed_parse:
  "\<exists>vals. click_parse (\<lambda>_. None) run_click_options typed_options = Some vals \<and>
     run_arguments vals =
       \<lparr>a_module = None, a_submodule = None, a_test = None, a_markers = [], a_iface = ''eth0'',
        a_dut_ip = ''10.0.0.5'', a_dut_mac = None, a_dut_port = Some 80, a_source_port = None, a_stack = ''linux'',
        a_role = ''client'', a_payload_mode = ''random'', a_payload_size = 64, a_allowed = [''10.0.0.0/24''],
        a_confirm = True, a_debug = False, a_proxy_mode = None, a_proxy_leg = None, a_proxy_host = None,
        a_proxy_port = None, a_backend_host = None, a_backend_port = 9099, a_report = ''pdf'',
        a_skip_preflight = False\<rparr>"
proof -
  have v: "(validate_cidrs [''10.0.0.0/24''] :: unit exn + string list) = Inr [''10.0.0.0/24'']" by code_simp
  have n: "(validate_cidrs [] :: unit exn + string list) = Inr []" by simp
  have l: "''linux'' \<in> set list_profiles" "py_int ''80'' = Some 80" by code_simp+
  show ?thesis
    by (simp add: click_parse_def run_click_options_def typed_options_def click_options_order run_options_def
        shared_options_def of_shared_def click_kwargs_def with_help_def required_decl_def switch_decl_def
        option_decl_def dest_of_def read_option_def Let_def checked_def converted_def convert_def l v
        get_strs_def run_arguments_def the_text_def the_int_def the_texts_def default_backend_port_def
        starts_with_def del: validate_cidrs.simps add: n)
qed


end
