(* ===== verification/FrontEnds.thy ===== *)
theory FrontEnds
  imports Click MainWindow
begin

text \<open>
  The two front ends compared: \<open>_resolve_topology\<close> and \<open>run\<close> of \<open>src/cli/main.py\<close>, and
  \<open>_current_dut_config\<close> and \<open>_report_and_validate_topology\<close> of \<open>src/gui/main_window.py\<close>, each written
  as the counterpart of the other.
\<close>

text \<open>The options and the fields say the same.\<close>

definition same_entries :: "form \<Rightarrow> run_params \<Rightarrow> bool" where
  "same_entries f a \<longleftrightarrow>
     f_interface f = a_iface a \<and> f_target_ip f = a_dut_ip a \<and> nonempty (f_target_mac f) = a_dut_mac a \<and>
     nonzero (f_dst_port f) = a_dut_port a \<and> nonzero (f_src_port f) = a_source_port a \<and>
     f_target_stack f = a_stack a \<and> f_role f = a_role a \<and> allowed_ranges (f_allowed f) = a_allowed a \<and>
     f_proxy_mode f = a_proxy_mode a \<and> f_proxy_leg f = a_proxy_leg a \<and>
     split_host_port (f_proxy_front f) = (Inr (a_proxy_host a, a_proxy_port a) :: unit exn + _) \<and>
     (case (split_host_port (f_proxy_backend f) :: unit exn + _) of
        Inl e \<Rightarrow> False | Inr (h, p) \<Rightarrow> h = a_backend_host a)"

lemma validated_topology:
  "split_host_port (f_proxy_backend f) = (Inr (h, p) :: unit exn + _) \<Longrightarrow>
   snd (validate_topology f c :: _ \<times> (unit exn + bool)) =
     Inr (back_leg_requirement_error (dut_leg c) (f_proxy_mode f) h ''--proxy-mode'' ''--backend-host'' = None)"
  by (simp add: validate_topology_def back_leg_requirement_error_def Let_def)

text \<open>C6: the two front ends apply the same rules. On the same entries, with no port chosen yet for the
  session, the command line resolves a topology exactly when the window accepts the form, and then
  both hold the same configuration; where the command line refuses a back leg the window refuses it
  too, and any other exception is the same on both sides.\<close>

theorem front_ends_agree:
  assumes "same_entries f a"
    "resolve_topology randbelow (a_proxy_leg a) (a_role a) (a_dut_ip a) (a_dut_port a) (a_proxy_mode a)
       (a_proxy_host a) (a_proxy_port a) (a_backend_host a) = (res :: unit exn + _, ls)"
  shows "case fst (current_dut_config randbelow f None) of
      Inl e \<Rightarrow> res = Inl e
    | Inr c \<Rightarrow>
        (case res of
           Inl e \<Rightarrow> exc e = ClickUsageError \<and> snd (validate_topology f c :: _ \<times> (unit exn + bool)) = Inr False
         | Inr topo \<Rightarrow> c = run_config a topo \<and> snd (validate_topology f c :: _ \<times> (unit exn + bool)) = Inr True)"
proof -
  from assms(1) obtain p where b: "split_host_port (f_proxy_backend f) = (Inr (a_backend_host a, p) :: unit exn + _)"
    by (auto simp: same_entries_def split: sum.splits)
  note same = assms(1) [unfolded same_entries_def]
  have leg: "(selected_leg f :: unit exn + _) =
      (if truthy (a_proxy_leg a) then rbind (enum_value ''ProxyLeg'' leg_of (a_proxy_leg a)) (\<lambda>l. Inr (Some l))
       else Inr None)"
    using same by (simp add: selected_leg_def)
  note cli0 = assms(2) [unfolded resolve_topology_def leg [symmetric]]
  show ?thesis
  proof (cases "selected_leg f :: unit exn + _")
    case (Inl e)
    with cli0 show ?thesis by (simp add: current_dut_config_def)
  next
    case l: (Inr leg)
    show ?thesis
    proof (cases "enum_value ''Role'' role_of (Some (a_role a)) :: unit exn + role")
      case (Inl e)
      with l same cli0 show ?thesis by (simp add: current_dut_config_def)
    next
      case r: (Inr r)
      obtain tip tport where t: "resolve_leg_target leg (Some (a_dut_ip a)) (a_dut_port a) (a_proxy_host a)
          (a_proxy_port a) = (tip, tport)" by fastforce
      have "tport = None \<Longrightarrow> a_dut_port a = None"
        using t by (auto simp: resolve_leg_target_def split: if_splits option.splits)
      moreover have "nonzero (f_dst_port f) = a_dut_port a" using same by blast
      ultimately have z: "tport = None \<Longrightarrow> f_dst_port f = 0" by (auto simp: nonzero_def split: if_splits)
      let ?c = "form_config f leg (resolve_role leg r) tip
        (case tport of Some p \<Rightarrow> p | None \<Rightarrow> random_ephemeral_port randbelow)"
      have gui: "fst (current_dut_config randbelow f None) = (Inr ?c :: unit exn + dut_config)"
        using l r t same z
        by (cases tport) (auto simp: current_dut_config_def resolved_dst_port_def Let_def)
      have cli: "res = (case back_leg_requirement_error leg (a_proxy_mode a) (a_backend_host a)
            ''--proxy-mode'' ''--backend-host'' of
          Some m \<Rightarrow> raise_exc ClickUsageError m
        | None \<Rightarrow> Inr (leg, resolve_role leg r, tip,
            case tport of Some p \<Rightarrow> p | None \<Rightarrow> random_ephemeral_port randbelow))"
        using cli0 l r t by (auto simp: Let_def split: option.splits)
      have "?c = run_config a (leg, resolve_role leg r, tip,
          case tport of Some p \<Rightarrow> p | None \<Rightarrow> random_ephemeral_port randbelow)"
        using same by (simp add: form_config_def run_config_def)
      moreover have "dut_leg ?c = leg" by (simp add: form_config_def)
      ultimately show ?thesis
        using validated_topology [OF b, of ?c] same
        by (simp add: gui cli split: option.split)
    qed
  qed
qed

definition demo_params :: run_params where
  "demo_params =
     \<lparr>a_module = None, a_submodule = None, a_test = None, a_markers = [], a_iface = ''eth0'',
      a_dut_ip = ''10.0.0.5'', a_dut_mac = None, a_dut_port = Some 80, a_source_port = None, a_stack = ''linux'',
      a_role = ''client'', a_payload_mode = ''random'', a_payload_size = 64, a_allowed = [],
      a_confirm = False, a_debug = False, a_proxy_mode = None, a_proxy_leg = None, a_proxy_host = None,
      a_proxy_port = None, a_backend_host = None, a_backend_port = 9099, a_report = ''pdf'',
      a_skip_preflight = False\<rparr>"

lemma front_ends_agree_witness:
  "fst (current_dut_config (\<lambda>_. 0) demo_form None) =
     (Inr (run_config demo_params (None, Client, Some ''10.0.0.5'', 80)) :: unit exn + dut_config)"
proof -
  have "allowed_ranges [] = []" by code_simp
  then have s: "same_entries demo_form demo_params"
    by (simp add: same_entries_def demo_form_def demo_params_def nonempty_def nonzero_def demo_split)
  have "resolve_topology (\<lambda>_. 0) (a_proxy_leg demo_params) (a_role demo_params) (a_dut_ip demo_params)
      (a_dut_port demo_params) (a_proxy_mode demo_params) (a_proxy_host demo_params) (a_proxy_port demo_params)
      (a_backend_host demo_params) = (Inr (None, Client, Some ''10.0.0.5'', 80) :: unit exn + _, [])"
    by (simp add: demo_params_def resolve_topology_def enum_value_def role_of_def resolve_role_def
        resolve_leg_target_def back_leg_requirement_error_def)
  from front_ends_agree [OF s this] show ?thesis by (auto split: sum.splits)
qed

end
