(* ===== verification/Html.thy ===== *)
theory Html
  imports Reporting Tokens
begin

text \<open>
  \<open>src/reporting/html_report.py\<close>: the HTML document of a run, text by text as the source writes it. The
  theorem is that the document's markup depends on nothing but the outcomes of the tests: no text
  that comes from the DUT, a test or the operator can open, close or change an element.
\<close>

section \<open>Escaping\<close>

text \<open>\<open>html.escape(s)\<close>.\<close>

fun escape_char :: "char \<Rightarrow> string" where
  "escape_char c =
     (if c = CHR ''&'' then ''&amp;''
      else if c = CHR ''<'' then ''&lt;''
      else if c = CHR ''>'' then ''&gt;''
      else if c = chr 34 then ''&quot;''
      else if c = chr 39 then ''&#x27;''
      else [c])"

definition esc :: "string \<Rightarrow> string" where
  "esc s = concat (map escape_char s)"

definition esc_opt :: "string option \<Rightarrow> string" where
  "esc_opt s = (case s of None \<Rightarrow> [] | Some t \<Rightarrow> esc t)"

section \<open>Style\<close>

definition outcome_rules :: "test_outcome \<Rightarrow> string list" where
  "outcome_rules x =
     (let st = style_of x in
      [if x = PASSED
       then ''tr.'' @ css st @ '' td.'' @ css st @ '' { background: '' @ bg st @ ''; }''
       else ''tr.'' @ css st @ '', td.'' @ css st @ '' { background: '' @ bg st @ ''; }'',
       ''td.'' @ css st @ '' { color: '' @ fg st @ ''; }'',
       ''.pill.'' @ css st @ '' { background: '' @ bg st @ ''; color: '' @ fg st @ ''; }''] @
      (if x = FAILED \<or> x = ERROR
       then [''.badge.'' @ css st @ '' { background: '' @ fg st @ ''; }''] else []))"

definition palette_css :: string where
  "palette_css =
     join nl (concat (map outcome_rules styled_outcomes) @
       [''.finding { border-left-color: '' @ fg (style_of FAILED) @ ''; }'',
        ''.finding.error { border-left-color: '' @ fg (style_of ERROR) @ ''; }'',
        ''.ok { color: '' @ fg (style_of PASSED) @ ''; font-weight: 600; }''])"

definition root_css :: string where
  "root_css =
     '':root {'' @ nl @ css_variables @ nl @ ''  --ink: #16202c;'' @ nl @
     ''  --ink-muted: #5b6b7d;'' @ nl @ ''  --paper: #ffffff;'' @ nl @ ''  --ground: #f6f8fa;'' @
     nl @ ''  --rule: #dfe5ec;'' @ nl @ ''}''"

definition static_style :: string where
  "static_style =
     nl @ ''* { box-sizing: border-box; }'' @ nl @ ''body {'' @ nl @
     ''  font-family: var(--font-ui);'' @ nl @ ''  margin: 0;'' @ nl @
     ''  padding: 2.5rem max(1.25rem, calc(50% - 32rem));'' @ nl @ ''  line-height: 1.55;'' @ nl @
     ''  color: var(--ink);'' @ nl @ ''  background: var(--ground);'' @ nl @
     ''  font-size: 15px;'' @ nl @ ''}'' @ nl @
     ''h1 { font-size: 1.9rem; letter-spacing: -0.02em; margin: 0 0 0.2rem; }'' @ nl @ ''h2 {'' @
     nl @ ''  font-size: 1.15rem; letter-spacing: -0.01em; margin: 0 0 0.9rem;'' @ nl @
     ''  padding-bottom: 0.45rem; border-bottom: 1px solid var(--rule);'' @ nl @ ''}'' @ nl @
     ''h3 { font-size: 0.98rem; margin: 1.4rem 0 0.4rem; color: var(--ink); }'' @ nl @
     ''section {'' @ nl @ ''  background: var(--paper); border: 1px solid var(--rule);'' @ nl @
     ''  border-radius: var(--radius); padding: 1.4rem 1.5rem; margin: 1.25rem 0;'' @ nl @ ''}'' @
     nl @
     ''table { border-collapse: separate; border-spacing: 0; width: 100%; margin: 0.5rem 0; '' @
     ''}'' @ nl @
     ''td, th { padding: 7px 10px; font-size: 0.84rem; text-align: left; vertical-align: top;'' @
     nl @ ''         border-bottom: 1px solid var(--rule); }'' @ nl @
     ''th { background: var(--ground); color: var(--ink-muted); font-weight: 600;'' @ nl @
     ''     text-transform: uppercase; letter-spacing: 0.04em; font-size: 0.72rem;'' @ nl @
     ''     border-bottom: 1px solid var(--rule); }'' @ nl @
     ''tbody tr:last-child td { border-bottom: none; }'' @ nl @
     ''table.meta th { width: 11rem; text-transform: none; letter-spacing: 0; font-size: 0.84rem; '' @
     ''}'' @ nl @
     ''code { font-family: var(--font-mono); font-size: 0.82em; word-break: break-all; }'' @ nl @
     ''pre { background: #0f141b; color: #e3e9f2; padding: 0.8rem 1rem;'' @ nl @
     ''      border-radius: var(--radius-small); overflow-x: auto; font-size: 0.8rem;'' @ nl @
     ''      font-family: var(--font-mono); }'' @ nl @ ''.finding {'' @ nl @
     ''  border: 1px solid var(--rule); border-left: 4px solid; border-radius: var(--radius);'' @
     nl @ ''  padding: 0.9rem 1.1rem; margin: 0.8rem 0; background: var(--ground);'' @ nl @ ''}'' @
     nl @ ''.finding-head { display: flex; gap: 0.6rem; align-items: baseline; flex-wrap: wrap; '' @
     ''}'' @ nl @ ''.finding-title { font-weight: 650; font-size: 1rem; }'' @ nl @
     ''.finding-rfc { margin-left: auto; color: var(--ink-muted); font-size: 0.78rem;'' @ nl @
     ''               white-space: nowrap; }'' @ nl @
     ''.finding-node code { color: var(--ink-muted); }'' @ nl @
     ''.finding-desc, .finding-msg { margin-top: 0.45rem; font-size: 0.87rem; }'' @ nl @
     ''.badge { font-size: 0.68rem; font-weight: 700; text-transform: uppercase;'' @ nl @
     ''         letter-spacing: 0.05em; padding: 2px 8px; border-radius: 999px; color: #fff; '' @
     ''}'' @ nl @ ''.pill { display: inline-block; padding: 2px 10px; border-radius: 999px;'' @ nl @
     ''        font-size: 0.78rem; font-weight: 600; margin-right: 5px; background: var(--ground);'' @
     nl @ ''        border: 1px solid var(--rule); }'' @ nl @
     ''.note { color: var(--ink-muted); font-size: 0.87rem; }'' @ nl @
     ''.lede { color: var(--ink-muted); font-size: 0.95rem; margin: 0 0 1.6rem; max-width: '' @
     ''44rem; }'' @ nl @ ''ul.rfcs li { margin: 0.25rem 0; }'' @ nl @ ''@media print {'' @ nl @
     ''  body { background: #fff; padding: 0; font-size: 12px; }'' @ nl @
     ''  section { border: none; padding: 0; margin: 1rem 0; break-inside: avoid; }'' @ nl @
     ''  .finding { break-inside: avoid; }'' @ nl @ ''}'' @ nl"

section \<open>Sections\<close>

text \<open>Each section is written as its pieces of markup and the texts between them.\<close>

definition finding_card :: "finding \<Rightarrow> string" where
  "finding_card f =
     nl @ ''            <div class='' @ dq @ ''finding '' @ css (style_of (outcome (fd_event f))) @
     dq @ ''>'' @ nl @ ''              <div class='' @ dq @ ''finding-head'' @ dq @ ''>'' @ nl @
     ''                <span class='' @ dq @ ''badge '' @ css (style_of (outcome (fd_event f))) @
     dq @ ''>'' @ esc (outcome_value (outcome (fd_event f))) @ ''</span>'' @ nl @
     ''                <span class='' @ dq @ ''finding-title'' @ dq @ ''>'' @ esc (fd_title f) @
     ''</span>'' @ nl @ ''                <span class='' @ dq @ ''finding-rfc'' @ dq @ ''>'' @
     esc (fd_rfc f) @ ''</span>'' @ nl @ ''              </div>'' @ nl @
     ''              <div class='' @ dq @ ''finding-node'' @ dq @ ''><code>'' @
     esc (nodeid (fd_event f)) @ ''</code></div>'' @ nl @ ''              <div class='' @ dq @
     ''finding-desc'' @ dq @ ''><strong>What it checks:</strong> '' @ esc (fd_description f) @
     ''</div>'' @ nl @ ''              <div class='' @ dq @ ''finding-msg'' @ dq @
     ''><strong>Observed:</strong> <code>'' @
     esc (if truthy (message (fd_event f)) then the (message (fd_event f)) else ''(no message)'') @
     ''</code></div>'' @ nl @ ''            </div>''"

definition findings_section :: "run_result \<Rightarrow> string" where
  "findings_section r =
     (let found = build_findings r
      in if found = [] then
           ''<section><h2>Findings</h2><p class='' @ sq @ ''ok'' @ sq @ ''>'' @ esc no_findings @
           ''</p></section>''
         else
           ''<section><h2>Findings '' @ em_dash @ '' what to fix</h2><p>'' @
           esc (findings_intro (length found)) @ ''</p>'' @ concat (map finding_card found) @
           ''</section>'')"

definition summary_section :: "datetime \<Rightarrow> run_result \<Rightarrow> string" where
  "summary_section started r =
     nl @ ''    <section>'' @ nl @ ''      <h2>Run summary</h2>'' @ nl @ ''      <table class='' @
     dq @ ''meta'' @ dq @ ''>'' @ nl @ ''        <tr><th>Run ID</th><td>'' @ esc (run_id r) @
     ''</td></tr>'' @ nl @ ''        <tr><th>Target (DUT)</th><td>'' @ esc_opt (run_target_ip r) @
     '' '' @ em_dash @ '' expected stack profile: <strong>'' @ esc_opt (run_target_stack r) @
     ''</strong></td></tr>'' @ nl @ ''        <tr><th>Suite role</th><td>'' @
     esc (role_description r) @ ''</td></tr>'' @ nl @ ''        <tr><th>Suite host</th><td>'' @
     esc (host_platform r) @ ''</td></tr>'' @ nl @ ''        <tr><th>Payload mode</th><td>'' @
     esc (run_payload_mode r) @ ''</td></tr>'' @ nl @ ''        <tr><th>Started</th><td>'' @
     esc (isoformat started) @ ''</td></tr>'' @ nl @ ''        <tr><th>Finished</th><td>'' @
     esc (case finished_at r of Some d \<Rightarrow> isoformat d | None \<Rightarrow> em_dash) @
     ''</td></tr>'' @ nl @ ''        <tr><th>Results</th><td>'' @ nl @ ''          <span class='' @
     dq @ ''pill passed'' @ dq @ ''>'' @ dec (passed r) @ '' passed</span>'' @ nl @
     ''          <span class='' @ dq @ ''pill failed'' @ dq @ ''>'' @ dec (failed r) @
     '' failed</span>'' @ nl @ ''          <span class='' @ dq @ ''pill error'' @ dq @ ''>'' @
     dec (errors r) @ '' errored</span>'' @ nl @ ''          <span class='' @ dq @
     ''pill skipped'' @ dq @ ''>'' @ dec (skipped r) @ '' skipped</span>'' @ nl @
     ''          <span class='' @ dq @ ''pill'' @ dq @ ''>'' @ dec (total r) @ '' total</span>'' @
     nl @ ''        </td></tr>'' @ nl @ ''      </table>'' @ nl @ ''    </section>''"

definition artifact_items :: string where
  "artifact_items =
     concat (map (\<lambda>(n, what). ''<li><code>'' @ esc n @ ''</code> '' @ em_dash @ '' '' @ esc what @ ''</li>'')
       artifact_descriptions)"

definition artifacts_section :: "run_result \<Rightarrow> string" where
  "artifacts_section r =
     nl @ ''    <section>'' @ nl @ ''      <h2>Artifacts &amp; reproduction</h2>'' @ nl @
     ''      <p>For wire-level analysis, open the packet capture from this run'' @ sq @
     ''s folder'' @ nl @ ''      (<code>reports/'' @ esc (run_id r) @
     ''/</code>) in Wireshark:</p>'' @ nl @ ''      <ul>'' @ artifact_items @ ''</ul>'' @ nl @
     ''      <p>Reproduce this run:</p>'' @ nl @ ''      <pre>'' @ esc (reproduction_command r) @
     ''</pre>'' @ nl @ ''      <p class='' @ dq @ ''note'' @ dq @ ''>'' @
     esc (informational_note (run_target_stack r)) @ ''</p>'' @ nl @ ''    </section>''"

definition detail_row :: "test_event \<Rightarrow> string" where
  "detail_row t =
     ''<tr class='' @ sq @ css (style_of (outcome t)) @ sq @ ''><td><code>'' @ esc (nodeid t) @
     ''</code></td><td class='' @ sq @ css (style_of (outcome t)) @ sq @ ''>'' @
     esc (outcome_value (outcome t)) @ ''</td><td>'' @ fixed 3 (duration_s t) @ ''</td><td>'' @
     esc_opt (message t) @ ''</td></tr>''"

definition detail_section :: "run_result \<Rightarrow> string" where
  "detail_section r =
     ''<section><h2>Full results</h2><table class='' @ sq @ ''detail'' @ sq @
     ''><thead><tr><th>Test</th><th>Outcome</th><th>Duration (s)</th><th>Message</th></tr></thead><tbody>'' @
     concat (map detail_row (tests r)) @ ''</tbody></table></section>''"

definition catalog_row :: "test_spec \<Rightarrow> string" where
  "catalog_row s =
     ''<tr><td>'' @ esc (spec_test s) @ ''</td><td>'' @ esc (description s) @ ''</td><td>'' @
     esc (rfc s) @ ''</td><td>'' @ esc (role_labels s) @ ''</td></tr>''"

definition catalog_block :: "string \<times> test_spec list \<Rightarrow> string" where
  "catalog_block g =
     ''<h3>'' @ esc (fst g) @ ''</h3><table class='' @ sq @ ''catalog'' @ sq @
     ''><thead><tr><th>Test</th><th>What it checks</th><th>RFC</th><th>Roles</th></tr></thead><tbody>'' @
     concat (map catalog_row (snd g)) @ ''</tbody></table>''"

definition appendix_catalog :: string where
  "appendix_catalog =
     ''<section><h2>Appendix A '' @ em_dash @ '' Test catalog</h2><p>'' @ esc catalog_intro @
     ''</p>'' @ concat (map catalog_block catalog_by_group) @ ''</section>''"

definition rfc_item :: "string \<times> string \<Rightarrow> string" where
  "rfc_item x =
     ''<li><strong>'' @ esc (fst x) @ ''</strong>'' @
     (if snd x \<noteq> [] then '' '' @ em_dash @ '' '' @ esc (snd x) else []) @ ''</li>''"

definition appendix_rfcs :: string where
  "appendix_rfcs =
     ''<section><h2>Appendix B '' @ em_dash @ '' RFC reference index</h2><p>'' @ esc rfc_intro @
     ''</p><ul class='' @ sq @ ''rfcs'' @ sq @ ''>'' @ concat (map rfc_item referenced_rfcs) @
     ''</ul></section>''"

section \<open>The document\<close>

definition html_document :: "datetime \<Rightarrow> run_result \<Rightarrow> string" where
  "html_document started r =
     ''<!doctype html>'' @ nl @ ''<html lang='' @ dq @ ''en'' @ dq @ ''><head><meta charset='' @
     dq @ ''utf-8'' @ dq @ ''>'' @ nl @ ''<title>Netstack DUT Report '' @ em_dash @ '' '' @
     esc (run_id r) @ ''</title>'' @ nl @ ''<style>'' @ root_css @ nl @ static_style @ nl @
     palette_css @ ''</style></head>'' @ nl @ ''<body>'' @ nl @
     ''<h1>Network Stack Conformance Report</h1>'' @ nl @ ''<p class='' @ dq @ ''lede'' @ dq @
     ''>'' @ esc purpose @ ''</p>'' @ nl @ summary_section started r @ nl @ findings_section r @
     nl @ artifacts_section r @ nl @ detail_section r @ nl @ appendix_catalog @ nl @ appendix_rfcs @
     nl @ ''</body></html>'' @ nl"

text \<open>\<open>generate_html_report\<close>: \<open>fault\<close> is the \<open>OSError\<close> of making the directory or writing, if any. A result
  with no starting time, which only an old file can hold, has no \<open>isoformat\<close>.\<close>

definition generate_html_report ::
  "string option \<Rightarrow> run_result \<Rightarrow> string \<Rightarrow> files \<Rightarrow> ('d exn + string) \<times> files" where
  "generate_html_report fault r output_path fs =
     (case started_at r of
        None \<Rightarrow> (raise_exc AttributeError ''isoformat'', fs)
      | Some started \<Rightarrow>
          (case fault of
             Some m \<Rightarrow> (raise_exc OSError m, fs)
           | None \<Rightarrow> (Inr output_path, fs(output_path \<mapsto> html_document started r))))"

section \<open>Markup\<close>

text \<open>The markup of a document: its angle brackets and what stands between an opening and a closing one.
  The flag says whether the reader stands inside a tag.\<close>

fun markup :: "bool \<Rightarrow> string \<Rightarrow> string" where
  "markup b [] = []"
| "markup b (c # s) =
     (if c = CHR ''<'' then c # markup True s
      else if c = CHR ''>'' then c # markup False s
      else if b then c # markup b s
      else markup b s)"

fun inside_after :: "bool \<Rightarrow> string \<Rightarrow> bool" where
  "inside_after b [] = b"
| "inside_after b (c # s) =
     inside_after (if c = CHR ''<'' then True else if c = CHR ''>'' then False else b) s"

lemma markup_append [simp]: "markup b (s @ t) = markup b s @ markup (inside_after b s) t"
  by (induction s arbitrary: b) auto

lemma inside_append [simp]: "inside_after b (s @ t) = inside_after (inside_after b s) t"
  by (induction s arbitrary: b) auto

definition bracket_free :: "string \<Rightarrow> bool" where
  "bracket_free s \<longleftrightarrow> CHR ''<'' \<notin> set s \<and> CHR ''>'' \<notin> set s"

lemma text_markup [simp]: "bracket_free s \<Longrightarrow> markup False s = []"
  by (induction s) (auto simp: bracket_free_def)

lemma text_inside [simp]: "bracket_free s \<Longrightarrow> inside_after b s = b"
  by (induction s) (auto simp: bracket_free_def)

lemma escape_char_text: "bracket_free (escape_char c)"
  by (simp add: bracket_free_def)

lemma text_nl [simp]: "bracket_free nl" and text_dash [simp]: "bracket_free em_dash"
  by code_simp+

lemma text_esc [simp]: "bracket_free (esc s)"
  using escape_char_text by (induction s) (auto simp: esc_def bracket_free_def simp del: escape_char.simps)

lemma text_esc_opt [simp]: "bracket_free (esc_opt s)"
  using text_esc by (cases s) (simp_all add: esc_opt_def bracket_free_def)

lemma text_dec [simp]: "bracket_free (dec n)"
proof -
  have "\<not> is_digit CHR ''<''" "\<not> is_digit CHR ''>''" by code_simp+
  then show ?thesis by (simp add: bracket_free_def dec_no_char)
qed

lemma text_fixed [simp]: "bracket_free (fixed k q)"
  using text_dec by (auto simp: fixed_def Let_def pad_left_def bracket_free_def)


lemma sorted_unique:
  assumes "sorted xs" "mset xs = mset ys" "sorted ys"
  shows "xs = ys"
  using sorted_sort_id [OF assms(1)] properties_for_sort [OF assms(2) [symmetric] assms(3)] by simp

lemma finding_severity_inj: "inj_on finding_severity {FAILED, ERROR}"
  by (simp add: inj_on_def)

text \<open>Which problems stand where in the findings depends on the outcomes alone.\<close>

lemma finding_outcomes:
  "map (outcome \<circ> fd_event) (build_findings r) =
   sort_key finding_severity (filter (\<lambda>x. x = FAILED \<or> x = ERROR) (map outcome (tests r)))"
proof -
  let ?xs = "map (outcome \<circ> fd_event) (build_findings r)"
  let ?ys = "filter (\<lambda>x. x = FAILED \<or> x = ERROR) (map outcome (tests r))"
  have xs: "?xs = map outcome (sort_key finding_key (filter is_problem (tests r)))"
    by (simp add: build_findings_def comp_def)
  have m: "mset ?xs = mset ?ys"
    unfolding xs by (simp add: filter_map comp_def is_problem_def)
  have "sorted (map finding_key (sort_key finding_key (filter is_problem (tests r))))"
    by (rule sorted_sort_key)
  then have "sorted (map finding_severity ?xs)"
    unfolding xs sorted_map sorted_wrt_map
    by (rule sorted_wrt_mono_rel [rotated]) (auto simp: finding_key_def less_eq_prod_def)
  moreover have "mset (map finding_severity ?xs) = mset (map finding_severity (sort_key finding_severity ?ys))"
    using m by (simp del: map_map)
  ultimately have "map finding_severity ?xs = map finding_severity (sort_key finding_severity ?ys)"
    by (rule sorted_unique) (rule sorted_sort_key)
  then show ?thesis
  proof (rule map_inj_on)
    have "set ?xs \<union> set (sort_key finding_severity ?ys) \<subseteq> {FAILED, ERROR}"
      using m [THEN mset_eq_setD] by auto
    then show "inj_on finding_severity (set ?xs \<union> set (sort_key finding_severity ?ys))"
      by (rule inj_on_subset [OF finding_severity_inj])
  qed
qed

text \<open>From here on literal markup stays as it is written: only where it leaves the reader is computed.\<close>

declare markup.simps [simp del] append_Cons [simp del]

text \<open>Texts that agree on their markup and leave the reader where it was agree when they are joined.\<close>

lemma markup_concat:
  "list_all (\<lambda>x. \<not> inside_after False (f x)) xs \<Longrightarrow>
   markup False (concat (map f xs)) = concat (map (\<lambda>x. markup False (f x)) xs) \<and>
   \<not> inside_after False (concat (map f xs))"
  by (induction xs) (auto simp: markup.simps)

lemma map_by_key:
  assumes "map k xs = map k ys" and "\<And>x y. k x = k y \<Longrightarrow> g x = g y"
  shows "map g xs = map g ys"
  using assms(1) by (induction xs ys rule: list_induct2') (auto intro: assms(2))

lemma concat_closed:
  assumes "\<And>x. \<not> inside_after False (f x)"
  shows "\<not> inside_after False (concat (map f xs))"
  using markup_concat [of f xs] assms by (simp add: list_all_iff)

lemma markup_of_each:
  assumes "map k xs = map k ys" "\<And>x y. k x = k y \<Longrightarrow> markup False (f x) = markup False (f y)"
    and "\<And>x. \<not> inside_after False (f x)"
  shows "markup False (concat (map f xs)) = markup False (concat (map f ys))"
proof -
  have c: "list_all (\<lambda>x. \<not> inside_after False (f x)) zs" for zs by (simp add: assms(3) list_all_iff)
  show ?thesis
    unfolding markup_concat [OF c, THEN conjunct1]
    by (rule arg_cong [of _ _ concat], rule map_by_key [OF assms(1)]) (rule assms(2))
qed

lemma finding_card_markup:
  "outcome (fd_event f) = outcome (fd_event g) \<Longrightarrow>
   markup False (finding_card f) = markup False (finding_card g)"
  by (simp add: finding_card_def)

lemma finding_card_closed: "\<not> inside_after False (finding_card f)"
  by (simp add: finding_card_def)

lemma detail_row_markup:
  "outcome t = outcome u \<Longrightarrow> markup False (detail_row t) = markup False (detail_row u)"
  by (simp add: detail_row_def)

lemma detail_row_closed: "\<not> inside_after False (detail_row t)"
  by (simp add: detail_row_def)

lemma summary_markup: "markup False (summary_section d r) = markup False (summary_section d' r')"
  and summary_closed: "\<not> inside_after False (summary_section d r)"
  by (simp_all add: summary_section_def)

lemma artifacts_markup: "markup False (artifacts_section r) = markup False (artifacts_section r')"
  and artifacts_closed: "\<not> inside_after False (artifacts_section r)"
  by (simp_all add: artifacts_section_def)

lemmas rows_closed [simp] = concat_closed [of detail_row, OF detail_row_closed]
lemmas cards_closed [simp] = concat_closed [of finding_card, OF finding_card_closed]

lemma detail_closed: "\<not> inside_after False (detail_section r)"
  by (simp add: detail_section_def)

lemma detail_markup:
  assumes "map outcome (tests r) = map outcome (tests r')"
  shows "markup False (detail_section r) = markup False (detail_section r')"
  using markup_of_each [of outcome, OF assms detail_row_markup detail_row_closed]
  by (simp add: detail_section_def)

lemma findings_closed: "\<not> inside_after False (findings_section r)"
  by (simp add: findings_section_def Let_def)

lemma findings_markup:
  assumes "map outcome (tests r) = map outcome (tests r')"
  shows "markup False (findings_section r) = markup False (findings_section r')"
proof -
  have k: "map (outcome \<circ> fd_event) (build_findings r) = map (outcome \<circ> fd_event) (build_findings r')"
    by (simp only: finding_outcomes assms)
  then have n: "build_findings r = [] \<longleftrightarrow> build_findings r' = []"
    by (metis map_is_Nil_conv)
  have c: "markup False (concat (map finding_card (build_findings r))) =
      markup False (concat (map finding_card (build_findings r')))"
    by (rule markup_of_each [OF k _ finding_card_closed]) (rule finding_card_markup, simp)
  show ?thesis
    by (cases "build_findings r' = []") (simp_all add: findings_section_def Let_def n c)
qed

text \<open>What is under every document whatever the run: the closed pieces end outside every tag.\<close>

lemma appendix_catalog_closed: "\<not> inside_after b appendix_catalog"
  by (simp add: appendix_catalog_def)

lemma appendix_rfcs_closed: "\<not> inside_after b appendix_rfcs"
  by (simp add: appendix_rfcs_def)

text \<open>C16: No text changes the markup. Two runs whose tests had the same outcomes, in the same order, get
  documents with the same markup, whatever the run ids, addresses, profiles, node ids, messages
  and times in them: nothing that a DUT, a test or the operator wrote can open, close or change
  an element of the report.\<close>

theorem markup_is_of_the_outcomes:
  assumes "map outcome (tests r) = map outcome (tests r')"
  shows "markup False (html_document started r) = markup False (html_document started' r')"
  using findings_markup [OF assms] detail_markup [OF assms]
    summary_markup [of started r started' r'] artifacts_markup [of r r']
  by (simp add: html_document_def summary_closed artifacts_closed detail_closed findings_closed
      appendix_catalog_closed appendix_rfcs_closed)

definition failed_with :: "string \<Rightarrow> run_result" where
  "failed_with m =
     \<lparr>run_id = m, started_at = None, finished_at = None, run_target_ip = Some m, run_target_stack = Some m,
      host_platform = m, run_payload_mode = m, run_role = ''client'', run_proxy_leg = None,
      tests = [\<lparr>nodeid = m, outcome = FAILED, duration_s = 1, event_markers = [], message = Some m\<rparr>],
      packet_events = [], pytest_returncode = None\<rparr>"

theorem markup_is_of_the_outcomes_witness:
  "\<forall>d. markup False (html_document d (failed_with ''</table><script>'')) =
       markup False (html_document d (failed_with ''timed out''))"
  by (intro allI, rule markup_is_of_the_outcomes) (simp add: failed_with_def)

declare markup.simps [simp] append_Cons [simp]

end
