(* ===== verification/Pdf.thy ===== *)
theory Pdf
  imports Html
begin

text \<open>
  \<open>src/reporting/pdf_report.py\<close>: the PDF document of a run as the list of flowables handed to reportlab.
  A paragraph is its text in reportlab's markup and its style, a table its cells, widths and
  commands; how reportlab sets them is a parameter. The theorem is that every paragraph is well-formed markup,
  which reportlab requires of it, whatever texts the run holds.
\<close>

section \<open>Flowables\<close>

text \<open>A colour of reportlab: \<open>HexColor\<close> keeps each channel as a fraction of 255.\<close>

type_synonym colour = "rat \<times> rat \<times> rat"

definition hex_pair :: "string \<Rightarrow> rat" where
  "hex_pair s =
     (case map hex_val s of
        [Some a, Some b] \<Rightarrow> of_nat (16 * a + b) / 255
      | _ \<Rightarrow> 0)"

definition hex_colour :: "string \<Rightarrow> colour" where
  "hex_colour s = (hex_pair (take 2 (drop 1 s)), hex_pair (take 2 (drop 3 s)), hex_pair (take 2 (drop 5 s)))"

definition channel :: "rat \<Rightarrow> string" where
  "channel q = hex2 (nat (round_even (q * 255)))"

definition css_hex :: "colour \<Rightarrow> string" where
  "css_hex c = (case c of (r, g, b) \<Rightarrow> ''#'' @ channel r @ channel g @ channel b)"

datatype ink = Named string | Hex colour

text \<open>What a style sets; what it leaves out it takes from its parent.\<close>

record para_style =
  ps_name :: string
  ps_parent :: "string option"
  ps_size :: "rat option"
  ps_leading :: "rat option"
  ps_ink :: "ink option"
  ps_cjk :: bool
  ps_font :: "string option"
  ps_before :: "rat option"

definition sheet_style :: "string \<Rightarrow> para_style" where
  "sheet_style n =
     \<lparr>ps_name = n, ps_parent = None, ps_size = None, ps_leading = None, ps_ink = None, ps_cjk = False,
      ps_font = None, ps_before = None\<rparr>"

definition sized :: "rat \<Rightarrow> rat \<Rightarrow> para_style \<Rightarrow> para_style" where
  "sized pt lead s = s\<lparr>ps_size := Some pt, ps_leading := Some lead\<rparr>"

definition inked :: "string \<Rightarrow> para_style \<Rightarrow> para_style" where
  "inked c s = s\<lparr>ps_ink := Some (Hex (hex_colour c))\<rparr>"

definition of_body :: "para_style \<Rightarrow> para_style" where
  "of_body s = s\<lparr>ps_parent := Some ''BodyText''\<rparr>"

definition cell_style :: para_style where
  "cell_style = (sized 7 (17 / 2) (sheet_style ''cell''))\<lparr>ps_cjk := True\<rparr>"

definition cell_head_style :: para_style where
  "cell_head_style =
     (sheet_style ''cellhead'')\<lparr>ps_parent := Some (ps_name cell_style), ps_ink := Some (Named ''white'')\<rparr>"

text \<open>A command of a table style: its name, the corners it spans (\<open>-1\<close> is the last), and its arguments.\<close>

datatype style_arg = Num rat | Ink ink | Word string

type_synonym table_cmd = "string \<times> (int \<times> int) \<times> (int \<times> int) \<times> style_arg list"

datatype flowable =
    Paragraph string para_style
  | Spacer rat
  | Table "cell list list" "rat list" "table_cmd list" nat
  | PageBreak
  | Image string rat rat
and cell = Para string para_style | Empty

definition table_base :: "table_cmd list" where
  "table_base =
     [(''GRID'', (0, 0), (-1, -1), [Num (1 / 4), Ink (Named ''grey'')]),
      (''BACKGROUND'', (0, 0), (-1, 0), [Ink (Hex (hex_colour ''#333333''))]),
      (''VALIGN'', (0, 0), (-1, -1), [Word ''TOP'']),
      (''LEFTPADDING'', (0, 0), (-1, -1), [Num 4]),
      (''RIGHTPADDING'', (0, 0), (-1, -1), [Num 4]),
      (''TOPPADDING'', (0, 0), (-1, -1), [Num 2]),
      (''BOTTOMPADDING'', (0, 0), (-1, -1), [Num 2])]"

definition outcome_colours :: "test_outcome \<Rightarrow> colour \<times> colour" where
  "outcome_colours x = (hex_colour (fg (style_of x)), hex_colour (bg (style_of x)))"

section \<open>The sections\<close>

definition finding_rows :: "para_style \<Rightarrow> para_style \<Rightarrow> finding \<Rightarrow> cell list list" where
  "finding_rows body label f =
     (let ink = fst (outcome_colours (outcome (fd_event f)))
      in [[Para (''<b><font color='' @ dq @ css_hex ink @ dq @ ''>['' @
              map upper_char (outcome_value (outcome (fd_event f))) @ '']</font> '' @ esc (fd_title f) @ ''</b>'') body,
           Para (esc (fd_rfc f)) label],
          [Para (''<font face='' @ sq @ ''Courier'' @ sq @ ''>'' @ esc (nodeid (fd_event f)) @ ''</font>'') label, Empty],
          [Para (''<b>What it checks:</b> '' @ esc (fd_description f)) body, Empty],
          [Para (''<b>Observed:</b> '' @
             esc (if truthy (message (fd_event f)) then the (message (fd_event f)) else ''(no message)'')) body,
           Empty]])"

definition finding_commands :: "finding \<Rightarrow> table_cmd list" where
  "finding_commands f =
     (case outcome_colours (outcome (fd_event f)) of
        (ink, back) \<Rightarrow>
          [(''BACKGROUND'', (0, 0), (-1, -1), [Ink (Hex back)]),
           (''LINEBEFORE'', (0, 0), (0, -1), [Num 2, Ink (Hex ink)]),
           (''SPAN'', (0, 1), (1, 1), []), (''SPAN'', (0, 2), (1, 2), []), (''SPAN'', (0, 3), (1, 3), []),
           (''VALIGN'', (0, 0), (-1, -1), [Word ''TOP'']), (''ALIGN'', (1, 0), (1, 0), [Word ''RIGHT'']),
           (''LEFTPADDING'', (0, 0), (-1, -1), [Num 6]), (''TOPPADDING'', (0, 0), (-1, -1), [Num 2]),
           (''BOTTOMPADDING'', (0, 0), (-1, -1), [Num 2])])"

definition findings_flowables :: "run_result \<Rightarrow> flowable list" where
  "findings_flowables r =
     (let found = build_findings r;
          label = inked ''#555555'' (sized (15 / 2) 9 (sheet_style ''flabel''));
          body = (sized 8 10 (sheet_style ''fbody''))\<lparr>ps_cjk := True\<rparr>
      in if found = [] then [Paragraph no_findings (inked ''#1a7f37'' (of_body (sheet_style ''okmsg'')))]
         else
           [Paragraph (findings_intro (length found)) ((of_body (sheet_style ''intro''))\<lparr>ps_size := Some 9\<rparr>),
            Spacer (8 / 100)] @
           concat (map (\<lambda>f. [Table (finding_rows body label f) [5, 3 / 2] (finding_commands f) 0, Spacer (8 / 100)]) found))"

definition artifacts_flowables :: "run_result \<Rightarrow> flowable list" where
  "artifacts_flowables r =
     (let body = sized (17 / 2) 11 (of_body (sheet_style ''artbody''));
          mono = (sized 8 11 (sheet_style ''artmono''))\<lparr>ps_font := Some ''Courier''\<rparr>
      in [Paragraph ''Artifacts &amp; reproduction'' (sheet_style ''Heading2''),
          Paragraph (''For wire-level analysis, open this run'' @ sq @ ''s capture (in <font face='' @ sq @
            ''Courier'' @ sq @ ''>reports/'' @ esc (run_id r) @ ''/</font>) in Wireshark:'') body] @
         map (\<lambda>(n, what). Paragraph (bullet @ '' <font face='' @ sq @ ''Courier'' @ sq @ ''>'' @ n @ ''</font> '' @
            em_dash @ '' '' @ esc what) body) artifact_descriptions @
         [Spacer (5 / 100),
          Paragraph ''Reproduce this run:'' body,
          Paragraph (esc (reproduction_command r)) mono,
          Paragraph (esc (informational_note (run_target_stack r)))
            (inked ''#555555'' ((sheet_style ''artnote'')\<lparr>ps_parent := Some (ps_name body), ps_size := Some 8\<rparr>)),
          Spacer (2 / 10)])"

definition catalog_table :: "test_spec list \<Rightarrow> flowable" where
  "catalog_table ss =
     Table ([Para ''Test'' cell_head_style, Para ''What it checks'' cell_head_style, Para ''RFC'' cell_head_style,
             Para ''Roles'' cell_head_style] #
            map (\<lambda>s. [Para (esc (spec_test s)) cell_style, Para (esc (description s)) cell_style,
                      Para (esc (rfc s)) cell_style, Para (esc (role_labels s)) cell_style]) ss)
       [17 / 10, 3, 13 / 10, 1 / 2] table_base 1"

definition catalog_flowables :: "flowable list" where
  "catalog_flowables =
     [Paragraph catalog_intro ((of_body (sheet_style ''cintro''))\<lparr>ps_size := Some 9\<rparr>), Spacer (1 / 10)] @
     concat (map (\<lambda>(g, ss). [Paragraph g (sheet_style ''Heading3''), catalog_table ss, Spacer (12 / 100)])
       catalog_by_group)"

definition rfc_flowables :: "flowable list" where
  "rfc_flowables =
     [Paragraph rfc_intro ((of_body (sheet_style ''rintro''))\<lparr>ps_size := Some 9\<rparr>), Spacer (8 / 100)] @
     map (\<lambda>(label, title). Paragraph (''<b>'' @ esc label @ ''</b>'' @
         (if title \<noteq> [] then '' '' @ em_dash @ '' '' @ esc title else []))
       (sized 9 13 (of_body (sheet_style ''rfcbody'')))) referenced_rfcs"

text \<open>\<open>_build_detail_table\<close>: one row per test, its background that of its outcome.\<close>

definition detail_cells :: "test_event \<Rightarrow> cell list" where
  "detail_cells t =
     [Para (esc (nodeid t)) cell_style,
      Para (''<font color='' @ dq @ css_hex (fst (outcome_colours (outcome t))) @ dq @ ''>'' @
        outcome_value (outcome t) @ ''</font>'') cell_style,
      Para (esc (fixed 3 (duration_s t))) cell_style,
      Para (esc_opt (message t)) cell_style]"

definition build_detail_table :: "run_result \<Rightarrow> flowable" where
  "build_detail_table r =
     Table (map (\<lambda>h. Para (esc h) cell_head_style) [''Test'', ''Outcome'', ''Duration (s)'', ''Message''] #
            map detail_cells (tests r))
       [3, 3 / 4, 3 / 4, 2]
       (table_base @
        map (\<lambda>(i, t). (''BACKGROUND'', (0, int i), (-1, int i), [Ink (Hex (snd (outcome_colours (outcome t))))]))
          (zip [1..<Suc (length (tests r))] (tests r)))
       1"

definition meta_pairs :: "datetime \<Rightarrow> run_result \<Rightarrow> (string \<times> string) list" where
  "meta_pairs started r =
     [(''Run ID'', run_id r),
      (''Target'', show_opt (run_target_ip r) @ '' (stack: '' @ show_opt (run_target_stack r) @ '')''),
      (''Suite role'', role_description r),
      (''Host platform'', host_platform r),
      (''Payload mode'', run_payload_mode r),
      (''Started'', isoformat started),
      (''Finished'', case finished_at r of Some d \<Rightarrow> isoformat d | None \<Rightarrow> em_dash),
      (''Results (passed / failed / errored / skipped / total)'',
       dec (passed r) @ '' / '' @ dec (failed r) @ '' / '' @ dec (errors r) @ '' / '' @ dec (skipped r) @ '' / '' @
       dec (total r))]"

definition meta_table :: "datetime \<Rightarrow> run_result \<Rightarrow> flowable" where
  "meta_table started r =
     Table (map (\<lambda>(label, value).
         [Para (esc label) (sized 9 11 (sheet_style ''metalabel'')),
          Para (esc value) ((sized 9 11 (sheet_style ''metavalue''))\<lparr>ps_cjk := True\<rparr>)]) (meta_pairs started r))
       [13 / 5, 39 / 10]
       [(''GRID'', (0, 0), (-1, -1), [Num (1 / 4), Ink (Named ''grey'')]),
        (''BACKGROUND'', (0, 0), (0, -1), [Ink (Named ''whitesmoke'')]),
        (''VALIGN'', (0, 0), (-1, -1), [Word ''TOP'']),
        (''TOPPADDING'', (0, 0), (-1, -1), [Num 3]),
        (''BOTTOMPADDING'', (0, 0), (-1, -1), [Num 3])] 0"

section \<open>The document\<close>

definition front_story :: "datetime \<Rightarrow> run_result \<Rightarrow> flowable list" where
  "front_story started r =
     [Paragraph (''Network Stack Test Suite '' @ em_dash @ '' Run Report'') (sheet_style ''Title''),
      Spacer (2 / 10),
      meta_table started r,
      Paragraph purpose ((inked ''#555555'' (sized 8 10 (sheet_style ''purpose'')))\<lparr>ps_before := Some 6\<rparr>),
      Spacer (1 / 4),
      Paragraph (''Findings '' @ em_dash @ '' what to fix'') (sheet_style ''Heading2'')] @
     findings_flowables r @ [Spacer (2 / 10)] @ artifacts_flowables r"

definition back_story :: "run_result \<Rightarrow> string \<Rightarrow> string \<Rightarrow> flowable list" where
  "back_story r summary_png timeline_png =
     [Paragraph ''Results summary'' (sheet_style ''Heading2''), Image summary_png 3 (13 / 5), Spacer (2 / 10),
      Paragraph ''Packet timeline'' (sheet_style ''Heading2''), Image timeline_png 6 3, Spacer (3 / 10),
      Paragraph ''Full results'' (sheet_style ''Heading2''), build_detail_table r,
      PageBreak, Paragraph (''Appendix A '' @ em_dash @ '' Test catalog'') (sheet_style ''Heading2'')] @
     catalog_flowables @
     [PageBreak, Paragraph (''Appendix B '' @ em_dash @ '' RFC reference index'') (sheet_style ''Heading2'')] @
     rfc_flowables"

text \<open>\<open>generate_pdf_report\<close>: the two charts are matplotlib's, written in the temporary directory \<open>tmp\<close>, and
  \<open>typeset\<close> is reportlab's \<open>build\<close>.\<close>

definition generate_pdf_report ::
  "string \<Rightarrow> (run_result \<Rightarrow> string \<Rightarrow> 'd exn + string) \<Rightarrow> (run_result \<Rightarrow> string \<Rightarrow> 'd exn + string) \<Rightarrow>
   (flowable list \<Rightarrow> 'd exn + string) \<Rightarrow> run_result \<Rightarrow> string \<Rightarrow> files \<Rightarrow> ('d exn + string) \<times> files" where
  "generate_pdf_report tmp render_summary render_timeline typeset r output_path fs =
     (case started_at r of
        None \<Rightarrow> (raise_exc AttributeError ''isoformat'', fs)
      | Some started \<Rightarrow>
          (case rbind (render_summary r (tmp @ ''/summary.png'')) (\<lambda>summary_png.
                rbind (render_timeline r (tmp @ ''/timeline.png'')) (\<lambda>timeline_png.
                typeset (front_story started r @ back_story r summary_png timeline_png))) of
             Inl e \<Rightarrow> (Inl e, fs)
           | Inr document \<Rightarrow> (Inr output_path, fs(output_path \<mapsto> document))))"

section \<open>Every paragraph is well-formed\<close>

text \<open>The tags of a paragraph's markup, none if a bracket or an ampersand stands where the markup has none:
  the first argument is what has been read of an open tag.\<close>

definition entities :: "string list" where
  "entities = [''&amp;'', ''&lt;'', ''&gt;'', ''&quot;'', ''&#x27;'']"

fun para_tags :: "string option \<Rightarrow> string \<Rightarrow> string list option" where
  "para_tags None [] = Some []"
| "para_tags (Some a) [] = None"
| "para_tags None (c # s) =
     (if c = CHR ''<'' then para_tags (Some []) s
      else if c = CHR ''>'' then None
      else if c = CHR ''&'' \<and> \<not> list_ex (\<lambda>e. starts_with e (c # s)) entities then None
      else para_tags None s)"
| "para_tags (Some a) (c # s) =
     (if c = CHR ''>'' then map_option (\<lambda>ts. rev a # ts) (para_tags None s)
      else if c = CHR ''<'' then None
      else para_tags (Some (c # a)) s)"

text \<open>Tags are nested if each closing tag closes the last one open.\<close>

fun nested :: "string list \<Rightarrow> string list \<Rightarrow> bool" where
  "nested stack [] \<longleftrightarrow> stack = []"
| "nested stack (t # ts) \<longleftrightarrow>
     (if starts_with ''/'' t
      then (case stack of [] \<Rightarrow> False | n # rest \<Rightarrow> n = tl t \<and> nested rest ts)
      else nested (takeWhile (\<lambda>c. c \<noteq> CHR '' '') t # stack) ts)"

definition well_formed :: "string \<Rightarrow> bool" where
  "well_formed s \<longleftrightarrow> (case para_tags None s of None \<Rightarrow> False | Some ts \<Rightarrow> nested [] ts)"

definition plain_text :: "string \<Rightarrow> bool" where
  "plain_text s \<longleftrightarrow> list_all (\<lambda>c. c \<noteq> CHR ''<'' \<and> c \<noteq> CHR ''>'' \<and> c \<noteq> CHR ''&'') s"

lemma tags_plain_append [simp]: "plain_text s \<Longrightarrow> para_tags None (s @ t) = para_tags None t"
  by (induction s) (auto simp: plain_text_def)

lemma tags_plain [simp]: "plain_text s \<Longrightarrow> para_tags None s = Some []"
  using tags_plain_append [of s "[]"] by simp

lemma quote_chars: "chr 34 = CHR 0x22" "chr 39 = CHR 0x27"
  by code_simp+

lemma tags_escape_char: "para_tags None (escape_char c @ t) = para_tags None t"
  by (simp add: entities_def starts_with_def quote_chars)

lemma tags_esc_append [simp]: "para_tags None (esc s @ t) = para_tags None t"
  by (induction s) (simp_all add: esc_def tags_escape_char del: escape_char.simps)

lemma tags_esc [simp]: "para_tags None (esc s) = Some []"
  using tags_esc_append [of s "[]"] by simp

lemma tags_inside [simp]:
  "bracket_free u \<Longrightarrow> para_tags (Some a) (u @ t) = para_tags (Some (rev u @ a)) t"
  by (induction u arbitrary: a) (auto simp: bracket_free_def)

lemma tags_esc_opt [simp]: "para_tags None (esc_opt s) = Some []"
  by (cases s) (simp_all add: esc_opt_def)

lemma plain_marks [simp]: "plain_text em_dash" "plain_text bullet" "plain_text sq" "plain_text dq"
  by code_simp+

lemma bracket_free_marks [simp]: "bracket_free sq" "bracket_free dq"
  by code_simp+

lemma ink_of_palette: "css_hex (fst (outcome_colours x)) = fg (style_of x)"
  by (cases x; hypsubst; code_simp)

lemma ink_bracket_free [simp]: "bracket_free (css_hex (fst (outcome_colours x)))"
  by (simp only: ink_of_palette) (cases x; hypsubst; code_simp)

lemma outcome_plain [simp]:
  "plain_text (outcome_value x)" "plain_text (map upper_char (outcome_value x))"
  by (cases x; hypsubst; code_simp)+

lemma wf_plain [simp]: "plain_text s \<Longrightarrow> well_formed s" and wf_esc [simp]: "well_formed (esc s)"
  and wf_esc_opt [simp]: "well_formed (esc_opt m)"
  by (simp_all add: well_formed_def)

text \<open>The paragraphs of a story, those of its tables included.\<close>

fun cell_texts :: "cell \<Rightarrow> string list" where
  "cell_texts (Para s st) = [s]"
| "cell_texts Empty = []"

fun texts :: "flowable \<Rightarrow> string list" where
  "texts (Paragraph s st) = [s]"
| "texts (Table rows ws cmds k) = concat (map cell_texts (concat rows))"
| "texts (Spacer h) = []"
| "texts PageBreak = []"
| "texts (Image p w h) = []"

definition typesettable :: "flowable list \<Rightarrow> bool" where
  "typesettable story \<longleftrightarrow> list_all well_formed (concat (map texts story))"

lemma typesettable_append [simp]: "typesettable (a @ b) \<longleftrightarrow> typesettable a \<and> typesettable b"
  by (simp add: typesettable_def)

lemma typesettable_Cons [simp]: "typesettable (x # b) \<longleftrightarrow> list_all well_formed (texts x) \<and> typesettable b"
  by (simp add: typesettable_def)

lemma typesettable_Nil [simp]: "typesettable []"
  by (simp add: typesettable_def)

lemma wf_finding_head [simp]:
  "well_formed (''<b><font color='' @ dq @ css_hex (fst (outcome_colours x)) @ dq @ ''>['' @
     map upper_char (outcome_value x) @ '']</font> '' @ esc s @ ''</b>'')"
  "well_formed (''<font face='' @ sq @ ''Courier'' @ sq @ ''>'' @ esc s @ ''</font>'')"
  "well_formed (''<b>What it checks:</b> '' @ esc s)"
  "well_formed (''<b>Observed:</b> '' @ esc s)"
  by (simp_all add: well_formed_def starts_with_def)

lemma wf_detail [simp]:
  "well_formed (''<font color='' @ dq @ css_hex (fst (outcome_colours x)) @ dq @ ''>'' @ outcome_value x @ ''</font>'')"
  by (simp add: well_formed_def starts_with_def)

lemma wf_rfc [simp]:
  "well_formed (''<b>'' @ esc l @ ''</b>'' @ (if title \<noteq> [] then '' '' @ em_dash @ '' '' @ esc title else []))"
  by (simp add: well_formed_def starts_with_def)

lemma wf_artifact:
  "plain_text n \<Longrightarrow>
   well_formed (bullet @ '' <font face='' @ sq @ ''Courier'' @ sq @ ''>'' @ n @ ''</font> '' @ em_dash @ '' '' @ esc what)"
  by (simp add: well_formed_def starts_with_def)

lemma wf_capture [simp]:
  "well_formed (''For wire-level analysis, open this run'' @ sq @ ''s capture (in <font face='' @ sq @
     ''Courier'' @ sq @ ''>reports/'' @ esc i @ ''/</font>) in Wireshark:'')"
  "well_formed ''Artifacts &amp; reproduction''"
  by (simp_all add: well_formed_def starts_with_def entities_def)

lemma plain_append [simp]: "plain_text (s @ t) \<longleftrightarrow> plain_text s \<and> plain_text t"
  by (simp add: plain_text_def)

lemma plain_dec [simp]: "plain_text (dec n)"
proof -
  have "\<not> is_digit CHR ''<''" "\<not> is_digit CHR ''>''" "\<not> is_digit CHR ''&''" by code_simp+
  then have "c \<noteq> CHR ''<'' \<and> c \<noteq> CHR ''>'' \<and> c \<noteq> CHR ''&''" if "c \<in> set (dec n)" for c
    using that dec_no_char by blast
  then show ?thesis by (simp add: plain_text_def list_all_iff)
qed

lemma plain_fixed_texts [simp]:
  "plain_text no_findings" "plain_text purpose" "plain_text catalog_intro" "plain_text rfc_intro"
  "list_all (\<lambda>(n, what). plain_text n) artifact_descriptions"
  by code_simp+

lemma plain_findings_intro [simp]: "plain_text (findings_intro n)"
proof -
  have "plain_text (drop (length (dec 0)) (findings_intro 0))" by code_simp
  then show ?thesis by (simp add: findings_intro_def)
qed

text \<open>The names of the catalog's groups, which the appendix prints unescaped.\<close>

lemma groups_plain: "list_all (\<lambda>s. plain_text (group_name s)) catalog"
  by code_simp

lemma appendix_groups_plain: "(g, ss) \<in> set catalog_by_group \<Longrightarrow> plain_text g"
proof -
  assume g: "(g, ss) \<in> set catalog_by_group"
  have "list_all (\<lambda>(g, ss). ss = filter (\<lambda>s. group_name s = g) catalog \<and> ss \<noteq> []) catalog_by_group"
    using catalog_appendix_complete by blast
  with g have "ss = filter (\<lambda>s. group_name s = g) catalog" "ss \<noteq> []" by (auto simp: list_all_iff)
  then obtain s where "s \<in> set catalog" "group_name s = g" by (auto simp: filter_empty_conv)
  then show "plain_text g" using groups_plain by (auto simp: list_all_iff)
qed

lemma findings_typesettable: "typesettable (findings_flowables r)"
proof -
  have "list_all well_formed (concat (map cell_texts (concat (finding_rows body label f))))" for body label f
    by (simp add: finding_rows_def Let_def del: append_Cons)
  then have "typesettable (concat (map (\<lambda>f. [Table (finding_rows body label f) ws (finding_commands f) k, Spacer h]) fs))"
    for body label ws k h fs
    by (induction fs) simp_all
  then show ?thesis by (simp add: findings_flowables_def Let_def del: append_Cons)
qed

lemma artifacts_typesettable: "typesettable (artifacts_flowables r)"
proof -
  have "list_all (\<lambda>(n, what). plain_text n) xs \<Longrightarrow>
      typesettable (map (\<lambda>(n, what). Paragraph (bullet @ '' <font face='' @ sq @ ''Courier'' @ sq @ ''>'' @ n @
        ''</font> '' @ em_dash @ '' '' @ esc what) st) xs)" for xs st
    by (induction xs) (auto simp: wf_artifact simp del: append_Cons)
  moreover have "plain_text ''Reproduce this run:''" by code_simp
  ultimately show ?thesis by (simp add: artifacts_flowables_def Let_def del: append_Cons)
qed

lemma catalog_typesettable: "typesettable catalog_flowables"
proof -
  have "list_all well_formed (map (\<lambda>c. c) [''Test'', ''What it checks'', ''RFC'', ''Roles''])"
    by (simp add: plain_text_def)
  then have "list_all well_formed (texts (catalog_table ss))" for ss
    by (simp add: catalog_table_def) (induction ss; simp)
  then have "list_all (\<lambda>(g, ss). plain_text g) gs \<Longrightarrow>
      typesettable (concat (map (\<lambda>(g, ss). [Paragraph g st, catalog_table ss, Spacer h]) gs))" for gs st h
    by (induction gs) auto
  moreover have "list_all (\<lambda>(g, ss). plain_text g) catalog_by_group"
    using appendix_groups_plain by (auto simp: list_all_iff)
  ultimately show ?thesis by (simp add: catalog_flowables_def)
qed

lemma rfcs_typesettable: "typesettable rfc_flowables"
proof -
  have "typesettable (map (\<lambda>(label, title). Paragraph (''<b>'' @ esc label @ ''</b>'' @
      (if title \<noteq> [] then '' '' @ em_dash @ '' '' @ esc title else [])) st) xs)" for xs st
    by (induction xs) (auto simp del: append_Cons)
  then show ?thesis by (simp add: rfc_flowables_def)
qed

lemma detail_typesettable: "list_all well_formed (texts (build_detail_table r))"
proof -
  have "list_all well_formed (concat (map cell_texts (concat (map detail_cells ts))))" for ts
    by (induction ts) (simp_all add: detail_cells_def del: append_Cons)
  then show ?thesis by (simp add: build_detail_table_def)
qed

lemma meta_typesettable: "list_all well_formed (texts (meta_table started r))"
  by (simp add: meta_table_def meta_pairs_def)

text \<open>C17: A report can always be set. Whatever is in a run, its node ids, messages, addresses and profile
  names included, every paragraph of its PDF is well-formed markup: its tags are nested and closed,
  and every bracket and ampersand that a text holds is escaped, also in the texts the source prints
  as they are.\<close>

theorem pdf_is_well_formed:
  "typesettable (front_story started r @ back_story r summary_png timeline_png)"
proof -
  have h: "plain_text ''Network Stack Test Suite ''" "plain_text '' Run Report''" "plain_text ''Findings ''"
    "plain_text '' what to fix''" "plain_text ''Results summary''" "plain_text ''Packet timeline''"
    "plain_text ''Full results''" "plain_text ''Appendix A ''" "plain_text '' Test catalog''"
    "plain_text ''Appendix B ''" "plain_text '' RFC reference index''"
    by code_simp+
  show ?thesis
    by (simp add: front_story_def back_story_def findings_typesettable artifacts_typesettable
        catalog_typesettable rfcs_typesettable detail_typesettable meta_typesettable h
        del: append_Cons)
qed

end
