(* ===== verification/Theme.thy ===== *)
theory Theme
  imports Tokens PyText
begin

text \<open>
  \<open>src/gui/theme.py\<close>: the style sheet section by section as the source writes it, the palette, and the
  indicators, drawn into files at two sizes because a style sheet can only point at files. A drawing
  is the list of a painter's calls; what a painter does with them is Qt's. The theorem compares an
  indicator with its companion for screens of double density.
\<close>

section \<open>Indicators\<close>

datatype paint =
    Pen string rat
  | NoPen
  | Brush string
  | Ellipse "rat \<times> rat" rat
  | Translate "rat \<times> rat"
  | Rotate int
  | PathMove "rat \<times> rat"
  | PathLine "rat \<times> rat"
  | DrawPath

record pixmap =
  px_size :: int
  px_paint :: "paint list"

text \<open>\<open>u\<close> is one unit of the 16x16 design grid.\<close>

definition strokes :: "rat \<Rightarrow> (rat \<times> rat) list \<Rightarrow> paint list" where
  "strokes u ps =
     (case ps of
        [] \<Rightarrow> []
      | (x, y) # qs \<Rightarrow> PathMove (x * u, y * u) # map (\<lambda>(a, b). PathLine (a * u, b * u)) qs)"

definition turn :: "string \<Rightarrow> int" where
  "turn name =
     (if name = ''chevron-down'' then 0 else if name = ''chevron-up'' then 180 else -90)"

definition draw :: "string \<Rightarrow> string \<Rightarrow> int \<Rightarrow> int \<Rightarrow> 'd exn + pixmap" where
  "draw name colour sz scl =
     (let s = of_int sz :: rat; u = s / 16; pen = Pen colour (19 / 10 * of_int scl);
          done = (\<lambda>ps. Inr \<lparr>px_size = sz, px_paint = pen # ps @ [DrawPath]\<rparr>)
      in if name = ''check'' then done (strokes u [(7 / 2, 17 / 2), (27 / 4, 47 / 4), (25 / 2, 19 / 4)])
         else if name = ''dot'' then
           done [NoPen, Brush colour, Ellipse (s / 2, s / 2) (31 / 10 * u * of_int scl)]
         else if name = ''dash'' then done (strokes u [(4, 8), (12, 8)])
         else if name \<in> {''chevron-down'', ''chevron-up'', ''chevron-right''} then
           done ([Translate (s / 2, s / 2), Rotate (turn name), Translate (- s / 2, - s / 2)] @
             strokes u [(9 / 2, 13 / 2), (8, 10), (23 / 2, 13 / 2)])
         else raise_exc ValueError (''no such indicator: '' @ py_repr name))"

text \<open>\<open>_icon\<close>: \<open>fs\<close> are the pixmaps saved so far in the process's directory \<open>dir\<close>.\<close>

type_synonym icon_files = "string \<Rightarrow> pixmap option"

definition icon_path :: "string \<Rightarrow> string \<Rightarrow> string \<Rightarrow> string" where
  "icon_path dir name colour =
     dir @ ''/'' @ name @ ''-'' @ dropWhile (\<lambda>c. c = CHR ''#'') colour @ ''.png''"

definition companion_path :: "string \<Rightarrow> string \<Rightarrow> string \<Rightarrow> string" where
  "companion_path dir name colour =
     dir @ ''/'' @ name @ ''-'' @ dropWhile (\<lambda>c. c = CHR ''#'') colour @ ''@2x.png''"

definition icon :: "string \<Rightarrow> string \<Rightarrow> string \<Rightarrow> int \<Rightarrow> icon_files \<Rightarrow> ('d exn + string) \<times> icon_files" where
  "icon dir name colour sz fs =
     (let p = icon_path dir name colour
      in if fs p \<noteq> None then (Inr p, fs)
         else case draw name colour sz 1 of
           Inl e \<Rightarrow> (Inl e, fs)
         | Inr single \<Rightarrow>
             (case draw name colour (sz * 2) 2 of
                Inl e \<Rightarrow> (Inl e, fs(p \<mapsto> single))
              | Inr double \<Rightarrow> (Inr p, fs(p \<mapsto> single, companion_path dir name colour \<mapsto> double))))"

section \<open>The style sheet\<close>

record icons =
  ic_check :: string
  ic_dash :: string
  ic_dot :: string
  ic_chevron :: string
  ic_chevron_lit :: string
  ic_up :: string
  ic_branch_closed :: string
  ic_branch_open :: string

definition base_rules :: string where
  "base_rules =
     ''/* ---------- base ---------- */'' @ nl @ ''QWidget {'' @ nl @
     ''    background: transparent;'' @ nl @ ''    color: '' @ text_ink @ '';'' @ nl @
     ''    font-family: '' @ font_ui @ '';'' @ nl @ ''    font-size: '' @ idec font_size_pt @
     ''pt;'' @ nl @ ''}'' @ nl @ ''QMainWindow, QDialog, QMessageBox, QFileDialog { background: '' @
     canvas_colour @ ''; }'' @ nl @ ''QWidget:disabled { color: '' @ text_faint @ ''; }'' @ nl @
     ''QToolTip {'' @ nl @ ''    background: '' @ surface_raised @ '';'' @ nl @ ''    color: '' @
     text_ink @ '';'' @ nl @ ''    border: 1px solid '' @ border_strong @ '';'' @ nl @
     ''    border-radius: '' @ idec radius_small @ ''px;'' @ nl @ ''    padding: 6px 8px;'' @ nl @
     ''}'' @ nl @ nl"

definition cards_rules :: string where
  "cards_rules =
     ''/* ---------- cards ---------- */'' @ nl @ ''QGroupBox {'' @ nl @ ''    background: '' @
     surface @ '';'' @ nl @ ''    border: 1px solid '' @ border @ '';'' @ nl @
     ''    border-radius: '' @ idec radius @ ''px;'' @ nl @ ''    margin-top: '' @
     idec (space * 2 + 6) @ ''px;  /* room for the title, which is drawn in it */'' @ nl @
     ''    padding: '' @ idec (space + 4) @ ''px '' @ idec (space + 2) @ ''px '' @
     idec (space + 2) @ ''px '' @ idec (space + 2) @ ''px;'' @ nl @ ''}'' @ nl @
     ''QGroupBox::title {'' @ nl @ ''    subcontrol-origin: margin;'' @ nl @
     ''    subcontrol-position: top left;'' @ nl @ ''    left: '' @ idec (space + 4) @ ''px;'' @
     nl @ ''    padding: 0 4px;'' @ nl @ ''    color: '' @ text_ink @ '';'' @ nl @
     ''    font-size: '' @ idec font_size_pt @ ''pt;'' @ nl @ ''    font-weight: 600;'' @ nl @
     ''}'' @ nl @ nl"

definition type_scale_rules :: string where
  "type_scale_rules =
     ''/* ---------- type scale ---------- */'' @ nl @ ''QLabel { background: transparent; }'' @
     nl @ ''QLabel[role='' @ dq @ ''heading'' @ dq @
     ''] { font-size: 15pt; font-weight: 600; color: '' @ text_ink @ ''; }'' @ nl @
     ''QLabel[role='' @ dq @ ''subheading'' @ dq @
     ''] { font-size: 11pt; font-weight: 600; color: '' @ text_ink @ ''; }'' @ nl @
     ''QLabel[role='' @ dq @ ''caption'' @ dq @ ''] { font-size: '' @ idec font_size_small_pt @
     ''pt; color: '' @ text_muted @ ''; }'' @ nl @ ''QLabel[role='' @ dq @ ''chip'' @ dq @ ''] {'' @
     nl @ ''    background: '' @ surface_raised @ '';'' @ nl @ ''    border: 1px solid '' @ border @
     '';'' @ nl @ ''    border-radius: '' @ idec radius_small @ ''px;'' @ nl @ ''    color: '' @
     text_muted @ '';'' @ nl @ ''    font-size: '' @ idec font_size_small_pt @ ''pt;'' @ nl @
     ''    padding: 2px 8px;'' @ nl @ ''}'' @ nl @ ''QLabel[state='' @ dq @ ''ok'' @ dq @
     ''] { color: '' @ success @ ''; }'' @ nl @ ''QLabel[state='' @ dq @ ''bad'' @ dq @
     ''] { color: '' @ danger @ ''; }'' @ nl @ ''QLabel[state='' @ dq @ ''idle'' @ dq @
     ''] { color: '' @ text_muted @ ''; }'' @ nl @ nl"

definition inputs_rules :: "icons \<Rightarrow> string" where
  "inputs_rules i =
     ''/* ---------- inputs ---------- */'' @ nl @
     ''QLineEdit, QSpinBox, QComboBox, QAbstractSpinBox {'' @ nl @ ''    background: '' @
     surface_raised @ '';'' @ nl @ ''    border: 1px solid '' @ border @ '';'' @ nl @
     ''    border-radius: '' @ idec radius_small @ ''px;'' @ nl @ ''    padding: 5px 8px;'' @ nl @
     ''    min-height: 20px;'' @ nl @ ''    selection-background-color: '' @ accent @ '';'' @ nl @
     ''    selection-color: '' @ accent_ink @ '';'' @ nl @ ''}'' @ nl @
     ''QLineEdit:hover, QSpinBox:hover, QComboBox:hover { border-color: '' @ border_strong @
     ''; }'' @ nl @ ''QLineEdit:focus, QSpinBox:focus, QComboBox:focus {'' @ nl @
     ''    border-color: '' @ accent @ '';'' @ nl @ ''    background: '' @ surface_sunken @ '';'' @
     nl @ ''}'' @ nl @
     ''QLineEdit:disabled, QSpinBox:disabled, QComboBox:disabled { background: '' @ surface @
     ''; }'' @ nl @ ''QComboBox::drop-down { border: none; width: 22px; }'' @ nl @
     ''QComboBox::down-arrow { image: url('' @ ic_chevron i @ ''); width: 16px; height: 16px; }'' @
     nl @ ''QComboBox::down-arrow:on { image: url('' @ ic_chevron_lit i @ ''); }'' @ nl @
     ''QComboBox QAbstractItemView {'' @ nl @ ''    background: '' @ surface_raised @ '';'' @ nl @
     ''    border: 1px solid '' @ border_strong @ '';'' @ nl @ ''    border-radius: '' @
     idec radius_small @ ''px;'' @ nl @ ''    padding: 4px;'' @ nl @ ''    outline: none;'' @ nl @
     ''    selection-background-color: '' @ accent_soft @ '';'' @ nl @ ''    selection-color: '' @
     text_ink @ '';'' @ nl @ ''}'' @ nl @
     ''QAbstractSpinBox::up-button, QAbstractSpinBox::down-button {'' @ nl @
     ''    background: transparent;'' @ nl @ ''    border: none;'' @ nl @ ''    width: 18px;'' @
     nl @ ''}'' @ nl @ ''QAbstractSpinBox::up-arrow { image: url('' @ ic_up i @
     ''); width: 14px; height: 14px; }'' @ nl @ ''QAbstractSpinBox::down-arrow { image: url('' @
     ic_chevron i @ ''); width: 14px; height: 14px; }'' @ nl @ nl"

definition buttons_rules :: string where
  "buttons_rules =
     ''/* ---------- buttons ---------- */'' @ nl @ ''QPushButton {'' @ nl @ ''    background: '' @
     surface_raised @ '';'' @ nl @ ''    border: 1px solid '' @ border_strong @ '';'' @ nl @
     ''    border-radius: '' @ idec radius_small @ ''px;'' @ nl @ ''    color: '' @ text_ink @
     '';'' @ nl @ ''    font-weight: 600;'' @ nl @ ''    padding: 6px 16px;'' @ nl @
     ''    min-height: 20px;'' @ nl @ ''}'' @ nl @
     ''QPushButton:hover { background: #27313f; border-color: '' @ text_faint @ ''; }'' @ nl @
     ''QPushButton:pressed { background: '' @ surface @ ''; }'' @ nl @
     ''QPushButton:disabled { background: '' @ surface @ ''; border-color: '' @ border @
     ''; color: '' @ text_faint @ ''; }'' @ nl @ ''QPushButton[accent='' @ dq @ ''true'' @ dq @
     ''] {'' @ nl @ ''    background: '' @ accent @ '';'' @ nl @ ''    border-color: '' @ accent @
     '';'' @ nl @ ''    color: '' @ accent_ink @ '';'' @ nl @ ''}'' @ nl @ ''QPushButton[accent='' @
     dq @ ''true'' @ dq @ '']:hover { background: '' @ accent_hover @ ''; border-color: '' @
     accent_hover @ ''; }'' @ nl @ ''QPushButton[accent='' @ dq @ ''true'' @ dq @
     '']:pressed { background: '' @ accent_pressed @ ''; border-color: '' @ accent_pressed @
     ''; }'' @ nl @ ''QPushButton[accent='' @ dq @ ''true'' @ dq @ '']:disabled {'' @ nl @
     ''    background: '' @ surface @ ''; border-color: '' @ border @ ''; color: '' @ text_faint @
     '';'' @ nl @ ''}'' @ nl @ ''QPushButton[danger='' @ dq @ ''true'' @ dq @
     ''] { border-color: '' @ danger @ ''; color: '' @ danger @ ''; }'' @ nl @
     ''QPushButton[danger='' @ dq @ ''true'' @ dq @ '']:hover {'' @ nl @
     ''    background: #2a1a1e; border-color: '' @ danger_hover @ ''; color: '' @ danger_hover @
     '';'' @ nl @ ''}'' @ nl @ ''QPushButton[danger='' @ dq @ ''true'' @ dq @
     '']:disabled { border-color: '' @ border @ ''; color: '' @ text_faint @ ''; }'' @ nl @ nl"

definition check_boxes_radios_rules :: "icons \<Rightarrow> string" where
  "check_boxes_radios_rules i =
     ''/* ---------- check boxes & radios ---------- */'' @ nl @
     ''QCheckBox, QRadioButton { spacing: 8px; padding: 2px 0; }'' @ nl @
     ''QCheckBox::indicator, QRadioButton::indicator {'' @ nl @ ''    width: 16px;'' @ nl @
     ''    height: 16px;'' @ nl @ ''    border: 1px solid '' @ border_strong @ '';'' @ nl @
     ''    background: '' @ surface_raised @ '';'' @ nl @ ''}'' @ nl @
     ''QCheckBox::indicator { border-radius: '' @ idec radius_small @ ''px; }'' @ nl @
     ''QRadioButton::indicator { border-radius: 9px; }'' @ nl @
     ''QCheckBox::indicator:hover, QRadioButton::indicator:hover { border-color: '' @ accent @
     ''; }'' @ nl @ ''QCheckBox::indicator:checked {'' @ nl @ ''    background: '' @ accent @
     '';'' @ nl @ ''    border-color: '' @ accent @ '';'' @ nl @ ''    image: url('' @ ic_check i @
     '');'' @ nl @ ''}'' @ nl @ ''QCheckBox::indicator:indeterminate {'' @ nl @
     ''    background: '' @ accent @ '';'' @ nl @ ''    border-color: '' @ accent @ '';'' @ nl @
     ''    image: url('' @ ic_dash i @ '');'' @ nl @ ''}'' @ nl @
     ''QRadioButton::indicator:checked {'' @ nl @ ''    border-color: '' @ accent @ '';'' @ nl @
     ''    image: url('' @ ic_dot i @ '');'' @ nl @ ''}'' @ nl @
     ''QCheckBox::indicator:disabled, QRadioButton::indicator:disabled {'' @ nl @
     ''    background: '' @ surface @ ''; border-color: '' @ border @ '';'' @ nl @ ''}'' @ nl @ nl"

definition tabs_rules :: string where
  "tabs_rules =
     ''/* ---------- tabs ---------- */'' @ nl @ ''QTabWidget::pane {'' @ nl @
     ''    background: '' @ surface @ '';'' @ nl @ ''    border: 1px solid '' @ border @ '';'' @
     nl @ ''    border-radius: '' @ idec radius @ ''px;'' @ nl @ ''    top: -1px;'' @ nl @ ''}'' @
     nl @ ''QTabBar { qproperty-drawBase: 0; }'' @ nl @ ''QTabBar::tab {'' @ nl @
     ''    background: transparent;'' @ nl @ ''    border: none;'' @ nl @
     ''    border-bottom: 2px solid transparent;'' @ nl @ ''    color: '' @ text_muted @ '';'' @
     nl @ ''    font-weight: 600;'' @ nl @ ''    padding: 7px 16px;'' @ nl @
     ''    margin-right: 2px;'' @ nl @ ''}'' @ nl @ ''QTabBar::tab:hover { color: '' @ text_ink @
     ''; }'' @ nl @ ''QTabBar::tab:selected { color: '' @ accent @ ''; border-bottom-color: '' @
     accent @ ''; }'' @ nl @ nl"

definition trees_lists_rules :: "icons \<Rightarrow> string" where
  "trees_lists_rules i =
     ''/* ---------- trees & lists ---------- */'' @ nl @ ''QTreeWidget, QTreeView, QListView {'' @
     nl @ ''    background: '' @ surface_sunken @ '';'' @ nl @ ''    border: 1px solid '' @ border @
     '';'' @ nl @ ''    border-radius: '' @ idec radius_small @ ''px;'' @ nl @
     ''    outline: none;'' @ nl @ ''    alternate-background-color: '' @ surface @ '';'' @ nl @
     ''}'' @ nl @ ''QTreeView::item, QListView::item { border-radius: '' @ idec radius_small @
     ''px; padding: 3px 2px; }'' @ nl @
     ''QTreeView::item:hover, QListView::item:hover { background: '' @ surface_raised @ ''; }'' @
     nl @ ''QTreeView::item:selected, QListView::item:selected {'' @ nl @ ''    background: '' @
     accent_soft @ ''; color: '' @ text_ink @ '';'' @ nl @ ''}'' @ nl @
     ''QTreeView::branch:has-children:!has-siblings:closed,'' @ nl @
     ''QTreeView::branch:closed:has-children:has-siblings { image: url('' @ ic_branch_closed i @
     ''); }'' @ nl @ ''QTreeView::branch:open:has-children:!has-siblings,'' @ nl @
     ''QTreeView::branch:open:has-children:has-siblings { image: url('' @ ic_branch_open i @
     ''); }'' @ nl @ ''/* The tree'' @ sq @
     ''s own check boxes are a different sub-control from a'' @ nl @ ''   QCheckBox'' @ sq @
     ''s, and go unstyled unless named separately '' @ em_dash @ '' which is how a'' @ nl @
     ''   themed app ends up with two different check marks in one window. */'' @ nl @
     ''QTreeView::indicator, QListView::indicator {'' @ nl @ ''    width: 16px;'' @ nl @
     ''    height: 16px;'' @ nl @ ''    border: 1px solid '' @ border_strong @ '';'' @ nl @
     ''    border-radius: '' @ idec radius_small @ ''px;'' @ nl @ ''    background: '' @
     surface_raised @ '';'' @ nl @ ''}'' @ nl @
     ''QTreeView::indicator:hover, QListView::indicator:hover { border-color: '' @ accent @
     ''; }'' @ nl @ ''QTreeView::indicator:checked, QListView::indicator:checked {'' @ nl @
     ''    background: '' @ accent @ '';'' @ nl @ ''    border-color: '' @ accent @ '';'' @ nl @
     ''    image: url('' @ ic_check i @ '');'' @ nl @ ''}'' @ nl @
     ''QTreeView::indicator:indeterminate, QListView::indicator:indeterminate {'' @ nl @
     ''    background: '' @ accent @ '';'' @ nl @ ''    border-color: '' @ accent @ '';'' @ nl @
     ''    image: url('' @ ic_dash i @ '');'' @ nl @ ''}'' @ nl @ ''QHeaderView::section {'' @ nl @
     ''    background: '' @ surface_raised @ '';'' @ nl @ ''    border: none;'' @ nl @
     ''    border-bottom: 1px solid '' @ border @ '';'' @ nl @ ''    color: '' @ text_muted @
     '';'' @ nl @ ''    font-size: '' @ idec font_size_small_pt @ ''pt;'' @ nl @
     ''    font-weight: 600;'' @ nl @ ''    padding: 6px 8px;'' @ nl @ ''}'' @ nl @ nl"

definition text_views_rules :: string where
  "text_views_rules =
     ''/* ---------- text views ---------- */'' @ nl @ ''QPlainTextEdit, QTextEdit {'' @ nl @
     ''    background: '' @ surface_sunken @ '';'' @ nl @ ''    border: 1px solid '' @ border @
     '';'' @ nl @ ''    border-radius: '' @ idec radius_small @ ''px;'' @ nl @
     ''    padding: 6px 8px;'' @ nl @ ''    selection-background-color: '' @ accent @ '';'' @ nl @
     ''    selection-color: '' @ accent_ink @ '';'' @ nl @ ''}'' @ nl @ ''QPlainTextEdit[role='' @
     dq @ ''console'' @ dq @ ''], QTextEdit[role='' @ dq @ ''console'' @ dq @ ''] {'' @ nl @
     ''    font-family: '' @ font_mono @ '';'' @ nl @ ''    font-size: '' @
     idec font_size_small_pt @ ''pt;'' @ nl @ ''}'' @ nl @ nl"

definition scrollbars_rules :: string where
  "scrollbars_rules =
     ''/* ---------- scrollbars ---------- */'' @ nl @
     ''QScrollBar:vertical, QScrollBar:horizontal { background: transparent; margin: 0; }'' @ nl @
     ''QScrollBar:vertical { width: 11px; }'' @ nl @ ''QScrollBar:horizontal { height: 11px; }'' @
     nl @ ''QScrollBar::handle { background: '' @ border_strong @ ''; border-radius: 5px; }'' @ nl @
     ''QScrollBar::handle:hover { background: '' @ text_faint @ ''; }'' @ nl @
     ''QScrollBar::handle:vertical { min-height: 28px; }'' @ nl @
     ''QScrollBar::handle:horizontal { min-width: 28px; }'' @ nl @
     ''QScrollBar::add-line, QScrollBar::sub-line { height: 0; width: 0; }'' @ nl @
     ''QScrollBar::add-page, QScrollBar::sub-page { background: transparent; }'' @ nl @
     ''QScrollArea { border: none; }'' @ nl @ nl"

definition splitters_frames_menus_rules :: string where
  "splitters_frames_menus_rules =
     ''/* ---------- splitters, frames, menus ---------- */'' @ nl @
     ''QSplitter::handle { background: transparent; }'' @ nl @
     ''QSplitter::handle:horizontal { width: '' @ idec space @ ''px; }'' @ nl @
     ''QSplitter::handle:vertical { height: '' @ idec space @ ''px; }'' @ nl @
     ''QSplitter::handle:hover { background: '' @ accent_soft @ ''; }'' @ nl @ ''QMenu {'' @ nl @
     ''    background: '' @ surface_raised @ '';'' @ nl @ ''    border: 1px solid '' @
     border_strong @ '';'' @ nl @ ''    border-radius: '' @ idec radius_small @ ''px;'' @ nl @
     ''    padding: 4px;'' @ nl @ ''}'' @ nl @ ''QMenu::item { border-radius: '' @
     idec radius_small @ ''px; padding: 5px 20px 5px 12px; }'' @ nl @
     ''QMenu::item:selected { background: '' @ accent_soft @ ''; }'' @ nl @
     ''QStatusBar { background: '' @ surface @ ''; color: '' @ text_muted @
     ''; border-top: 1px solid '' @ border @ ''; }'' @ nl @ nl"

definition named_surfaces_rules :: string where
  "named_surfaces_rules =
     ''/* ---------- named surfaces ---------- */'' @ nl @
     ''/* The run-verdict + export footer, and the send form'' @ sq @ ''s reply well: both'' @ nl @
     ''   are cards in their own right, not panels inside one. */'' @ nl @
     ''QWidget#reportFooter, QWidget#panelCard {'' @ nl @ ''    background: '' @ surface @ '';'' @
     nl @ ''    border: 1px solid '' @ border @ '';'' @ nl @ ''    border-radius: '' @ idec radius @
     ''px;'' @ nl @ ''}'' @ nl @ ''QStatusBar::item { border: none; }'' @ nl"

definition rules :: "icons \<Rightarrow> string" where
  "rules i =
     nl @ base_rules @ cards_rules @ type_scale_rules @ inputs_rules i @ buttons_rules @
     check_boxes_radios_rules i @ tabs_rules @ trees_lists_rules i @ text_views_rules @
     scrollbars_rules @ splitters_frames_menus_rules @ named_surfaces_rules"

text \<open>The indicators in the order the source renders them.\<close>

definition indicators :: "(string \<times> string \<times> int) list" where
  "indicators =
     [(''check'', accent_ink, 14), (''dash'', accent_ink, 14), (''dot'', accent, 14),
      (''chevron-down'', text_muted, 16), (''chevron-down'', text_ink, 16), (''chevron-up'', text_muted, 16),
      (''chevron-right'', text_faint, 16), (''chevron-down'', text_faint, 16)]"

fun render_icons :: "string \<Rightarrow> (string \<times> string \<times> int) list \<Rightarrow> icon_files \<Rightarrow> ('d exn + string list) \<times> icon_files" where
  "render_icons dir [] fs = (Inr [], fs)"
| "render_icons dir ((n, c, sz) # is) fs =
     (case icon dir n c sz fs of
        (Inl e, fs') \<Rightarrow> (Inl e, fs')
      | (Inr p, fs') \<Rightarrow>
          (case render_icons dir is fs' of
             (Inl e, fs'') \<Rightarrow> (Inl e, fs'')
           | (Inr ps, fs'') \<Rightarrow> (Inr (p # ps), fs'')))"

definition stylesheet :: "string \<Rightarrow> icon_files \<Rightarrow> ('d exn + string) \<times> icon_files" where
  "stylesheet dir fs =
     (case render_icons dir indicators fs of
        (Inl e, fs') \<Rightarrow> (Inl e, fs')
      | (Inr ps, fs') \<Rightarrow>
          (Inr (rules \<lparr>ic_check = ps ! 0, ic_dash = ps ! 1, ic_dot = ps ! 2, ic_chevron = ps ! 3,
             ic_chevron_lit = ps ! 4, ic_up = ps ! 5, ic_branch_closed = ps ! 6, ic_branch_open = ps ! 7\<rparr>), fs'))"

section \<open>Palette, font and application\<close>

text \<open>The calls of \<open>setColor\<close> in order: the group, if one is named, the role and the colour.\<close>

definition palette :: "(string option \<times> string \<times> string) list" where
  "palette =
     [(None, ''Window'', canvas_colour), (None, ''WindowText'', text_ink), (None, ''Base'', surface_sunken),
      (None, ''AlternateBase'', surface), (None, ''Text'', text_ink), (None, ''PlaceholderText'', text_faint),
      (None, ''Button'', surface_raised), (None, ''ButtonText'', text_ink), (None, ''ToolTipBase'', surface_raised),
      (None, ''ToolTipText'', text_ink), (None, ''Highlight'', accent), (None, ''HighlightedText'', accent_ink),
      (None, ''Link'', accent), (None, ''LinkVisited'', info_ink), (None, ''Mid'', text_muted),
      (None, ''Dark'', border), (None, ''Shadow'', ''#05080c'')] @
     map (\<lambda>r. (Some ''Disabled'', r, text_faint)) [''WindowText'', ''Text'', ''ButtonText'']"

definition ui_font_families :: "string list" where
  "ui_font_families = [''Segoe UI'', ''Inter'', ''Ubuntu'', ''Noto Sans'', ''DejaVu Sans'', ''Sans Serif'']"

definition divider_style :: string where
  "divider_style = ''background: '' @ border @ ''; border: none;''"

record dress =
  base_style :: string
  dress_palette :: "(string option \<times> string \<times> string) list"
  dress_font :: "string list \<times> int"
  dress_sheet :: string

definition apply_theme :: "string \<Rightarrow> icon_files \<Rightarrow> ('d exn + dress) \<times> icon_files" where
  "apply_theme dir fs =
     (case stylesheet dir fs of
        (Inl e, fs') \<Rightarrow> (Inl e, fs')
      | (Inr s, fs') \<Rightarrow>
          (Inr \<lparr>base_style = ''Fusion'', dress_palette = palette, dress_font = (ui_font_families, font_size_pt),
             dress_sheet = s\<rparr>, fs'))"

section \<open>Properties\<close>

text \<open>A drawing at twice the scale.\<close>

fun twice :: "paint \<Rightarrow> paint" where
  "twice (Pen c w) = Pen c (2 * w)"
| "twice (Ellipse (x, y) r) = Ellipse (2 * x, 2 * y) (2 * r)"
| "twice (Translate (x, y)) = Translate (2 * x, 2 * y)"
| "twice (PathMove (x, y)) = PathMove (2 * x, 2 * y)"
| "twice (PathLine (x, y)) = PathLine (2 * x, 2 * y)"
| "twice p = p"

fun radii :: "paint list \<Rightarrow> rat list" where
  "radii [] = []"
| "radii (Ellipse c r # ps) = r # radii ps"
| "radii (p # ps) = radii ps"

text \<open>C40: The companion of an indicator is the indicator drawn at twice the scale, as the screens of double
  density that load it require, with one exception: the radius of the dot is four times as large
  instead of twice, so a checked radio button is filled nearly to its edge on those screens.\<close>

theorem dot_companion_is_too_large:
  "list_all (\<lambda>n. case draw n colour sz 1 :: unit exn + pixmap of
       Inl e \<Rightarrow> False
     | Inr px \<Rightarrow> draw n colour (sz * 2) 2 =
         (Inr \<lparr>px_size = 2 * px_size px, px_paint = map twice (px_paint px)\<rparr> :: unit exn + pixmap))
     [''check'', ''dash'', ''chevron-down'', ''chevron-up'', ''chevron-right''] \<and>
   (case (draw ''dot'' colour sz 1 :: unit exn + pixmap, draw ''dot'' colour (sz * 2) 2 :: unit exn + pixmap) of
      (Inr px, Inr px2) \<Rightarrow> px_size px2 = 2 * px_size px \<and> radii (px_paint px2) = map ((*) 4) (radii (px_paint px))
    | _ \<Rightarrow> False)"
  by (simp add: draw_def Let_def strokes_def turn_def)

lemma icon_spec:
  "icon dir n c sz fs = (x :: unit exn + string, fs') \<Longrightarrow>
   (\<forall>p. fs p \<noteq> None \<longrightarrow> fs' p \<noteq> None) \<and> (\<forall>p. x = Inr p \<longrightarrow> p = icon_path dir n c \<and> fs' p \<noteq> None)"
  by (auto simp: icon_def Let_def split: if_splits sum.splits)

lemma icon_again: "fs (icon_path dir n c) \<noteq> None \<Longrightarrow> icon dir n c sz fs = (Inr (icon_path dir n c) :: unit exn + string, fs)"
  by (simp add: icon_def)

lemma render_spec:
  "render_icons dir is fs = (Inr ps :: unit exn + string list, fs') \<Longrightarrow>
   (\<forall>p. fs p \<noteq> None \<longrightarrow> fs' p \<noteq> None) \<and> ps = map (\<lambda>(n, c, sz). icon_path dir n c) is \<and>
   list_all (\<lambda>p. fs' p \<noteq> None) ps"
proof (induction "is" arbitrary: fs ps)
  case (Cons i "is")
  obtain n c sz where i: "i = (n, c, sz)" by (cases i)
  from Cons.prems obtain p f qs where s: "icon dir n c sz fs = (Inr p :: unit exn + string, f)"
      "render_icons dir is f = (Inr qs :: unit exn + string list, fs')" "ps = p # qs"
    by (auto simp: i split: prod.splits sum.splits)
  from icon_spec [OF s(1)] Cons.IH [OF s(2)] s(3) i show ?case by auto
qed simp

lemma render_again:
  "list_all (\<lambda>(n, c, sz). fs (icon_path dir n c) \<noteq> None) is \<Longrightarrow>
   render_icons dir is fs = (Inr (map (\<lambda>(n, c, sz). icon_path dir n c) is) :: unit exn + string list, fs)"
  by (induction "is") (auto simp: icon_again)

lemma icon_known:
  "n \<in> {''check'', ''dash'', ''dot'', ''chevron-down'', ''chevron-up'', ''chevron-right''} \<Longrightarrow>
   \<exists>fs'. icon dir n c sz fs = (Inr (icon_path dir n c) :: unit exn + string, fs')"
  by (auto simp: icon_def draw_def Let_def)

lemma render_known:
  "list_all (\<lambda>(n, c, sz). n \<in> {''check'', ''dash'', ''dot'', ''chevron-down'', ''chevron-up'', ''chevron-right''}) is \<Longrightarrow>
   \<exists>ps fs'. render_icons dir is fs = (Inr ps :: unit exn + string list, fs')"
proof (induction "is" arbitrary: fs)
  case (Cons i "is")
  obtain n c sz where i: "i = (n, c, sz)" by (cases i)
  with Cons.prems obtain f where f: "icon dir n c sz fs = (Inr (icon_path dir n c) :: unit exn + string, f)"
    using icon_known [of n dir c sz fs] by auto
  from Cons.IH [of f] Cons.prems obtain ps fs' where "render_icons dir is f = (Inr ps :: unit exn + string list, fs')"
    by auto
  with f i show ?case by auto
qed simp

text \<open>The style sheet can always be built, whatever icons the directory already holds; every file it
  points at then exists, and building it again draws nothing and gives the same text.\<close>

lemma stylesheet_is_stable:
  "case stylesheet dir fs :: (unit exn + string) \<times> icon_files of
     (Inl e, fs') \<Rightarrow> False
   | (Inr s, fs') \<Rightarrow> stylesheet dir fs' = (Inr s :: unit exn + string, fs') \<and> list_all (\<lambda>(n, c, sz). fs' (icon_path dir n c) \<noteq> None) indicators"
proof -
  have "list_all (\<lambda>(n, c, sz). n \<in> {''check'', ''dash'', ''dot'', ''chevron-down'', ''chevron-up'', ''chevron-right''})
      indicators"
    by (simp add: indicators_def)
  then obtain ps fs' where r: "render_icons dir indicators fs = (Inr ps :: unit exn + string list, fs')" using render_known by blast
  from render_spec [OF this] have e: "list_all (\<lambda>(n, c, sz). fs' (icon_path dir n c) \<noteq> None) indicators"
    "ps = map (\<lambda>(n, c, sz). icon_path dir n c) indicators"
    by (auto simp: list_all_iff)
  from render_again [OF e(1)] e r show ?thesis by (simp add: stylesheet_def)
qed

end
