(* ===== verification/Spec2Isabelle.thy ===== *)
theory Spec2Isabelle
  imports Config Proxy Backend Inducer Responder Recorder Host Runner Metrics Reporting Profiles
    Child Cli TestTree RunController Panels MainWindow FrontEnds Html Pdf Theme
begin

text \<open>
  A verification of the network-stack test suite: a Python program that sends crafted packets at a
  device under test (DUT), drives its own tests as a pytest child process, and reports what it found.

  \<^bold>\<open>The program and its parts.\<close> A front end, the command line (\<open>src/cli/main.py\<close>) or the window
  (\<open>src/gui\<close>), builds a \<open>RunRequest\<close> and hands it to \<open>src/runner.py\<close>, which starts pytest with
  the request spelled out as options, tails the two files the child writes, and saves the result. In
  the child, the root \<open>conftest.py\<close> reads the options back into a configuration, gates tests marked
  \<open>vuln\<close>, and opens the network interface of \<open>src/packet_engine\<close> through which every frame of the
  tests passes. Tests of a proxy DUT use \<open>src/proxy\<close>: a client that tunnels through the proxy, and a
  second instance of the program that echoes behind it. \<open>src/reporting\<close> turns a saved result into
  findings and documents, from the catalog of tests in \<open>src/catalog.py\<close>.

  \<^bold>\<open>Where each part is modelled.\<close>
  \<^item> \<open>Prelude\<close>, \<open>PyText\<close>, \<open>PyVal\<close>, \<open>Tables\<close>: what the source uses of Python itself: texts as UTF-8 byte
    strings, calls that may raise as sums, the string routines, \<open>int(text)\<close>, decoding, the values of
    JSON, dictionaries built from a table (the locale \<open>keyed_table\<close>).
  \<^item> \<open>Errors\<close>: the exception hierarchy of \<open>src/errors.py\<close> with messages, details and exit codes.
  \<^item> \<open>IpAddr\<close>: the part of \<open>ipaddress\<close> the program calls, on 32-bit and 128-bit words.
  \<^item> \<open>Config\<close>: \<open>src/config.py\<close>, the gate of \<open>src/utils/safety.py\<close>, \<open>src/collection_policy.py\<close>.
  \<^item> \<open>Tunnel\<close>, \<open>Proxy\<close>: the wire formats, handshakes and client of \<open>src/proxy\<close>; incremental readers
    are proved in the locale \<open>exact_reader\<close> and interpreted on the client's own \<open>read\<close>.
  \<^item> \<open>Backend\<close>, \<open>Inducer\<close>: the echo server as interleaved atomic steps of its threads, and the loop
    that keeps traffic going.
  \<^item> \<open>Flags\<close>, \<open>Payloads\<close>, \<open>Packets\<close>, \<open>Interface\<close>, \<open>Responder\<close>, \<open>Recorder\<close>, \<open>Host\<close>: the packet engine.
  \<^item> \<open>Models\<close>, \<open>Artifacts\<close>, \<open>Runner\<close>: results, their files, and a run from request to saved result.
  \<^item> \<open>Metrics\<close>, \<open>Catalog\<close>, \<open>Reporting\<close>, \<open>Profiles\<close>: the live counters, the table of tests, the contents of
    reports, the reference values.
  \<^item> \<open>CommandLine\<close>, \<open>Session\<close>, \<open>Child\<close>: the options both sides share, \<open>conftest.py\<close>, and the composition
    of the two: what the child reads back is what the front end built.
  \<^item> \<open>Cli\<close>: the commands \<open>run\<close>, \<open>send\<close>, \<open>record\<close> and \<open>proxy-serve\<close> with what they print and their exit
    status.
  \<^item> \<open>Click\<close>: the options the commands declare, and what a command receives of what is typed.
  \<^item> \<open>TestTree\<close>, \<open>RunController\<close>: the window's test picker, and its driver of a run.
  \<^item> \<open>Tokens\<close>, \<open>Panels\<close>, \<open>MainWindow\<close>: the design tokens, the state and slots of the panels, and the rules
    of the window: from its form to a configuration and a request, the run button, the callbacks of a
    run, the verdict it shows. \<open>FrontEnds\<close> compares the window with the command line.
  \<^item> \<open>Theme\<close>: the style sheet, the palette and the indicators of the window.
  \<^item> \<open>Html\<close>, \<open>Pdf\<close>: the report documents, text by text and as the list of flowables.

  A Python class is a record of its attributes, an enumeration a datatype with the source's members,
  a method a function from the object to the result and the object; names follow the source. An
  exception is \<open>Inl\<close> of its class, message and details. Sequence numbers and addresses are words,
  Python's own integers are unbounded, and a float is the rational it denotes.

  \<^bold>\<open>What the theorems show.\<close> Safety: the vuln gate fails closed, also across the process boundary; no
  socket is leaked by a failed connect or a turn of the inducer; silence is never reported as a close;
  a run's results are saved however it ends. Exactness: the handshakes send and consume exactly the
  bytes of their protocols for every way the network cuts them; the responder's acknowledgements are
  right modulo \<open>2 ^ 32\<close>. Equivalence and refinement: polling a growing file gives what reading it once
  gives; the counters equal a recomputation; the tri-state picker implements a selection of leaves;
  the window's callbacks give what the command line's loop gives. Round trips: configurations, results
  and saved runs. Composition: what is typed on the command line, or entered in the window, is what the
  child process tests with, and both front ends make the same configuration of the same entries. The
  documents: no text of a run can change the markup of its HTML, and every paragraph of its PDF is
  well-formed. Liveness and termination: a handshake with a conforming DUT returns, reading a response
  head ends against every peer, and every run of the window gives the window back.

  \<^bold>\<open>Parameters and hypotheses.\<close> Scapy is a value of type \<open>scapy\<close> whose accessors read back what its
  constructors were given (\<open>scapy_ok\<close>); \<open>json\<close>, \<open>fromisoformat\<close>, the IDNA codec, random sources, clocks
  and files are arguments, with what is used of them as named hypotheses. Pytest is represented by
  the reading of its own options and by the files its report plugin writes; values of types that a
  field does not declare are outside the model (an outer \<open>None\<close>). No step of the model has fuel: the
  loops recurse on the input they consume, and what a socket or a queue delivers is a list. The
  bounds are the program's own: 4300 digits for an integer read from text, 65536 bytes for a
  response head, the windows of the metrics buffer.

  \<^bold>\<open>Not modelled.\<close> The construction and layout of Qt widgets, whose labels and tooltips have no rule
  of their own, the drawing of charts, indicators and PDF pages (matplotlib, Qt and reportlab), the
  icon and screenshot tools, logging calls, and the tests themselves, which are data for the
  development: their catalog is modelled, their bodies are the programs that pytest runs.
\<close>

end
